(* ===== verification/Prelude.thy ===== *)
theory Prelude
  imports Main "HOL-Library.Word" "HOL-Library.Product_Lexorder"
begin

text \<open>
  What every component of the development shares.  The backend's operations are asynchronous
  Rust methods that return a result and act on shared state (the database, the websocket hub).
  They are modelled as functions from a state to a result and a new state: \<open>Inl\<close> carries the
  error that the \<open>?\<close> operator propagates, \<open>Inr\<close> the value.  This theory holds that state and
  error monad, its weakest-precondition calculus (a collection of rewrite rules that runs a
  program symbolically), the invariance rules derived from it, and generic facts on lists.
\<close>

named_theorems wp_rules \<open>weakest preconditions of the program combinators\<close>
named_theorems keeps_rules \<open>invariance rules of the program combinators\<close>

section \<open>The state and error monad\<close>

type_synonym ('s, 'e, 'a) prog = "'s \<Rightarrow> ('e + 'a) \<times> 's"

definition ret :: "'a \<Rightarrow> ('s, 'e, 'a) prog" where
  "ret x = (\<lambda>s. (Inr x, s))"

definition throw :: "'e \<Rightarrow> ('s, 'e, 'a) prog" where
  "throw e = (\<lambda>s. (Inl e, s))"

definition bnd :: "('s, 'e, 'a) prog \<Rightarrow> ('a \<Rightarrow> ('s, 'e, 'b) prog) \<Rightarrow> ('s, 'e, 'b) prog" where
  "bnd m k = (\<lambda>s. case m s of (Inl e, s') \<Rightarrow> (Inl e, s') | (Inr x, s') \<Rightarrow> k x s')"

text \<open>A pure fallible computation followed by \<open>?\<close>.\<close>

definition from_result :: "'e + 'a \<Rightarrow> ('s, 'e, 'a) prog" where
  "from_result r = (\<lambda>s. (r, s))"

text \<open>\<open>.ok_or_else(|| e)?\<close>: the value of an option or the error.\<close>

definition ok_or :: "'e \<Rightarrow> 'a option \<Rightarrow> ('s, 'e, 'a) prog" where
  "ok_or e r = (case r of None \<Rightarrow> throw e | Some x \<Rightarrow> ret x)"

text \<open>An early return with an error, \<open>if c { return Err(e) }\<close>.\<close>

definition fail_if :: "bool \<Rightarrow> 'e \<Rightarrow> ('s, 'e, unit) prog" where
  "fail_if c e = (if c then throw e else ret ())"

section \<open>Weakest preconditions\<close>

definition wp :: "('s, 'e, 'a) prog \<Rightarrow> ('a \<Rightarrow> 's \<Rightarrow> bool) \<Rightarrow> ('e \<Rightarrow> 's \<Rightarrow> bool) \<Rightarrow> 's \<Rightarrow> bool" where
  "wp m Q E s = (case m s of (Inl e, s') \<Rightarrow> E e s' | (Inr x, s') \<Rightarrow> Q x s')"

lemma wp_ret [wp_rules, simp]: "wp (ret x) Q E s = Q x s"
  by (simp add: wp_def ret_def)

lemma wp_throw [wp_rules, simp]: "wp (throw e) Q E s = E e s"
  by (simp add: wp_def throw_def)

lemma wp_bnd [wp_rules, simp]: "wp (bnd m k) Q E s = wp m (\<lambda>x. wp (k x) Q E) E s"
  by (simp add: wp_def bnd_def split: prod.splits sum.splits)

lemma wp_from_result [wp_rules, simp]:
  "wp (from_result r) Q E s = (case r of Inl e \<Rightarrow> E e s | Inr x \<Rightarrow> Q x s)"
  by (simp add: wp_def from_result_def)

lemma wp_ok_or [wp_rules, simp]:
  "wp (ok_or e r) Q E s = (case r of None \<Rightarrow> E e s | Some x \<Rightarrow> Q x s)"
  by (simp add: ok_or_def split: option.splits)

lemma wp_fail_if [wp_rules, simp]: "wp (fail_if c e) Q E s = (if c then E e s else Q () s)"
  by (simp add: fail_if_def)

lemma wp_if [wp_rules, simp]:
  "wp (if c then m else n) Q E s = (if c then wp m Q E s else wp n Q E s)"
  by simp

lemma wp_mono:
  assumes "wp m Q E s"
    and "\<And>x t. m s = (Inr x, t) \<Longrightarrow> Q x t \<Longrightarrow> Q' x t"
    and "\<And>e t. m s = (Inl e, t) \<Longrightarrow> E e t \<Longrightarrow> E' e t"
  shows "wp m Q' E' s"
  using assms by (auto simp: wp_def split: prod.splits sum.splits)

lemma wp_conj: "wp m (\<lambda>x t. Q x t \<and> Q' x t) (\<lambda>e t. E e t \<and> E' e t) s \<longleftrightarrow> wp m Q E s \<and> wp m Q' E' s"
  by (auto simp: wp_def split: prod.splits sum.splits)

lemma wp_True [simp]: "wp m (\<lambda>_ _. True) (\<lambda>_ _. True) s"
  by (simp add: wp_def split: prod.splits sum.splits)

text \<open>Moving between a weakest precondition and the run it is about.\<close>

lemma wp_InrD: "wp m Q E s \<Longrightarrow> m s = (Inr x, t) \<Longrightarrow> Q x t"
  by (simp add: wp_def)

lemma wp_InlD: "wp m Q E s \<Longrightarrow> m s = (Inl e, t) \<Longrightarrow> E e t"
  by (simp add: wp_def)

lemma wp_outcome:
  "wp m Q E s \<Longrightarrow> m s = (r, t) \<Longrightarrow> (case r of Inl e \<Rightarrow> E e t | Inr x \<Rightarrow> Q x t)"
  by (simp add: wp_def)

lemma wp_fst_snd:
  "wp m Q E s \<longleftrightarrow> (case fst (m s) of Inl e \<Rightarrow> E e (snd (m s)) | Inr x \<Rightarrow> Q x (snd (m s)))"
  by (auto simp: wp_def split: prod.splits sum.splits)

lemma wp_snd: "wp m (\<lambda>_ t. P t) (\<lambda>_ t. P t) s \<longleftrightarrow> P (snd (m s))"
  by (auto simp: wp_def split: prod.splits sum.splits)

section \<open>Invariance\<close>

definition keeps :: "('s \<Rightarrow> bool) \<Rightarrow> ('s, 'e, 'a) prog \<Rightarrow> bool" where
  "keeps I m \<longleftrightarrow> (\<forall>s. I s \<longrightarrow> I (snd (m s)))"

lemma keepsI: "(\<And>s. I s \<Longrightarrow> wp m (\<lambda>_. I) (\<lambda>_. I) s) \<Longrightarrow> keeps I m"
  by (simp add: keeps_def wp_snd)

lemma keepsD: "keeps I m \<Longrightarrow> I s \<Longrightarrow> I (snd (m s))"
  by (simp add: keeps_def)

lemma keeps_wp: "keeps I m \<Longrightarrow> I s \<Longrightarrow> wp m (\<lambda>_. I) (\<lambda>_. I) s"
  by (simp add: keeps_def wp_snd)

lemma keeps_ret [keeps_rules, simp, intro]: "keeps I (ret x)"
  by (simp add: keeps_def ret_def)

lemma keeps_throw [keeps_rules, simp, intro]: "keeps I (throw e)"
  by (simp add: keeps_def throw_def)

lemma keeps_from_result [keeps_rules, simp, intro]: "keeps I (from_result r)"
  by (simp add: keeps_def from_result_def)

lemma keeps_ok_or [keeps_rules, simp, intro]: "keeps I (ok_or e r)"
  by (simp add: ok_or_def split: option.splits)

lemma keeps_fail_if [keeps_rules, simp, intro]: "keeps I (fail_if c e)"
  by (simp add: fail_if_def)

lemma keeps_bnd [keeps_rules, intro]:
  "keeps I m \<Longrightarrow> (\<And>x. keeps I (k x)) \<Longrightarrow> keeps I (bnd m k)"
  by (fastforce simp: keeps_def bnd_def split: prod.splits sum.splits)

text \<open>What follows a validation may use that it passed.\<close>

lemma keeps_validated:
  "(\<And>x. r = Inr x \<Longrightarrow> keeps I (k x)) \<Longrightarrow> keeps I (bnd (from_result r) k)"
  by (cases r) (auto simp: keeps_def bnd_def from_result_def)

lemma keeps_if [keeps_rules, intro]:
  "(c \<Longrightarrow> keeps I m) \<Longrightarrow> (\<not> c \<Longrightarrow> keeps I n) \<Longrightarrow> keeps I (if c then m else n)"
  by simp

lemma keeps_case_option [keeps_rules, intro]:
  "(r = None \<Longrightarrow> keeps I m) \<Longrightarrow> (\<And>x. r = Some x \<Longrightarrow> keeps I (n x)) \<Longrightarrow>
   keeps I (case r of None \<Rightarrow> m | Some x \<Rightarrow> n x)"
  by (cases r) simp_all

lemma keeps_case_prod [keeps_rules, intro]:
  "(\<And>x y. p = (x, y) \<Longrightarrow> keeps I (f x y)) \<Longrightarrow> keeps I (case p of (x, y) \<Rightarrow> f x y)"
  by (cases p) simp

lemma keeps_conj: "keeps I m \<Longrightarrow> keeps J m \<Longrightarrow> keeps (\<lambda>s. I s \<and> J s) m"
  by (simp add: keeps_def)

text \<open>A sequence of requests, each run to its end; an error of one does not stop the next.\<close>

fun run_all :: "('s, 'e, 'a) prog list \<Rightarrow> 's \<Rightarrow> 's" where
  "run_all [] s = s"
| "run_all (m # ms) s = run_all ms (snd (m s))"

lemma run_all_keeps: "(\<And>m. m \<in> set ms \<Longrightarrow> keeps I m) \<Longrightarrow> I s \<Longrightarrow> I (run_all ms s)"
  by (induction ms arbitrary: s) (auto simp: keeps_def)

section \<open>Lists as tables\<close>

text \<open>
  A database table is a list of rows.  \<open>ORDER BY key DESC\<close> over a key that is unique among the
  rows selected is the reverse of an ascending sort.
\<close>

definition order_desc :: "('r \<Rightarrow> 'k::linorder) \<Rightarrow> 'r list \<Rightarrow> 'r list" where
  "order_desc key rows = rev (sort_key key rows)"

text \<open>\<open>UPDATE t SET f WHERE p RETURNING *\<close>: the rows updated, and the table after the update.\<close>

definition update_where :: "('r \<Rightarrow> bool) \<Rightarrow> ('r \<Rightarrow> 'r) \<Rightarrow> 'r list \<Rightarrow> 'r list" where
  "update_where p f rows = map (\<lambda>r. if p r then f r else r) rows"

lemma set_order_desc [simp]: "set (order_desc key rows) = set rows"
  by (simp add: order_desc_def)

lemma length_order_desc [simp]: "length (order_desc key rows) = length rows"
  by (simp add: order_desc_def)

lemma distinct_order_desc [simp]: "distinct (order_desc key rows) = distinct rows"
  by (simp add: order_desc_def)

lemma sorted_wrt_rev_sort_key: "sorted_wrt (\<lambda>x y. key y \<le> key x) (order_desc key rows)"
proof -
  have "sorted_wrt (\<lambda>x y. key x \<le> key y) (sort_key key rows)"
    using sorted_sort_key [of key rows] by (simp add: sorted_map)
  then show ?thesis by (simp add: order_desc_def sorted_wrt_rev)
qed

lemma sorted_wrt_order_desc:
  assumes "inj_on key (set rows)" and "distinct rows"
  shows "sorted_wrt (\<lambda>x y. key y < key x) (order_desc key rows)"
proof -
  have d: "distinct (map key (order_desc key rows))"
    using assms by (simp add: distinct_map)
  have "sorted_wrt (\<lambda>x y. key y \<le> key x) xs \<Longrightarrow> distinct (map key xs) \<Longrightarrow>
        sorted_wrt (\<lambda>x y. key y < key x) xs" for xs
    by (induction xs) (auto simp: less_le image_iff)
  from this [OF sorted_wrt_rev_sort_key d] show ?thesis .
qed

lemma find_in_set: "find p xs = Some x \<Longrightarrow> x \<in> set xs \<and> p x"
  by (induction xs) (auto split: if_splits)

lemma find_None_iff_all: "find p xs = None \<longleftrightarrow> (\<forall>x\<in>set xs. \<not> p x)"
  by (induction xs) auto

lemma find_distinct_key:
  "distinct (map key rows) \<Longrightarrow> r \<in> set rows \<Longrightarrow> find (\<lambda>x. key x = key r) rows = Some r"
  by (induction rows) (auto simp: image_iff)

lemma update_where_map:
  "(\<And>r. key (f r) = key r) \<Longrightarrow> map key (update_where p f rows) = map key rows"
  by (simp add: update_where_def)

lemma set_update_where: "set (update_where p f rows) = (\<lambda>r. if p r then f r else r) ` set rows"
  by (simp add: update_where_def)

lemma find_update_where:
  "(\<And>r. key (f r) = key r) \<Longrightarrow>
   find (\<lambda>r. key r = k) (update_where p f rows) =
   map_option (\<lambda>r. if p r then f r else r) (find (\<lambda>r. key r = k) rows)"
  by (induction rows) (auto simp: update_where_def)

end
