(* ===== verification/Rust_Text.thy ===== *)
theory Rust_Text
  imports Prelude
begin

text \<open>
  Rust's \<open>String\<close>: a sequence of Unicode scalar values, stored as UTF-8.  \<open>len()\<close> counts the
  bytes of the encoding, \<open>trim()\<close> removes leading and trailing characters with the Unicode
  property \<open>White_Space\<close>.  Strings that users supply are modelled as lists of scalar values, so
  that the difference between the two counts is visible; the program's own literals (status
  columns, error messages, keys) are ASCII and modelled as HOL strings.
\<close>

type_synonym rchar = nat
type_synonym rstring = "rchar list"

definition lit :: "string \<Rightarrow> rstring" where
  "lit s = map of_char s"

definition utf8_len :: "rchar \<Rightarrow> nat" where
  "utf8_len c = (if c < 128 then 1 else if c < 2048 then 2 else if c < 65536 then 3 else 4)"

text \<open>\<open>str::len\<close>.\<close>

definition byte_len :: "rstring \<Rightarrow> nat" where
  "byte_len s = sum_list (map utf8_len s)"

text \<open>\<open>char::is_whitespace\<close>.\<close>

definition is_whitespace :: "rchar \<Rightarrow> bool" where
  "is_whitespace c \<longleftrightarrow> (9 \<le> c \<and> c \<le> 13) \<or> c = 32 \<or> c = 133 \<or> c = 160 \<or> c = 5760 \<or>
     (8192 \<le> c \<and> c \<le> 8202) \<or> c = 8232 \<or> c = 8233 \<or> c = 8239 \<or> c = 8287 \<or> c = 12288"

text \<open>\<open>str::trim\<close>.\<close>

definition trim :: "rstring \<Rightarrow> rstring" where
  "trim s = rev (dropWhile is_whitespace (rev (dropWhile is_whitespace s)))"

text \<open>\<open>str::to_ascii_lowercase\<close> and \<open>str::eq_ignore_ascii_case\<close>.\<close>

definition ascii_lower_char :: "rchar \<Rightarrow> rchar" where
  "ascii_lower_char c = (if 65 \<le> c \<and> c \<le> 90 then c + 32 else c)"

definition to_ascii_lowercase :: "rstring \<Rightarrow> rstring" where
  "to_ascii_lowercase s = map ascii_lower_char s"

definition eq_ignore_ascii_case :: "rstring \<Rightarrow> rstring \<Rightarrow> bool" where
  "eq_ignore_ascii_case s t \<longleftrightarrow> to_ascii_lowercase s = to_ascii_lowercase t"

text \<open>\<open>str::strip_prefix\<close>.\<close>

fun strip_prefix :: "rstring \<Rightarrow> rstring \<Rightarrow> rstring option" where
  "strip_prefix [] s = Some s"
| "strip_prefix (p # ps) [] = None"
| "strip_prefix (p # ps) (c # cs) = (if p = c then strip_prefix ps cs else None)"

text \<open>\<open>Display\<close> of an unsigned integer in \<open>format!\<close>.\<close>

fun show_nat :: "nat \<Rightarrow> string" where
  "show_nat n = (if n < 10 then [char_of (48 + n)] else show_nat (n div 10) @ [char_of (48 + n mod 10)])"

declare show_nat.simps [simp del]

section \<open>Lengths\<close>

lemma utf8_len_bounds: "1 \<le> utf8_len c" "utf8_len c \<le> 4"
  by (simp_all add: utf8_len_def)

lemma byte_len_Nil [simp]: "byte_len [] = 0"
  by (simp add: byte_len_def)

lemma byte_len_Cons [simp]: "byte_len (c # s) = utf8_len c + byte_len s"
  by (simp add: byte_len_def)

lemma byte_len_append [simp]: "byte_len (s @ t) = byte_len s + byte_len t"
  by (simp add: byte_len_def)

lemma byte_len_rev [simp]: "byte_len (rev s) = byte_len s"
  by (induction s) simp_all

lemma length_le_byte_len: "length s \<le> byte_len s"
proof (induction s)
  case (Cons c s)
  then show ?case using utf8_len_bounds(1) [of c] by simp
qed simp

lemma byte_len_le_length: "byte_len s \<le> 4 * length s"
proof (induction s)
  case (Cons c s)
  then show ?case using utf8_len_bounds(2) [of c] by simp
qed simp

lemma byte_len_0_iff [simp]: "byte_len s = 0 \<longleftrightarrow> s = []"
  by (cases s) (auto simp: utf8_len_def)

lemma byte_len_ascii: "\<forall>c\<in>set s. c < 128 \<Longrightarrow> byte_len s = length s"
  by (induction s) (auto simp: utf8_len_def)

section \<open>Trimming\<close>

lemma dropWhile_trim_idem: "dropWhile p (dropWhile p s) = dropWhile p s"
  by (induction s) auto

lemma rev_dropWhile_rev_Cons:
  "\<not> p c \<Longrightarrow> rev (dropWhile p (rev (c # cs))) = c # rev (dropWhile p (rev cs))"
  by (auto simp: dropWhile_append)

lemma dropWhile_rev_dropWhile:
  "dropWhile p s = s \<Longrightarrow> dropWhile p (rev (dropWhile p (rev s))) = rev (dropWhile p (rev s))"
proof (cases s)
  case (Cons c cs)
  assume "dropWhile p s = s"
  with Cons have "\<not> p c"
    by (metis dropWhile_eq_Cons_conv)
  with Cons show ?thesis
    by (simp add: rev_dropWhile_rev_Cons del: rev.simps)
qed simp

lemma trim_idem [simp]: "trim (trim s) = trim s"
proof -
  let ?d = "dropWhile is_whitespace"
  have "?d (rev (?d (rev (?d s)))) = rev (?d (rev (?d s)))"
    by (rule dropWhile_rev_dropWhile) (rule dropWhile_trim_idem)
  then show ?thesis
    by (simp add: trim_def dropWhile_trim_idem)
qed

lemma byte_len_dropWhile_le: "byte_len (dropWhile p s) \<le> byte_len s"
  by (induction s) auto

lemma byte_len_trim_le: "byte_len (trim s) \<le> byte_len s"
  unfolding trim_def using byte_len_dropWhile_le [of is_whitespace "rev (dropWhile is_whitespace s)"]
    byte_len_dropWhile_le [of is_whitespace s] by simp

lemma strip_prefix_append [simp]: "strip_prefix p (p @ s) = Some s"
  by (induction p) auto

lemma strip_prefix_Some: "strip_prefix p s = Some t \<longleftrightarrow> s = p @ t"
  by (induction p s rule: strip_prefix.induct) auto

section \<open>Texts that are stored\<close>

text \<open>A text without white space at its ends, of \<open>mn\<close> to \<open>mx\<close> bytes.\<close>

definition text_within :: "nat \<Rightarrow> nat \<Rightarrow> rstring \<Rightarrow> bool" where
  "text_within mn mx s \<longleftrightarrow> trim s = s \<and> mn \<le> byte_len s \<and> byte_len s \<le> mx"

lemma text_within_trim: "text_within mn mx (trim s) \<longleftrightarrow> mn \<le> byte_len (trim s) \<and> byte_len (trim s) \<le> mx"
  by (simp add: text_within_def)

end
