(* ===== verification/App_Error.thy ===== *)
theory App_Error
  imports Rust_Text
begin

text \<open>
  The error type of the whole backend (\<open>shared/error.rs\<close>): seven classes, each with a message,
  and their translation into an HTTP status, an error code and a message.
\<close>

datatype AppError =
    Validation string
  | Conflict string
  | Unauthorized string
  | Forbidden string
  | RateLimited string
  | NotFound string
  | Internal string

text \<open>\<open>AppResult<T>\<close>, and a method that returns one from a state of type \<open>'s\<close>.\<close>

type_synonym 'a AppResult = "AppError + 'a"
type_synonym ('s, 'a) app = "('s, AppError, 'a) prog"

text \<open>The message that \<open>Display\<close> prints.\<close>

fun error_message :: "AppError \<Rightarrow> string" where
  "error_message (Validation m) = m"
| "error_message (Conflict m) = m"
| "error_message (Unauthorized m) = m"
| "error_message (Forbidden m) = m"
| "error_message (RateLimited m) = m"
| "error_message (NotFound m) = m"
| "error_message (Internal m) = m"

fun as_http_parts :: "AppError \<Rightarrow> nat \<times> string \<times> string" where
  "as_http_parts (Validation msg) = (400, ''VALIDATION_ERROR'', msg)"
| "as_http_parts (Conflict msg) = (409, ''CONFLICT'', msg)"
| "as_http_parts (Unauthorized msg) = (401, ''UNAUTHORIZED'', msg)"
| "as_http_parts (Forbidden msg) = (403, ''FORBIDDEN'', msg)"
| "as_http_parts (RateLimited msg) = (429, ''RATE_LIMITED'', msg)"
| "as_http_parts (NotFound msg) = (404, ''NOT_FOUND'', msg)"
| "as_http_parts (Internal msg) = (500, ''INTERNAL_ERROR'', msg)"

text \<open>The response determines the error: no two errors are reported alike.\<close>

lemma as_http_parts_inj: "as_http_parts e = as_http_parts e' \<longleftrightarrow> e = e'"
  by (cases e; cases e') auto

lemma error_message_http: "snd (snd (as_http_parts e)) = error_message e"
  by (cases e) auto

end
