(* ===== verification/Domain.thy ===== *)
theory Domain
  imports App_Error "HOL-Library.Numeral_Type"
begin

unbundle bit_operations_syntax

text \<open>
  The domain types (\<open>domain/\<close>).  A \<open>Uuid\<close> is a 128-bit number; both Rust and PostgreSQL
  order UUIDs by their bytes, which is the order of the number.  An \<open>OffsetDateTime\<close> is a count
  of microseconds, the resolution at which the database stores it.  The text of a message, a name
  or a token is a Rust string; a status or kind column, which only ever holds one of the program's
  own literals, is a HOL string, as in the source, where these columns are compared as strings.
  Field names carry a short prefix because HOL record fields are global constants.
\<close>

type_synonym uuid = "128 word"
type_synonym time = int
type_synonym i64 = "64 word"
type_synonym u64 = "64 word"
type_synonym u32 = "32 word"

definition seconds :: "int \<Rightarrow> time" where
  "seconds n = n * 1000000"

section \<open>Accounts and sessions\<close>

record UserRecord =
  usr_id :: uuid
  usr_username :: rstring
  usr_email :: "rstring option"
  usr_password_hash :: rstring

record UserProfile =
  prof_id :: uuid
  prof_username :: rstring
  prof_email :: "rstring option"

record TokenPair =
  access_token :: rstring
  refresh_token :: rstring

record SessionContext =
  ctx_user_agent :: "rstring option"
  ctx_ip :: "rstring option"

record SessionCreate =
  sc_user_id :: uuid
  sc_refresh_token_hash :: rstring
  sc_expires_at :: time
  sc_context :: SessionContext

record SessionRotate =
  sr_old_refresh_token_hash :: rstring
  sr_new_refresh_token_hash :: rstring
  sr_expires_at :: time
  sr_context :: SessionContext

section \<open>Guilds and channels\<close>

record ChannelRecord =
  chan_id :: uuid
  chan_guild_id :: uuid
  chan_name :: rstring
  chan_type :: string
  chan_position :: int
  chan_created_at :: time
  chan_has_unread :: bool

record GuildSummary =
  guild_id :: uuid
  guild_name :: rstring
  guild_owner_id :: uuid
  guild_created_at :: time

record GuildInviteRecord =
  gi_token :: rstring
  gi_guild_id :: uuid
  gi_created_by :: uuid
  gi_expires_at :: time
  gi_max_uses :: "int option"
  gi_uses_count :: int
  gi_created_at :: time

record GuildInviteJoinResult =
  join_guild :: GuildSummary
  join_joined :: bool

section \<open>Permissions\<close>

definition VIEW_CHANNEL :: i64 where "VIEW_CHANNEL = push_bit 0 1"
definition SEND_MESSAGES :: i64 where "SEND_MESSAGES = push_bit 1 1"
definition MANAGE_CHANNELS :: i64 where "MANAGE_CHANNELS = push_bit 2 1"
definition MANAGE_ROLES :: i64 where "MANAGE_ROLES = push_bit 3 1"
definition KICK_MEMBERS :: i64 where "KICK_MEMBERS = push_bit 4 1"

datatype PermissionBits = PermissionBits i64

fun has :: "PermissionBits \<Rightarrow> i64 \<Rightarrow> bool" where
  "has (PermissionBits b) required \<longleftrightarrow> b AND required = required"

section \<open>Messages and read markers\<close>

record MessageRecord =
  msg_id :: uuid
  msg_channel_id :: uuid
  msg_author_id :: uuid
  msg_content :: rstring
  msg_created_at :: time
  msg_edited_at :: "time option"
  msg_deleted_at :: "time option"

record MessageDeleted =
  md_channel_id :: uuid
  md_message_id :: uuid
  md_deleted_at :: time

record ThreadMessageRecord =
  tmsg_id :: uuid
  tmsg_thread_id :: uuid
  tmsg_author_id :: uuid
  tmsg_content :: rstring
  tmsg_created_at :: time
  tmsg_edited_at :: "time option"
  tmsg_deleted_at :: "time option"

record ThreadMessageDeleted =
  tmd_thread_id :: uuid
  tmd_message_id :: uuid
  tmd_deleted_at :: time

record ChannelReadState =
  cr_user_id :: uuid
  cr_channel_id :: uuid
  cr_last_read_message_id :: "uuid option"
  cr_updated_at :: time

record ThreadReadState =
  trd_user_id :: uuid
  trd_thread_id :: uuid
  trd_last_read_message_id :: "uuid option"
  trd_updated_at :: time

section \<open>Conversations\<close>

record DirectThreadSummary =
  dt_id :: uuid
  dt_peer_user_id :: uuid
  dt_peer_username :: rstring
  dt_status :: string
  dt_requested_by :: "uuid option"
  dt_accepted_at :: "time option"
  dt_created_at :: time
  dt_has_unread :: bool

record DirectThreadUpsertResult =
  up_thread :: DirectThreadSummary
  up_created :: bool

record DirectThreadTransition =
  tr_thread_id :: uuid
  tr_requester_user_id :: uuid
  tr_receiver_user_id :: uuid
  tr_accepted_at :: "time option"

record GroupThreadSummary =
  grp_id :: uuid
  grp_name :: rstring
  grp_owner_id :: uuid
  grp_created_at :: time
  grp_has_unread :: bool

record GroupInviteRecord =
  ginv_token :: rstring
  ginv_thread_id :: uuid
  ginv_created_by :: uuid
  ginv_expires_at :: time
  ginv_max_uses :: "int option"
  ginv_used_count :: int
  ginv_created_at :: time

record ThreadAccessRecord =
  ta_thread_id :: uuid
  ta_kind :: string
  ta_direct_status :: string
  ta_requested_by :: "uuid option"

section \<open>Friendships\<close>

record FriendRequestRecord =
  fq_from_user_id :: uuid
  fq_to_user_id :: uuid
  fq_status :: string
  fq_created_at :: time
  fq_responded_at :: "time option"

record FriendRequestSummary =
  fs_from_user_id :: uuid
  fs_to_user_id :: uuid
  fs_from_username :: rstring
  fs_to_username :: rstring
  fs_status :: string
  fs_created_at :: time
  fs_responded_at :: "time option"

record FriendSummary =
  fr_user_id :: uuid
  fr_username :: rstring
  fr_created_at :: time

section \<open>Permission tests bit by bit\<close>

lemma has_bit_iff: "k < 64 \<Longrightarrow> has (PermissionBits b) (push_bit k 1) \<longleftrightarrow> bit b k"
proof (simp only: has.simps, rule iffI)
  assume k: "k < 64" and e: "b AND push_bit k 1 = push_bit k 1"
  have "bit (push_bit k 1 :: i64) k" using k by (simp add: bit_exp_iff)
  with e show "bit b k" by (metis bit_and_iff)
next
  assume "k < 64" and "bit b k"
  then show "b AND push_bit k 1 = push_bit k 1"
    by (intro bit_word_eqI) (auto simp: bit_and_iff bit_push_bit_iff bit_1_iff simp del: push_bit_of_1)
qed

lemma has_VIEW_iff: "has (PermissionBits b) VIEW_CHANNEL \<longleftrightarrow> bit b 0"
  unfolding VIEW_CHANNEL_def by (rule has_bit_iff) simp

lemma has_SEND_iff: "has (PermissionBits b) SEND_MESSAGES \<longleftrightarrow> bit b 1"
  unfolding SEND_MESSAGES_def by (rule has_bit_iff) simp

end
