(* ===== verification/Protocol.thy ===== *)
theory Protocol
  imports Domain
begin

text \<open>
  The websocket protocol (\<open>interfaces/ws/protocol.rs\<close>): the events that the server sends and the
  commands that a client sends.  Timestamps travel as RFC 3339 text, which the \<open>time\<close> crate
  produces: \<open>rfc3339\<close> is its formatter, \<open>None\<close> where it reports an error.
\<close>

datatype PresenceStatus = Online | Offline

record MessagePayload =
  mpl_id :: uuid
  mpl_channel_id :: uuid
  mpl_author_id :: uuid
  mpl_content :: rstring
  mpl_created_at :: string
  mpl_edited_at :: "string option"

record ThreadMessagePayload =
  tmpl_id :: uuid
  tmpl_thread_id :: uuid
  tmpl_author_id :: uuid
  tmpl_content :: rstring
  tmpl_created_at :: string
  tmpl_edited_at :: "string option"

datatype ServerEvent =
    Ready uuid
  | HeartbeatAck i64
  | ChannelSubscribeAck uuid
  | ThreadSubscribeAck uuid
  | PresenceUpdate uuid PresenceStatus
  | MessageCreate uuid MessagePayload
  | MessageUpdate uuid MessagePayload
  | MessageDelete uuid uuid string
  | ThreadMessageCreate uuid ThreadMessagePayload
  | ThreadMessageUpdate uuid ThreadMessagePayload
  | ThreadMessageDelete uuid uuid string
  | ThreadRequestReceived (trr_thread_id: uuid) (trr_requester: uuid) (trr_receiver: uuid)
  | ThreadAccepted (tac_thread_id: uuid) (tac_accepted_by: uuid) (tac_requester: uuid)
      (tac_receiver: uuid)
  | Typing uuid uuid
  | ThreadTyping uuid uuid
  | ErrorEvent string string

datatype ClientCommand =
    Identify rstring
  | Heartbeat i64
  | SubscribeChannel uuid
  | UnsubscribeChannel uuid
  | TypingStart uuid
  | SubscribeThread uuid
  | UnsubscribeThread uuid
  | ThreadTypingStart uuid

text \<open>\<open>unwrap_or_default\<close> of a formatter that may fail, and \<open>ok\<close> of it.\<close>

definition format_or_empty :: "(time \<Rightarrow> string option) \<Rightarrow> time \<Rightarrow> string" where
  "format_or_empty rfc3339 t = (case rfc3339 t of None \<Rightarrow> [] | Some s \<Rightarrow> s)"

definition message_payload :: "(time \<Rightarrow> string option) \<Rightarrow> MessageRecord \<Rightarrow> MessagePayload" where
  "message_payload rfc3339 m =
     \<lparr>mpl_id = msg_id m, mpl_channel_id = msg_channel_id m, mpl_author_id = msg_author_id m,
      mpl_content = msg_content m, mpl_created_at = format_or_empty rfc3339 (msg_created_at m),
      mpl_edited_at = Option.bind (msg_edited_at m) rfc3339\<rparr>"

definition thread_message_payload ::
  "(time \<Rightarrow> string option) \<Rightarrow> ThreadMessageRecord \<Rightarrow> ThreadMessagePayload" where
  "thread_message_payload rfc3339 m =
     \<lparr>tmpl_id = tmsg_id m, tmpl_thread_id = tmsg_thread_id m, tmpl_author_id = tmsg_author_id m,
      tmpl_content = tmsg_content m, tmpl_created_at = format_or_empty rfc3339 (tmsg_created_at m),
      tmpl_edited_at = Option.bind (tmsg_edited_at m) rfc3339\<rparr>"

definition message_deleted_event :: "(time \<Rightarrow> string option) \<Rightarrow> MessageDeleted \<Rightarrow> ServerEvent" where
  "message_deleted_event rfc3339 m =
     MessageDelete (md_channel_id m) (md_message_id m) (format_or_empty rfc3339 (md_deleted_at m))"

definition thread_message_deleted_event ::
  "(time \<Rightarrow> string option) \<Rightarrow> ThreadMessageDeleted \<Rightarrow> ServerEvent" where
  "thread_message_deleted_event rfc3339 m =
     ThreadMessageDelete (tmd_thread_id m) (tmd_message_id m)
       (format_or_empty rfc3339 (tmd_deleted_at m))"

text \<open>The name of an event, for the metrics; \<open>event_name\<close> of the Redis service is a copy.\<close>

fun server_event_name :: "ServerEvent \<Rightarrow> string" where
  "server_event_name (Ready _) = ''READY''"
| "server_event_name (HeartbeatAck _) = ''HEARTBEAT_ACK''"
| "server_event_name (ChannelSubscribeAck _) = ''CHANNEL_SUBSCRIBE_ACK''"
| "server_event_name (ThreadSubscribeAck _) = ''THREAD_SUBSCRIBE_ACK''"
| "server_event_name (PresenceUpdate _ _) = ''PRESENCE_UPDATE''"
| "server_event_name (MessageCreate _ _) = ''MESSAGE_CREATE''"
| "server_event_name (MessageUpdate _ _) = ''MESSAGE_UPDATE''"
| "server_event_name (MessageDelete _ _ _) = ''MESSAGE_DELETE''"
| "server_event_name (ThreadMessageCreate _ _) = ''THREAD_MESSAGE_CREATE''"
| "server_event_name (ThreadMessageUpdate _ _) = ''THREAD_MESSAGE_UPDATE''"
| "server_event_name (ThreadMessageDelete _ _ _) = ''THREAD_MESSAGE_DELETE''"
| "server_event_name (ThreadRequestReceived _ _ _) = ''THREAD_REQUEST_RECEIVED''"
| "server_event_name (ThreadAccepted _ _ _ _) = ''THREAD_ACCEPTED''"
| "server_event_name (Typing _ _) = ''TYPING''"
| "server_event_name (ThreadTyping _ _) = ''THREAD_TYPING''"
| "server_event_name (ErrorEvent _ _) = ''ERROR''"

end
