(* ===== verification/Gateway.thy ===== *)
theory Gateway
  imports Protocol "HOL-Library.AList"
begin

text \<open>
  \<open>GatewayHub\<close> (\<open>interfaces/ws/gateway.rs\<close>): the websocket connections of one server instance
  and the indexes that say who receives an event.  A \<open>HashMap\<close> is an association list with
  distinct keys and a \<open>HashSet\<close> a list without duplicates, in an arbitrary order, the order in
  which the code iterates over them.  Every operation runs under the hub's lock, so it is one step.
\<close>

section \<open>Hash maps of hash sets\<close>

type_synonym index = "(uuid \<times> uuid list) list"

definition members :: "index \<Rightarrow> uuid \<Rightarrow> uuid list" where
  "members idx k = (case map_of idx k of None \<Rightarrow> [] | Some cs \<Rightarrow> cs)"

text \<open>\<open>entry(k).or_default().insert(c)\<close>.\<close>

definition index_insert :: "uuid \<Rightarrow> uuid \<Rightarrow> index \<Rightarrow> index" where
  "index_insert k c idx = AList.update k (List.insert c (members idx k)) idx"

text \<open>
  \<open>if let Some(set) = get_mut(k)\<close>: remove \<open>c\<close> from the set, and the key when the set is empty.
\<close>

definition index_remove :: "uuid \<Rightarrow> uuid \<Rightarrow> index \<Rightarrow> index" where
  "index_remove k c idx =
     (case map_of idx k of
        None \<Rightarrow> idx
      | Some cs \<Rightarrow>
          let cs' = removeAll c cs
          in if cs' = [] then AList.delete k idx else AList.update k cs' idx)"

section \<open>State\<close>

text \<open>
  The sender of a connection is the sending half of its outbound channel, here the number of the
  channel.
\<close>

record ConnectionState =
  con_user_id :: uuid
  con_sender :: nat
  con_channels :: "uuid list"
  con_threads :: "uuid list"
  con_last_heartbeat :: nat

record HubState =
  connections :: "(uuid \<times> ConnectionState) list"
  user_connections :: index
  channel_subscribers :: index
  thread_subscribers :: index

record RegisterResult =
  rg_connection_id :: uuid
  rg_first_connection :: bool

record UnregisterResult =
  un_user_id :: uuid
  un_became_offline :: bool

text \<open>
  What the hub acts on: its own state, the outbound channels (the events sent on each, and whether
  its receiver is gone), the monotonic clock, and the source of connection ids.
\<close>

record gateway =
  hub :: HubState
  outbox :: "nat \<Rightarrow> ServerEvent list"
  receiver_gone :: "nat \<Rightarrow> bool"
  instant :: nat
  conn_id_at :: "nat \<Rightarrow> uuid"
  conns_drawn :: nat

definition new_hub :: HubState where
  "new_hub = \<lparr>connections = [], user_connections = [], channel_subscribers = [],
              thread_subscribers = []\<rparr>"

definition connection :: "HubState \<Rightarrow> uuid \<Rightarrow> ConnectionState option" where
  "connection h c = map_of (connections h) c"

text \<open>\<open>if let Some(conn) = connections.get_mut(c) { ... }\<close>.\<close>

definition update_connection ::
  "uuid \<Rightarrow> (ConnectionState \<Rightarrow> ConnectionState) \<Rightarrow> HubState \<Rightarrow> HubState" where
  "update_connection c f h =
     (case connection h c of
        None \<Rightarrow> h
      | Some conn \<Rightarrow> h\<lparr>connections := AList.update c (f conn) (connections h)\<rparr>)"

section \<open>Connections\<close>

definition register_at :: "uuid \<Rightarrow> nat \<Rightarrow> uuid \<Rightarrow> nat \<Rightarrow> HubState \<Rightarrow> RegisterResult \<times> HubState" where
  "register_at user sender now_id now h =
     (let conn = \<lparr>con_user_id = user, con_sender = sender, con_channels = [], con_threads = [],
                  con_last_heartbeat = now\<rparr>;
          h1 = h\<lparr>connections := AList.update now_id conn (connections h),
                 user_connections := index_insert user now_id (user_connections h)\<rparr>
      in (\<lparr>rg_connection_id = now_id,
           rg_first_connection = (length (members (user_connections h1) user) = 1)\<rparr>, h1))"

definition hub_register :: "uuid \<Rightarrow> nat \<Rightarrow> gateway \<Rightarrow> RegisterResult \<times> gateway" where
  "hub_register user sender g =
     (let (r, h) = register_at user sender (conn_id_at g (conns_drawn g)) (instant g) (hub g)
      in (r, g\<lparr>hub := h, conns_drawn := Suc (conns_drawn g)\<rparr>))"

definition hub_unregister :: "uuid \<Rightarrow> HubState \<Rightarrow> UnregisterResult option \<times> HubState" where
  "hub_unregister c h =
     (case connection h c of
        None \<Rightarrow> (None, h)
      | Some conn \<Rightarrow>
          let u = con_user_id conn;
              users = index_remove u c (user_connections h)
          in (Some \<lparr>un_user_id = u,
                    un_became_offline = (case map_of (user_connections h) u of
                                           None \<Rightarrow> False | Some cs \<Rightarrow> removeAll c cs = [])\<rparr>,
              h\<lparr>connections := AList.delete c (connections h),
                channel_subscribers :=
                  fold (\<lambda>k. index_remove k c) (con_channels conn) (channel_subscribers h),
                thread_subscribers :=
                  fold (\<lambda>k. index_remove k c) (con_threads conn) (thread_subscribers h),
                user_connections := users\<rparr>))"

section \<open>Subscriptions\<close>

definition subscribe_channel :: "uuid \<Rightarrow> uuid \<Rightarrow> HubState \<Rightarrow> HubState" where
  "subscribe_channel c channel h =
     (let h1 = update_connection c (\<lambda>conn. conn\<lparr>con_channels := List.insert channel (con_channels conn)\<rparr>) h
      in h1\<lparr>channel_subscribers := index_insert channel c (channel_subscribers h1)\<rparr>)"

definition unsubscribe_channel :: "uuid \<Rightarrow> uuid \<Rightarrow> HubState \<Rightarrow> HubState" where
  "unsubscribe_channel c channel h =
     (let h1 = update_connection c (\<lambda>conn. conn\<lparr>con_channels := removeAll channel (con_channels conn)\<rparr>) h
      in h1\<lparr>channel_subscribers := index_remove channel c (channel_subscribers h1)\<rparr>)"

definition subscribe_thread :: "uuid \<Rightarrow> uuid \<Rightarrow> HubState \<Rightarrow> HubState" where
  "subscribe_thread c thread h =
     (let h1 = update_connection c (\<lambda>conn. conn\<lparr>con_threads := List.insert thread (con_threads conn)\<rparr>) h
      in h1\<lparr>thread_subscribers := index_insert thread c (thread_subscribers h1)\<rparr>)"

definition unsubscribe_thread :: "uuid \<Rightarrow> uuid \<Rightarrow> HubState \<Rightarrow> HubState" where
  "unsubscribe_thread c thread h =
     (let h1 = update_connection c (\<lambda>conn. conn\<lparr>con_threads := removeAll thread (con_threads conn)\<rparr>) h
      in h1\<lparr>thread_subscribers := index_remove thread c (thread_subscribers h1)\<rparr>)"

definition touch_heartbeat :: "uuid \<Rightarrow> gateway \<Rightarrow> gateway" where
  "touch_heartbeat c g =
     g\<lparr>hub := update_connection c (\<lambda>conn. conn\<lparr>con_last_heartbeat := instant g\<rparr>) (hub g)\<rparr>"

definition shutdown_all :: "HubState \<Rightarrow> HubState" where
  "shutdown_all h = new_hub"

section \<open>Sending\<close>

text \<open>A send fails, silently, when the receiver is gone.\<close>

definition send_event :: "ServerEvent \<Rightarrow> ConnectionState \<Rightarrow> gateway \<Rightarrow> gateway" where
  "send_event event conn g =
     (if receiver_gone g (con_sender conn) then g
      else g\<lparr>outbox := (outbox g)(con_sender conn := outbox g (con_sender conn) @ [event])\<rparr>)"

definition send_to_connection :: "uuid \<Rightarrow> ServerEvent \<Rightarrow> gateway \<Rightarrow> gateway" where
  "send_to_connection c event g =
     (case connection (hub g) c of None \<Rightarrow> g | Some conn \<Rightarrow> send_event event conn g)"

text \<open>The loop of the broadcasts: each id that is still registered receives the event.\<close>

definition send_to_all :: "uuid list \<Rightarrow> ServerEvent \<Rightarrow> gateway \<Rightarrow> gateway" where
  "send_to_all cs event g = fold (\<lambda>c. send_to_connection c event) cs g"

definition broadcast_to_channel :: "uuid \<Rightarrow> ServerEvent \<Rightarrow> gateway \<Rightarrow> gateway" where
  "broadcast_to_channel channel event g =
     (case map_of (channel_subscribers (hub g)) channel of
        None \<Rightarrow> g | Some subscribers \<Rightarrow> send_to_all subscribers event g)"

definition broadcast_to_thread :: "uuid \<Rightarrow> ServerEvent \<Rightarrow> gateway \<Rightarrow> gateway" where
  "broadcast_to_thread thread event g =
     (case map_of (thread_subscribers (hub g)) thread of
        None \<Rightarrow> g | Some subscribers \<Rightarrow> send_to_all subscribers event g)"

definition broadcast_global :: "ServerEvent \<Rightarrow> gateway \<Rightarrow> gateway" where
  "broadcast_global event g = fold (\<lambda>(c, conn). send_event event conn) (connections (hub g)) g"

definition broadcast_to_user :: "uuid \<Rightarrow> ServerEvent \<Rightarrow> gateway \<Rightarrow> gateway" where
  "broadcast_to_user user event g =
     (case map_of (user_connections (hub g)) user of
        None \<Rightarrow> g | Some conns \<Rightarrow> send_to_all conns event g)"


section \<open>Laws of the indexes\<close>

definition index_ok :: "index \<Rightarrow> bool" where
  "index_ok idx \<longleftrightarrow> distinct (map fst idx) \<and>
     (\<forall>k cs. map_of idx k = Some cs \<longrightarrow> cs \<noteq> [] \<and> distinct cs)"

lemma index_ok_Nil [simp]: "index_ok []"
  by (simp add: index_ok_def)

lemma distinct_members [simp]: "index_ok idx \<Longrightarrow> distinct (members idx k)"
  by (auto simp: index_ok_def members_def split: option.splits)

lemma members_Nil_iff: "index_ok idx \<Longrightarrow> members idx k = [] \<longleftrightarrow> map_of idx k = None"
  by (auto simp: index_ok_def members_def split: option.splits)

lemma members_empty_index [simp]: "members [] k = []"
  by (simp add: members_def)

lemma members_index_insert [simp]:
  "members (index_insert k c idx) k' = (if k' = k then List.insert c (members idx k) else members idx k')"
  by (simp add: members_def index_insert_def update_conv')

lemma insert_not_Nil [simp]: "List.insert c cs \<noteq> []"
  by (auto simp: List.insert_def)

lemma index_ok_update:
  "index_ok idx \<Longrightarrow> cs \<noteq> [] \<Longrightarrow> distinct cs \<Longrightarrow> index_ok (AList.update k cs idx)"
  by (simp add: index_ok_def update_conv' distinct_update)

lemma index_ok_delete: "index_ok idx \<Longrightarrow> index_ok (AList.delete k idx)"
  by (simp add: index_ok_def delete_conv' distinct_delete)

lemma index_ok_index_insert [simp]: "index_ok idx \<Longrightarrow> index_ok (index_insert k c idx)"
  unfolding index_insert_def by (rule index_ok_update) (simp_all add: distinct_insert)

lemma members_index_remove [simp]:
  "members (index_remove k c idx) k' = (if k' = k then removeAll c (members idx k) else members idx k')"
  by (auto simp: members_def index_remove_def Let_def update_conv' delete_conv' split: option.splits)

lemma index_ok_index_remove [simp]: "index_ok idx \<Longrightarrow> index_ok (index_remove k c idx)"
  unfolding index_remove_def Let_def
  by (auto simp: index_ok_delete intro!: index_ok_update split: option.split)
     (auto simp: index_ok_def distinct_removeAll)

lemma index_ok_fold_remove [simp]: "index_ok idx \<Longrightarrow> index_ok (fold (\<lambda>k. index_remove k c) ks idx)"
  by (induction ks arbitrary: idx) auto

lemma removeAll_removeAll [simp]: "removeAll c (removeAll c cs) = removeAll c cs"
  by (simp add: removeAll_id)

lemma members_fold_remove [simp]:
  "members (fold (\<lambda>k. index_remove k c) ks idx) k' =
   (if k' \<in> set ks then removeAll c (members idx k') else members idx k')"
  by (induction ks arbitrary: idx) auto

section \<open>Laws of sending\<close>

lemma connection_update_connection [simp]:
  "connection (update_connection c f h) d =
   (if d = c then map_option f (connection h c) else connection h d)"
  by (auto simp: update_connection_def connection_def update_conv' split: option.splits)

lemma connection_index_update [simp]:
  "connection (h\<lparr>channel_subscribers := i\<rparr>) = connection h"
  "connection (h\<lparr>thread_subscribers := i\<rparr>) = connection h"
  "connection (h\<lparr>user_connections := i\<rparr>) = connection h"
  by (simp_all add: fun_eq_iff connection_def)

lemma update_connection_indexes [simp]:
  "channel_subscribers (update_connection c f h) = channel_subscribers h"
  "thread_subscribers (update_connection c f h) = thread_subscribers h"
  "user_connections (update_connection c f h) = user_connections h"
  by (simp_all add: update_connection_def split: option.splits)

lemma send_event_frame [simp]:
  "hub (send_event e conn g) = hub g"
  "receiver_gone (send_event e conn g) = receiver_gone g"
  "instant (send_event e conn g) = instant g"
  "conn_id_at (send_event e conn g) = conn_id_at g"
  "conns_drawn (send_event e conn g) = conns_drawn g"
  by (simp_all add: send_event_def)

lemma send_to_connection_frame [simp]:
  "hub (send_to_connection c e g) = hub g"
  "receiver_gone (send_to_connection c e g) = receiver_gone g"
  "instant (send_to_connection c e g) = instant g"
  "conn_id_at (send_to_connection c e g) = conn_id_at g"
  "conns_drawn (send_to_connection c e g) = conns_drawn g"
  by (simp_all add: send_to_connection_def split: option.splits)

lemma send_to_all_frame [simp]:
  "hub (send_to_all cs e g) = hub g"
  "receiver_gone (send_to_all cs e g) = receiver_gone g"
  "instant (send_to_all cs e g) = instant g"
  "conn_id_at (send_to_all cs e g) = conn_id_at g"
  "conns_drawn (send_to_all cs e g) = conns_drawn g"
  unfolding send_to_all_def by (induction cs arbitrary: g) simp_all

text \<open>What a channel holds after one send, and after a loop over connections.\<close>

lemma outbox_send_event:
  "outbox (send_event e conn g) s =
   outbox g s @ (if s = con_sender conn \<and> \<not> receiver_gone g s then [e] else [])"
  by (simp add: send_event_def)

lemma outbox_send_to_connection:
  "outbox (send_to_connection c e g) s =
   outbox g s @ (if (\<exists>conn. connection (hub g) c = Some conn \<and> con_sender conn = s) \<and>
                    \<not> receiver_gone g s then [e] else [])"
  by (auto simp: send_to_connection_def outbox_send_event split: option.splits)

text \<open>The connections of a list that listen on a channel.\<close>

definition listening :: "HubState \<Rightarrow> nat \<Rightarrow> uuid \<Rightarrow> bool" where
  "listening h s c \<longleftrightarrow> (\<exists>conn. connection h c = Some conn \<and> con_sender conn = s)"

lemma outbox_send_to_all:
  "outbox (send_to_all cs e g) s =
   outbox g s @ (if receiver_gone g s then []
                 else replicate (length (filter (listening (hub g) s) cs)) e)"
  unfolding send_to_all_def
  by (induction cs arbitrary: g)
     (auto simp: outbox_send_to_connection listening_def replicate_append_same)

text \<open>Each connection has a channel of its own.\<close>

definition senders_ok :: "HubState \<Rightarrow> bool" where
  "senders_ok h \<longleftrightarrow> (\<forall>c d conn conn'. connection h c = Some conn \<longrightarrow> connection h d = Some conn' \<longrightarrow>
     con_sender conn = con_sender conn' \<longrightarrow> c = d)"

lemma filter_listening:
  assumes "senders_ok h" and "connection h c = Some conn" and "distinct cs"
  shows "filter (listening h (con_sender conn)) cs = (if c \<in> set cs then [c] else [])"
proof -
  have "listening h (con_sender conn) d \<longleftrightarrow> d = c" for d
    using assms(1,2) unfolding senders_ok_def listening_def by metis
  then have "listening h (con_sender conn) = (\<lambda>d. d = c)" by blast
  moreover have "filter (\<lambda>d. d = c) cs = (if c \<in> set cs then [c] else [])"
    using assms(3) by (induction cs) (auto simp: filter_empty_conv)
  ultimately show ?thesis by simp
qed

lemma send_to_all_once:
  assumes "senders_ok (hub g)" and "connection (hub g) c = Some conn" and "distinct cs"
  shows "outbox (send_to_all cs e g) (con_sender conn) =
    outbox g (con_sender conn) @
    (if c \<in> set cs \<and> \<not> receiver_gone g (con_sender conn) then [e] else [])"
  using filter_listening [OF assms] by (simp add: outbox_send_to_all)


section \<open>Topics\<close>

text \<open>
  Channels and threads are subscribed to alike.  \<open>agree\<close> says that the index of a kind of topic
  and the sets kept in the connections are the same relation, on the registered connections.
\<close>

definition agree :: "(HubState \<Rightarrow> index) \<Rightarrow> (ConnectionState \<Rightarrow> uuid list) \<Rightarrow> HubState \<Rightarrow> bool" where
  "agree subs mine h \<longleftrightarrow> index_ok (subs h) \<and>
     (\<forall>c conn k. connection h c = Some conn \<longrightarrow> (c \<in> set (members (subs h) k) \<longleftrightarrow> k \<in> set (mine conn)))"

locale topic =
  fixes subs :: "HubState \<Rightarrow> index"
    and mine :: "ConnectionState \<Rightarrow> uuid list"
    and subscribe unsubscribe :: "uuid \<Rightarrow> uuid \<Rightarrow> HubState \<Rightarrow> HubState"
    and broadcast :: "uuid \<Rightarrow> ServerEvent \<Rightarrow> gateway \<Rightarrow> gateway"
  assumes subscribe_index: "subs (subscribe c k h) = index_insert k c (subs h)"
    and subscribe_mine: "map_option mine (connection (subscribe c k h) d) =
      map_option (\<lambda>conn. if d = c then List.insert k (mine conn) else mine conn) (connection h d)"
    and unsubscribe_index: "subs (unsubscribe c k h) = index_remove k c (subs h)"
    and unsubscribe_mine: "map_option mine (connection (unsubscribe c k h) d) =
      map_option (\<lambda>conn. if d = c then removeAll k (mine conn) else mine conn) (connection h d)"
    and broadcast_members: "broadcast k e g = send_to_all (members (subs (hub g)) k) e g"
begin

lemma subscribe_agree:
  assumes "agree subs mine h"
  shows "agree subs mine (subscribe c k h)"
proof -
  have "d \<in> set (members (subs (subscribe c k h)) k') \<longleftrightarrow> k' \<in> set (mine conn')"
    if "connection (subscribe c k h) d = Some conn'" for d conn' k'
    using that assms subscribe_mine [of c k h d]
    by (cases "connection h d") (auto simp: agree_def subscribe_index split: if_splits)
  then show ?thesis
    using assms by (simp add: agree_def subscribe_index)
qed

lemma unsubscribe_agree:
  assumes "agree subs mine h"
  shows "agree subs mine (unsubscribe c k h)"
proof -
  have "d \<in> set (members (subs (unsubscribe c k h)) k') \<longleftrightarrow> k' \<in> set (mine conn')"
    if "connection (unsubscribe c k h) d = Some conn'" for d conn' k'
    using that assms unsubscribe_mine [of c k h d]
    by (cases "connection h d") (auto simp: agree_def unsubscribe_index split: if_splits)
  then show ?thesis
    using assms by (simp add: agree_def unsubscribe_index)
qed

lemma broadcast_once:
  assumes "agree subs mine (hub g)" and "senders_ok (hub g)" and "connection (hub g) c = Some conn"
  shows "outbox (broadcast k e g) (con_sender conn) =
    outbox g (con_sender conn) @
    (if k \<in> set (mine conn) \<and> \<not> receiver_gone g (con_sender conn) then [e] else [])"
  using send_to_all_once [OF assms(2,3), of "members (subs (hub g)) k" e] assms(1,3)
  by (simp add: broadcast_members agree_def)

lemma broadcast_stranger:
  assumes "\<And>c conn. connection (hub g) c = Some conn \<Longrightarrow> con_sender conn \<noteq> s"
  shows "outbox (broadcast k e g) s = outbox g s"
  using assms by (auto simp: broadcast_members outbox_send_to_all listening_def filter_empty_conv)

end

interpretation channel_topic: topic channel_subscribers con_channels subscribe_channel unsubscribe_channel
  broadcast_to_channel
  by unfold_locales
     (auto simp: subscribe_channel_def unsubscribe_channel_def broadcast_to_channel_def Let_def
       option.map_comp comp_def members_def send_to_all_def split: option.splits)

interpretation thread_topic: topic thread_subscribers con_threads subscribe_thread unsubscribe_thread
  broadcast_to_thread
  by unfold_locales
     (auto simp: subscribe_thread_def unsubscribe_thread_def broadcast_to_thread_def Let_def
       option.map_comp comp_def members_def send_to_all_def split: option.splits)

section \<open>The hub's invariant\<close>

text \<open>
  The index of users lists exactly the registered connections; the indexes of topics agree with
  the sets of the connections; no two connections share an outbound channel.
\<close>

definition users_ok :: "HubState \<Rightarrow> bool" where
  "users_ok h \<longleftrightarrow> index_ok (user_connections h) \<and>
     (\<forall>u c. c \<in> set (members (user_connections h) u) \<longleftrightarrow>
            (\<exists>conn. connection h c = Some conn \<and> con_user_id conn = u))"

definition hub_ok :: "HubState \<Rightarrow> bool" where
  "hub_ok h \<longleftrightarrow> distinct (map fst (connections h)) \<and> users_ok h \<and> senders_ok h \<and>
     agree channel_subscribers con_channels h \<and> agree thread_subscribers con_threads h"

text \<open>A connection id, or an outbound channel, that the hub has not seen.\<close>

definition id_unused :: "uuid \<Rightarrow> HubState \<Rightarrow> bool" where
  "id_unused c h \<longleftrightarrow> connection h c = None \<and>
     (\<forall>k. c \<notin> set (members (channel_subscribers h) k) \<and> c \<notin> set (members (thread_subscribers h) k))"

definition sender_unused :: "nat \<Rightarrow> HubState \<Rightarrow> bool" where
  "sender_unused s h \<longleftrightarrow> (\<forall>c conn. connection h c = Some conn \<longrightarrow> con_sender conn \<noteq> s)"

lemma hub_ok_new [simp]: "hub_ok new_hub"
  by (simp add: hub_ok_def new_hub_def users_ok_def senders_ok_def agree_def connection_def)

lemma hub_ok_shutdown_all: "hub_ok (shutdown_all h)"
  by (simp add: shutdown_all_def)

text \<open>Updates that keep a connection's owner, channel and topics keep the rest.\<close>

lemma distinct_update_connection:
  "distinct (map fst (connections h)) \<Longrightarrow> distinct (map fst (connections (update_connection c f h)))"
  by (simp add: update_connection_def distinct_update split: option.split)

lemma users_ok_update_connection:
  "(\<And>x. con_user_id (f x) = con_user_id x) \<Longrightarrow> users_ok h \<Longrightarrow> users_ok (update_connection c f h)"
  unfolding users_ok_def by (auto split: if_splits)

lemma senders_ok_update_connection:
  "(\<And>x. con_sender (f x) = con_sender x) \<Longrightarrow> senders_ok h \<Longrightarrow> senders_ok (update_connection c f h)"
  unfolding senders_ok_def by (auto split: if_splits)

lemma agree_update_connection:
  "(\<And>x. mine (f x) = mine x) \<Longrightarrow> subs (update_connection c f h) = subs h \<Longrightarrow>
   agree subs mine h \<Longrightarrow> agree subs mine (update_connection c f h)"
  unfolding agree_def by (auto split: if_splits)


lemma hub_ok_subscribe_channel:
  assumes "hub_ok h"
  shows "hub_ok (subscribe_channel c k h)"
proof -
  have "users_ok (subscribe_channel c k h)" "senders_ok (subscribe_channel c k h)"
    "agree thread_subscribers con_threads (subscribe_channel c k h)"
    "distinct (map fst (connections (subscribe_channel c k h)))"
    using assms by (auto simp: hub_ok_def users_ok_def senders_ok_def agree_def subscribe_channel_def
        Let_def distinct_update_connection split: if_splits)
  then show ?thesis
    using assms channel_topic.subscribe_agree by (simp add: hub_ok_def)
qed

lemma hub_ok_subscribe_thread:
  assumes "hub_ok h"
  shows "hub_ok (subscribe_thread c k h)"
proof -
  have "users_ok (subscribe_thread c k h)" "senders_ok (subscribe_thread c k h)"
    "agree channel_subscribers con_channels (subscribe_thread c k h)"
    "distinct (map fst (connections (subscribe_thread c k h)))"
    using assms by (auto simp: hub_ok_def users_ok_def senders_ok_def agree_def subscribe_thread_def
        Let_def distinct_update_connection split: if_splits)
  then show ?thesis
    using assms thread_topic.subscribe_agree by (simp add: hub_ok_def)
qed

lemma hub_ok_unsubscribe_channel:
  assumes "hub_ok h"
  shows "hub_ok (unsubscribe_channel c k h)"
proof -
  have "users_ok (unsubscribe_channel c k h)" "senders_ok (unsubscribe_channel c k h)"
    "agree thread_subscribers con_threads (unsubscribe_channel c k h)"
    "distinct (map fst (connections (unsubscribe_channel c k h)))"
    using assms by (auto simp: hub_ok_def users_ok_def senders_ok_def agree_def unsubscribe_channel_def
        Let_def distinct_update_connection split: if_splits)
  then show ?thesis
    using assms channel_topic.unsubscribe_agree by (simp add: hub_ok_def)
qed

lemma hub_ok_unsubscribe_thread:
  assumes "hub_ok h"
  shows "hub_ok (unsubscribe_thread c k h)"
proof -
  have "users_ok (unsubscribe_thread c k h)" "senders_ok (unsubscribe_thread c k h)"
    "agree channel_subscribers con_channels (unsubscribe_thread c k h)"
    "distinct (map fst (connections (unsubscribe_thread c k h)))"
    using assms by (auto simp: hub_ok_def users_ok_def senders_ok_def agree_def unsubscribe_thread_def
        Let_def distinct_update_connection split: if_splits)
  then show ?thesis
    using assms thread_topic.unsubscribe_agree by (simp add: hub_ok_def)
qed

lemma hub_ok_touch_heartbeat: "hub_ok (hub g) \<Longrightarrow> hub_ok (hub (touch_heartbeat c g))"
  by (simp add: hub_ok_def touch_heartbeat_def distinct_update_connection users_ok_update_connection
      senders_ok_update_connection agree_update_connection)

text \<open>Registration: the new connection is the user's, on its channel, without topics.\<close>

lemma connection_register [simp]:
  "connection (snd (register_at u s c t h)) d =
   (if d = c then Some \<lparr>con_user_id = u, con_sender = s, con_channels = [], con_threads = [],
                        con_last_heartbeat = t\<rparr> else connection h d)"
  by (simp add: register_at_def Let_def connection_def update_conv')

lemma indexes_register [simp]:
  "channel_subscribers (snd (register_at u s c t h)) = channel_subscribers h"
  "thread_subscribers (snd (register_at u s c t h)) = thread_subscribers h"
  "user_connections (snd (register_at u s c t h)) = index_insert u c (user_connections h)"
  by (simp_all add: register_at_def Let_def)

lemma hub_ok_register:
  assumes ok: "hub_ok h" and c: "id_unused c h" and s: "sender_unused s h"
  shows "hub_ok (snd (register_at u s c t h))"
proof -
  let ?h = "snd (register_at u s c t h)"
  have "users_ok ?h"
    using ok c by (auto simp: hub_ok_def users_ok_def id_unused_def)
  moreover have "senders_ok ?h"
    using ok s by (auto simp: hub_ok_def senders_ok_def sender_unused_def)
  moreover have "agree channel_subscribers con_channels ?h" "agree thread_subscribers con_threads ?h"
    using ok c by (auto simp: hub_ok_def agree_def id_unused_def)
  moreover have "distinct (map fst (connections ?h))"
    using ok by (simp add: hub_ok_def register_at_def Let_def distinct_update)
  ultimately show ?thesis by (simp add: hub_ok_def)
qed

text \<open>Unregistration: the connection is gone from the hub and from every index.\<close>

lemma connection_unregister [simp]:
  "connection (snd (hub_unregister c h)) d = (if d = c then None else connection h d)"
  by (auto simp: hub_unregister_def Let_def connection_def delete_conv' split: option.splits)

lemma hub_ok_unregister:
  assumes ok: "hub_ok h"
  shows "hub_ok (snd (hub_unregister c h))"
proof (cases "connection h c")
  case None
  with ok show ?thesis by (simp add: hub_unregister_def)
next
  case (Some conn)
  let ?h = "snd (hub_unregister c h)"
  have idx: "user_connections ?h = index_remove (con_user_id conn) c (user_connections h)"
    "channel_subscribers ?h = fold (\<lambda>k. index_remove k c) (con_channels conn) (channel_subscribers h)"
    "thread_subscribers ?h = fold (\<lambda>k. index_remove k c) (con_threads conn) (thread_subscribers h)"
    "connections ?h = AList.delete c (connections h)"
    using Some by (simp_all add: hub_unregister_def Let_def)
  have "users_ok ?h"
    using ok Some by (auto simp: hub_ok_def users_ok_def idx)
  moreover have "senders_ok ?h"
    using ok by (auto simp: hub_ok_def senders_ok_def)
  moreover have "agree channel_subscribers con_channels ?h" "agree thread_subscribers con_threads ?h"
    using ok by (auto simp: hub_ok_def agree_def idx)
  moreover have "distinct (map fst (connections ?h))"
    using ok by (simp add: hub_ok_def idx distinct_delete)
  ultimately show ?thesis by (simp add: hub_ok_def)
qed

lemma unregister_leaves_no_trace:
  assumes "hub_ok h" and "connection h c \<noteq> None"
  shows "id_unused c (snd (hub_unregister c h))"
proof -
  from assms(2) obtain conn where conn: "connection h c = Some conn" by blast
  have "agree channel_subscribers con_channels h" "agree thread_subscribers con_threads h"
    using assms(1) by (simp_all add: hub_ok_def)
  with conn show ?thesis
    by (auto simp: id_unused_def hub_unregister_def Let_def agree_def connection_def delete_conv'
        split: option.splits)
qed

text \<open>The two flags that drive presence say what they mean.\<close>

definition online :: "HubState \<Rightarrow> uuid \<Rightarrow> bool" where
  "online h u \<longleftrightarrow> (\<exists>(c, conn) \<in> set (connections h). con_user_id conn = u)"

lemma online_iff:
  assumes "hub_ok h"
  shows "online h u \<longleftrightarrow> (\<exists>c conn. connection h c = Some conn \<and> con_user_id conn = u)"
  using assms by (fastforce simp: hub_ok_def online_def connection_def dest: map_of_is_SomeI map_of_SomeD)

lemma online_members:
  assumes "hub_ok h"
  shows "online h u \<longleftrightarrow> members (user_connections h) u \<noteq> []"
proof -
  have "online h u \<longleftrightarrow> (\<exists>c. c \<in> set (members (user_connections h) u))"
    using assms online_iff [OF assms, of u] by (auto simp: hub_ok_def users_ok_def)
  then show ?thesis by (metis all_not_in_conv set_empty2)
qed

lemma first_connection_iff:
  assumes ok: "hub_ok h" and c: "id_unused c h"
  shows "rg_first_connection (fst (register_at u s c t h)) \<longleftrightarrow> \<not> online h u"
proof -
  have "c \<notin> set (members (user_connections h) u)"
    using ok c by (auto simp: hub_ok_def users_ok_def id_unused_def)
  then show ?thesis
    using online_members [OF ok, of u]
    by (auto simp: register_at_def Let_def List.insert_def)
qed

lemma became_offline_iff:
  assumes ok: "hub_ok h" and r: "fst (hub_unregister c h) = Some r"
  shows "un_became_offline r \<longleftrightarrow> \<not> online (snd (hub_unregister c h)) (un_user_id r)"
proof -
  from r obtain conn where conn: "connection h c = Some conn"
    by (cases "connection h c") (auto simp: hub_unregister_def)
  let ?u = "con_user_id conn" and ?h = "snd (hub_unregister c h)"
  have r': "un_user_id r = ?u" "un_became_offline r \<longleftrightarrow>
      (case map_of (user_connections h) ?u of None \<Rightarrow> False | Some cs \<Rightarrow> removeAll c cs = [])"
    using r conn by (auto simp: hub_unregister_def Let_def)
  have "c \<in> set (members (user_connections h) ?u)"
    using ok conn by (auto simp: hub_ok_def users_ok_def)
  then have "un_became_offline r \<longleftrightarrow> removeAll c (members (user_connections h) ?u) = []"
    by (cases "map_of (user_connections h) ?u") (simp_all add: r' members_def)
  also have "\<dots> \<longleftrightarrow> members (user_connections ?h) ?u = []"
    using conn by (simp add: hub_unregister_def Let_def)
  finally show ?thesis
    using online_members [OF hub_ok_unregister [OF ok, of c]] by (simp add: r'(1))
qed

end
