(* ===== verification/Redis.thy ===== *)
theory Redis
  imports Protocol "HOL-Library.AList"
begin

text \<open>
  \<open>RedisRealtimeService\<close> (\<open>infrastructure/redis/service.rs\<close>), the part that sends commands:
  presence keys, the rate limiter, the publication of events, and the reconnection delay.  Redis
  itself is modelled as far as these commands use it: keys with an optional expiry, and the log of
  what has been published.  Any command may fail; \<open>rd_down n\<close> says whether the \<open>n\<close>-th one does.
\<close>

section \<open>The server's commands\<close>

datatype redis_value = Text string | Counter int

record redis =
  rd_clock :: time
  rd_store :: "(string \<times> redis_value \<times> time option) list"
  rd_published :: "(string \<times> rstring) list"
  rd_down :: "nat \<Rightarrow> bool"
  rd_issued :: nat

type_synonym 'a command = "(redis, string, 'a) prog"

text \<open>A key whose expiry has passed does not exist.\<close>

definition rd_lookup :: "redis \<Rightarrow> string \<Rightarrow> (redis_value \<times> time option) option" where
  "rd_lookup r k =
     (case map_of (rd_store r) k of
        None \<Rightarrow> None
      | Some (v, expiry) \<Rightarrow>
          (case expiry of
             None \<Rightarrow> Some (v, None)
           | Some e \<Rightarrow> if e \<le> rd_clock r then None else Some (v, Some e)))"

definition rd_get :: "redis \<Rightarrow> string \<Rightarrow> redis_value option" where
  "rd_get r k = map_option fst (rd_lookup r k)"

definition send_command :: "(redis \<Rightarrow> (string + 'a) \<times> redis) \<Rightarrow> 'a command" where
  "send_command f r =
     (let r1 = r\<lparr>rd_issued := Suc (rd_issued r)\<rparr>
      in if rd_down r (rd_issued r) then (Inl ''connection refused'', r1) else f r1)"

definition get_connection :: "unit command" where
  "get_connection = send_command (\<lambda>r. (Inr (), r))"

definition set_ex :: "string \<Rightarrow> redis_value \<Rightarrow> int \<Rightarrow> unit command" where
  "set_ex k v secs = send_command (\<lambda>r.
     (Inr (), r\<lparr>rd_store := AList.update k (v, Some (rd_clock r + seconds secs)) (rd_store r)\<rparr>))"

definition del :: "string \<Rightarrow> unit command" where
  "del k = send_command (\<lambda>r. (Inr (), r\<lparr>rd_store := AList.delete k (rd_store r)\<rparr>))"

text \<open>\<open>INCR\<close> makes a missing key 1 without an expiry, and keeps the expiry of an existing one.\<close>

definition incr :: "string \<Rightarrow> int command" where
  "incr k = send_command (\<lambda>r.
     case rd_lookup r k of
       None \<Rightarrow> (Inr 1, r\<lparr>rd_store := AList.update k (Counter 1, None) (rd_store r)\<rparr>)
     | Some (Text _, _) \<Rightarrow> (Inl ''value is not an integer or out of range'', r)
     | Some (Counter n, e) \<Rightarrow>
         if 2 ^ 63 - 1 \<le> n then (Inl ''increment or decrement would overflow'', r)
         else (Inr (n + 1), r\<lparr>rd_store := AList.update k (Counter (n + 1), e) (rd_store r)\<rparr>))"

definition expire :: "string \<Rightarrow> int \<Rightarrow> bool command" where
  "expire k secs = send_command (\<lambda>r.
     case rd_lookup r k of
       None \<Rightarrow> (Inr False, r)
     | Some (v, _) \<Rightarrow>
         (Inr True, r\<lparr>rd_store := AList.update k (v, Some (rd_clock r + seconds secs)) (rd_store r)\<rparr>))"

definition publish :: "string \<Rightarrow> rstring \<Rightarrow> unit command" where
  "publish channel payload = send_command (\<lambda>r.
     (Inr (), r\<lparr>rd_published := rd_published r @ [(channel, payload)]\<rparr>))"

text \<open>A command whose error the program looks at instead of propagating it.\<close>

definition attempt :: "('s, 'e, 'a) prog \<Rightarrow> ('s, 'e2, 'e + 'a) prog" where
  "attempt m s = (case m s of (r, s') \<Rightarrow> (Inr r, s'))"

definition map_error :: "('e \<Rightarrow> 'e2) \<Rightarrow> ('s, 'e, 'a) prog \<Rightarrow> ('s, 'e2, 'a) prog" where
  "map_error f m s = (case m s of (Inl e, s') \<Rightarrow> (Inl (f e), s') | (Inr x, s') \<Rightarrow> (Inr x, s'))"

section \<open>Presence\<close>

definition presence_key :: "(uuid \<Rightarrow> string) \<Rightarrow> uuid \<Rightarrow> string" where
  "presence_key show_uuid user = ''presence:user:'' @ show_uuid user"

definition set_presence :: "(uuid \<Rightarrow> string) \<Rightarrow> uuid \<Rightarrow> string \<Rightarrow> int \<Rightarrow> redis \<Rightarrow> redis" where
  "set_presence show_uuid user status ttl_secs r =
     snd (bnd get_connection (\<lambda>_. set_ex (presence_key show_uuid user) (Text status) ttl_secs) r)"

definition clear_presence :: "(uuid \<Rightarrow> string) \<Rightarrow> uuid \<Rightarrow> redis \<Rightarrow> redis" where
  "clear_presence show_uuid user r =
     snd (bnd get_connection (\<lambda>_. del (presence_key show_uuid user)) r)"

section \<open>Rate limiting\<close>

definition allow :: "string \<Rightarrow> int \<Rightarrow> int \<Rightarrow> (redis, bool) app" where
  "allow key limit window_secs =
     bnd (attempt get_connection) (\<lambda>c.
     case c of
       Inl _ \<Rightarrow> ret True
     | Inr _ \<Rightarrow>
         bnd (map_error (\<lambda>e. Internal (''rate limit increment failed: '' @ e)) (incr key)) (\<lambda>count.
         bnd (if count = 1 then bnd (attempt (expire key window_secs)) (\<lambda>_. ret ()) else ret ()) (\<lambda>_.
         ret (count \<le> limit))))"

text \<open>\<open>AppState::allow_rate_limit\<close>: an error of the limiter lets the request pass.\<close>

definition allow_rate_limit :: "string \<Rightarrow> int \<Rightarrow> int \<Rightarrow> redis \<Rightarrow> bool \<times> redis" where
  "allow_rate_limit key limit window_secs r =
     (case allow key limit window_secs r of
        (Inr v, r') \<Rightarrow> (v, r')
      | (Inl _, r') \<Rightarrow> (True, r'))"

section \<open>Publishing\<close>

record RealtimeEnvelope =
  origin_instance_id :: string
  envelope_event :: ServerEvent

text \<open>
  The parameters of one server instance: its id, the text form of a UUID, the JSON library on the
  types that the program serializes and parses, the RFC 3339 formatter and the configured size of
  the largest websocket message.
\<close>

record env =
  env_instance_id :: string
  env_show_uuid :: "uuid \<Rightarrow> string"
  env_envelope_json :: "RealtimeEnvelope \<Rightarrow> string + rstring"
  env_parse_envelope :: "rstring \<Rightarrow> RealtimeEnvelope option"
  env_parse_event :: "rstring \<Rightarrow> ServerEvent option"
  env_parse_command :: "rstring \<Rightarrow> ClientCommand option"
  env_rfc3339 :: "time \<Rightarrow> string option"
  env_ws_max_message_bytes :: nat

definition publish_envelope :: "env \<Rightarrow> string \<Rightarrow> ServerEvent \<Rightarrow> (redis, unit) app" where
  "publish_envelope env channel event =
     bnd (map_error (\<lambda>e. Internal (''redis connection failed: '' @ e)) get_connection) (\<lambda>_.
     bnd (from_result (case env_envelope_json env
              \<lparr>origin_instance_id = env_instance_id env, envelope_event = event\<rparr> of
            Inl e \<Rightarrow> Inl (Internal (''event serialization failed: '' @ e))
          | Inr payload \<Rightarrow> Inr payload)) (\<lambda>payload.
     map_error (\<lambda>e. Internal (''redis publish failed: '' @ e)) (publish channel payload)))"

definition redis_publish_channel_event :: "env \<Rightarrow> uuid \<Rightarrow> ServerEvent \<Rightarrow> (redis, unit) app" where
  "redis_publish_channel_event env channel_id =
     publish_envelope env (''events:channel:'' @ env_show_uuid env channel_id)"

definition redis_publish_thread_event :: "env \<Rightarrow> uuid \<Rightarrow> ServerEvent \<Rightarrow> (redis, unit) app" where
  "redis_publish_thread_event env thread_id =
     publish_envelope env (''events:thread:'' @ env_show_uuid env thread_id)"

definition redis_publish_user_event :: "env \<Rightarrow> uuid \<Rightarrow> ServerEvent \<Rightarrow> (redis, unit) app" where
  "redis_publish_user_event env user_id =
     publish_envelope env (''events:user:'' @ env_show_uuid env user_id)"

definition redis_publish_presence :: "env \<Rightarrow> ServerEvent \<Rightarrow> (redis, unit) app" where
  "redis_publish_presence env = publish_envelope env ''events:presence''"

section \<open>Reconnection\<close>

definition INITIAL_BACKOFF_MS :: u64 where "INITIAL_BACKOFF_MS = 250"
definition MAX_BACKOFF_MS :: u64 where "MAX_BACKOFF_MS = 10000"
definition MAX_JITTER_MS :: u64 where "MAX_JITTER_MS = 250"

definition saturating_add :: "'a::len word \<Rightarrow> 'a word \<Rightarrow> 'a word" where
  "saturating_add x y = (if uint x + uint y < 2 ^ LENGTH('a) then x + y else -1)"

definition saturating_mul :: "'a::len word \<Rightarrow> 'a word \<Rightarrow> 'a word" where
  "saturating_mul x y = (if uint x * uint y < 2 ^ LENGTH('a) then x * y else -1)"

definition saturating_sub :: "'a::len word \<Rightarrow> 'a word \<Rightarrow> 'a word" where
  "saturating_sub x y = (if y \<le> x then x - y else 0)"

text \<open>The delay in milliseconds; \<open>jitter\<close> is drawn from 0 to \<open>MAX_JITTER_MS\<close>.\<close>

definition reconnect_delay :: "u64 \<Rightarrow> u32 \<Rightarrow> u64" where
  "reconnect_delay jitter failures =
     (let exponent = min (saturating_sub failures 1) 7;
          base = saturating_mul INITIAL_BACKOFF_MS (push_bit (unat exponent) 1);
          capped = min base MAX_BACKOFF_MS
      in saturating_add capped jitter)"

section \<open>Symbolic execution\<close>

lemma wp_attempt [wp_rules, simp]:
  "wp (attempt m) Q E s = wp m (\<lambda>x. Q (Inr x)) (\<lambda>e. Q (Inl e)) s"
  by (simp add: wp_def attempt_def split: prod.splits sum.splits)

lemma wp_map_error [wp_rules, simp]: "wp (map_error f m) Q E s = wp m Q (\<lambda>e. E (f e)) s"
  by (simp add: wp_def map_error_def split: prod.splits sum.splits)

lemma wp_send_command [wp_rules, simp]:
  "wp (send_command f) Q E r =
     (if rd_down r (rd_issued r) then E ''connection refused'' (r\<lparr>rd_issued := Suc (rd_issued r)\<rparr>)
      else wp f Q E (r\<lparr>rd_issued := Suc (rd_issued r)\<rparr>))"
  by (simp add: wp_def send_command_def Let_def)

lemma rd_lookup_update [simp]:
  "rd_lookup (r\<lparr>rd_issued := i\<rparr>) k = rd_lookup r k"
  "rd_lookup (r\<lparr>rd_published := p\<rparr>) k = rd_lookup r k"
  by (simp_all add: rd_lookup_def split: option.split prod.split)

lemma rd_lookup_set [simp]:
  "rd_lookup (r\<lparr>rd_store := AList.update k (v, e) s\<rparr>) k =
     (case e of None \<Rightarrow> Some (v, None) | Some t \<Rightarrow> if t \<le> rd_clock r then None else Some (v, Some t))"
  by (simp add: rd_lookup_def update_conv' split: option.splits)

definition redis_healthy :: "redis \<Rightarrow> bool" where
  "redis_healthy r \<longleftrightarrow> (\<forall>n. \<not> rd_down r n)"


section \<open>The reconnection delay\<close>

lemma unat_saturating_sub: "unat (saturating_sub x y) = unat x - unat y"
  by (simp add: saturating_sub_def unat_sub_if' word_le_nat_alt)

lemma unat_min: "unat (min x y) = min (unat x) (unat (y :: 'a::len word))"
  by (simp add: min_def word_le_nat_alt)

text \<open>
  The claim: the delay starts at 250 ms, doubles with each consecutive failure, stops growing at
  ten seconds, and no arithmetic saturates, so that the jitter is added in full.
\<close>

lemma unat_backoff:
  assumes "n \<le> 7"
  shows "unat (min (saturating_mul INITIAL_BACKOFF_MS (push_bit n 1)) MAX_BACKOFF_MS) =
         min (250 * 2 ^ n) 10000"
proof -
  have "n \<in> {0, 1, 2, 3, 4, 5, 6, 7}" using assms by auto
  then show ?thesis
    by (auto simp: saturating_mul_def INITIAL_BACKOFF_MS_def MAX_BACKOFF_MS_def min_def word_le_nat_alt)
qed

lemma unat_saturating_add:
  fixes x y :: "'a::len word"
  assumes "unat x + unat y < 2 ^ LENGTH('a)"
  shows "unat (saturating_add x y) = unat x + unat y"
proof -
  have "int (unat x + unat y) < int (2 ^ LENGTH('a))"
    using assms by (simp only: of_nat_less_iff)
  then have "uint x + uint y < 2 ^ LENGTH('a)"
    by simp
  moreover have "unat (x + y) = unat x + unat y"
    using assms by (simp only: unat_add_lem)
  ultimately show ?thesis
    by (simp only: saturating_add_def if_True)
qed

text \<open>C38: the delay before the next attempt to reach Redis, after any number of failures.\<close>

theorem reconnect_delay_exact:
  assumes "jitter \<le> MAX_JITTER_MS"
  shows "unat (reconnect_delay jitter failures) =
         min (250 * 2 ^ min (unat failures - 1) 7) 10000 + unat jitter"
proof -
  let ?n = "min (unat failures - 1) 7"
  have n: "unat (min (saturating_sub failures 1) 7) = ?n"
    by (simp add: unat_min unat_saturating_sub)
  have "unat jitter \<le> 250"
    using assms by (simp add: MAX_JITTER_MS_def word_le_nat_alt)
  moreover have "unat (min (saturating_mul INITIAL_BACKOFF_MS (push_bit ?n 1)) MAX_BACKOFF_MS) =
      min (250 * 2 ^ ?n) 10000"
    by (rule unat_backoff) simp
  ultimately show ?thesis
    unfolding reconnect_delay_def Let_def n by (subst unat_saturating_add) simp_all
qed

theorem reconnect_delay_exact_witness:
  "unat (reconnect_delay 7 4) = 2007 \<and> unat (reconnect_delay 250 4000000000) = 10250"
  using reconnect_delay_exact [of 7 4] reconnect_delay_exact [of 250 4000000000]
  by (simp add: MAX_JITTER_MS_def)

section \<open>The rate limiter's window\<close>

text \<open>A sequence of requests on one key, at given times.\<close>

fun rate_calls :: "string \<Rightarrow> int \<Rightarrow> int \<Rightarrow> time list \<Rightarrow> redis \<Rightarrow> bool list \<times> redis" where
  "rate_calls key limit window [] r = ([], r)"
| "rate_calls key limit window (t # ts) r =
     (let (ok, r1) = allow_rate_limit key limit window (r\<lparr>rd_clock := t\<rparr>);
          (oks, r2) = rate_calls key limit window ts r1
      in (ok # oks, r2))"

text \<open>From its next command on, Redis answers.\<close>

definition answers :: "redis \<Rightarrow> bool" where
  "answers r \<longleftrightarrow> (\<forall>n \<ge> rd_issued r. \<not> rd_down r n)"

definition not_expired :: "time \<Rightarrow> time option \<Rightarrow> bool" where
  "not_expired t e \<longleftrightarrow> (case e of None \<Rightarrow> True | Some x \<Rightarrow> t < x)"

lemma rd_lookup_live:
  "map_of (rd_store r) k = Some (v, e) \<Longrightarrow> not_expired (rd_clock r) e \<Longrightarrow> rd_lookup r k = Some (v, e)"
  by (auto simp: rd_lookup_def not_expired_def split: option.splits)

lemma allow_counting:
  assumes "answers r" and "map_of (rd_store r) k = Some (Counter n, e)"
    and "not_expired (rd_clock r) e" and "1 \<le> n" and "n < 2 ^ 63 - 1"
  shows "\<exists>r'. allow_rate_limit k l w r = (n + 1 \<le> l, r') \<and> answers r' \<and>
              map_of (rd_store r') k = Some (Counter (n + 1), e)"
  using assms rd_lookup_live [OF assms(2,3)]
  by (auto simp: allow_rate_limit_def allow_def bnd_def attempt_def map_error_def get_connection_def
      incr_def send_command_def ret_def answers_def update_conv')

lemma rate_calls_counting:
  assumes "answers r" and "map_of (rd_store r) k = Some (Counter n, e)"
    and "\<forall>t\<in>set ts. not_expired t e" and "1 \<le> n" and "n + int (length ts) < 2 ^ 63"
  shows "fst (rate_calls k l w ts r) = map (\<lambda>i. n + int i < l) [0..<length ts]"
  using assms
proof (induction ts arbitrary: r n)
  case (Cons t ts)
  let ?r = "r\<lparr>rd_clock := t\<rparr>"
  have "answers ?r" "map_of (rd_store ?r) k = Some (Counter n, e)" "not_expired (rd_clock ?r) e"
    "n < 2 ^ 63 - 1"
    using Cons.prems by (simp_all add: answers_def)
  from allow_counting [OF this(1,2,3) Cons.prems(4) this(4)]
  obtain r' where r': "allow_rate_limit k l w ?r = (n + 1 \<le> l, r')" "answers r'"
    "map_of (rd_store r') k = Some (Counter (n + 1), e)" by blast
  have "fst (rate_calls k l w ts r') = map (\<lambda>i. n + 1 + int i < l) [0..<length ts]"
    using Cons.IH [OF r'(2,3)] Cons.prems by simp
  then show ?case
    by (auto simp: r'(1) case_prod_beta map_upt_Suc add_ac simp del: upt_Suc)
qed simp

lemma allow_first:
  assumes "\<not> rd_down r (rd_issued r)" and "\<not> rd_down r (Suc (rd_issued r))"
    and "\<forall>n \<ge> rd_issued r + 3. \<not> rd_down r n" and "rd_lookup r k = None"
  shows "\<exists>r'. allow_rate_limit k l w r = (1 \<le> l, r') \<and> answers r' \<and>
    map_of (rd_store r') k =
      Some (Counter 1, if rd_down r (rd_issued r + 2) then None else Some (rd_clock r + seconds w))"
  using assms
  by (auto simp: allow_rate_limit_def allow_def bnd_def attempt_def map_error_def get_connection_def
      incr_def expire_def send_command_def ret_def answers_def update_conv' rd_lookup_def
      split: option.splits)

text \<open>
  C39: within one window, which the first request opens and which lasts \<open>window\<close> seconds, exactly
  the first \<open>limit\<close> requests on a key are allowed.
\<close>

theorem rate_limit_window:
  assumes "answers r" and "rd_lookup (r\<lparr>rd_clock := t\<rparr>) k = None"
    and "\<forall>t'\<in>set ts. t' < t + seconds w" and "int (length ts) < 2 ^ 63 - 1"
  shows "fst (rate_calls k l w (t # ts) r) = map (\<lambda>i. int i < l) [0..<Suc (length ts)]"
proof -
  let ?r = "r\<lparr>rd_clock := t\<rparr>"
  from allow_first [of ?r k l w] assms(1,2)
  obtain r' where r': "allow_rate_limit k l w ?r = (1 \<le> l, r')" "answers r'"
    "map_of (rd_store r') k = Some (Counter 1, Some (t + seconds w))"
    by (auto simp: answers_def)
  from rate_calls_counting [OF r'(2,3), of ts] assms(3,4)
  have "fst (rate_calls k l w ts r') = map (\<lambda>i. 1 + int i < l) [0..<length ts]"
    by (simp add: not_expired_def)
  then show ?thesis
    by (simp add: r'(1) case_prod_beta map_upt_Suc int_one_le_iff_zero_less del: upt_Suc)
qed

definition idle_redis :: redis where
  "idle_redis = \<lparr>rd_clock = 0, rd_store = [], rd_published = [], rd_down = (\<lambda>_. False), rd_issued = 0\<rparr>"

theorem rate_limit_window_witness:
  "fst (rate_calls ''rl:message'' 2 5 [0, seconds 1, seconds 4] idle_redis) = [True, True, False]"
  using rate_limit_window [of idle_redis 0 "''rl:message''" "[seconds 1, seconds 4]" 5 2]
  by (simp add: idle_redis_def answers_def rd_lookup_def seconds_def upt_rec)

text \<open>
  The window is fixed, not rolling as its description says: sixteen requests on a key limited
  to eight per five seconds are all allowed, fifteen of them within a tenth of a second.
\<close>

theorem rate_limit_not_rolling:
  "fst (rate_calls ''rl:typing'' 8 5
     ([0] @ replicate 7 4900000 @ replicate 8 5000000) idle_redis) = replicate 16 True"
  by code_simp

text \<open>
  When the command that sets the expiry fails, the request is allowed and the counter never
  expires: from then on the limit counts requests over all time, whatever the times of the requests.
\<close>

theorem rate_limit_lost_expiry:
  assumes "rd_down r = (\<lambda>n. n = rd_issued r + 2)" and "rd_lookup (r\<lparr>rd_clock := t\<rparr>) k = None"
    and "int (length ts) < 2 ^ 63 - 1"
  shows "fst (rate_calls k l w (t # ts) r) = map (\<lambda>i. int i < l) [0..<Suc (length ts)]"
proof -
  let ?r = "r\<lparr>rd_clock := t\<rparr>"
  from allow_first [of ?r k l w] assms(1,2)
  obtain r' where r': "allow_rate_limit k l w ?r = (1 \<le> l, r')" "answers r'"
    "map_of (rd_store r') k = Some (Counter 1, None)"
    by auto
  from rate_calls_counting [OF r'(2,3), of ts] assms(3)
  have "fst (rate_calls k l w ts r') = map (\<lambda>i. 1 + int i < l) [0..<length ts]"
    by (simp add: not_expired_def)
  then show ?thesis
    by (simp add: r'(1) case_prod_beta map_upt_Suc int_one_le_iff_zero_less del: upt_Suc)
qed

theorem rate_limit_lost_expiry_witness:
  "fst (rate_calls ''rl:message'' 1 10 [0, seconds 1000000] (idle_redis\<lparr>rd_down := \<lambda>n. n = 2\<rparr>)) =
   [True, False]"
  using rate_limit_lost_expiry [of "idle_redis\<lparr>rd_down := \<lambda>n. n = 2\<rparr>" 0 "''rl:message''"
      "[seconds 1000000]" 1 10]
  by (simp add: idle_redis_def rd_lookup_def upt_rec numeral_2_eq_2 del: rate_calls.simps)

end
