(* ===== verification/Database.thy ===== *)
theory Database
  imports Domain
begin

text \<open>
  The PostgreSQL database that the repositories share: the tables of \<open>migrations/\<close> as lists of
  rows (the columns the program reads or writes), and the execution of one SQL statement, of a
  transaction, and of the two other effects that the repositories have, reading the clock and
  drawing a random UUID.

  Every statement may fail because the connection is lost: \<open>down w n\<close> says whether the \<open>n\<close>-th
  statement of the run does.  A statement that fails has no effect, and an error inside a
  transaction rolls it back.  A theorem that holds for every \<open>world\<close> therefore holds for every
  pattern of database failures; one about success assumes \<open>healthy\<close>.  The order of the rows in a
  list is arbitrary, as the heap order of a table is, so a \<open>LIMIT 1\<close> without an order that picks
  the first match picks any of them.
\<close>

section \<open>Rows and tables\<close>

record session_row =
  ses_id :: uuid
  ses_user_id :: uuid
  ses_refresh_token_hash :: rstring
  ses_expires_at :: time
  ses_revoked_at :: "time option"
  ses_context :: SessionContext

record channel_row =
  cha_id :: uuid
  cha_guild_id :: uuid
  cha_name :: rstring
  cha_type :: string
  cha_position :: int
  cha_created_at :: time

record role_row =
  role_id :: uuid
  role_guild_id :: uuid
  role_permissions :: i64
  role_is_default :: bool

record override_row =
  ov_channel_id :: uuid
  ov_target_type :: string
  ov_target_id :: uuid
  ov_allow :: i64
  ov_deny :: i64

record guild_invite_row =
  gir_token :: rstring
  gir_guild_id :: uuid
  gir_created_by :: uuid
  gir_expires_at :: time
  gir_max_uses :: "int option"
  gir_uses_count :: int
  gir_revoked_at :: "time option"
  gir_created_at :: time

record thread_row =
  th_id :: uuid
  th_kind :: string
  th_name :: "rstring option"
  th_owner_id :: "uuid option"
  th_direct_a_user_id :: "uuid option"
  th_direct_b_user_id :: "uuid option"
  th_direct_status :: string
  th_requested_by :: "uuid option"
  th_accepted_at :: "time option"
  th_created_at :: time

record group_invite_row =
  gv_token :: rstring
  gv_thread_id :: uuid
  gv_created_by :: uuid
  gv_expires_at :: time
  gv_max_uses :: "int option"
  gv_used_count :: int
  gv_revoked_at :: "time option"
  gv_created_at :: time

record friend_row =
  frd_user_id_a :: uuid
  frd_user_id_b :: uuid
  frd_created_at :: time

text \<open>
  The link tables \<open>guild_members\<close>, \<open>thread_members\<close> and \<open>member_roles\<close> have no column
  beside their key that the program reads, so their rows are tuples: guild and user, thread and
  user, and guild, user and role.
\<close>

record db =
  users :: "UserRecord list"
  user_sessions :: "session_row list"
  guilds :: "GuildSummary list"
  guild_members :: "(uuid \<times> uuid) list"
  channels :: "channel_row list"
  roles :: "role_row list"
  member_roles :: "(uuid \<times> uuid \<times> uuid) list"
  channel_overrides :: "override_row list"
  messages :: "MessageRecord list"
  channel_reads :: "ChannelReadState list"
  guild_invites :: "guild_invite_row list"
  threads :: "thread_row list"
  thread_members :: "(uuid \<times> uuid) list"
  thread_messages :: "ThreadMessageRecord list"
  thread_reads :: "ThreadReadState list"
  group_invites :: "group_invite_row list"
  friend_requests :: "FriendRequestRecord list"
  friends :: "friend_row list"

definition empty_db :: db where
  "empty_db = \<lparr>users = [], user_sessions = [], guilds = [], guild_members = [], channels = [],
     roles = [], member_roles = [], channel_overrides = [], messages = [], channel_reads = [],
     guild_invites = [], threads = [], thread_members = [], thread_messages = [],
     thread_reads = [], group_invites = [], friend_requests = [], friends = []\<rparr>"

section \<open>Statements\<close>

text \<open>
  A driver error: an error the server reports with its SQLSTATE, no row where one was required,
  or a lost connection.
\<close>

datatype sqlx_error = DatabaseError string | RowNotFound | Io

abbreviation unique_violation :: string where "unique_violation \<equiv> ''23505''"
abbreviation foreign_key_violation :: string where "foreign_key_violation \<equiv> ''23503''"
abbreviation check_violation :: string where "check_violation \<equiv> ''23514''"
abbreviation numeric_out_of_range :: string where "numeric_out_of_range \<equiv> ''22003''"

text \<open>A statement: from \<open>NOW()\<close> and the tables to its rows and the new tables.\<close>

type_synonym 'a query = "time \<Rightarrow> db \<Rightarrow> sqlx_error + 'a \<times> db"

definition select_rows :: "(db \<Rightarrow> 'a) \<Rightarrow> 'a query" where
  "select_rows f t d = Inr (f d, d)"

text \<open>\<open>fetch_one\<close>: no row is an error.\<close>

definition select_one :: "(db \<Rightarrow> 'a option) \<Rightarrow> 'a query" where
  "select_one f t d = (case f d of None \<Rightarrow> Inl RowNotFound | Some x \<Rightarrow> Inr (x, d))"

text \<open>A value of an \<open>INT\<close> column; arithmetic beyond it is an error, not a wrap-around.\<close>

definition int4_ok :: "int \<Rightarrow> bool" where
  "int4_ok n \<longleftrightarrow> - (2 ^ 31) \<le> n \<and> n < 2 ^ 31"

section \<open>The world of the repositories\<close>

text \<open>
  \<open>uuid_at\<close> and \<open>drawn\<close> are the source of \<open>Uuid::new_v4()\<close> (the values it will return and how
  many it has returned), \<open>down\<close> and \<open>issued\<close> the pattern of lost connections and the number of
  statements sent, \<open>sqlx_text\<close> the text the driver prints for an error.
\<close>

record world =
  clock :: time
  uuid_at :: "nat \<Rightarrow> uuid"
  drawn :: nat
  down :: "nat \<Rightarrow> bool"
  issued :: nat
  sqlx_text :: "sqlx_error \<Rightarrow> string"
  tables :: db

type_synonym 'a repo = "(world, 'a) app"

definition healthy :: "world \<Rightarrow> bool" where
  "healthy w \<longleftrightarrow> (\<forall>n. \<not> down w n)"

definition now_utc :: "time repo" where
  "now_utc w = (Inr (clock w), w)"

definition new_v4 :: "uuid repo" where
  "new_v4 w = (Inr (uuid_at w (drawn w)), w\<lparr>drawn := Suc (drawn w)\<rparr>)"

text \<open>\<open>impl From<sqlx::Error> for AppError\<close>, with the driver's text for the error.\<close>

definition from_sqlx :: "(sqlx_error \<Rightarrow> string) \<Rightarrow> sqlx_error \<Rightarrow> AppError" where
  "from_sqlx text e = Internal (''database error: '' @ text e)"

definition is_unique_violation :: "sqlx_error \<Rightarrow> bool" where
  "is_unique_violation e \<longleftrightarrow> e = DatabaseError unique_violation"

type_synonym error_map = "(sqlx_error \<Rightarrow> string) \<Rightarrow> sqlx_error \<Rightarrow> AppError"

text \<open>One statement, with the translation of its errors that \<open>map_err\<close> applies.\<close>

definition run_sql :: "error_map \<Rightarrow> 'a query \<Rightarrow> 'a repo" where
  "run_sql conv q w =
     (let w1 = w\<lparr>issued := Suc (issued w)\<rparr>
      in if down w (issued w) then (Inl (conv (sqlx_text w) Io), w1)
         else case q (clock w) (tables w) of
             Inl e \<Rightarrow> (Inl (conv (sqlx_text w) e), w1)
           | Inr (x, d) \<Rightarrow> (Inr x, w1\<lparr>tables := d\<rparr>))"

abbreviation sql :: "'a query \<Rightarrow> 'a repo" where
  "sql \<equiv> run_sql from_sqlx"

text \<open>
  A transaction body ends with a commit, or returns while the transaction is still open, which
  drops it and rolls it back; an error propagated by \<open>?\<close> rolls back too.
\<close>

datatype 'a tx_exit = Commit 'a | Dropped 'a

definition transaction :: "'a tx_exit repo \<Rightarrow> 'a repo" where
  "transaction body w =
     (case sql (select_rows (\<lambda>_. ())) w of
        (Inl e, w1) \<Rightarrow> (Inl e, w1)
      | (Inr _, w1) \<Rightarrow>
          (case body w1 of
             (Inl e, w2) \<Rightarrow> (Inl e, w2\<lparr>tables := tables w\<rparr>)
           | (Inr (Dropped x), w2) \<Rightarrow> (Inr x, w2\<lparr>tables := tables w\<rparr>)
           | (Inr (Commit x), w2) \<Rightarrow>
               (case sql (select_rows (\<lambda>_. ())) w2 of
                  (Inl e, w3) \<Rightarrow> (Inl e, w3\<lparr>tables := tables w\<rparr>)
                | (Inr _, w3) \<Rightarrow> (Inr x, w3))))"

definition commit :: "'a \<Rightarrow> 'a tx_exit repo" where
  "commit x = ret (Commit x)"

definition dropped :: "'a \<Rightarrow> 'a tx_exit repo" where
  "dropped x = ret (Dropped x)"

section \<open>Symbolic execution\<close>

lemma wp_now_utc [wp_rules, simp]: "wp now_utc Q E w = Q (clock w) w"
  by (simp add: wp_def now_utc_def)

lemma wp_new_v4 [wp_rules, simp]:
  "wp new_v4 Q E w = Q (uuid_at w (drawn w)) (w\<lparr>drawn := Suc (drawn w)\<rparr>)"
  by (simp add: wp_def new_v4_def)

lemma wp_run_sql [wp_rules, simp]:
  "wp (run_sql conv q) Q E w =
     (if down w (issued w) then E (conv (sqlx_text w) Io) (w\<lparr>issued := Suc (issued w)\<rparr>)
      else case q (clock w) (tables w) of
          Inl e \<Rightarrow> E (conv (sqlx_text w) e) (w\<lparr>issued := Suc (issued w)\<rparr>)
        | Inr (x, d) \<Rightarrow> Q x (w\<lparr>issued := Suc (issued w), tables := d\<rparr>))"
  by (simp add: wp_def run_sql_def Let_def split: sum.splits prod.splits)

lemma wp_commit [wp_rules, simp]: "wp (commit x) Q E w = Q (Commit x) w"
  by (simp add: commit_def)

lemma wp_dropped [wp_rules, simp]: "wp (dropped x) Q E w = Q (Dropped x) w"
  by (simp add: dropped_def)

lemma select_rows_simp [simp]: "select_rows f t d = Inr (f d, d)"
  by (simp add: select_rows_def)

lemma select_one_simp [simp]:
  "select_one f t d = (case f d of None \<Rightarrow> Inl RowNotFound | Some x \<Rightarrow> Inr (x, d))"
  by (simp add: select_one_def)

lemma wp_transaction [wp_rules, simp]:
  "wp (transaction body) Q E w =
     (if down w (issued w)
      then E (from_sqlx (sqlx_text w) Io) (w\<lparr>issued := Suc (issued w)\<rparr>)
      else wp body
        (\<lambda>x w2. case x of
            Dropped y \<Rightarrow> Q y (w2\<lparr>tables := tables w\<rparr>)
          | Commit y \<Rightarrow>
              if down w2 (issued w2)
              then E (from_sqlx (sqlx_text w2) Io) (w2\<lparr>issued := Suc (issued w2), tables := tables w\<rparr>)
              else Q y (w2\<lparr>issued := Suc (issued w2)\<rparr>))
        (\<lambda>e w2. E e (w2\<lparr>tables := tables w\<rparr>))
        (w\<lparr>issued := Suc (issued w)\<rparr>))"
  by (simp add: wp_def transaction_def run_sql_def Let_def split: sum.splits prod.splits tx_exit.splits)

lemma healthy_down [simp]: "healthy w \<Longrightarrow> \<not> down w n"
  by (simp add: healthy_def)

lemma healthy_update [simp]:
  "healthy (w\<lparr>issued := i\<rparr>) = healthy w"
  "healthy (w\<lparr>tables := d\<rparr>) = healthy w"
  "healthy (w\<lparr>drawn := n\<rparr>) = healthy w"
  by (simp_all add: healthy_def)

section \<open>Invariants of the tables\<close>

definition preserves :: "(db \<Rightarrow> bool) \<Rightarrow> 'a query \<Rightarrow> bool" where
  "preserves P q \<longleftrightarrow> (\<forall>t d x d'. q t d = Inr (x, d') \<longrightarrow> P d \<longrightarrow> P d')"

abbreviation db_keeps :: "(db \<Rightarrow> bool) \<Rightarrow> 'a repo \<Rightarrow> bool" where
  "db_keeps P \<equiv> keeps (\<lambda>w. P (tables w))"

lemma preservesI: "(\<And>t d x d'. q t d = Inr (x, d') \<Longrightarrow> P d \<Longrightarrow> P d') \<Longrightarrow> preserves P q"
  by (auto simp: preserves_def)

lemma preserves_select [keeps_rules, simp, intro]: "preserves P (select_rows f)"
  by (auto simp: preserves_def)

lemma preserves_select_one [keeps_rules, simp, intro]: "preserves P (select_one f)"
  by (auto simp: preserves_def split: option.splits)

lemma db_keeps_run_sql [keeps_rules, intro]: "preserves P q \<Longrightarrow> db_keeps P (run_sql conv q)"
  by (rule keepsI) (auto simp: preserves_def split: sum.splits)

lemma db_keeps_now_utc [keeps_rules, simp, intro]: "db_keeps P now_utc"
  by (rule keepsI) simp

lemma db_keeps_new_v4 [keeps_rules, simp, intro]: "db_keeps P new_v4"
  by (rule keepsI) simp

lemma db_keeps_commit [keeps_rules, simp, intro]: "db_keeps P (commit x)"
  by (simp add: commit_def)

lemma db_keeps_dropped [keeps_rules, simp, intro]: "db_keeps P (dropped x)"
  by (simp add: dropped_def)

text \<open>
  A transaction keeps an invariant if its body does, and also if only the tables at the commit
  satisfy it: the states in between are never seen.
\<close>

lemma transaction_keepsI:
  assumes "\<And>w. P (tables w) \<Longrightarrow>
    wp body (\<lambda>x w'. case x of Commit _ \<Rightarrow> P (tables w') | Dropped _ \<Rightarrow> True) (\<lambda>_ _. True) w"
  shows "db_keeps P (transaction body)"
proof (rule keepsI)
  fix w :: world assume P: "P (tables w)"
  show "wp (transaction body) (\<lambda>_ w. P (tables w)) (\<lambda>_ w. P (tables w)) w"
    using P assms [of "w\<lparr>issued := Suc (issued w)\<rparr>"]
    by (auto elim!: wp_mono split: tx_exit.splits)
qed

lemma db_keeps_transaction [keeps_rules, intro]:
  assumes "db_keeps P body"
  shows "db_keeps P (transaction body)"
proof (rule transaction_keepsI)
  fix w :: world assume "P (tables w)"
  with assms show "wp body (\<lambda>x w'. case x of Commit _ \<Rightarrow> P (tables w') | Dropped _ \<Rightarrow> True) (\<lambda>_ _. True) w"
    by (auto dest!: keeps_wp elim!: wp_mono split: tx_exit.splits)
qed

text \<open>A transaction that reports an error has changed nothing.\<close>

lemma transaction_atomic: "transaction body w = (Inl e, w') \<Longrightarrow> tables w' = tables w"
  by (auto simp: transaction_def run_sql_def Let_def split: if_splits prod.splits sum.splits tx_exit.splits)

end
