(* ===== verification/Realtime.thy ===== *)
theory Realtime
  imports Gateway Redis Database
begin

text \<open>
  The fan-out of events across server instances: the rest of \<open>RedisRealtimeService\<close>
  (\<open>infrastructure/redis/service.rs\<close>: the pub/sub session, the listener with its reconnections,
  \<open>dispatch_event\<close>) and the publishing methods of \<open>AppState\<close> (\<open>bootstrap/app_state.rs\<close>).  An
  event reaches the local connections at once and the other instances through Redis, which also
  returns it to its sender.
\<close>

section \<open>Dispatch\<close>

fun dispatch_event :: "ServerEvent \<Rightarrow> gateway \<Rightarrow> gateway" where
  "dispatch_event (MessageCreate c m) g = broadcast_to_channel c (MessageCreate c m) g"
| "dispatch_event (MessageUpdate c m) g = broadcast_to_channel c (MessageUpdate c m) g"
| "dispatch_event (MessageDelete c m t) g = broadcast_to_channel c (MessageDelete c m t) g"
| "dispatch_event (Typing c u) g = broadcast_to_channel c (Typing c u) g"
| "dispatch_event (ThreadMessageCreate t m) g = broadcast_to_thread t (ThreadMessageCreate t m) g"
| "dispatch_event (ThreadMessageUpdate t m) g = broadcast_to_thread t (ThreadMessageUpdate t m) g"
| "dispatch_event (ThreadMessageDelete t m d) g = broadcast_to_thread t (ThreadMessageDelete t m d) g"
| "dispatch_event (ThreadTyping t u) g = broadcast_to_thread t (ThreadTyping t u) g"
| "dispatch_event (ThreadRequestReceived t rq rc) g =
     broadcast_to_user rc (ThreadRequestReceived t rq rc) g"
| "dispatch_event (ThreadAccepted t by rq rc) g =
     (let g1 = broadcast_to_user rq (ThreadAccepted t by rq rc) g
      in if rq \<noteq> rc then broadcast_to_user rc (ThreadAccepted t by rq rc) g1 else g1)"
| "dispatch_event (PresenceUpdate u s) g = broadcast_global (PresenceUpdate u s) g"
| "dispatch_event _ g = g"

section \<open>The pub/sub session\<close>

datatype SessionExit = Shutdown | Disconnected

text \<open>
  What a session sees: the cancellation of its token, the end of the stream, or a message, whose
  payload may fail to decode as text.
\<close>

datatype session_input = Cancelled | StreamEnd | Message "rstring option"

text \<open>One message: decode it, drop it if it is our own, dispatch it.\<close>

definition handle_payload :: "env \<Rightarrow> rstring \<Rightarrow> gateway \<Rightarrow> gateway" where
  "handle_payload env payload g =
     (case (case env_parse_envelope env payload of
              Some v \<Rightarrow> Some v
            | None \<Rightarrow> map_option (\<lambda>e. \<lparr>origin_instance_id = [], envelope_event = e\<rparr>)
                        (env_parse_event env payload)) of
        None \<Rightarrow> g
      | Some envelope \<Rightarrow>
          if origin_instance_id envelope \<noteq> [] \<and> origin_instance_id envelope = env_instance_id env
          then g else dispatch_event (envelope_event envelope) g)"

text \<open>The loop of a session; \<open>None\<close> while it waits for its next input.\<close>

fun session_loop :: "env \<Rightarrow> session_input list \<Rightarrow> gateway \<Rightarrow> SessionExit option \<times> gateway" where
  "session_loop env [] g = (None, g)"
| "session_loop env (Cancelled # inputs) g = (Some Shutdown, g)"
| "session_loop env (StreamEnd # inputs) g = (Some Disconnected, g)"
| "session_loop env (Message None # inputs) g = session_loop env inputs g"
| "session_loop env (Message (Some payload) # inputs) g =
     session_loop env inputs (handle_payload env payload g)"

text \<open>
  A session: the connection and the four subscriptions, each of which may fail, then the loop.
\<close>

record session_script =
  ss_connect :: "string + unit"
  ss_psubscribes :: "(string + unit) list"
  ss_subscribe :: "string + unit"
  ss_inputs :: "session_input list"

fun first_error :: "(string + unit) list \<Rightarrow> string option" where
  "first_error [] = None"
| "first_error (Inl e # rs) = Some e"
| "first_error (Inr _ # rs) = first_error rs"

definition run_pubsub_session ::
  "env \<Rightarrow> session_script \<Rightarrow> gateway \<Rightarrow> SessionExit AppResult option \<times> gateway" where
  "run_pubsub_session env script g =
     (case ss_connect script of
        Inl e \<Rightarrow> (Some (Inl (Internal (''redis pubsub connect failed: '' @ e))), g)
      | Inr _ \<Rightarrow>
          (case first_error (ss_psubscribes script) of
             Some e \<Rightarrow> (Some (Inl (Internal (''redis psubscribe failed: '' @ e))), g)
           | None \<Rightarrow>
               (case ss_subscribe script of
                  Inl e \<Rightarrow> (Some (Inl (Internal (''redis subscribe failed: '' @ e))), g)
                | Inr _ \<Rightarrow>
                    (case session_loop env (ss_inputs script) g of (r, g') \<Rightarrow> (map_option Inr r, g')))))"

section \<open>The listener\<close>

text \<open>
  One turn of the listener's loop: whether the token is cancelled at its start, the session, the
  jitter of the delay after it, and whether the cancellation comes during the delay.
\<close>

record listener_turn =
  lt_cancelled :: bool
  lt_session :: session_script
  lt_jitter :: u64
  lt_cancelled_in_sleep :: bool

text \<open>
  \<open>run_pubsub_listener\<close> from a number of failures: the delays it slept, whether it has returned,
  and the hub.  It is still running when the turns are used up.
\<close>

fun run_pubsub_listener ::
  "env \<Rightarrow> u32 \<Rightarrow> listener_turn list \<Rightarrow> gateway \<Rightarrow> u64 list \<times> bool \<times> gateway" where
  "run_pubsub_listener env failures [] g = ([], False, g)"
| "run_pubsub_listener env failures (turn # turns) g =
     (if lt_cancelled turn then ([], True, g)
      else case run_pubsub_session env (lt_session turn) g of
          (None, g1) \<Rightarrow> ([], False, g1)
        | (Some (Inr Shutdown), g1) \<Rightarrow> ([], True, g1)
        | (Some (Inr Disconnected), g1) \<Rightarrow>
            (let failures1 = 1; delay = reconnect_delay (lt_jitter turn) failures1
             in if lt_cancelled_in_sleep turn then ([delay], True, g1)
                else case run_pubsub_listener env failures1 turns g1 of
                    (ds, fin, g2) \<Rightarrow> (delay # ds, fin, g2))
        | (Some (Inl e), g1) \<Rightarrow>
            (let failures1 = saturating_add failures 1;
                 delay = reconnect_delay (lt_jitter turn) failures1
             in if lt_cancelled_in_sleep turn then ([delay], True, g1)
                else case run_pubsub_listener env failures1 turns g1 of
                    (ds, fin, g2) \<Rightarrow> (delay # ds, fin, g2)))"

section \<open>Publishing from the application state\<close>

text \<open>
  One server instance with the Redis server and the database that it shares with the others.
  A failed publication is logged and forgotten.
\<close>

record server =
  database :: world
  gate :: gateway
  redis :: redis

text \<open>A step of the server that only touches its gateway, or only Redis.\<close>

definition on_gate :: "(gateway \<Rightarrow> gateway) \<Rightarrow> server \<Rightarrow> server" where
  "on_gate f s = s\<lparr>gate := f (gate s)\<rparr>"

definition on_redis :: "(redis \<Rightarrow> redis) \<Rightarrow> server \<Rightarrow> server" where
  "on_redis f s = s\<lparr>redis := f (redis s)\<rparr>"

definition publish_channel_event :: "env \<Rightarrow> uuid \<Rightarrow> ServerEvent \<Rightarrow> server \<Rightarrow> server" where
  "publish_channel_event env channel_id event s =
     on_redis (\<lambda>r. snd (redis_publish_channel_event env channel_id event r))
       (on_gate (broadcast_to_channel channel_id event) s)"

definition publish_thread_event :: "env \<Rightarrow> uuid \<Rightarrow> ServerEvent \<Rightarrow> server \<Rightarrow> server" where
  "publish_thread_event env thread_id event s =
     on_redis (\<lambda>r. snd (redis_publish_thread_event env thread_id event r))
       (on_gate (broadcast_to_thread thread_id event) s)"

definition publish_user_event :: "env \<Rightarrow> uuid \<Rightarrow> ServerEvent \<Rightarrow> server \<Rightarrow> server" where
  "publish_user_event env user_id event s =
     on_redis (\<lambda>r. snd (redis_publish_user_event env user_id event r))
       (on_gate (broadcast_to_user user_id event) s)"

definition publish_presence_event :: "env \<Rightarrow> ServerEvent \<Rightarrow> server \<Rightarrow> server" where
  "publish_presence_event env event s =
     on_redis (\<lambda>r. snd (redis_publish_presence env event r)) (on_gate (broadcast_global event) s)"

definition set_presence_state :: "env \<Rightarrow> uuid \<Rightarrow> PresenceStatus \<Rightarrow> int \<Rightarrow> server \<Rightarrow> server" where
  "set_presence_state env user status ttl_secs =
     (case status of
        Online \<Rightarrow> on_redis (set_presence (env_show_uuid env) user ''ONLINE'' ttl_secs)
      | Offline \<Rightarrow> on_redis (clear_presence (env_show_uuid env) user))"

definition server_allow_rate_limit :: "string \<Rightarrow> int \<Rightarrow> int \<Rightarrow> server \<Rightarrow> bool \<times> server" where
  "server_allow_rate_limit key limit window_secs s =
     (case allow_rate_limit key limit window_secs (redis s) of (ok, r) \<Rightarrow> (ok, s\<lparr>redis := r\<rparr>))"

section \<open>Each connection receives an event once\<close>

lemmas hub_ok_agree =
  hub_ok_def [THEN iffD1, THEN conjunct2, THEN conjunct2, THEN conjunct2, THEN conjunct1]
  hub_ok_def [THEN iffD1, THEN conjunct2, THEN conjunct2, THEN conjunct2, THEN conjunct2]

lemma hub_ok_senders: "hub_ok h \<Longrightarrow> senders_ok h"
  by (simp add: hub_ok_def)

lemma broadcast_frame [simp]:
  "hub (broadcast_to_channel k e g) = hub g" "receiver_gone (broadcast_to_channel k e g) = receiver_gone g"
  "hub (broadcast_to_thread k e g) = hub g" "receiver_gone (broadcast_to_thread k e g) = receiver_gone g"
  "hub (broadcast_to_user k e g) = hub g" "receiver_gone (broadcast_to_user k e g) = receiver_gone g"
  by (simp_all add: broadcast_to_channel_def broadcast_to_thread_def broadcast_to_user_def split: option.splits)

lemma broadcast_to_user_once:
  assumes ok: "hub_ok (hub g)" and c: "connection (hub g) c = Some conn"
  shows "outbox (broadcast_to_user u e g) (con_sender conn) =
    outbox g (con_sender conn) @
    (if con_user_id conn = u \<and> \<not> receiver_gone g (con_sender conn) then [e] else [])"
proof -
  have "broadcast_to_user u e g = send_to_all (members (user_connections (hub g)) u) e g"
    by (simp add: broadcast_to_user_def members_def send_to_all_def split: option.splits)
  then show ?thesis
    using send_to_all_once [OF hub_ok_senders [OF ok] c, of "members (user_connections (hub g)) u" e] ok c
    by (simp add: hub_ok_def users_ok_def)
qed

lemma broadcast_global_send_to_all:
  assumes "hub_ok (hub g)"
  shows "broadcast_global e g = send_to_all (map fst (connections (hub g))) e g"
proof -
  have "\<forall>(c, conn)\<in>set cs. connection (hub g) c = Some conn \<Longrightarrow>
    fold (\<lambda>(c, conn). send_event e conn) cs g = fold (\<lambda>c. send_to_connection c e) (map fst cs) g" for cs g
    by (induction cs arbitrary: g) (auto simp: send_to_connection_def)
  moreover have "\<forall>(c, conn)\<in>set (connections (hub g)). connection (hub g) c = Some conn"
    using assms by (auto simp: hub_ok_def connection_def)
  ultimately show ?thesis
    by (simp add: broadcast_global_def send_to_all_def)
qed

lemma broadcast_global_once:
  assumes ok: "hub_ok (hub g)" and c: "connection (hub g) c = Some conn"
  shows "outbox (broadcast_global e g) (con_sender conn) =
    outbox g (con_sender conn) @ (if receiver_gone g (con_sender conn) then [] else [e])"
proof -
  have "distinct (map fst (connections (hub g)))" "c \<in> set (map fst (connections (hub g)))"
    using ok c by (auto simp: hub_ok_def connection_def dest: map_of_SomeD intro: rev_image_eqI)
  with send_to_all_once [OF hub_ok_senders [OF ok] c] show ?thesis
    by (simp add: broadcast_global_send_to_all [OF ok])
qed

end
