(* ===== verification/Ports.thy ===== *)
theory Ports
  imports Domain
begin

text \<open>
  The ports of the application layer (\<open>application/ports/\<close>): the traits through which the use
  cases reach the repositories and adapters.  A trait object is a record of its methods, over the
  type \<open>'s\<close> of the state that the implementation acts on.
\<close>

record 's GuildChannelRepository =
  gr_create_guild :: "uuid \<Rightarrow> rstring \<Rightarrow> ('s, GuildSummary) app"
  gr_list_guilds_for_user :: "uuid \<Rightarrow> ('s, GuildSummary list) app"
  gr_find_guild_for_member :: "uuid \<Rightarrow> uuid \<Rightarrow> ('s, GuildSummary option) app"
  gr_guild_exists :: "uuid \<Rightarrow> ('s, bool) app"
  gr_add_member :: "uuid \<Rightarrow> uuid \<Rightarrow> ('s, unit) app"
  gr_remove_member :: "uuid \<Rightarrow> uuid \<Rightarrow> ('s, bool) app"
  gr_is_guild_owner :: "uuid \<Rightarrow> uuid \<Rightarrow> ('s, bool) app"
  gr_create_channel :: "uuid \<Rightarrow> rstring \<Rightarrow> ('s, ChannelRecord) app"
  gr_list_channels_for_member :: "uuid \<Rightarrow> uuid \<Rightarrow> ('s, ChannelRecord list) app"
  gr_find_channel_for_member :: "uuid \<Rightarrow> uuid \<Rightarrow> ('s, ChannelRecord option) app"
  gr_create_guild_invite ::
    "uuid \<Rightarrow> uuid \<Rightarrow> rstring \<Rightarrow> time \<Rightarrow> int option \<Rightarrow> ('s, GuildInviteRecord) app"
  gr_join_guild_via_invite :: "rstring \<Rightarrow> uuid \<Rightarrow> ('s, GuildInviteJoinResult) app"

record 's MessageRepository =
  mr_create_message :: "uuid \<Rightarrow> uuid \<Rightarrow> rstring \<Rightarrow> ('s, MessageRecord) app"
  mr_list_messages :: "uuid \<Rightarrow> uuid option \<Rightarrow> int \<Rightarrow> ('s, MessageRecord list) app"
  mr_find_message_by_id :: "uuid \<Rightarrow> ('s, MessageRecord option) app"
  mr_update_message_content :: "uuid \<Rightarrow> rstring \<Rightarrow> ('s, MessageRecord option) app"
  mr_soft_delete_message :: "uuid \<Rightarrow> ('s, MessageRecord option) app"
  mr_mark_channel_read :: "uuid \<Rightarrow> uuid \<Rightarrow> uuid option \<Rightarrow> ('s, ChannelReadState) app"

record 's ChannelPermissionRepository =
  pr_resolve_channel_permissions :: "uuid \<Rightarrow> uuid \<Rightarrow> ('s, i64 option) app"

record 's ConversationRepository =
  cv_create_or_get_direct_thread :: "uuid \<Rightarrow> uuid \<Rightarrow> ('s, DirectThreadUpsertResult) app"
  cv_list_direct_threads :: "uuid \<Rightarrow> ('s, DirectThreadSummary list) app"
  cv_list_pending_direct_inbox :: "uuid \<Rightarrow> ('s, DirectThreadSummary list) app"
  cv_find_direct_thread_for_member :: "uuid \<Rightarrow> uuid \<Rightarrow> ('s, DirectThreadSummary option) app"
  cv_accept_direct_thread_request :: "uuid \<Rightarrow> uuid \<Rightarrow> ('s, DirectThreadTransition option) app"
  cv_reject_direct_thread_request :: "uuid \<Rightarrow> uuid \<Rightarrow> ('s, DirectThreadTransition option) app"
  cv_create_group_thread :: "uuid \<Rightarrow> rstring \<Rightarrow> uuid list \<Rightarrow> ('s, GroupThreadSummary) app"
  cv_list_group_threads :: "uuid \<Rightarrow> ('s, GroupThreadSummary list) app"
  cv_find_group_thread_for_member :: "uuid \<Rightarrow> uuid \<Rightarrow> ('s, GroupThreadSummary option) app"
  cv_add_group_member :: "uuid \<Rightarrow> uuid \<Rightarrow> ('s, unit) app"
  cv_remove_group_member :: "uuid \<Rightarrow> uuid \<Rightarrow> ('s, bool) app"
  cv_is_group_owner :: "uuid \<Rightarrow> uuid \<Rightarrow> ('s, bool) app"
  cv_is_thread_member :: "uuid \<Rightarrow> uuid \<Rightarrow> ('s, bool) app"
  cv_find_thread_access :: "uuid \<Rightarrow> uuid \<Rightarrow> ('s, ThreadAccessRecord option) app"
  cv_create_thread_message :: "uuid \<Rightarrow> uuid \<Rightarrow> rstring \<Rightarrow> ('s, ThreadMessageRecord) app"
  cv_list_thread_messages :: "uuid \<Rightarrow> uuid option \<Rightarrow> int \<Rightarrow> ('s, ThreadMessageRecord list) app"
  cv_find_thread_message_by_id :: "uuid \<Rightarrow> ('s, ThreadMessageRecord option) app"
  cv_update_thread_message_content :: "uuid \<Rightarrow> rstring \<Rightarrow> ('s, ThreadMessageRecord option) app"
  cv_soft_delete_thread_message :: "uuid \<Rightarrow> ('s, ThreadMessageRecord option) app"
  cv_create_group_invite ::
    "uuid \<Rightarrow> uuid \<Rightarrow> rstring \<Rightarrow> time \<Rightarrow> int option \<Rightarrow> ('s, GroupInviteRecord) app"
  cv_join_group_via_invite :: "rstring \<Rightarrow> uuid \<Rightarrow> ('s, GroupThreadSummary) app"
  cv_mark_thread_read :: "uuid \<Rightarrow> uuid \<Rightarrow> uuid option \<Rightarrow> ('s, ThreadReadState) app"

record 's FriendshipRepository =
  fp_create_friend_request :: "uuid \<Rightarrow> uuid \<Rightarrow> ('s, FriendRequestRecord) app"
  fp_accept_friend_request :: "uuid \<Rightarrow> uuid \<Rightarrow> ('s, FriendSummary option) app"
  fp_reject_friend_request :: "uuid \<Rightarrow> uuid \<Rightarrow> ('s, bool) app"
  fp_list_pending_inbox_requests :: "uuid \<Rightarrow> ('s, FriendRequestSummary list) app"
  fp_list_pending_outbox_requests :: "uuid \<Rightarrow> ('s, FriendRequestSummary list) app"
  fp_list_friends :: "uuid \<Rightarrow> ('s, FriendSummary list) app"

record 's UserRepository =
  ur_create_user :: "rstring \<Rightarrow> rstring option \<Rightarrow> rstring \<Rightarrow> ('s, UserProfile) app"
  ur_find_user_by_login_identity :: "rstring \<Rightarrow> ('s, UserRecord option) app"
  ur_find_user_profile_by_id :: "uuid \<Rightarrow> ('s, UserProfile option) app"

record 's SessionRepository =
  sn_create_session :: "SessionCreate \<Rightarrow> ('s, unit) app"
  sn_rotate_refresh_session :: "SessionRotate \<Rightarrow> ('s, uuid) app"
  sn_revoke_by_refresh_hash :: "rstring \<Rightarrow> ('s, unit) app"

text \<open>
  The cryptographic ports.  Hashing draws a salt and issuing a token reads the clock, so both may
  act on the state.
\<close>

record 's PasswordPort =
  pw_hash_password :: "rstring \<Rightarrow> ('s, rstring) app"
  pw_verify_password :: "rstring \<Rightarrow> rstring \<Rightarrow> ('s, bool) app"

record 's JwtPort =
  jwt_issue_access_token :: "uuid \<Rightarrow> ('s, rstring) app"
  jwt_verify_access_token :: "rstring \<Rightarrow> ('s, uuid) app"

record 's RefreshTokenPort =
  rt_generate_refresh_token :: "('s, rstring) app"
  rt_hash_refresh_token :: "rstring \<Rightarrow> rstring"

text \<open>
  The runtime that a use case calls directly: \<open>OffsetDateTime::now_utc()\<close> and
  \<open>Uuid::new_v4().simple().to_string()\<close>.  The text of a UUID is produced by the \<open>uuid\<close> crate.
\<close>

record 's Runtime =
  rt_now_utc :: "('s, time) app"
  rt_new_v4 :: "('s, uuid) app"
  rt_simple :: "uuid \<Rightarrow> rstring"

end
