(* ===== verification/Paging.thy ===== *)
theory Paging
  imports Domain
begin

text \<open>
  Keyset pagination, used alike for channel and for thread messages: rows are listed from the
  newest to the oldest by \<open>(created_at, id)\<close>, and a page starts right after the row that the
  cursor names.
\<close>

section \<open>Positions\<close>

text \<open>
  The pair \<open>(created_at, id)\<close> that the queries order and compare by.  A row value of SQL compares
  lexicographically, which is its linear order here.
\<close>

datatype position = Position (pos_time: time) (pos_id: uuid)

instantiation position :: linorder
begin

fun less_eq_position :: "position \<Rightarrow> position \<Rightarrow> bool" where
  "less_eq_position (Position t u) (Position t' u') \<longleftrightarrow> t < t' \<or> t = t' \<and> u \<le> u'"

fun less_position :: "position \<Rightarrow> position \<Rightarrow> bool" where
  "less_position (Position t u) (Position t' u') \<longleftrightarrow> t < t' \<or> t = t' \<and> u < u'"

instance
proof
  fix x y z :: position
  show "x < y \<longleftrightarrow> x \<le> y \<and> \<not> y \<le> x"
    by (cases x; cases y) auto
  show "x \<le> x"
    by (cases x) simp
  show "x \<le> y \<Longrightarrow> y \<le> z \<Longrightarrow> x \<le> z"
    by (cases x; cases y; cases z) auto
  show "x \<le> y \<Longrightarrow> y \<le> x \<Longrightarrow> x = y"
    by (cases x; cases y) auto
  show "x \<le> y \<or> y \<le> x"
    by (cases x; cases y) auto
qed

end

definition msg_pos :: "MessageRecord \<Rightarrow> position" where
  "msg_pos m = Position (msg_created_at m) (msg_id m)"

definition tmsg_pos :: "ThreadMessageRecord \<Rightarrow> position" where
  "tmsg_pos m = Position (tmsg_created_at m) (tmsg_id m)"

section \<open>Pages\<close>

text \<open>
  \<open>SELECT ... WHERE sel AND pos < before ORDER BY created_at DESC, id DESC LIMIT n\<close>.
\<close>

definition keyset_page ::
  "('r \<Rightarrow> 'k::linorder) \<Rightarrow> ('r \<Rightarrow> bool) \<Rightarrow> 'k option \<Rightarrow> nat \<Rightarrow> 'r list \<Rightarrow> 'r list" where
  "keyset_page pos sel before n rows =
     take n (order_desc pos
       (filter (\<lambda>r. sel r \<and> (case before of None \<Rightarrow> True | Some p \<Rightarrow> pos r < p)) rows))"

lemma order_desc_filter: "order_desc pos (filter P rows) = filter P (order_desc pos rows)"
  by (simp add: order_desc_def filter_sort [symmetric] rev_filter)

lemma set_keyset_page: "set (keyset_page pos sel before n rows) \<subseteq> {r \<in> set rows. sel r}"
  unfolding keyset_page_def using set_take_subset by fastforce

lemma length_keyset_page_le: "length (keyset_page pos sel before n rows) \<le> n"
  by (simp add: keyset_page_def)

lemma keyset_page_first: "keyset_page pos sel None n rows = take n (order_desc pos (filter sel rows))"
  by (simp add: keyset_page_def)

text \<open>In a strictly descending list the rows below a row are exactly those after it.\<close>

lemma filter_below:
  assumes "sorted_wrt (\<lambda>x y. pos y < pos x) (xs @ x # ys)"
  shows "filter (\<lambda>r. pos r < (pos x :: 'k::linorder)) (xs @ x # ys) = ys"
proof -
  have "\<forall>r\<in>set xs. \<not> pos r < pos x" and "\<forall>r\<in>set ys. pos r < pos x"
    using assms by (auto simp: sorted_wrt_append dest: order.asym)
  then show ?thesis by simp
qed

text \<open>The page after a row of the listing continues the listing where that row stands.\<close>

lemma keyset_page_after:
  assumes "order_desc pos (filter sel rows) = xs @ x # ys"
    and "inj_on pos (set rows)" and "distinct rows"
  shows "keyset_page pos sel (Some (pos x)) n rows = take n ys"
proof -
  have "sorted_wrt (\<lambda>x y. pos y < pos x) (order_desc pos (filter sel rows))"
    using assms(2,3) by (intro sorted_wrt_order_desc) (auto intro: inj_on_subset)
  with assms(1) have "filter (\<lambda>r. pos r < pos x) (xs @ x # ys) = ys"
    by (metis filter_below)
  moreover have "filter (\<lambda>r. sel r \<and> pos r < pos x) rows = filter (\<lambda>r. pos r < pos x) (filter sel rows)"
    by (simp add: conj_commute)
  ultimately have "order_desc pos (filter (\<lambda>r. sel r \<and> pos r < pos x) rows) = ys"
    using assms(1) by (simp add: order_desc_filter del: filter_filter)
  then show ?thesis by (simp add: keyset_page_def)
qed

section \<open>Reading a listing page by page\<close>

text \<open>
  The contract between a paged listing and a client that follows its cursors.  \<open>fetch\<close> returns a
  page of at most \<open>n\<close> rows and the cursor of the next one; \<open>listing\<close> is the whole listing in a
  state, and \<open>ready\<close> the condition under which a fetch succeeds.  The client reads pages until
  there is no cursor.
\<close>

fun read_all ::
  "nat \<Rightarrow> ('c option \<Rightarrow> ('s, 'e, 'r list \<times> 'c option) prog) \<Rightarrow> 'e \<Rightarrow> 'c option \<Rightarrow> ('s, 'e, 'r list) prog"
where
  "read_all 0 fetch e before = throw e"
| "read_all (Suc fuel) fetch e before =
     bnd (fetch before) (\<lambda>(page, cursor).
       case cursor of
         None \<Rightarrow> ret page
       | Some c \<Rightarrow> bnd (read_all fuel fetch e (Some c)) (\<lambda>rest. ret (page @ rest)))"

locale paged_listing =
  fixes fetch :: "'c option \<Rightarrow> ('s, 'e, 'r list \<times> 'c option) prog"
    and listing :: "'s \<Rightarrow> 'r list"
    and key :: "'r \<Rightarrow> 'c"
    and n :: nat
    and ready :: "'s \<Rightarrow> bool"
  assumes page_positive: "ready s \<Longrightarrow> 0 < n"
    and first_page: "ready s \<Longrightarrow>
      wp (fetch None) (\<lambda>(page, cursor) t. ready t \<and> listing t = listing s \<and>
          page = take n (listing s) \<and>
          cursor = (if n < length (listing s) then Some (key (last page)) else None))
        (\<lambda>_ _. False) s"
    and next_page: "ready s \<Longrightarrow> listing s = xs @ x # ys \<Longrightarrow>
      wp (fetch (Some (key x))) (\<lambda>(page, cursor) t. ready t \<and> listing t = listing s \<and>
          page = take n ys \<and>
          cursor = (if n < length ys then Some (key (last page)) else None))
        (\<lambda>_ _. False) s"
begin

lemma split_after_page:
  assumes "n < length ys" and "0 < n"
  shows "ys = butlast (take n ys) @ last (take n ys) # drop n ys"
proof -
  have "take n ys \<noteq> []" using assms by (cases ys; cases n) auto
  then have "take n ys = butlast (take n ys) @ [last (take n ys)]" by simp
  then show ?thesis by (metis append_take_drop_id append.assoc append_Cons append_Nil)
qed

lemma read_rest:
  assumes "ready s" and "listing s = xs @ x # ys" and "length ys < fuel"
  shows "wp (read_all fuel fetch e (Some (key x)))
           (\<lambda>rows t. ready t \<and> listing t = listing s \<and> rows = ys) (\<lambda>_ _. False) s"
  using assms
proof (induction fuel arbitrary: xs x ys s)
  case (Suc fuel)
  note page = next_page [OF Suc.prems(1,2)] and pos = page_positive [OF Suc.prems(1)]
  show ?case
  proof (simp, rule wp_mono [OF page], goal_cases)
    case (1 r t)
    then obtain cursor where r: "r = (take n ys, cursor)" and t: "ready t" "listing t = listing s"
      and c: "cursor = (if n < length ys then Some (key (last (take n ys))) else None)"
      by (cases r) auto
    show ?case
    proof (cases "n < length ys")
      case True
      let ?z = "last (take n ys)"
      have "listing t = (xs @ x # butlast (take n ys)) @ ?z # drop n ys"
        using t Suc.prems(2) split_after_page [OF True pos] by (metis append.assoc append_Cons)
      from Suc.IH [OF t(1) this] Suc.prems(3) pos True
      have "wp (read_all fuel fetch e (Some (key ?z)))
              (\<lambda>rows u. ready u \<and> listing u = listing t \<and> rows = drop n ys) (\<lambda>_ _. False) t"
        by simp
      then show ?thesis
        using r c True t by (auto elim!: wp_mono)
    next
      case False
      with r c t show ?thesis by simp
    qed
  qed simp
qed simp

text \<open>
  Following the cursors reads the whole listing, each row once and in order, and comes to an end
  after no more pages than there are rows and one.
\<close>

lemma read_all_complete:
  assumes "ready s" and "length (listing s) < fuel"
  shows "wp (read_all fuel fetch e None)
           (\<lambda>rows t. ready t \<and> listing t = listing s \<and> rows = listing s) (\<lambda>_ _. False) s"
proof -
  obtain fuel' where fuel: "fuel = Suc fuel'" using assms(2) by (cases fuel) auto
  note page = first_page [OF assms(1)] and pos = page_positive [OF assms(1)]
  show ?thesis
  proof (simp add: fuel, rule wp_mono [OF page], goal_cases)
    case (1 r t)
    then obtain cursor where r: "r = (take n (listing s), cursor)"
      and t: "ready t" "listing t = listing s"
      and c: "cursor = (if n < length (listing s) then Some (key (last (take n (listing s)))) else None)"
      by (cases r) auto
    show ?case
    proof (cases "n < length (listing s)")
      case True
      let ?z = "last (take n (listing s))"
      have "listing t = butlast (take n (listing s)) @ ?z # drop n (listing s)"
        using t split_after_page [OF True pos] by simp
      from read_rest [OF t(1) this] assms(2) fuel pos True
      have "wp (read_all fuel' fetch e (Some (key ?z)))
              (\<lambda>rows u. ready u \<and> listing u = listing t \<and> rows = drop n (listing s)) (\<lambda>_ _. False) t"
        by simp
      then show ?thesis
        using r c True t by (auto elim!: wp_mono)
    next
      case False
      with r c t show ?thesis by simp
    qed
  qed simp
qed

end

end
