(* ===== verification/Message_Repository.thy ===== *)
theory Message_Repository
  imports Database Ports Paging
begin

text \<open>
  \<open>SqlxMessageRepository\<close>
  (\<open>infrastructure/db/repositories/message_repository.rs\<close>): channel messages and the read
  markers of channels.
\<close>

section \<open>Statements\<close>

definition insert_message :: "uuid \<Rightarrow> uuid \<Rightarrow> uuid \<Rightarrow> rstring \<Rightarrow> MessageRecord query" where
  "insert_message mid c author content t d =
     (let row = \<lparr>msg_id = mid, msg_channel_id = c, msg_author_id = author, msg_content = content,
                 msg_created_at = t, msg_edited_at = None, msg_deleted_at = None\<rparr>
      in if mid \<in> msg_id ` set (messages d) then Inl (DatabaseError unique_violation)
         else if c \<notin> cha_id ` set (channels d) \<or> author \<notin> usr_id ` set (users d)
         then Inl (DatabaseError foreign_key_violation)
         else Inr (row, d\<lparr>messages := messages d @ [row]\<rparr>))"

text \<open>The live messages of a channel; \<open>LIMIT\<close> refuses a negative number.\<close>

definition live_in :: "uuid \<Rightarrow> MessageRecord \<Rightarrow> bool" where
  "live_in c m \<longleftrightarrow> msg_channel_id m = c \<and> msg_deleted_at m = None"

definition select_messages :: "uuid \<Rightarrow> position option \<Rightarrow> int \<Rightarrow> MessageRecord list query" where
  "select_messages c anchor limit t d =
     (if limit < 0 then Inl (DatabaseError ''2201W'')
      else Inr (keyset_page msg_pos (live_in c) anchor (nat limit) (messages d), d))"

text \<open>\<open>UPDATE messages SET ... WHERE id = $1 AND deleted_at IS NULL RETURNING ...\<close>.\<close>

definition update_live_message ::
  "uuid \<Rightarrow> (MessageRecord \<Rightarrow> MessageRecord) \<Rightarrow> db \<Rightarrow> MessageRecord option \<times> db" where
  "update_live_message mid f d =
     (let hit = (\<lambda>m. msg_id m = mid \<and> msg_deleted_at m = None)
      in (map_option f (find hit (messages d)), d\<lparr>messages := update_where hit f (messages d)\<rparr>))"

definition update_message_content_query :: "uuid \<Rightarrow> rstring \<Rightarrow> MessageRecord option query" where
  "update_message_content_query mid content t d =
     Inr (update_live_message mid (\<lambda>m. m\<lparr>msg_content := content, msg_edited_at := Some t\<rparr>) d)"

definition soft_delete_message_query :: "uuid \<Rightarrow> MessageRecord option query" where
  "soft_delete_message_query mid t d =
     Inr (update_live_message mid (\<lambda>m. m\<lparr>msg_deleted_at := Some t\<rparr>) d)"

definition upsert_channel_read :: "uuid \<Rightarrow> uuid \<Rightarrow> uuid option \<Rightarrow> ChannelReadState query" where
  "upsert_channel_read u c last_read t d =
     (let row = \<lparr>cr_user_id = u, cr_channel_id = c, cr_last_read_message_id = last_read, cr_updated_at = t\<rparr>;
          hit = (\<lambda>r. cr_user_id r = u \<and> cr_channel_id r = c)
      in if u \<notin> usr_id ` set (users d) \<or> c \<notin> cha_id ` set (channels d) \<or>
            (case last_read of None \<Rightarrow> False | Some m \<Rightarrow> m \<notin> msg_id ` set (messages d))
         then Inl (DatabaseError foreign_key_violation)
         else if \<exists>r\<in>set (channel_reads d). hit r
         then Inr (row, d\<lparr>channel_reads := update_where hit (\<lambda>_. row) (channel_reads d)\<rparr>)
         else Inr (row, d\<lparr>channel_reads := channel_reads d @ [row]\<rparr>))"

section \<open>Methods\<close>

definition repo_create_message :: "uuid \<Rightarrow> uuid \<Rightarrow> rstring \<Rightarrow> MessageRecord repo" where
  "repo_create_message c author content =
     bnd new_v4 (\<lambda>mid. sql (insert_message mid c author content))"

definition find_anchor :: "uuid \<Rightarrow> uuid option \<Rightarrow> position option repo" where
  "find_anchor c before =
     (case before of
        None \<Rightarrow> ret None
      | Some b \<Rightarrow>
          bnd (sql (select_rows (\<lambda>d. map_option msg_pos
                 (find (\<lambda>m. msg_id m = b \<and> msg_channel_id m = c) (messages d))))) (\<lambda>row.
          case row of
            Some p \<Rightarrow> ret (Some p)
          | None \<Rightarrow> throw (Validation ''invalid before cursor'')))"

definition repo_list_messages :: "uuid \<Rightarrow> uuid option \<Rightarrow> int \<Rightarrow> MessageRecord list repo" where
  "repo_list_messages c before limit =
     bnd (find_anchor c before) (\<lambda>anchor. sql (select_messages c anchor limit))"

definition repo_find_message_by_id :: "uuid \<Rightarrow> MessageRecord option repo" where
  "repo_find_message_by_id mid = sql (select_rows (\<lambda>d. find (\<lambda>m. msg_id m = mid) (messages d)))"

definition repo_update_message_content :: "uuid \<Rightarrow> rstring \<Rightarrow> MessageRecord option repo" where
  "repo_update_message_content mid content = sql (update_message_content_query mid content)"

definition repo_soft_delete_message :: "uuid \<Rightarrow> MessageRecord option repo" where
  "repo_soft_delete_message mid = sql (soft_delete_message_query mid)"

text \<open>
  Without a message id the newest live message is required, by \<open>fetch_one\<close>: a channel without
  one is a \<open>RowNotFound\<close> error.
\<close>

definition resolve_channel_last_read_message_id :: "uuid \<Rightarrow> uuid option \<Rightarrow> uuid option repo" where
  "resolve_channel_last_read_message_id c requested =
     (case requested of
        None \<Rightarrow>
          sql (select_one (\<lambda>d. case keyset_page msg_pos (live_in c) None 1 (messages d) of
                                 [] \<Rightarrow> None | m # _ \<Rightarrow> Some (Some (msg_id m))))
      | Some mid \<Rightarrow>
          bnd (sql (select_rows (\<lambda>d. map_option msg_id
                 (find (\<lambda>m. msg_id m = mid \<and> msg_channel_id m = c \<and> msg_deleted_at m = None)
                   (messages d))))) (\<lambda>valid.
          bnd (ok_or (Validation ''invalid last_read_message_id'') valid) (\<lambda>v.
          ret (Some v))))"

definition repo_mark_channel_read :: "uuid \<Rightarrow> uuid \<Rightarrow> uuid option \<Rightarrow> ChannelReadState repo" where
  "repo_mark_channel_read c u last_read =
     bnd (resolve_channel_last_read_message_id c last_read) (\<lambda>resolved.
     sql (upsert_channel_read u c resolved))"

definition sqlx_message_repository :: "world MessageRepository" where
  "sqlx_message_repository =
     \<lparr>mr_create_message = repo_create_message,
      mr_list_messages = repo_list_messages,
      mr_find_message_by_id = repo_find_message_by_id,
      mr_update_message_content = repo_update_message_content,
      mr_soft_delete_message = repo_soft_delete_message,
      mr_mark_channel_read = repo_mark_channel_read\<rparr>"

end
