(* ===== verification/Guild_Repository.thy ===== *)
theory Guild_Repository
  imports Database Ports Paging
begin

text \<open>
  \<open>SqlxGuildChannelRepository\<close>
  (\<open>infrastructure/db/repositories/guild_channel_repository.rs\<close>): guilds, memberships, roles,
  channels and guild invites, and the resolution of a member's permissions on a channel.  Each SQL
  statement is a query on the tables; each method is the program that sends them.
\<close>

section \<open>Statements\<close>

definition insert_guild :: "uuid \<Rightarrow> rstring \<Rightarrow> uuid \<Rightarrow> GuildSummary query" where
  "insert_guild gid name owner t d =
     (let row = \<lparr>guild_id = gid, guild_name = name, guild_owner_id = owner, guild_created_at = t\<rparr>
      in if gid \<in> guild_id ` set (guilds d) then Inl (DatabaseError unique_violation)
         else if owner \<notin> usr_id ` set (users d) then Inl (DatabaseError foreign_key_violation)
         else Inr (row, d\<lparr>guilds := guilds d @ [row]\<rparr>))"

definition insert_guild_member :: "uuid \<Rightarrow> uuid \<Rightarrow> unit query" where
  "insert_guild_member g u t d =
     (if (g, u) \<in> set (guild_members d) then Inl (DatabaseError unique_violation)
      else if g \<notin> guild_id ` set (guilds d) \<or> u \<notin> usr_id ` set (users d)
      then Inl (DatabaseError foreign_key_violation)
      else Inr ((), d\<lparr>guild_members := guild_members d @ [(g, u)]\<rparr>))"

text \<open>\<open>INSERT ... ON CONFLICT DO NOTHING\<close>, returning the number of rows inserted.\<close>

definition insert_guild_member_or_ignore :: "uuid \<Rightarrow> uuid \<Rightarrow> nat query" where
  "insert_guild_member_or_ignore g u t d =
     (if (g, u) \<in> set (guild_members d) then Inr (0, d)
      else if g \<notin> guild_id ` set (guilds d) \<or> u \<notin> usr_id ` set (users d)
      then Inl (DatabaseError foreign_key_violation)
      else Inr (1, d\<lparr>guild_members := guild_members d @ [(g, u)]\<rparr>))"

definition insert_default_role :: "uuid \<Rightarrow> uuid \<Rightarrow> i64 \<Rightarrow> unit query" where
  "insert_default_role rid g perms t d =
     (if rid \<in> role_id ` set (roles d) \<or>
         (\<exists>r\<in>set (roles d). role_guild_id r = g \<and> role_is_default r)
      then Inl (DatabaseError unique_violation)
      else if g \<notin> guild_id ` set (guilds d) then Inl (DatabaseError foreign_key_violation)
      else Inr ((), d\<lparr>roles := roles d @
        [\<lparr>role_id = rid, role_guild_id = g, role_permissions = perms, role_is_default = True\<rparr>]\<rparr>))"

definition insert_member_role :: "uuid \<Rightarrow> uuid \<Rightarrow> uuid \<Rightarrow> unit query" where
  "insert_member_role g u rid t d =
     (if (g, u, rid) \<in> set (member_roles d) then Inl (DatabaseError unique_violation)
      else if g \<notin> guild_id ` set (guilds d) \<or> u \<notin> usr_id ` set (users d) \<or>
              rid \<notin> role_id ` set (roles d)
      then Inl (DatabaseError foreign_key_violation)
      else Inr ((), d\<lparr>member_roles := member_roles d @ [(g, u, rid)]\<rparr>))"

definition delete_guild_member :: "uuid \<Rightarrow> uuid \<Rightarrow> nat query" where
  "delete_guild_member g u t d =
     Inr (length (filter (\<lambda>m. m = (g, u)) (guild_members d)),
          d\<lparr>guild_members := filter (\<lambda>m. m \<noteq> (g, u)) (guild_members d)\<rparr>)"

definition delete_member_roles :: "uuid \<Rightarrow> uuid \<Rightarrow> unit query" where
  "delete_member_roles g u t d =
     Inr ((), d\<lparr>member_roles := filter (\<lambda>(g', u', r). \<not> (g' = g \<and> u' = u)) (member_roles d)\<rparr>)"

definition max_position :: "uuid \<Rightarrow> db \<Rightarrow> int" where
  "max_position g d =
     (let ps = map cha_position (filter (\<lambda>c. cha_guild_id c = g) (channels d))
      in if ps = [] then -1 else Max (set ps))"

definition select_next_position :: "uuid \<Rightarrow> int query" where
  "select_next_position g t d =
     (let n = max_position g d + 1
      in if int4_ok n then Inr (n, d) else Inl (DatabaseError numeric_out_of_range))"

definition channel_record :: "channel_row \<Rightarrow> bool \<Rightarrow> ChannelRecord" where
  "channel_record c unread =
     \<lparr>chan_id = cha_id c, chan_guild_id = cha_guild_id c, chan_name = cha_name c,
      chan_type = cha_type c, chan_position = cha_position c,
      chan_created_at = cha_created_at c, chan_has_unread = unread\<rparr>"

definition insert_channel :: "uuid \<Rightarrow> uuid \<Rightarrow> rstring \<Rightarrow> int \<Rightarrow> ChannelRecord query" where
  "insert_channel cid g name pos t d =
     (let row = \<lparr>cha_id = cid, cha_guild_id = g, cha_name = name, cha_type = ''TEXT'',
                 cha_position = pos, cha_created_at = t\<rparr>
      in if cid \<in> cha_id ` set (channels d) \<or>
            (\<exists>c\<in>set (channels d). cha_guild_id c = g \<and> cha_name c = name)
         then Inl (DatabaseError unique_violation)
         else if g \<notin> guild_id ` set (guilds d) then Inl (DatabaseError foreign_key_violation)
         else Inr (channel_record row False, d\<lparr>channels := channels d @ [row]\<rparr>))"

text \<open>
  The \<open>has_unread\<close> column: a live message of the channel after the one that the user's read
  marker names, or any live message when there is no marker.  Row values compare
  lexicographically; a marker whose message is gone compares as minus infinity.
\<close>

definition channel_has_unread :: "db \<Rightarrow> uuid \<Rightarrow> uuid \<Rightarrow> bool" where
  "channel_has_unread d u c =
     (let marker = Option.bind
            (find (\<lambda>r. cr_channel_id r = c \<and> cr_user_id r = u) (channel_reads d))
            cr_last_read_message_id;
          seen = Option.bind marker (\<lambda>m. find (\<lambda>x. msg_id x = m) (messages d))
      in \<exists>m\<in>set (messages d). msg_channel_id m = c \<and> msg_deleted_at m = None \<and>
           (case marker of
              None \<Rightarrow> True
            | Some _ \<Rightarrow>
                (case seen of
                   None \<Rightarrow> True
                 | Some r \<Rightarrow> msg_pos r < msg_pos m)))"

definition insert_guild_invite ::
  "rstring \<Rightarrow> uuid \<Rightarrow> uuid \<Rightarrow> time \<Rightarrow> int option \<Rightarrow> GuildInviteRecord option query" where
  "insert_guild_invite token g by exp max_uses t d =
     (if (g, by) \<notin> set (guild_members d) then Inr (None, d)
      else if \<not> (case max_uses of None \<Rightarrow> True | Some m \<Rightarrow> 0 < m)
      then Inl (DatabaseError check_violation)
      else if token \<in> gir_token ` set (guild_invites d) then Inl (DatabaseError unique_violation)
      else if g \<notin> guild_id ` set (guilds d) \<or> by \<notin> usr_id ` set (users d)
      then Inl (DatabaseError foreign_key_violation)
      else Inr (Some \<lparr>gi_token = token, gi_guild_id = g, gi_created_by = by, gi_expires_at = exp,
                      gi_max_uses = max_uses, gi_uses_count = 0, gi_created_at = t\<rparr>,
                d\<lparr>guild_invites := guild_invites d @
                   [\<lparr>gir_token = token, gir_guild_id = g, gir_created_by = by,
                     gir_expires_at = exp, gir_max_uses = max_uses, gir_uses_count = 0,
                     gir_revoked_at = None, gir_created_at = t\<rparr>]\<rparr>))"

record JoinGuildInviteRow =
  jg_guild :: GuildSummary
  jg_expires_at :: time
  jg_max_uses :: "int option"
  jg_uses_count :: int
  jg_revoked_at :: "time option"

definition select_guild_invite :: "rstring \<Rightarrow> db \<Rightarrow> JoinGuildInviteRow option" where
  "select_guild_invite token d =
     Option.bind (find (\<lambda>i. gir_token i = token) (guild_invites d))
       (\<lambda>i. map_option
          (\<lambda>g. \<lparr>jg_guild = g, jg_expires_at = gir_expires_at i, jg_max_uses = gir_max_uses i,
                jg_uses_count = gir_uses_count i, jg_revoked_at = gir_revoked_at i\<rparr>)
          (find (\<lambda>g. guild_id g = gir_guild_id i) (guilds d)))"

text \<open>
  \<open>SET uses_count = uses_count + 1\<close>, under the column's width and the table's checks
  \<open>uses_count >= 0\<close> and \<open>max_uses IS NULL OR uses_count <= max_uses\<close>.
\<close>

definition bump_guild_invite :: "rstring \<Rightarrow> unit query" where
  "bump_guild_invite token t d =
     (if \<exists>i\<in>set (guild_invites d). gir_token i = token \<and> \<not> int4_ok (gir_uses_count i + 1)
      then Inl (DatabaseError numeric_out_of_range)
      else if \<exists>i\<in>set (guild_invites d). gir_token i = token \<and>
           (case gir_max_uses i of None \<Rightarrow> False | Some m \<Rightarrow> m < gir_uses_count i + 1)
      then Inl (DatabaseError check_violation)
      else Inr ((), d\<lparr>guild_invites :=
             update_where (\<lambda>i. gir_token i = token) (\<lambda>i. i\<lparr>gir_uses_count := gir_uses_count i + 1\<rparr>)
               (guild_invites d)\<rparr>))"

section \<open>Methods\<close>

definition create_default_role :: "uuid \<Rightarrow> uuid repo" where
  "create_default_role g =
     bnd new_v4 (\<lambda>rid.
     bnd (sql (insert_default_role rid g (VIEW_CHANNEL OR SEND_MESSAGES))) (\<lambda>_.
     ret rid))"

definition default_role_id :: "uuid \<Rightarrow> uuid repo" where
  "default_role_id g =
     sql (select_one (\<lambda>d. map_option role_id
       (find (\<lambda>r. role_guild_id r = g \<and> role_is_default r) (roles d))))"

definition attach_default_role_to_member :: "uuid \<Rightarrow> uuid \<Rightarrow> uuid \<Rightarrow> unit repo" where
  "attach_default_role_to_member g u rid = sql (insert_member_role g u rid)"

definition repo_create_guild :: "uuid \<Rightarrow> rstring \<Rightarrow> GuildSummary repo" where
  "repo_create_guild owner name = transaction (
     bnd new_v4 (\<lambda>gid.
     bnd (sql (insert_guild gid name owner)) (\<lambda>guild.
     bnd (sql (insert_guild_member (guild_id guild) owner)) (\<lambda>_.
     bnd (create_default_role (guild_id guild)) (\<lambda>rid.
     bnd (attach_default_role_to_member (guild_id guild) owner rid) (\<lambda>_.
     commit guild))))))"

definition repo_list_guilds_for_user :: "uuid \<Rightarrow> GuildSummary list repo" where
  "repo_list_guilds_for_user u =
     sql (select_rows (\<lambda>d. sort_key guild_created_at
       (filter (\<lambda>g. (guild_id g, u) \<in> set (guild_members d)) (guilds d))))"

definition repo_find_guild_for_member :: "uuid \<Rightarrow> uuid \<Rightarrow> GuildSummary option repo" where
  "repo_find_guild_for_member g u =
     sql (select_rows (\<lambda>d.
       find (\<lambda>x. guild_id x = g \<and> (guild_id x, u) \<in> set (guild_members d)) (guilds d)))"

definition repo_guild_exists :: "uuid \<Rightarrow> bool repo" where
  "repo_guild_exists g = sql (select_rows (\<lambda>d. g \<in> guild_id ` set (guilds d)))"

definition add_member_error :: error_map where
  "add_member_error text e =
     (if is_unique_violation e then Conflict ''user is already a guild member''
      else from_sqlx text e)"

definition repo_add_member :: "uuid \<Rightarrow> uuid \<Rightarrow> unit repo" where
  "repo_add_member g u = transaction (
     bnd (run_sql add_member_error (insert_guild_member g u)) (\<lambda>_.
     bnd (default_role_id g) (\<lambda>rid.
     bnd (attach_default_role_to_member g u rid) (\<lambda>_.
     commit ()))))"

text \<open>The two deletions are separate statements, not a transaction.\<close>

definition repo_remove_member :: "uuid \<Rightarrow> uuid \<Rightarrow> bool repo" where
  "repo_remove_member g u =
     bnd (sql (delete_guild_member g u)) (\<lambda>rows.
     bnd (sql (delete_member_roles g u)) (\<lambda>_.
     ret (0 < rows)))"

definition repo_is_guild_owner :: "uuid \<Rightarrow> uuid \<Rightarrow> bool repo" where
  "repo_is_guild_owner g u =
     sql (select_rows (\<lambda>d. \<exists>x\<in>set (guilds d). guild_id x = g \<and> guild_owner_id x = u))"

definition next_channel_position :: "uuid \<Rightarrow> int repo" where
  "next_channel_position g = sql (select_next_position g)"

definition create_channel_error :: error_map where
  "create_channel_error text e =
     (if is_unique_violation e then Conflict ''channel name already exists in this guild''
      else from_sqlx text e)"

definition repo_create_channel :: "uuid \<Rightarrow> rstring \<Rightarrow> ChannelRecord repo" where
  "repo_create_channel g name = transaction (
     bnd (next_channel_position g) (\<lambda>pos.
     bnd new_v4 (\<lambda>cid.
     bnd (run_sql create_channel_error (insert_channel cid g name pos)) (\<lambda>channel.
     commit channel))))"

definition repo_list_channels_for_member :: "uuid \<Rightarrow> uuid \<Rightarrow> ChannelRecord list repo" where
  "repo_list_channels_for_member g u =
     sql (select_rows (\<lambda>d.
       map (\<lambda>c. channel_record c (channel_has_unread d u (cha_id c)))
         (sort_key (\<lambda>c. (cha_position c, cha_created_at c))
           (filter (\<lambda>c. cha_guild_id c = g \<and> (cha_guild_id c, u) \<in> set (guild_members d))
             (channels d)))))"

definition repo_find_channel_for_member :: "uuid \<Rightarrow> uuid \<Rightarrow> ChannelRecord option repo" where
  "repo_find_channel_for_member cid u =
     sql (select_rows (\<lambda>d.
       map_option (\<lambda>c. channel_record c (channel_has_unread d u (cha_id c)))
         (find (\<lambda>c. cha_id c = cid \<and> (cha_guild_id c, u) \<in> set (guild_members d))
           (channels d))))"

definition repo_create_guild_invite ::
  "uuid \<Rightarrow> uuid \<Rightarrow> rstring \<Rightarrow> time \<Rightarrow> int option \<Rightarrow> GuildInviteRecord repo" where
  "repo_create_guild_invite g by token exp max_uses =
     bnd (sql (insert_guild_invite token g by exp max_uses)) (\<lambda>invite.
     ok_or (NotFound ''guild not found'') invite)"

definition repo_join_guild_via_invite :: "rstring \<Rightarrow> uuid \<Rightarrow> GuildInviteJoinResult repo" where
  "repo_join_guild_via_invite token u = transaction (
     bnd (sql (select_rows (select_guild_invite token))) (\<lambda>row.
     bnd (ok_or (NotFound ''invite not found'') row) (\<lambda>invite.
     bnd (fail_if (jg_revoked_at invite \<noteq> None) (NotFound ''invite not found'')) (\<lambda>_.
     let guild = jg_guild invite in
     bnd (sql (select_rows (\<lambda>d. (guild_id guild, u) \<in> set (guild_members d)))) (\<lambda>already_member.
     if already_member then commit \<lparr>join_guild = guild, join_joined = False\<rparr>
     else
       bnd now_utc (\<lambda>now.
       bnd (fail_if (jg_expires_at invite < now) (Validation ''invite token is expired'')) (\<lambda>_.
       bnd (fail_if (case jg_max_uses invite of None \<Rightarrow> False
                     | Some m \<Rightarrow> m \<le> jg_uses_count invite)
              (Validation ''invite token usage limit exceeded'')) (\<lambda>_.
       bnd (sql (insert_guild_member_or_ignore (guild_id guild) u)) (\<lambda>inserted.
       if 0 < inserted then
         bnd (default_role_id (guild_id guild)) (\<lambda>rid.
         bnd (attach_default_role_to_member (guild_id guild) u rid) (\<lambda>_.
         bnd (sql (bump_guild_invite token)) (\<lambda>_.
         commit \<lparr>join_guild = guild, join_joined = True\<rparr>)))
       else commit \<lparr>join_guild = guild, join_joined = False\<rparr>)))))))))"

definition sqlx_guild_repository :: "world GuildChannelRepository" where
  "sqlx_guild_repository =
     \<lparr>gr_create_guild = repo_create_guild,
      gr_list_guilds_for_user = repo_list_guilds_for_user,
      gr_find_guild_for_member = repo_find_guild_for_member,
      gr_guild_exists = repo_guild_exists,
      gr_add_member = repo_add_member,
      gr_remove_member = repo_remove_member,
      gr_is_guild_owner = repo_is_guild_owner,
      gr_create_channel = repo_create_channel,
      gr_list_channels_for_member = repo_list_channels_for_member,
      gr_find_channel_for_member = repo_find_channel_for_member,
      gr_create_guild_invite = repo_create_guild_invite,
      gr_join_guild_via_invite = repo_join_guild_via_invite\<rparr>"

section \<open>Permissions\<close>

definition bit_or :: "i64 list \<Rightarrow> i64" where
  "bit_or ms = foldr (OR) ms 0"

definition base_permissions :: "uuid \<Rightarrow> uuid \<Rightarrow> db \<Rightarrow> i64" where
  "base_permissions g u d =
     bit_or [role_permissions r. (g', u', rid) \<leftarrow> member_roles d, g' = g \<and> u' = u,
                                 r \<leftarrow> roles d, role_id r = rid]"

definition role_overrides :: "(override_row \<Rightarrow> i64) \<Rightarrow> uuid \<Rightarrow> uuid \<Rightarrow> uuid \<Rightarrow> db \<Rightarrow> i64" where
  "role_overrides part g u c d =
     bit_or [part ov. ov \<leftarrow> channel_overrides d, ov_channel_id ov = c \<and> ov_target_type ov = ''ROLE'',
                      (g', u', rid) \<leftarrow> member_roles d, rid = ov_target_id ov \<and> g' = g \<and> u' = u]"

definition member_overrides :: "(override_row \<Rightarrow> i64) \<Rightarrow> uuid \<Rightarrow> uuid \<Rightarrow> db \<Rightarrow> i64" where
  "member_overrides part u c d =
     bit_or [part ov. ov \<leftarrow> channel_overrides d,
                      ov_channel_id ov = c \<and> ov_target_type ov = ''MEMBER'' \<and> ov_target_id ov = u]"

definition repo_resolve_channel_permissions :: "uuid \<Rightarrow> uuid \<Rightarrow> i64 option repo" where
  "repo_resolve_channel_permissions u c =
     bnd (sql (select_rows (\<lambda>d. map_option cha_guild_id
       (find (\<lambda>x. cha_id x = c \<and> (cha_guild_id x, u) \<in> set (guild_members d)) (channels d))))) (\<lambda>guild.
     case guild of
       None \<Rightarrow> ret None
     | Some g \<Rightarrow>
         bnd (sql (select_rows (base_permissions g u))) (\<lambda>base.
         bnd (sql (select_rows (role_overrides ov_deny g u c))) (\<lambda>role_deny.
         bnd (sql (select_rows (role_overrides ov_allow g u c))) (\<lambda>role_allow.
         bnd (sql (select_rows (member_overrides ov_deny u c))) (\<lambda>member_deny.
         bnd (sql (select_rows (member_overrides ov_allow u c))) (\<lambda>member_allow.
         let role_adjusted = (base AND NOT role_deny) OR role_allow;
             member_adjusted = (role_adjusted AND NOT member_deny) OR member_allow
         in ret (Some member_adjusted)))))))"

definition sqlx_permission_repository :: "world ChannelPermissionRepository" where
  "sqlx_permission_repository =
     \<lparr>pr_resolve_channel_permissions = repo_resolve_channel_permissions\<rparr>"

end
