(* ===== verification/Message_Service.thy ===== *)
theory Message_Service
  imports Message_Repository Guild_Repository
begin

text \<open>
  \<open>MessageUseCase\<close> (\<open>application/use_cases/message.rs\<close>): validation, permission checks and
  ownership checks in front of a message repository and a permission resolver.
\<close>

definition DEFAULT_PAGE_LIMIT :: int where "DEFAULT_PAGE_LIMIT = 50"
definition MAX_PAGE_LIMIT :: int where "MAX_PAGE_LIMIT = 100"

record 's MessageUseCase =
  message_repo :: "'s MessageRepository"
  permission_repo :: "'s ChannelPermissionRepository"

record CreateMessageCommand =
  cm_user_id :: uuid
  cm_channel_id :: uuid
  cm_content :: rstring

record ListMessagesQuery =
  lm_user_id :: uuid
  lm_channel_id :: uuid
  lm_before :: "uuid option"
  lm_limit :: "int option"

record MessagePage =
  mp_messages :: "MessageRecord list"
  mp_next_cursor :: "uuid option"

record EditMessageCommand =
  em_user_id :: uuid
  em_message_id :: uuid
  em_content :: rstring

record DeleteMessageCommand =
  dm_user_id :: uuid
  dm_message_id :: uuid

record MarkChannelReadCommand =
  mk_user_id :: uuid
  mk_channel_id :: uuid
  mk_last_read_message_id :: "uuid option"

definition validate_message_content :: "rstring \<Rightarrow> unit AppResult" where
  "validate_message_content content =
     (let trimmed = trim content
      in if trimmed = [] then Inl (Validation ''message content is required'')
         else if 4000 < byte_len trimmed
         then Inl (Validation ''message content must be at most 4000 characters'')
         else Inr ())"

definition normalize_limit :: "int option \<Rightarrow> int AppResult" where
  "normalize_limit limit =
     (let l = (case limit of None \<Rightarrow> DEFAULT_PAGE_LIMIT | Some l \<Rightarrow> l)
      in if l \<le> 0 then Inl (Validation ''limit must be positive'')
         else if MAX_PAGE_LIMIT < l then Inr MAX_PAGE_LIMIT
         else Inr l)"

definition require_channel_permissions ::
  "'s MessageUseCase \<Rightarrow> uuid \<Rightarrow> uuid \<Rightarrow> ('s, PermissionBits) app" where
  "require_channel_permissions uc user_id channel_id =
     bnd (pr_resolve_channel_permissions (permission_repo uc) user_id channel_id) (\<lambda>r.
     bnd (ok_or (NotFound ''channel not found'') r) (\<lambda>bits.
     ret (PermissionBits bits)))"

definition create_message :: "'s MessageUseCase \<Rightarrow> CreateMessageCommand \<Rightarrow> ('s, MessageRecord) app" where
  "create_message uc cmd =
     bnd (from_result (validate_message_content (cm_content cmd))) (\<lambda>_.
     bnd (require_channel_permissions uc (cm_user_id cmd) (cm_channel_id cmd)) (\<lambda>permissions.
     bnd (fail_if (\<not> has permissions SEND_MESSAGES)
            (Forbidden ''missing SEND_MESSAGES permission'')) (\<lambda>_.
     mr_create_message (message_repo uc) (cm_channel_id cmd) (cm_user_id cmd)
       (trim (cm_content cmd)))))"

definition list_messages :: "'s MessageUseCase \<Rightarrow> ListMessagesQuery \<Rightarrow> ('s, MessagePage) app" where
  "list_messages uc query =
     bnd (require_channel_permissions uc (lm_user_id query) (lm_channel_id query)) (\<lambda>permissions.
     bnd (fail_if (\<not> has permissions VIEW_CHANNEL)
            (Forbidden ''missing VIEW_CHANNEL permission'')) (\<lambda>_.
     bnd (from_result (normalize_limit (lm_limit query))) (\<lambda>limit.
     let fetch_limit = limit + 1 in
     bnd (mr_list_messages (message_repo uc) (lm_channel_id query) (lm_before query) fetch_limit)
       (\<lambda>messages.
       let has_more = limit < int (length messages);
           messages = (if has_more then take (nat limit) messages else messages);
           next_cursor = (if has_more
                          then (if messages = [] then None else Some (msg_id (last messages)))
                          else None)
       in ret \<lparr>mp_messages = messages, mp_next_cursor = next_cursor\<rparr>))))"

definition edit_message :: "'s MessageUseCase \<Rightarrow> EditMessageCommand \<Rightarrow> ('s, MessageRecord) app" where
  "edit_message uc cmd =
     bnd (from_result (validate_message_content (em_content cmd))) (\<lambda>_.
     bnd (mr_find_message_by_id (message_repo uc) (em_message_id cmd)) (\<lambda>found.
     bnd (ok_or (NotFound ''message not found'') found) (\<lambda>existing.
     bnd (fail_if (msg_deleted_at existing \<noteq> None) (NotFound ''message not found'')) (\<lambda>_.
     bnd (require_channel_permissions uc (em_user_id cmd) (msg_channel_id existing)) (\<lambda>permissions.
     bnd (fail_if (\<not> has permissions SEND_MESSAGES)
            (Forbidden ''missing SEND_MESSAGES permission'')) (\<lambda>_.
     bnd (fail_if (msg_author_id existing \<noteq> em_user_id cmd)
            (Forbidden ''only message author can edit message'')) (\<lambda>_.
     bnd (mr_update_message_content (message_repo uc) (em_message_id cmd) (trim (em_content cmd)))
       (\<lambda>updated.
     ok_or (NotFound ''message not found'') updated))))))))"

definition delete_message :: "'s MessageUseCase \<Rightarrow> DeleteMessageCommand \<Rightarrow> ('s, MessageDeleted) app" where
  "delete_message uc cmd =
     bnd (mr_find_message_by_id (message_repo uc) (dm_message_id cmd)) (\<lambda>found.
     bnd (ok_or (NotFound ''message not found'') found) (\<lambda>existing.
     bnd (fail_if (msg_deleted_at existing \<noteq> None) (NotFound ''message not found'')) (\<lambda>_.
     bnd (require_channel_permissions uc (dm_user_id cmd) (msg_channel_id existing)) (\<lambda>permissions.
     bnd (fail_if (\<not> has permissions SEND_MESSAGES)
            (Forbidden ''missing SEND_MESSAGES permission'')) (\<lambda>_.
     bnd (fail_if (msg_author_id existing \<noteq> dm_user_id cmd)
            (Forbidden ''only message author can delete message'')) (\<lambda>_.
     bnd (mr_soft_delete_message (message_repo uc) (dm_message_id cmd)) (\<lambda>r.
     bnd (ok_or (NotFound ''message not found'') r) (\<lambda>deleted.
     bnd (ok_or (Internal ''deleted_at is missing after soft delete'') (msg_deleted_at deleted)) (\<lambda>at.
     ret \<lparr>md_channel_id = msg_channel_id deleted, md_message_id = msg_id deleted,
          md_deleted_at = at\<rparr>)))))))))"

definition channel_permissions :: "'s MessageUseCase \<Rightarrow> uuid \<Rightarrow> uuid \<Rightarrow> ('s, PermissionBits) app" where
  "channel_permissions uc user_id channel_id = require_channel_permissions uc user_id channel_id"

definition mark_channel_read ::
  "'s MessageUseCase \<Rightarrow> MarkChannelReadCommand \<Rightarrow> ('s, ChannelReadState) app" where
  "mark_channel_read uc cmd =
     bnd (require_channel_permissions uc (mk_user_id cmd) (mk_channel_id cmd)) (\<lambda>permissions.
     bnd (fail_if (\<not> has permissions VIEW_CHANNEL)
            (Forbidden ''missing VIEW_CHANNEL permission'')) (\<lambda>_.
     mr_mark_channel_read (message_repo uc) (mk_channel_id cmd) (mk_user_id cmd)
       (mk_last_read_message_id cmd)))"

definition message_use_case :: "world MessageUseCase" where
  "message_use_case =
     \<lparr>message_repo = sqlx_message_repository, permission_repo = sqlx_permission_repository\<rparr>"

end
