(* ===== verification/Conversation_Repository.thy ===== *)
theory Conversation_Repository
  imports Database Ports Paging
begin

text \<open>
  \<open>SqlxConversationRepository\<close>
  (\<open>infrastructure/db/repositories/conversation_repository.rs\<close>): direct threads and their
  request states, group threads, thread messages, group invites and thread read markers.
\<close>

section \<open>Errors and pairs\<close>

definition map_thread_fk_as_not_found :: error_map where
  "map_thread_fk_as_not_found text e =
     (if e = DatabaseError foreign_key_violation then NotFound ''referenced user or thread not found''
      else from_sqlx text e)"

definition sort_thread_pair :: "uuid \<Rightarrow> uuid \<Rightarrow> uuid \<times> uuid" where
  "sort_thread_pair a b = (if a < b then (a, b) else (b, a))"

section \<open>Direct threads: statements\<close>

definition are_friends :: "uuid \<Rightarrow> uuid \<Rightarrow> db \<Rightarrow> bool" where
  "are_friends a b d \<longleftrightarrow> (\<exists>f\<in>set (friends d). frd_user_id_a f = a \<and> frd_user_id_b f = b)"

definition is_direct :: "uuid \<Rightarrow> uuid \<Rightarrow> thread_row \<Rightarrow> bool" where
  "is_direct a b t \<longleftrightarrow> th_kind t = ''DIRECT'' \<and>
     th_direct_a_user_id t = Some a \<and> th_direct_b_user_id t = Some b"

text \<open>
  \<open>INSERT INTO threads ... ON CONFLICT (kind, direct_a_user_id, direct_b_user_id) DO NOTHING
  RETURNING id\<close>: no row when the pair has a thread.
\<close>

definition insert_direct_thread ::
  "uuid \<Rightarrow> uuid \<Rightarrow> uuid \<Rightarrow> string \<Rightarrow> uuid option \<Rightarrow> time option \<Rightarrow> uuid option query" where
  "insert_direct_thread tid a b status requested_by accepted_at t d =
     (let row = \<lparr>th_id = tid, th_kind = ''DIRECT'', th_name = None, th_owner_id = None,
                 th_direct_a_user_id = Some a, th_direct_b_user_id = Some b,
                 th_direct_status = status, th_requested_by = requested_by,
                 th_accepted_at = accepted_at, th_created_at = t\<rparr>
      in if status \<notin> {''PENDING'', ''ACTIVE''} \<or> requested_by \<notin> {None, Some a, Some b}
         then Inl (DatabaseError check_violation)
         else if \<exists>r\<in>set (threads d). is_direct a b r then Inr (None, d)
         else if tid \<in> th_id ` set (threads d) then Inl (DatabaseError unique_violation)
         else if a \<notin> usr_id ` set (users d) \<or> b \<notin> usr_id ` set (users d)
         then Inl (DatabaseError foreign_key_violation)
         else Inr (Some tid, d\<lparr>threads := threads d @ [row]\<rparr>))"

text \<open>
  \<open>INSERT INTO thread_members ... ON CONFLICT DO NOTHING\<close> of a list of users, returning the
  number of rows inserted.
\<close>

definition insert_members_or_ignore :: "uuid \<Rightarrow> uuid list \<Rightarrow> nat query" where
  "insert_members_or_ignore tid us t d =
     (let new = filter (\<lambda>u. (tid, u) \<notin> set (thread_members d)) (remdups us)
      in if new \<noteq> [] \<and> (tid \<notin> th_id ` set (threads d) \<or> \<not> set new \<subseteq> usr_id ` set (users d))
         then Inl (DatabaseError foreign_key_violation)
         else Inr (length new, d\<lparr>thread_members := thread_members d @ map (Pair tid) new\<rparr>))"

text \<open>The \<open>has_unread\<close> column of a thread, as for channels.\<close>

definition thread_has_unread :: "db \<Rightarrow> uuid \<Rightarrow> uuid \<Rightarrow> bool" where
  "thread_has_unread d u tid =
     (let marker = Option.bind
            (find (\<lambda>r. trd_thread_id r = tid \<and> trd_user_id r = u) (thread_reads d))
            trd_last_read_message_id;
          seen = Option.bind marker (\<lambda>m. find (\<lambda>x. tmsg_id x = m) (thread_messages d))
      in \<exists>m\<in>set (thread_messages d). tmsg_thread_id m = tid \<and> tmsg_deleted_at m = None \<and>
           (case marker of
              None \<Rightarrow> True
            | Some _ \<Rightarrow> (case seen of None \<Rightarrow> True | Some r \<Rightarrow> tmsg_pos r < tmsg_pos m)))"

text \<open>The summary of a direct thread for a viewer, by an inner join with the peer's account.\<close>

definition peer_of :: "uuid \<Rightarrow> thread_row \<Rightarrow> uuid option" where
  "peer_of u t = (if th_direct_a_user_id t = Some u then th_direct_b_user_id t
                  else th_direct_a_user_id t)"

definition direct_summary :: "db \<Rightarrow> uuid \<Rightarrow> thread_row \<Rightarrow> DirectThreadSummary option" where
  "direct_summary d u t =
     Option.bind (peer_of u t) (\<lambda>peer.
       map_option
         (\<lambda>p. \<lparr>dt_id = th_id t, dt_peer_user_id = peer, dt_peer_username = usr_username p,
               dt_status = th_direct_status t, dt_requested_by = th_requested_by t,
               dt_accepted_at = th_accepted_at t, dt_created_at = th_created_at t,
               dt_has_unread = thread_has_unread d u (th_id t)\<rparr>)
         (find (\<lambda>p. usr_id p = peer) (users d)))"

definition direct_rows :: "(thread_row \<Rightarrow> bool) \<Rightarrow> uuid \<Rightarrow> db \<Rightarrow> DirectThreadSummary list" where
  "direct_rows sel u d =
     List.map_filter (direct_summary d u)
       (order_desc th_created_at
         (filter (\<lambda>t. th_kind t = ''DIRECT'' \<and> (th_id t, u) \<in> set (thread_members d) \<and> sel t)
           (threads d)))"

record DirectThreadStateRow =
  ds_id :: uuid
  ds_direct_status :: string
  ds_requested_by :: "uuid option"

definition select_direct_thread_state :: "uuid \<Rightarrow> uuid \<Rightarrow> db \<Rightarrow> DirectThreadStateRow option" where
  "select_direct_thread_state tid u d =
     map_option (\<lambda>t. \<lparr>ds_id = th_id t, ds_direct_status = th_direct_status t,
                      ds_requested_by = th_requested_by t\<rparr>)
       (find (\<lambda>t. th_id t = tid \<and> th_kind t = ''DIRECT'' \<and> (th_id t, u) \<in> set (thread_members d))
         (threads d))"

definition activate_thread :: "uuid \<Rightarrow> time query" where
  "activate_thread tid t d =
     (if \<exists>r\<in>set (threads d). th_id r = tid
      then Inr (t, d\<lparr>threads := update_where (\<lambda>r. th_id r = tid)
                      (\<lambda>r. r\<lparr>th_direct_status := ''ACTIVE'', th_accepted_at := Some t\<rparr>) (threads d)\<rparr>)
      else Inl RowNotFound)"

text \<open>
  Deleting a thread cascades to its members, messages, read markers and invites; a marker elsewhere
  that names one of its messages is set to null.
\<close>

definition delete_thread :: "uuid \<Rightarrow> unit query" where
  "delete_thread tid t d =
     (let gone = tmsg_id ` set (filter (\<lambda>m. tmsg_thread_id m = tid) (thread_messages d))
      in Inr ((), d\<lparr>threads := filter (\<lambda>r. th_id r \<noteq> tid) (threads d),
        thread_members := filter (\<lambda>(th, u). th \<noteq> tid) (thread_members d),
        thread_messages := filter (\<lambda>m. tmsg_thread_id m \<noteq> tid) (thread_messages d),
        thread_reads := map (\<lambda>r. if trd_last_read_message_id r \<in> Some ` gone
                                 then r\<lparr>trd_last_read_message_id := None\<rparr> else r)
          (filter (\<lambda>r. trd_thread_id r \<noteq> tid) (thread_reads d)),
        group_invites := filter (\<lambda>i. gv_thread_id i \<noteq> tid) (group_invites d)\<rparr>))"

section \<open>Direct threads: methods\<close>

definition ensure_direct_membership :: "uuid \<Rightarrow> uuid \<Rightarrow> uuid \<Rightarrow> unit repo" where
  "ensure_direct_membership tid a b =
     bnd (sql (insert_members_or_ignore tid [a, b])) (\<lambda>_. ret ())"

definition direct_summary_for_member :: "uuid \<Rightarrow> uuid \<Rightarrow> DirectThreadSummary repo" where
  "direct_summary_for_member tid u =
     sql (select_one (\<lambda>d. Option.bind
       (find (\<lambda>t. th_id t = tid \<and> th_kind t = ''DIRECT'') (threads d)) (direct_summary d u)))"

definition repo_create_or_get_direct_thread :: "uuid \<Rightarrow> uuid \<Rightarrow> DirectThreadUpsertResult repo" where
  "repo_create_or_get_direct_thread user_id peer_user_id =
     (case sort_thread_pair user_id peer_user_id of (a, b) \<Rightarrow> transaction (
        bnd (sql (select_rows (are_friends a b))) (\<lambda>friends.
        let desired_status = (if friends then ''ACTIVE'' else ''PENDING'');
            requested_by = (if friends then None else Some user_id) in
        bnd now_utc (\<lambda>now.
        let accepted_at = (if friends then Some now else None) in
        bnd new_v4 (\<lambda>fresh.
        bnd (run_sql map_thread_fk_as_not_found
               (insert_direct_thread fresh a b desired_status requested_by accepted_at)) (\<lambda>created.
        bnd (case created of
               Some tid \<Rightarrow> ret tid
             | None \<Rightarrow> sql (select_one (\<lambda>d. map_option th_id (find (is_direct a b) (threads d)))))
          (\<lambda>tid.
        bnd (ensure_direct_membership tid a b) (\<lambda>_.
        bnd (direct_summary_for_member tid user_id) (\<lambda>summary.
        commit \<lparr>up_thread = summary, up_created = (created \<noteq> None)\<rparr>))))))) ))"

definition repo_list_direct_threads :: "uuid \<Rightarrow> DirectThreadSummary list repo" where
  "repo_list_direct_threads u = sql (select_rows (direct_rows (\<lambda>_. True) u))"

definition repo_list_pending_direct_inbox :: "uuid \<Rightarrow> DirectThreadSummary list repo" where
  "repo_list_pending_direct_inbox u =
     sql (select_rows (direct_rows (\<lambda>t. th_direct_status t = ''PENDING'' \<and>
       th_requested_by t \<noteq> None \<and> th_requested_by t \<noteq> Some u) u))"

definition repo_find_direct_thread_for_member :: "uuid \<Rightarrow> uuid \<Rightarrow> DirectThreadSummary option repo" where
  "repo_find_direct_thread_for_member tid u =
     sql (select_rows (\<lambda>d. Option.bind
       (find (\<lambda>t. th_kind t = ''DIRECT'' \<and> th_id t = tid \<and> (th_id t, u) \<in> set (thread_members d))
         (threads d)) (direct_summary d u)))"

definition lock_direct_thread_for_member :: "uuid \<Rightarrow> uuid \<Rightarrow> DirectThreadStateRow option repo" where
  "lock_direct_thread_for_member tid u = sql (select_rows (select_direct_thread_state tid u))"

definition repo_accept_direct_thread_request :: "uuid \<Rightarrow> uuid \<Rightarrow> DirectThreadTransition option repo" where
  "repo_accept_direct_thread_request tid receiver = transaction (
     bnd (lock_direct_thread_for_member tid receiver) (\<lambda>row.
     case row of
       None \<Rightarrow> dropped None
     | Some thread \<Rightarrow>
         bnd (fail_if (ds_direct_status thread \<noteq> ''PENDING'')
                (Validation ''direct thread is already active'')) (\<lambda>_.
         bnd (ok_or (Internal ''pending direct thread missing requester'') (ds_requested_by thread))
           (\<lambda>requester.
         bnd (fail_if (requester = receiver)
                (Validation ''requester cannot accept own direct thread'')) (\<lambda>_.
         bnd (sql (activate_thread (ds_id thread))) (\<lambda>accepted_at.
         commit (Some \<lparr>tr_thread_id = tid, tr_requester_user_id = requester,
                       tr_receiver_user_id = receiver, tr_accepted_at = Some accepted_at\<rparr>)))))))"

definition repo_reject_direct_thread_request :: "uuid \<Rightarrow> uuid \<Rightarrow> DirectThreadTransition option repo" where
  "repo_reject_direct_thread_request tid receiver = transaction (
     bnd (lock_direct_thread_for_member tid receiver) (\<lambda>row.
     case row of
       None \<Rightarrow> dropped None
     | Some thread \<Rightarrow>
         bnd (fail_if (ds_direct_status thread \<noteq> ''PENDING'')
                (Validation ''only pending direct thread can be rejected'')) (\<lambda>_.
         bnd (ok_or (Internal ''pending direct thread missing requester'') (ds_requested_by thread))
           (\<lambda>requester.
         bnd (fail_if (requester = receiver)
                (Validation ''requester cannot reject own direct thread'')) (\<lambda>_.
         bnd (sql (delete_thread (ds_id thread))) (\<lambda>_.
         commit (Some \<lparr>tr_thread_id = tid, tr_requester_user_id = requester,
                       tr_receiver_user_id = receiver, tr_accepted_at = None\<rparr>)))))))"

section \<open>Group threads\<close>

definition is_group :: "uuid \<Rightarrow> db \<Rightarrow> bool" where
  "is_group tid d \<longleftrightarrow> (\<exists>t\<in>set (threads d). th_id t = tid \<and> th_kind t = ''GROUP'')"

definition insert_group_thread :: "uuid \<Rightarrow> rstring \<Rightarrow> uuid \<Rightarrow> GroupThreadSummary query" where
  "insert_group_thread tid name owner t d =
     (let row = \<lparr>th_id = tid, th_kind = ''GROUP'', th_name = Some name, th_owner_id = Some owner,
                 th_direct_a_user_id = None, th_direct_b_user_id = None,
                 th_direct_status = ''ACTIVE'', th_requested_by = None,
                 th_accepted_at = None, th_created_at = t\<rparr>
      in if tid \<in> th_id ` set (threads d) then Inl (DatabaseError unique_violation)
         else if owner \<notin> usr_id ` set (users d) then Inl (DatabaseError foreign_key_violation)
         else Inr (\<lparr>grp_id = tid, grp_name = name, grp_owner_id = owner, grp_created_at = t,
                    grp_has_unread = False\<rparr>, d\<lparr>threads := threads d @ [row]\<rparr>))"

definition repo_create_group_thread :: "uuid \<Rightarrow> rstring \<Rightarrow> uuid list \<Rightarrow> GroupThreadSummary repo" where
  "repo_create_group_thread owner name member_ids = transaction (
     bnd new_v4 (\<lambda>fresh.
     bnd (run_sql map_thread_fk_as_not_found (insert_group_thread fresh name owner)) (\<lambda>group.
     bnd (sql (insert_members_or_ignore (grp_id group) [owner])) (\<lambda>_.
     bnd (if member_ids \<noteq> []
          then bnd (run_sql map_thread_fk_as_not_found
                      (insert_members_or_ignore (grp_id group) member_ids)) (\<lambda>_. ret ())
          else ret ()) (\<lambda>_.
     commit group)))))"

definition group_summary :: "db \<Rightarrow> uuid \<Rightarrow> thread_row \<Rightarrow> GroupThreadSummary option" where
  "group_summary d u t =
     Option.bind (th_name t) (\<lambda>name. map_option
       (\<lambda>owner. \<lparr>grp_id = th_id t, grp_name = name, grp_owner_id = owner,
                 grp_created_at = th_created_at t,
                 grp_has_unread = thread_has_unread d u (th_id t)\<rparr>)
       (th_owner_id t))"

definition repo_list_group_threads :: "uuid \<Rightarrow> GroupThreadSummary list repo" where
  "repo_list_group_threads u =
     sql (select_rows (\<lambda>d. List.map_filter (group_summary d u)
       (order_desc th_created_at
         (filter (\<lambda>t. th_kind t = ''GROUP'' \<and> (th_id t, u) \<in> set (thread_members d)) (threads d)))))"

definition repo_find_group_thread_for_member :: "uuid \<Rightarrow> uuid \<Rightarrow> GroupThreadSummary option repo" where
  "repo_find_group_thread_for_member tid u =
     sql (select_rows (\<lambda>d. Option.bind
       (find (\<lambda>t. th_kind t = ''GROUP'' \<and> th_id t = tid \<and> (th_id t, u) \<in> set (thread_members d))
         (threads d)) (group_summary d u)))"

definition insert_thread_member :: "uuid \<Rightarrow> uuid \<Rightarrow> unit query" where
  "insert_thread_member tid u t d =
     (if (tid, u) \<in> set (thread_members d) then Inl (DatabaseError unique_violation)
      else if tid \<notin> th_id ` set (threads d) \<or> u \<notin> usr_id ` set (users d)
      then Inl (DatabaseError foreign_key_violation)
      else Inr ((), d\<lparr>thread_members := thread_members d @ [(tid, u)]\<rparr>))"

definition add_group_member_error :: error_map where
  "add_group_member_error text e =
     (if is_unique_violation e then Conflict ''user is already a group member''
      else map_thread_fk_as_not_found text e)"

definition repo_add_group_member :: "uuid \<Rightarrow> uuid \<Rightarrow> unit repo" where
  "repo_add_group_member tid u =
     bnd (sql (select_rows (is_group tid))) (\<lambda>group.
     bnd (fail_if (\<not> group) (NotFound ''group thread not found'')) (\<lambda>_.
     run_sql add_group_member_error (insert_thread_member tid u)))"

definition delete_group_member :: "uuid \<Rightarrow> uuid \<Rightarrow> nat query" where
  "delete_group_member tid u t d =
     (let hit = (\<lambda>m. is_group tid d \<and> m = (tid, u))
      in Inr (length (filter hit (thread_members d)),
              d\<lparr>thread_members := filter (\<lambda>m. \<not> hit m) (thread_members d)\<rparr>))"

definition repo_remove_group_member :: "uuid \<Rightarrow> uuid \<Rightarrow> bool repo" where
  "repo_remove_group_member tid u =
     bnd (sql (delete_group_member tid u)) (\<lambda>rows. ret (0 < rows))"

definition repo_is_group_owner :: "uuid \<Rightarrow> uuid \<Rightarrow> bool repo" where
  "repo_is_group_owner tid u =
     sql (select_rows (\<lambda>d. \<exists>t\<in>set (threads d).
       th_id t = tid \<and> th_kind t = ''GROUP'' \<and> th_owner_id t = Some u))"

definition repo_is_thread_member :: "uuid \<Rightarrow> uuid \<Rightarrow> bool repo" where
  "repo_is_thread_member tid u = sql (select_rows (\<lambda>d. (tid, u) \<in> set (thread_members d)))"

definition repo_find_thread_access :: "uuid \<Rightarrow> uuid \<Rightarrow> ThreadAccessRecord option repo" where
  "repo_find_thread_access tid u =
     sql (select_rows (\<lambda>d. map_option
       (\<lambda>t. \<lparr>ta_thread_id = th_id t, ta_kind = th_kind t, ta_direct_status = th_direct_status t,
             ta_requested_by = th_requested_by t\<rparr>)
       (find (\<lambda>t. th_id t = tid \<and> (th_id t, u) \<in> set (thread_members d)) (threads d))))"

section \<open>Thread messages\<close>

definition insert_thread_message :: "uuid \<Rightarrow> uuid \<Rightarrow> uuid \<Rightarrow> rstring \<Rightarrow> ThreadMessageRecord query" where
  "insert_thread_message mid tid author content t d =
     (let row = \<lparr>tmsg_id = mid, tmsg_thread_id = tid, tmsg_author_id = author, tmsg_content = content,
                 tmsg_created_at = t, tmsg_edited_at = None, tmsg_deleted_at = None\<rparr>
      in if mid \<in> tmsg_id ` set (thread_messages d) then Inl (DatabaseError unique_violation)
         else if tid \<notin> th_id ` set (threads d) \<or> author \<notin> usr_id ` set (users d)
         then Inl (DatabaseError foreign_key_violation)
         else Inr (row, d\<lparr>thread_messages := thread_messages d @ [row]\<rparr>))"

definition repo_create_thread_message :: "uuid \<Rightarrow> uuid \<Rightarrow> rstring \<Rightarrow> ThreadMessageRecord repo" where
  "repo_create_thread_message tid author content =
     bnd new_v4 (\<lambda>mid.
     run_sql map_thread_fk_as_not_found (insert_thread_message mid tid author content))"

definition live_in_thread :: "uuid \<Rightarrow> ThreadMessageRecord \<Rightarrow> bool" where
  "live_in_thread tid m \<longleftrightarrow> tmsg_thread_id m = tid \<and> tmsg_deleted_at m = None"

definition select_thread_messages :: "uuid \<Rightarrow> position option \<Rightarrow> int \<Rightarrow> ThreadMessageRecord list query" where
  "select_thread_messages tid anchor limit t d =
     (if limit < 0 then Inl (DatabaseError ''2201W'')
      else Inr (keyset_page tmsg_pos (live_in_thread tid) anchor (nat limit) (thread_messages d), d))"

definition find_thread_anchor :: "uuid \<Rightarrow> uuid option \<Rightarrow> position option repo" where
  "find_thread_anchor tid before =
     (case before of
        None \<Rightarrow> ret None
      | Some b \<Rightarrow>
          bnd (sql (select_rows (\<lambda>d. map_option tmsg_pos
                 (find (\<lambda>m. tmsg_id m = b \<and> tmsg_thread_id m = tid) (thread_messages d))))) (\<lambda>row.
          case row of
            Some p \<Rightarrow> ret (Some p)
          | None \<Rightarrow> throw (Validation ''invalid before cursor'')))"

definition repo_list_thread_messages :: "uuid \<Rightarrow> uuid option \<Rightarrow> int \<Rightarrow> ThreadMessageRecord list repo" where
  "repo_list_thread_messages tid before limit =
     bnd (find_thread_anchor tid before) (\<lambda>anchor. sql (select_thread_messages tid anchor limit))"

definition repo_find_thread_message_by_id :: "uuid \<Rightarrow> ThreadMessageRecord option repo" where
  "repo_find_thread_message_by_id mid =
     sql (select_rows (\<lambda>d. find (\<lambda>m. tmsg_id m = mid) (thread_messages d)))"

definition update_live_thread_message ::
  "uuid \<Rightarrow> (ThreadMessageRecord \<Rightarrow> ThreadMessageRecord) \<Rightarrow> db \<Rightarrow> ThreadMessageRecord option \<times> db" where
  "update_live_thread_message mid f d =
     (let hit = (\<lambda>m. tmsg_id m = mid \<and> tmsg_deleted_at m = None)
      in (map_option f (find hit (thread_messages d)),
          d\<lparr>thread_messages := update_where hit f (thread_messages d)\<rparr>))"

definition update_thread_message_query :: "uuid \<Rightarrow> rstring \<Rightarrow> ThreadMessageRecord option query" where
  "update_thread_message_query mid content t d =
     Inr (update_live_thread_message mid
       (\<lambda>m. m\<lparr>tmsg_content := content, tmsg_edited_at := Some t\<rparr>) d)"

definition soft_delete_thread_message_query :: "uuid \<Rightarrow> ThreadMessageRecord option query" where
  "soft_delete_thread_message_query mid t d =
     Inr (update_live_thread_message mid (\<lambda>m. m\<lparr>tmsg_deleted_at := Some t\<rparr>) d)"

definition repo_update_thread_message_content :: "uuid \<Rightarrow> rstring \<Rightarrow> ThreadMessageRecord option repo" where
  "repo_update_thread_message_content mid content = sql (update_thread_message_query mid content)"

definition repo_soft_delete_thread_message :: "uuid \<Rightarrow> ThreadMessageRecord option repo" where
  "repo_soft_delete_thread_message mid = sql (soft_delete_thread_message_query mid)"

section \<open>Group invites\<close>

definition insert_group_invite ::
  "rstring \<Rightarrow> uuid \<Rightarrow> uuid \<Rightarrow> time \<Rightarrow> int option \<Rightarrow> GroupInviteRecord option query" where
  "insert_group_invite token tid by exp max_uses t d =
     (if \<not> is_group tid d then Inr (None, d)
      else if \<not> (case max_uses of None \<Rightarrow> True | Some m \<Rightarrow> 0 < m)
      then Inl (DatabaseError check_violation)
      else if token \<in> gv_token ` set (group_invites d) then Inl (DatabaseError unique_violation)
      else if tid \<notin> th_id ` set (threads d) \<or> by \<notin> usr_id ` set (users d)
      then Inl (DatabaseError foreign_key_violation)
      else Inr (Some \<lparr>ginv_token = token, ginv_thread_id = tid, ginv_created_by = by,
                      ginv_expires_at = exp, ginv_max_uses = max_uses, ginv_used_count = 0,
                      ginv_created_at = t\<rparr>,
                d\<lparr>group_invites := group_invites d @
                   [\<lparr>gv_token = token, gv_thread_id = tid, gv_created_by = by, gv_expires_at = exp,
                     gv_max_uses = max_uses, gv_used_count = 0, gv_revoked_at = None,
                     gv_created_at = t\<rparr>]\<rparr>))"

definition repo_create_group_invite ::
  "uuid \<Rightarrow> uuid \<Rightarrow> rstring \<Rightarrow> time \<Rightarrow> int option \<Rightarrow> GroupInviteRecord repo" where
  "repo_create_group_invite tid by token exp max_uses =
     bnd (run_sql map_thread_fk_as_not_found (insert_group_invite token tid by exp max_uses)) (\<lambda>invite.
     ok_or (NotFound ''group thread not found'') invite)"

record JoinInviteRow =
  ji_thread_id :: uuid
  ji_name :: rstring
  ji_owner_id :: uuid
  ji_thread_created_at :: time
  ji_expires_at :: time
  ji_max_uses :: "int option"
  ji_used_count :: int
  ji_revoked_at :: "time option"

definition select_group_invite :: "rstring \<Rightarrow> db \<Rightarrow> JoinInviteRow option" where
  "select_group_invite token d =
     Option.bind (find (\<lambda>i. gv_token i = token) (group_invites d)) (\<lambda>i.
     Option.bind (find (\<lambda>t. th_id t = gv_thread_id i \<and> th_kind t = ''GROUP'') (threads d)) (\<lambda>t.
     Option.bind (th_name t) (\<lambda>name. map_option
       (\<lambda>owner. \<lparr>ji_thread_id = th_id t, ji_name = name, ji_owner_id = owner,
                 ji_thread_created_at = th_created_at t, ji_expires_at = gv_expires_at i,
                 ji_max_uses = gv_max_uses i, ji_used_count = gv_used_count i,
                 ji_revoked_at = gv_revoked_at i\<rparr>)
       (th_owner_id t))))"

definition bump_group_invite :: "rstring \<Rightarrow> unit query" where
  "bump_group_invite token t d =
     (if \<exists>i\<in>set (group_invites d). gv_token i = token \<and> \<not> int4_ok (gv_used_count i + 1)
      then Inl (DatabaseError numeric_out_of_range)
      else Inr ((), d\<lparr>group_invites :=
             update_where (\<lambda>i. gv_token i = token) (\<lambda>i. i\<lparr>gv_used_count := gv_used_count i + 1\<rparr>)
               (group_invites d)\<rparr>))"

definition repo_join_group_via_invite :: "rstring \<Rightarrow> uuid \<Rightarrow> GroupThreadSummary repo" where
  "repo_join_group_via_invite token u = transaction (
     bnd (sql (select_rows (select_group_invite token))) (\<lambda>row.
     bnd (ok_or (NotFound ''invite not found'') row) (\<lambda>invite.
     bnd (fail_if (ji_revoked_at invite \<noteq> None) (NotFound ''invite not found'')) (\<lambda>_.
     bnd now_utc (\<lambda>now.
     bnd (fail_if (ji_expires_at invite < now) (Validation ''invite token is expired'')) (\<lambda>_.
     bnd (fail_if (case ji_max_uses invite of None \<Rightarrow> False | Some m \<Rightarrow> m \<le> ji_used_count invite)
            (Validation ''invite token usage limit exceeded'')) (\<lambda>_.
     bnd (run_sql map_thread_fk_as_not_found
            (insert_members_or_ignore (ji_thread_id invite) [u])) (\<lambda>inserted.
     bnd (if 0 < inserted then sql (bump_group_invite token) else ret ()) (\<lambda>_.
     commit \<lparr>grp_id = ji_thread_id invite, grp_name = ji_name invite,
             grp_owner_id = ji_owner_id invite, grp_created_at = ji_thread_created_at invite,
             grp_has_unread = False\<rparr>)))))))))"

section \<open>Read markers\<close>

definition resolve_thread_last_read_message_id :: "uuid \<Rightarrow> uuid option \<Rightarrow> uuid option repo" where
  "resolve_thread_last_read_message_id tid requested =
     (case requested of
        None \<Rightarrow>
          sql (select_one (\<lambda>d. case keyset_page tmsg_pos (live_in_thread tid) None 1 (thread_messages d) of
                                 [] \<Rightarrow> None | m # _ \<Rightarrow> Some (Some (tmsg_id m))))
      | Some mid \<Rightarrow>
          bnd (sql (select_rows (\<lambda>d. map_option tmsg_id
                 (find (\<lambda>m. tmsg_id m = mid \<and> tmsg_thread_id m = tid \<and> tmsg_deleted_at m = None)
                   (thread_messages d))))) (\<lambda>valid.
          bnd (ok_or (Validation ''invalid last_read_message_id'') valid) (\<lambda>v.
          ret (Some v))))"

definition upsert_thread_read :: "uuid \<Rightarrow> uuid \<Rightarrow> uuid option \<Rightarrow> ThreadReadState query" where
  "upsert_thread_read u tid last_read t d =
     (let row = \<lparr>trd_user_id = u, trd_thread_id = tid, trd_last_read_message_id = last_read,
                 trd_updated_at = t\<rparr>;
          hit = (\<lambda>r. trd_user_id r = u \<and> trd_thread_id r = tid)
      in if u \<notin> usr_id ` set (users d) \<or> tid \<notin> th_id ` set (threads d) \<or>
            (case last_read of None \<Rightarrow> False | Some m \<Rightarrow> m \<notin> tmsg_id ` set (thread_messages d))
         then Inl (DatabaseError foreign_key_violation)
         else if \<exists>r\<in>set (thread_reads d). hit r
         then Inr (row, d\<lparr>thread_reads := update_where hit (\<lambda>_. row) (thread_reads d)\<rparr>)
         else Inr (row, d\<lparr>thread_reads := thread_reads d @ [row]\<rparr>))"

definition repo_mark_thread_read :: "uuid \<Rightarrow> uuid \<Rightarrow> uuid option \<Rightarrow> ThreadReadState repo" where
  "repo_mark_thread_read tid u last_read =
     bnd (resolve_thread_last_read_message_id tid last_read) (\<lambda>resolved.
     sql (upsert_thread_read u tid resolved))"

definition sqlx_conversation_repository :: "world ConversationRepository" where
  "sqlx_conversation_repository =
     \<lparr>cv_create_or_get_direct_thread = repo_create_or_get_direct_thread,
      cv_list_direct_threads = repo_list_direct_threads,
      cv_list_pending_direct_inbox = repo_list_pending_direct_inbox,
      cv_find_direct_thread_for_member = repo_find_direct_thread_for_member,
      cv_accept_direct_thread_request = repo_accept_direct_thread_request,
      cv_reject_direct_thread_request = repo_reject_direct_thread_request,
      cv_create_group_thread = repo_create_group_thread,
      cv_list_group_threads = repo_list_group_threads,
      cv_find_group_thread_for_member = repo_find_group_thread_for_member,
      cv_add_group_member = repo_add_group_member,
      cv_remove_group_member = repo_remove_group_member,
      cv_is_group_owner = repo_is_group_owner,
      cv_is_thread_member = repo_is_thread_member,
      cv_find_thread_access = repo_find_thread_access,
      cv_create_thread_message = repo_create_thread_message,
      cv_list_thread_messages = repo_list_thread_messages,
      cv_find_thread_message_by_id = repo_find_thread_message_by_id,
      cv_update_thread_message_content = repo_update_thread_message_content,
      cv_soft_delete_thread_message = repo_soft_delete_thread_message,
      cv_create_group_invite = repo_create_group_invite,
      cv_join_group_via_invite = repo_join_group_via_invite,
      cv_mark_thread_read = repo_mark_thread_read\<rparr>"

end
