(* ===== verification/Guild_Service.thy ===== *)
theory Guild_Service
  imports Guild_Repository
begin

text \<open>
  \<open>GuildChannelUseCase\<close> (\<open>application/use_cases/guild_channel.rs\<close>): validation and
  authorisation in front of a guild repository.  The use case holds its repository, and reaches the
  clock and the UUID source through the runtime.
\<close>

definition DEFAULT_INVITE_EXPIRES_SECS :: u64 where
  "DEFAULT_INVITE_EXPIRES_SECS = 7 * 24 * 60 * 60"

definition MAX_INVITE_EXPIRES_SECS :: u64 where
  "MAX_INVITE_EXPIRES_SECS = 30 * 24 * 60 * 60"

record 's GuildChannelUseCase =
  guild_repo :: "'s GuildChannelRepository"
  guild_runtime :: "'s Runtime"

record CreateGuildCommand =
  cg_user_id :: uuid
  cg_name :: rstring

record JoinGuildCommand =
  jn_user_id :: uuid
  jn_guild_id :: uuid

record LeaveGuildCommand =
  lg_user_id :: uuid
  lg_guild_id :: uuid

record CreateChannelCommand =
  cc_user_id :: uuid
  cc_guild_id :: uuid
  cc_name :: rstring

record CreateGuildInviteCommand =
  cgi_actor_user_id :: uuid
  cgi_guild_id :: uuid
  cgi_expires_in_seconds :: "u64 option"
  cgi_max_uses :: "int option"

record JoinGuildInviteCommand =
  jgi_user_id :: uuid
  jgi_token :: rstring

definition validate_name :: "string \<Rightarrow> rstring \<Rightarrow> nat \<Rightarrow> nat \<Rightarrow> unit AppResult" where
  "validate_name field_name value mn mx =
     (let trimmed = trim value
      in if byte_len trimmed < mn
         then Inl (Validation (field_name @ '' must be at least '' @ show_nat mn @ '' characters''))
         else if mx < byte_len trimmed
         then Inl (Validation (field_name @ '' must be at most '' @ show_nat mx @ '' characters''))
         else Inr ())"

definition validate_max_uses :: "int option \<Rightarrow> unit AppResult" where
  "validate_max_uses max_uses =
     (case max_uses of
        Some value \<Rightarrow> if value \<le> 0 then Inl (Validation ''max_uses must be positive'') else Inr ()
      | None \<Rightarrow> Inr ())"

definition normalize_invite_expiry :: "u64 option \<Rightarrow> u64" where
  "normalize_invite_expiry expires_in_seconds =
     (let secs = (case expires_in_seconds of None \<Rightarrow> DEFAULT_INVITE_EXPIRES_SECS | Some s \<Rightarrow> s)
      in max 60 (min MAX_INVITE_EXPIRES_SECS secs))"

definition create_guild :: "'s GuildChannelUseCase \<Rightarrow> CreateGuildCommand \<Rightarrow> ('s, GuildSummary) app" where
  "create_guild uc cmd =
     bnd (from_result (validate_name ''guild name'' (cg_name cmd) 2 80)) (\<lambda>_.
     gr_create_guild (guild_repo uc) (cg_user_id cmd) (trim (cg_name cmd)))"

definition list_guilds :: "'s GuildChannelUseCase \<Rightarrow> uuid \<Rightarrow> ('s, GuildSummary list) app" where
  "list_guilds uc user_id = gr_list_guilds_for_user (guild_repo uc) user_id"

definition get_guild :: "'s GuildChannelUseCase \<Rightarrow> uuid \<Rightarrow> uuid \<Rightarrow> ('s, GuildSummary) app" where
  "get_guild uc guild user_id =
     bnd (gr_find_guild_for_member (guild_repo uc) guild user_id) (\<lambda>r.
     ok_or (NotFound ''guild not found'') r)"

definition join_guild_by_id :: "'s GuildChannelUseCase \<Rightarrow> JoinGuildCommand \<Rightarrow> ('s, unit) app" where
  "join_guild_by_id uc cmd =
     bnd (gr_guild_exists (guild_repo uc) (jn_guild_id cmd)) (\<lambda>exists.
     bnd (fail_if (\<not> exists) (NotFound ''guild not found'')) (\<lambda>_.
     gr_add_member (guild_repo uc) (jn_guild_id cmd) (jn_user_id cmd)))"

definition leave_guild :: "'s GuildChannelUseCase \<Rightarrow> LeaveGuildCommand \<Rightarrow> ('s, unit) app" where
  "leave_guild uc cmd =
     bnd (gr_is_guild_owner (guild_repo uc) (lg_guild_id cmd) (lg_user_id cmd)) (\<lambda>owner.
     bnd (fail_if owner (Validation ''guild owner cannot leave their own guild'')) (\<lambda>_.
     bnd (gr_remove_member (guild_repo uc) (lg_guild_id cmd) (lg_user_id cmd)) (\<lambda>removed.
     bnd (fail_if (\<not> removed) (NotFound ''guild membership not found'')) (\<lambda>_.
     ret ()))))"

definition create_channel :: "'s GuildChannelUseCase \<Rightarrow> CreateChannelCommand \<Rightarrow> ('s, ChannelRecord) app" where
  "create_channel uc cmd =
     bnd (from_result (validate_name ''channel name'' (cc_name cmd) 1 80)) (\<lambda>_.
     bnd (get_guild uc (cc_guild_id cmd) (cc_user_id cmd)) (\<lambda>_.
     gr_create_channel (guild_repo uc) (cc_guild_id cmd) (trim (cc_name cmd))))"

definition list_channels :: "'s GuildChannelUseCase \<Rightarrow> uuid \<Rightarrow> uuid \<Rightarrow> ('s, ChannelRecord list) app" where
  "list_channels uc guild user_id =
     bnd (get_guild uc guild user_id) (\<lambda>_.
     gr_list_channels_for_member (guild_repo uc) guild user_id)"

definition get_channel :: "'s GuildChannelUseCase \<Rightarrow> uuid \<Rightarrow> uuid \<Rightarrow> ('s, ChannelRecord) app" where
  "get_channel uc channel user_id =
     bnd (gr_find_channel_for_member (guild_repo uc) channel user_id) (\<lambda>r.
     ok_or (NotFound ''channel not found'') r)"

definition create_guild_invite ::
  "'s GuildChannelUseCase \<Rightarrow> CreateGuildInviteCommand \<Rightarrow> ('s, GuildInviteRecord) app" where
  "create_guild_invite uc cmd =
     bnd (get_guild uc (cgi_guild_id cmd) (cgi_actor_user_id cmd)) (\<lambda>_.
     bnd (from_result (validate_max_uses (cgi_max_uses cmd))) (\<lambda>_.
     let expires_in = normalize_invite_expiry (cgi_expires_in_seconds cmd) in
     bnd (rt_now_utc (guild_runtime uc)) (\<lambda>now.
     let expires_at = now + seconds (sint expires_in) in
     bnd (rt_new_v4 (guild_runtime uc)) (\<lambda>fresh.
     let token = rt_simple (guild_runtime uc) fresh in
     gr_create_guild_invite (guild_repo uc) (cgi_guild_id cmd) (cgi_actor_user_id cmd)
       token expires_at (cgi_max_uses cmd)))))"

definition join_guild_invite ::
  "'s GuildChannelUseCase \<Rightarrow> JoinGuildInviteCommand \<Rightarrow> ('s, GuildInviteJoinResult) app" where
  "join_guild_invite uc cmd =
     (let token = trim (jgi_token cmd) in
      bnd (fail_if (token = []) (Validation ''invite token is required'')) (\<lambda>_.
      gr_join_guild_via_invite (guild_repo uc) token (jgi_user_id cmd)))"

text \<open>The use case as the program builds it: over the SQL repository and the real runtime.\<close>

definition sqlx_runtime :: "(uuid \<Rightarrow> rstring) \<Rightarrow> world Runtime" where
  "sqlx_runtime simple = \<lparr>rt_now_utc = now_utc, rt_new_v4 = new_v4, rt_simple = simple\<rparr>"

definition guild_use_case :: "(uuid \<Rightarrow> rstring) \<Rightarrow> world GuildChannelUseCase" where
  "guild_use_case simple =
     \<lparr>guild_repo = sqlx_guild_repository, guild_runtime = sqlx_runtime simple\<rparr>"

end
