(* ===== verification/Conversation_Service.thy ===== *)
theory Conversation_Service
  imports Conversation_Repository Guild_Service
begin

text \<open>
  \<open>ConversationUseCase\<close> (\<open>application/use_cases/conversation.rs\<close>): direct threads, group
  threads, their messages, invites and read markers, in front of a conversation repository.  The
  Rust module has its own copies of the validators and constants of the message and guild use
  cases; so has this theory, with the lemmas that the copies agree.
\<close>

definition CV_DEFAULT_PAGE_LIMIT :: int where "CV_DEFAULT_PAGE_LIMIT = 50"
definition CV_MAX_PAGE_LIMIT :: int where "CV_MAX_PAGE_LIMIT = 100"
definition CV_DEFAULT_INVITE_EXPIRES_SECS :: u64 where "CV_DEFAULT_INVITE_EXPIRES_SECS = 7 * 24 * 60 * 60"
definition CV_MAX_INVITE_EXPIRES_SECS :: u64 where "CV_MAX_INVITE_EXPIRES_SECS = 30 * 24 * 60 * 60"

record 's ConversationUseCase =
  conv_repo :: "'s ConversationRepository"
  conv_runtime :: "'s Runtime"

datatype DirectInboxFilter = All | Pending

record CreateDirectThreadCommand =
  cd_user_id :: uuid
  cd_peer_user_id :: uuid

record AcceptDirectThreadCommand =
  ad_user_id :: uuid
  ad_thread_id :: uuid

record RejectDirectThreadCommand =
  rd_user_id :: uuid
  rd_thread_id :: uuid

record CreateGroupThreadCommand =
  cgt_owner_id :: uuid
  cgt_name :: rstring
  cgt_member_user_ids :: "uuid list"

record AddGroupMemberCommand =
  ag_actor_user_id :: uuid
  ag_thread_id :: uuid
  ag_user_id :: uuid

record LeaveGroupCommand =
  lgr_user_id :: uuid
  lgr_thread_id :: uuid

record CreateGroupInviteCommand =
  cgv_actor_user_id :: uuid
  cgv_thread_id :: uuid
  cgv_expires_in_seconds :: "u64 option"
  cgv_max_uses :: "int option"

record JoinGroupInviteCommand =
  jgv_user_id :: uuid
  jgv_token :: rstring

record CreateThreadMessageCommand =
  ctm_user_id :: uuid
  ctm_thread_id :: uuid
  ctm_content :: rstring

record ListThreadMessagesQuery =
  ltm_user_id :: uuid
  ltm_thread_id :: uuid
  ltm_before :: "uuid option"
  ltm_limit :: "int option"

record ThreadMessagePage =
  tmp_messages :: "ThreadMessageRecord list"
  tmp_next_cursor :: "uuid option"

record EditThreadMessageCommand =
  etm_user_id :: uuid
  etm_message_id :: uuid
  etm_content :: rstring

record DeleteThreadMessageCommand =
  dtm_user_id :: uuid
  dtm_message_id :: uuid

record MarkThreadReadCommand =
  mt_user_id :: uuid
  mt_thread_id :: uuid
  mt_last_read_message_id :: "uuid option"

section \<open>Validators\<close>

definition validate_group_name :: "rstring \<Rightarrow> unit AppResult" where
  "validate_group_name name =
     (let value = trim name
      in if byte_len value < 2 then Inl (Validation ''group name must be at least 2 characters'')
         else if 80 < byte_len value
         then Inl (Validation ''group name must be at most 80 characters'')
         else Inr ())"

text \<open>A \<open>BTreeSet\<close> iterates in ascending order without duplicates.\<close>

definition normalize_member_ids :: "uuid \<Rightarrow> uuid list \<Rightarrow> uuid list AppResult" where
  "normalize_member_ids owner_id member_user_ids =
     (let normalized = sort (remdups (filter (\<lambda>m. m \<noteq> owner_id) member_user_ids))
      in if normalized = [] then Inr []
         else if 30 < length normalized
         then Inl (Validation ''group member count must be at most 30'')
         else Inr normalized)"

definition cv_validate_message_content :: "rstring \<Rightarrow> unit AppResult" where
  "cv_validate_message_content content =
     (let trimmed = trim content
      in if trimmed = [] then Inl (Validation ''message content is required'')
         else if 4000 < byte_len trimmed
         then Inl (Validation ''message content must be at most 4000 characters'')
         else Inr ())"

definition cv_normalize_limit :: "int option \<Rightarrow> int AppResult" where
  "cv_normalize_limit limit =
     (let l = (case limit of None \<Rightarrow> CV_DEFAULT_PAGE_LIMIT | Some l \<Rightarrow> l)
      in if l \<le> 0 then Inl (Validation ''limit must be positive'')
         else if CV_MAX_PAGE_LIMIT < l then Inr CV_MAX_PAGE_LIMIT
         else Inr l)"

definition cv_validate_max_uses :: "int option \<Rightarrow> unit AppResult" where
  "cv_validate_max_uses max_uses =
     (case max_uses of
        Some value \<Rightarrow> if value \<le> 0 then Inl (Validation ''max_uses must be positive'') else Inr ()
      | None \<Rightarrow> Inr ())"

definition cv_normalize_invite_expiry :: "u64 option \<Rightarrow> u64" where
  "cv_normalize_invite_expiry expires_in_seconds =
     (let value = (case expires_in_seconds of None \<Rightarrow> CV_DEFAULT_INVITE_EXPIRES_SECS | Some s \<Rightarrow> s)
      in max 60 (min CV_MAX_INVITE_EXPIRES_SECS value))"

section \<open>Operations\<close>

definition create_direct_thread ::
  "'s ConversationUseCase \<Rightarrow> CreateDirectThreadCommand \<Rightarrow> ('s, DirectThreadUpsertResult) app" where
  "create_direct_thread uc cmd =
     bnd (fail_if (cd_user_id cmd = cd_peer_user_id cmd)
            (Validation ''cannot create direct thread with yourself'')) (\<lambda>_.
     cv_create_or_get_direct_thread (conv_repo uc) (cd_user_id cmd) (cd_peer_user_id cmd))"

definition list_direct_threads ::
  "'s ConversationUseCase \<Rightarrow> uuid \<Rightarrow> DirectInboxFilter \<Rightarrow> ('s, DirectThreadSummary list) app" where
  "list_direct_threads uc user_id flt =
     (case flt of
        All \<Rightarrow> cv_list_direct_threads (conv_repo uc) user_id
      | Pending \<Rightarrow> cv_list_pending_direct_inbox (conv_repo uc) user_id)"

definition get_direct_thread ::
  "'s ConversationUseCase \<Rightarrow> uuid \<Rightarrow> uuid \<Rightarrow> ('s, DirectThreadSummary) app" where
  "get_direct_thread uc thread_id user_id =
     bnd (cv_find_direct_thread_for_member (conv_repo uc) thread_id user_id) (\<lambda>r.
     ok_or (NotFound ''direct thread not found'') r)"

definition accept_direct_thread ::
  "'s ConversationUseCase \<Rightarrow> AcceptDirectThreadCommand \<Rightarrow> ('s, DirectThreadTransition) app" where
  "accept_direct_thread uc cmd =
     bnd (cv_accept_direct_thread_request (conv_repo uc) (ad_thread_id cmd) (ad_user_id cmd)) (\<lambda>r.
     ok_or (NotFound ''direct thread not found'') r)"

definition reject_direct_thread ::
  "'s ConversationUseCase \<Rightarrow> RejectDirectThreadCommand \<Rightarrow> ('s, DirectThreadTransition) app" where
  "reject_direct_thread uc cmd =
     bnd (cv_reject_direct_thread_request (conv_repo uc) (rd_thread_id cmd) (rd_user_id cmd)) (\<lambda>r.
     ok_or (NotFound ''direct thread not found'') r)"

definition create_group_thread ::
  "'s ConversationUseCase \<Rightarrow> CreateGroupThreadCommand \<Rightarrow> ('s, GroupThreadSummary) app" where
  "create_group_thread uc cmd =
     bnd (from_result (validate_group_name (cgt_name cmd))) (\<lambda>_.
     bnd (from_result (normalize_member_ids (cgt_owner_id cmd) (cgt_member_user_ids cmd))) (\<lambda>members.
     cv_create_group_thread (conv_repo uc) (cgt_owner_id cmd) (trim (cgt_name cmd)) members))"

definition list_group_threads :: "'s ConversationUseCase \<Rightarrow> uuid \<Rightarrow> ('s, GroupThreadSummary list) app" where
  "list_group_threads uc user_id = cv_list_group_threads (conv_repo uc) user_id"

definition get_group_thread ::
  "'s ConversationUseCase \<Rightarrow> uuid \<Rightarrow> uuid \<Rightarrow> ('s, GroupThreadSummary) app" where
  "get_group_thread uc thread_id user_id =
     bnd (cv_find_group_thread_for_member (conv_repo uc) thread_id user_id) (\<lambda>r.
     ok_or (NotFound ''group thread not found'') r)"

definition add_group_member :: "'s ConversationUseCase \<Rightarrow> AddGroupMemberCommand \<Rightarrow> ('s, unit) app" where
  "add_group_member uc cmd =
     bnd (cv_is_group_owner (conv_repo uc) (ag_thread_id cmd) (ag_actor_user_id cmd)) (\<lambda>owner.
     bnd (fail_if (\<not> owner) (Forbidden ''only group owner can add members'')) (\<lambda>_.
     cv_add_group_member (conv_repo uc) (ag_thread_id cmd) (ag_user_id cmd)))"

definition leave_group :: "'s ConversationUseCase \<Rightarrow> LeaveGroupCommand \<Rightarrow> ('s, unit) app" where
  "leave_group uc cmd =
     bnd (cv_is_group_owner (conv_repo uc) (lgr_thread_id cmd) (lgr_user_id cmd)) (\<lambda>owner.
     bnd (fail_if owner (Validation ''group owner cannot leave group'')) (\<lambda>_.
     bnd (cv_remove_group_member (conv_repo uc) (lgr_thread_id cmd) (lgr_user_id cmd)) (\<lambda>removed.
     bnd (fail_if (\<not> removed) (NotFound ''group membership not found'')) (\<lambda>_.
     ret ()))))"

definition create_group_invite ::
  "'s ConversationUseCase \<Rightarrow> CreateGroupInviteCommand \<Rightarrow> ('s, GroupInviteRecord) app" where
  "create_group_invite uc cmd =
     bnd (cv_find_group_thread_for_member (conv_repo uc) (cgv_thread_id cmd) (cgv_actor_user_id cmd))
       (\<lambda>group.
     bnd (fail_if (group = None) (NotFound ''group thread not found'')) (\<lambda>_.
     bnd (cv_is_group_owner (conv_repo uc) (cgv_thread_id cmd) (cgv_actor_user_id cmd)) (\<lambda>owner.
     bnd (fail_if (\<not> owner) (Forbidden ''only group owner can create invite'')) (\<lambda>_.
     bnd (from_result (cv_validate_max_uses (cgv_max_uses cmd))) (\<lambda>_.
     let expires_in = cv_normalize_invite_expiry (cgv_expires_in_seconds cmd) in
     bnd (rt_now_utc (conv_runtime uc)) (\<lambda>now.
     let expires_at = now + seconds (sint expires_in) in
     bnd (rt_new_v4 (conv_runtime uc)) (\<lambda>fresh.
     let token = rt_simple (conv_runtime uc) fresh in
     cv_create_group_invite (conv_repo uc) (cgv_thread_id cmd) (cgv_actor_user_id cmd)
       token expires_at (cgv_max_uses cmd))))))))"

definition join_group_invite ::
  "'s ConversationUseCase \<Rightarrow> JoinGroupInviteCommand \<Rightarrow> ('s, GroupThreadSummary) app" where
  "join_group_invite uc cmd =
     (let token = trim (jgv_token cmd) in
      bnd (fail_if (token = []) (Validation ''invite token is required'')) (\<lambda>_.
      cv_join_group_via_invite (conv_repo uc) token (jgv_user_id cmd)))"

definition require_thread_member :: "'s ConversationUseCase \<Rightarrow> uuid \<Rightarrow> uuid \<Rightarrow> ('s, unit) app" where
  "require_thread_member uc thread_id user_id =
     bnd (cv_is_thread_member (conv_repo uc) thread_id user_id) (\<lambda>member.
     fail_if (\<not> member) (NotFound ''thread not found''))"

definition mark_thread_read ::
  "'s ConversationUseCase \<Rightarrow> MarkThreadReadCommand \<Rightarrow> ('s, ThreadReadState) app" where
  "mark_thread_read uc cmd =
     bnd (require_thread_member uc (mt_thread_id cmd) (mt_user_id cmd)) (\<lambda>_.
     cv_mark_thread_read (conv_repo uc) (mt_thread_id cmd) (mt_user_id cmd)
       (mt_last_read_message_id cmd))"

definition create_thread_message ::
  "'s ConversationUseCase \<Rightarrow> CreateThreadMessageCommand \<Rightarrow> ('s, ThreadMessageRecord) app" where
  "create_thread_message uc cmd =
     bnd (from_result (cv_validate_message_content (ctm_content cmd))) (\<lambda>_.
     bnd (cv_find_thread_access (conv_repo uc) (ctm_thread_id cmd) (ctm_user_id cmd)) (\<lambda>r.
     bnd (ok_or (NotFound ''thread not found'') r) (\<lambda>access.
     bnd (fail_if (ta_kind access = ''DIRECT'' \<and> ta_direct_status access = ''PENDING'' \<and>
                   ta_requested_by access \<noteq> Some (ctm_user_id cmd))
            (Forbidden ''direct thread request must be accepted before receiver can send messages''))
       (\<lambda>_.
     cv_create_thread_message (conv_repo uc) (ctm_thread_id cmd) (ctm_user_id cmd)
       (trim (ctm_content cmd))))))"

definition list_thread_messages ::
  "'s ConversationUseCase \<Rightarrow> ListThreadMessagesQuery \<Rightarrow> ('s, ThreadMessagePage) app" where
  "list_thread_messages uc query =
     bnd (require_thread_member uc (ltm_thread_id query) (ltm_user_id query)) (\<lambda>_.
     bnd (from_result (cv_normalize_limit (ltm_limit query))) (\<lambda>limit.
     let fetch_limit = limit + 1 in
     bnd (cv_list_thread_messages (conv_repo uc) (ltm_thread_id query) (ltm_before query) fetch_limit)
       (\<lambda>messages.
       let has_more = limit < int (length messages);
           messages = (if has_more then take (nat limit) messages else messages);
           next_cursor = (if has_more
                          then (if messages = [] then None else Some (tmsg_id (last messages)))
                          else None)
       in ret \<lparr>tmp_messages = messages, tmp_next_cursor = next_cursor\<rparr>)))"

definition edit_thread_message ::
  "'s ConversationUseCase \<Rightarrow> EditThreadMessageCommand \<Rightarrow> ('s, ThreadMessageRecord) app" where
  "edit_thread_message uc cmd =
     bnd (from_result (cv_validate_message_content (etm_content cmd))) (\<lambda>_.
     bnd (cv_find_thread_message_by_id (conv_repo uc) (etm_message_id cmd)) (\<lambda>found.
     bnd (ok_or (NotFound ''thread message not found'') found) (\<lambda>existing.
     bnd (fail_if (tmsg_deleted_at existing \<noteq> None) (NotFound ''thread message not found'')) (\<lambda>_.
     bnd (require_thread_member uc (tmsg_thread_id existing) (etm_user_id cmd)) (\<lambda>_.
     bnd (fail_if (tmsg_author_id existing \<noteq> etm_user_id cmd)
            (Forbidden ''only message author can edit thread message'')) (\<lambda>_.
     bnd (cv_update_thread_message_content (conv_repo uc) (etm_message_id cmd) (trim (etm_content cmd)))
       (\<lambda>updated.
     ok_or (NotFound ''thread message not found'') updated)))))))"

definition delete_thread_message ::
  "'s ConversationUseCase \<Rightarrow> DeleteThreadMessageCommand \<Rightarrow> ('s, ThreadMessageDeleted) app" where
  "delete_thread_message uc cmd =
     bnd (cv_find_thread_message_by_id (conv_repo uc) (dtm_message_id cmd)) (\<lambda>found.
     bnd (ok_or (NotFound ''thread message not found'') found) (\<lambda>existing.
     bnd (fail_if (tmsg_deleted_at existing \<noteq> None) (NotFound ''thread message not found'')) (\<lambda>_.
     bnd (require_thread_member uc (tmsg_thread_id existing) (dtm_user_id cmd)) (\<lambda>_.
     bnd (fail_if (tmsg_author_id existing \<noteq> dtm_user_id cmd)
            (Forbidden ''only message author can delete thread message'')) (\<lambda>_.
     bnd (cv_soft_delete_thread_message (conv_repo uc) (dtm_message_id cmd)) (\<lambda>r.
     bnd (ok_or (NotFound ''thread message not found'') r) (\<lambda>deleted.
     bnd (ok_or (Internal ''deleted_at is missing after thread soft delete'')
            (tmsg_deleted_at deleted)) (\<lambda>at.
     ret \<lparr>tmd_thread_id = tmsg_thread_id deleted, tmd_message_id = tmsg_id deleted,
          tmd_deleted_at = at\<rparr>))))))))"

definition can_access_thread :: "'s ConversationUseCase \<Rightarrow> uuid \<Rightarrow> uuid \<Rightarrow> ('s, bool) app" where
  "can_access_thread uc thread_id user_id = cv_is_thread_member (conv_repo uc) thread_id user_id"

definition conversation_use_case :: "(uuid \<Rightarrow> rstring) \<Rightarrow> world ConversationUseCase" where
  "conversation_use_case simple =
     \<lparr>conv_repo = sqlx_conversation_repository, conv_runtime = sqlx_runtime simple\<rparr>"

end
