(* ===== verification/Auth.thy ===== *)
theory Auth
  imports Database Ports Guild_Service
begin

text \<open>
  Accounts and sessions: \<open>SqlxAuthRepository\<close>
  (\<open>infrastructure/db/repositories/auth_repository.rs\<close>), \<open>AuthUseCase\<close>
  (\<open>application/use_cases/auth.rs\<close>), the JWT and refresh-token adapters
  (\<open>infrastructure/jwt/\<close>), the password adapter (\<open>infrastructure/password/\<close>) and the reading
  of the bearer token (\<open>interfaces/http/authentication.rs\<close>).  The cryptographic libraries, the
  text form of a UUID and the Unicode table behind \<open>to_lowercase\<close> are parameters.
\<close>

section \<open>Statements\<close>

definition profile_of :: "UserRecord \<Rightarrow> UserProfile" where
  "profile_of u = \<lparr>prof_id = usr_id u, prof_username = usr_username u, prof_email = usr_email u\<rparr>"

text \<open>\<open>username\<close> is a \<open>VARCHAR(32)\<close>, which counts characters; a null email is never a duplicate.\<close>

definition insert_user :: "uuid \<Rightarrow> rstring \<Rightarrow> rstring option \<Rightarrow> rstring \<Rightarrow> UserProfile query" where
  "insert_user uid name email hash t d =
     (let row = \<lparr>usr_id = uid, usr_username = name, usr_email = email, usr_password_hash = hash\<rparr>
      in if 32 < length name then Inl (DatabaseError ''22001'')
         else if uid \<in> usr_id ` set (users d) \<or> name \<in> usr_username ` set (users d) \<or>
                 (email \<noteq> None \<and> email \<in> usr_email ` set (users d))
         then Inl (DatabaseError unique_violation)
         else Inr (profile_of row, d\<lparr>users := users d @ [row]\<rparr>))"

definition insert_session ::
  "uuid \<Rightarrow> uuid \<Rightarrow> rstring \<Rightarrow> time \<Rightarrow> SessionContext \<Rightarrow> unit query" where
  "insert_session sid user hash expires context t d =
     (if sid \<in> ses_id ` set (user_sessions d) \<or> hash \<in> ses_refresh_token_hash ` set (user_sessions d)
      then Inl (DatabaseError unique_violation)
      else if user \<notin> usr_id ` set (users d) then Inl (DatabaseError foreign_key_violation)
      else Inr ((), d\<lparr>user_sessions := user_sessions d @
             [\<lparr>ses_id = sid, ses_user_id = user, ses_refresh_token_hash = hash,
               ses_expires_at = expires, ses_revoked_at = None, ses_context = context\<rparr>]\<rparr>))"

definition revoke_where :: "(session_row \<Rightarrow> bool) \<Rightarrow> uuid option query" where
  "revoke_where hit t d =
     Inr (map_option ses_user_id (find hit (user_sessions d)),
          d\<lparr>user_sessions := update_where hit (\<lambda>s. s\<lparr>ses_revoked_at := Some t\<rparr>) (user_sessions d)\<rparr>)"

text \<open>The session that a refresh token may still be exchanged for at time \<open>t\<close>.\<close>

definition live_session :: "rstring \<Rightarrow> time \<Rightarrow> session_row \<Rightarrow> bool" where
  "live_session hash t s \<longleftrightarrow>
     ses_refresh_token_hash s = hash \<and> ses_revoked_at s = None \<and> t < ses_expires_at s"

definition revoke_live_session :: "rstring \<Rightarrow> uuid option query" where
  "revoke_live_session hash t d = revoke_where (live_session hash t) t d"

definition revoke_session :: "rstring \<Rightarrow> uuid option query" where
  "revoke_session hash =
     revoke_where (\<lambda>s. ses_refresh_token_hash s = hash \<and> ses_revoked_at s = None)"

section \<open>Repository methods\<close>

definition map_create_user_error :: error_map where
  "map_create_user_error text e =
     (if is_unique_violation e then Conflict ''username or email already exists''
      else from_sqlx text e)"

definition repo_create_user :: "rstring \<Rightarrow> rstring option \<Rightarrow> rstring \<Rightarrow> UserProfile repo" where
  "repo_create_user name email hash =
     bnd new_v4 (\<lambda>uid. run_sql map_create_user_error (insert_user uid name email hash))"

definition repo_find_user_by_login_identity :: "rstring \<Rightarrow> UserRecord option repo" where
  "repo_find_user_by_login_identity identity =
     sql (select_rows (\<lambda>d.
       find (\<lambda>u. usr_username u = identity \<or> usr_email u = Some identity) (users d)))"

definition repo_find_user_profile_by_id :: "uuid \<Rightarrow> UserProfile option repo" where
  "repo_find_user_profile_by_id uid =
     sql (select_rows (\<lambda>d. map_option profile_of (find (\<lambda>u. usr_id u = uid) (users d))))"

definition repo_create_session :: "SessionCreate \<Rightarrow> unit repo" where
  "repo_create_session s =
     bnd new_v4 (\<lambda>sid.
     sql (insert_session sid (sc_user_id s) (sc_refresh_token_hash s) (sc_expires_at s) (sc_context s)))"

definition revoke_old_refresh_token :: "rstring \<Rightarrow> uuid repo" where
  "revoke_old_refresh_token hash =
     bnd (sql (revoke_live_session hash)) (\<lambda>user.
     ok_or (Unauthorized ''invalid refresh token'') user)"

definition insert_rotated_session :: "uuid \<Rightarrow> rstring \<Rightarrow> time \<Rightarrow> SessionContext \<Rightarrow> unit repo" where
  "insert_rotated_session user hash expires context =
     bnd new_v4 (\<lambda>sid. sql (insert_session sid user hash expires context))"

definition repo_rotate_refresh_session :: "SessionRotate \<Rightarrow> uuid repo" where
  "repo_rotate_refresh_session p = transaction (
     bnd (revoke_old_refresh_token (sr_old_refresh_token_hash p)) (\<lambda>user.
     bnd (insert_rotated_session user (sr_new_refresh_token_hash p) (sr_expires_at p) (sr_context p))
       (\<lambda>_.
     commit user)))"

definition repo_revoke_by_refresh_hash :: "rstring \<Rightarrow> unit repo" where
  "repo_revoke_by_refresh_hash hash = bnd (sql (revoke_session hash)) (\<lambda>_. ret ())"

definition sqlx_user_repository :: "world UserRepository" where
  "sqlx_user_repository =
     \<lparr>ur_create_user = repo_create_user,
      ur_find_user_by_login_identity = repo_find_user_by_login_identity,
      ur_find_user_profile_by_id = repo_find_user_profile_by_id\<rparr>"

definition sqlx_session_repository :: "world SessionRepository" where
  "sqlx_session_repository =
     \<lparr>sn_create_session = repo_create_session,
      sn_rotate_refresh_session = repo_rotate_refresh_session,
      sn_revoke_by_refresh_hash = repo_revoke_by_refresh_hash\<rparr>"

section \<open>Use case\<close>

definition REFRESH_TOKEN_TTL_DAYS :: int where "REFRESH_TOKEN_TTL_DAYS = 30"

record 's AuthUseCase =
  user_repo :: "'s UserRepository"
  session_repo :: "'s SessionRepository"
  password_port :: "'s PasswordPort"
  jwt_port :: "'s JwtPort"
  refresh_port :: "'s RefreshTokenPort"
  auth_runtime :: "'s Runtime"

record RegisterCommand =
  reg_username :: rstring
  reg_email :: "rstring option"
  reg_password :: rstring

record LoginCommand =
  log_username_or_email :: rstring
  log_password :: rstring
  log_context :: SessionContext

record RefreshCommand =
  ref_refresh_token :: rstring
  ref_context :: SessionContext

record LogoutCommand =
  out_refresh_token :: rstring

definition validate_username :: "rstring \<Rightarrow> unit AppResult" where
  "validate_username username =
     (let value = trim username
      in if byte_len value < 3 then Inl (Validation ''username must be at least 3 characters'')
         else if 32 < byte_len value then Inl (Validation ''username must be at most 32 characters'')
         else Inr ())"

definition validate_password :: "rstring \<Rightarrow> unit AppResult" where
  "validate_password password =
     (let value = trim password
      in if byte_len value < 8 then Inl (Validation ''password must be at least 8 characters'')
         else Inr ())"

text \<open>\<open>lower\<close> is \<open>str::to_lowercase\<close>; 64 is the at sign.\<close>

definition normalize_optional_email ::
  "(rstring \<Rightarrow> rstring) \<Rightarrow> rstring option \<Rightarrow> rstring option AppResult" where
  "normalize_optional_email lower email =
     (case email of
        Some raw \<Rightarrow>
          (let normalized = lower (trim raw)
           in if normalized = [] then Inr None
              else if 64 \<notin> set normalized then Inl (Validation ''email format is invalid'')
              else Inr (Some normalized))
      | None \<Rightarrow> Inr None)"

definition build_refresh_expiry :: "'s AuthUseCase \<Rightarrow> ('s, time) app" where
  "build_refresh_expiry uc =
     bnd (rt_now_utc (auth_runtime uc)) (\<lambda>now. ret (now + seconds (REFRESH_TOKEN_TTL_DAYS * 24 * 60 * 60)))"

definition register ::
  "(rstring \<Rightarrow> rstring) \<Rightarrow> 's AuthUseCase \<Rightarrow> RegisterCommand \<Rightarrow> ('s, UserProfile) app" where
  "register lower uc cmd =
     bnd (from_result (validate_username (reg_username cmd))) (\<lambda>_.
     bnd (from_result (validate_password (reg_password cmd))) (\<lambda>_.
     bnd (from_result (normalize_optional_email lower (reg_email cmd))) (\<lambda>email.
     bnd (pw_hash_password (password_port uc) (trim (reg_password cmd))) (\<lambda>password_hash.
     ur_create_user (user_repo uc) (trim (reg_username cmd)) email password_hash))))"

definition issue_and_persist_tokens ::
  "'s AuthUseCase \<Rightarrow> uuid \<Rightarrow> SessionContext \<Rightarrow> ('s, TokenPair) app" where
  "issue_and_persist_tokens uc user context =
     bnd (jwt_issue_access_token (jwt_port uc) user) (\<lambda>access.
     bnd (rt_generate_refresh_token (refresh_port uc)) (\<lambda>refresh.
     let refresh_hash = rt_hash_refresh_token (refresh_port uc) refresh in
     bnd (build_refresh_expiry uc) (\<lambda>expires.
     bnd (sn_create_session (session_repo uc)
            \<lparr>sc_user_id = user, sc_refresh_token_hash = refresh_hash, sc_expires_at = expires,
             sc_context = context\<rparr>) (\<lambda>_.
     ret \<lparr>access_token = access, refresh_token = refresh\<rparr>))))"

definition login :: "'s AuthUseCase \<Rightarrow> LoginCommand \<Rightarrow> ('s, TokenPair) app" where
  "login uc cmd =
     (let identity = trim (log_username_or_email cmd) in
      bnd (fail_if (identity = []) (Validation ''username_or_email is required'')) (\<lambda>_.
      bnd (ur_find_user_by_login_identity (user_repo uc) identity) (\<lambda>found.
      bnd (ok_or (Unauthorized ''invalid credentials'') found) (\<lambda>user.
      bnd (pw_verify_password (password_port uc) (trim (log_password cmd)) (usr_password_hash user))
        (\<lambda>password_ok.
      bnd (fail_if (\<not> password_ok) (Unauthorized ''invalid credentials'')) (\<lambda>_.
      issue_and_persist_tokens uc (usr_id user) (log_context cmd)))))))"

definition refresh :: "'s AuthUseCase \<Rightarrow> RefreshCommand \<Rightarrow> ('s, TokenPair) app" where
  "refresh uc cmd =
     (let token = trim (ref_refresh_token cmd) in
      bnd (fail_if (token = []) (Validation ''refresh_token is required'')) (\<lambda>_.
      let old_hash = rt_hash_refresh_token (refresh_port uc) token in
      bnd (rt_generate_refresh_token (refresh_port uc)) (\<lambda>new_refresh_token.
      let new_hash = rt_hash_refresh_token (refresh_port uc) new_refresh_token in
      bnd (build_refresh_expiry uc) (\<lambda>expires.
      bnd (sn_rotate_refresh_session (session_repo uc)
             \<lparr>sr_old_refresh_token_hash = old_hash, sr_new_refresh_token_hash = new_hash,
              sr_expires_at = expires, sr_context = ref_context cmd\<rparr>) (\<lambda>user.
      bnd (jwt_issue_access_token (jwt_port uc) user) (\<lambda>access.
      ret \<lparr>access_token = access, refresh_token = new_refresh_token\<rparr>))))))"

definition logout :: "'s AuthUseCase \<Rightarrow> LogoutCommand \<Rightarrow> ('s, unit) app" where
  "logout uc cmd =
     (let token = trim (out_refresh_token cmd) in
      bnd (fail_if (token = []) (Validation ''refresh_token is required'')) (\<lambda>_.
      let refresh_hash = rt_hash_refresh_token (refresh_port uc) token in
      sn_revoke_by_refresh_hash (session_repo uc) refresh_hash))"

definition me :: "'s AuthUseCase \<Rightarrow> uuid \<Rightarrow> ('s, UserProfile) app" where
  "me uc user =
     bnd (ur_find_user_profile_by_id (user_repo uc) user) (\<lambda>r.
     ok_or (NotFound ''user not found'') r)"

definition verify_access_token :: "'s AuthUseCase \<Rightarrow> rstring \<Rightarrow> ('s, uuid) app" where
  "verify_access_token uc token = jwt_verify_access_token (jwt_port uc) token"

section \<open>Adapters\<close>

text \<open>\<open>to_hex\<close>: two digits of the table for each byte.\<close>

definition HEX :: "rchar list" where
  "HEX = lit ''0123456789abcdef''"

definition to_hex :: "8 word list \<Rightarrow> rstring" where
  "to_hex bytes = concat (map (\<lambda>b. [HEX ! unat (drop_bit 4 b), HEX ! unat (b AND 15)]) bytes)"

definition MIN_PEPPER_LENGTH :: nat where "MIN_PEPPER_LENGTH = 16"

text \<open>
  \<open>RefreshTokenAdapter::new\<close> and its methods.  \<open>hmac\<close> is HMAC-SHA256 of a key and a message
  (\<open>None\<close> if the key is refused), \<open>bytes_of\<close> the UTF-8 encoding, \<open>random n\<close> the bytes of the
  \<open>n\<close>-th draw from the random source, which the world counts in \<open>drawn\<close>.
\<close>

definition refresh_adapter_new :: "rstring \<Rightarrow> string + rstring" where
  "refresh_adapter_new pepper =
     (if byte_len (trim pepper) < MIN_PEPPER_LENGTH
      then Inl (''REFRESH_TOKEN_PEPPER must be at least '' @ show_nat MIN_PEPPER_LENGTH @
                '' characters long'')
      else Inr pepper)"

definition generate_refresh_token :: "(nat \<Rightarrow> 8 word list) \<Rightarrow> rstring repo" where
  "generate_refresh_token random w = (Inr (to_hex (random (drawn w))), w\<lparr>drawn := Suc (drawn w)\<rparr>)"

definition hash_refresh_token ::
  "(8 word list \<Rightarrow> 8 word list \<Rightarrow> 8 word list option) \<Rightarrow> (rstring \<Rightarrow> 8 word list) \<Rightarrow> rstring \<Rightarrow>
   rstring \<Rightarrow> rstring" where
  "hash_refresh_token hmac bytes_of pepper token =
     (case hmac (bytes_of pepper) (bytes_of token) of None \<Rightarrow> [] | Some digest \<Rightarrow> to_hex digest)"

definition refresh_token_adapter ::
  "(nat \<Rightarrow> 8 word list) \<Rightarrow> (8 word list \<Rightarrow> 8 word list \<Rightarrow> 8 word list option) \<Rightarrow>
   (rstring \<Rightarrow> 8 word list) \<Rightarrow> rstring \<Rightarrow> world RefreshTokenPort" where
  "refresh_token_adapter random hmac bytes_of pepper =
     \<lparr>rt_generate_refresh_token = generate_refresh_token random,
      rt_hash_refresh_token = hash_refresh_token hmac bytes_of pepper\<rparr>"

definition ACCESS_TOKEN_TTL_SECONDS :: u64 where "ACCESS_TOKEN_TTL_SECONDS = 15 * 60"

record AccessTokenClaims =
  claim_sub :: rstring
  claim_exp :: u64
  claim_iat :: u64
  claim_jti :: rstring

text \<open>
  \<open>JwtAdapter\<close>.  \<open>encode\<close> and \<open>decode\<close> are those of the \<open>jsonwebtoken\<close> crate with the adapter's
  keys: \<open>decode\<close> checks the signature and, against the current time in seconds, the expiry.
  \<open>hyphenated\<close> and \<open>parse_str\<close> are the UUID's text form.
\<close>

record jwt_library =
  jl_encode :: "AccessTokenClaims \<Rightarrow> string + rstring"
  jl_decode :: "u64 \<Rightarrow> rstring \<Rightarrow> AccessTokenClaims option"
  jl_hyphenated :: "uuid \<Rightarrow> rstring"
  jl_parse_str :: "rstring \<Rightarrow> uuid option"

definition unix_now :: "u64 repo" where
  "unix_now =
     bnd now_utc (\<lambda>now.
     if now < 0 then throw (Internal ''system clock error: second time provided was later than self'')
     else ret (word_of_int (now div seconds 1)))"

definition issue_access_token :: "jwt_library \<Rightarrow> uuid \<Rightarrow> rstring repo" where
  "issue_access_token lib user =
     bnd unix_now (\<lambda>now.
     bnd new_v4 (\<lambda>jti.
     let claims = \<lparr>claim_sub = jl_hyphenated lib user, claim_exp = now + ACCESS_TOKEN_TTL_SECONDS,
                   claim_iat = now, claim_jti = jl_hyphenated lib jti\<rparr> in
     from_result (case jl_encode lib claims of
        Inl e \<Rightarrow> Inl (Internal (''failed to sign jwt: '' @ e))
      | Inr token \<Rightarrow> Inr token)))"

definition jwt_verify :: "jwt_library \<Rightarrow> rstring \<Rightarrow> uuid repo" where
  "jwt_verify lib token =
     bnd now_utc (\<lambda>now.
     bnd (ok_or (Unauthorized ''invalid access token'')
            (jl_decode lib (word_of_int (now div seconds 1)) token)) (\<lambda>claims.
     ok_or (Unauthorized ''invalid access token subject'') (jl_parse_str lib (claim_sub claims))))"

definition jwt_adapter :: "jwt_library \<Rightarrow> world JwtPort" where
  "jwt_adapter lib =
     \<lparr>jwt_issue_access_token = issue_access_token lib, jwt_verify_access_token = jwt_verify lib\<rparr>"

text \<open>
  \<open>Argon2PasswordAdapter\<close>: \<open>hash_with salt\<close> is the library's hash of a password to its PHC string,
  \<open>parse\<close> the reading of a PHC string, \<open>matches\<close> the check of a password against it.
\<close>

record 'h argon2_library =
  al_hash_with :: "nat \<Rightarrow> rstring \<Rightarrow> string + rstring"
  al_parse :: "rstring \<Rightarrow> 'h option"
  al_matches :: "rstring \<Rightarrow> 'h \<Rightarrow> bool"

definition hash_password :: "'h argon2_library \<Rightarrow> rstring \<Rightarrow> rstring repo" where
  "hash_password lib password w =
     (case al_hash_with lib (drawn w) password of
        Inl e \<Rightarrow> Inl (Internal (''failed to hash password: '' @ e))
      | Inr hash \<Rightarrow> Inr hash, w\<lparr>drawn := Suc (drawn w)\<rparr>)"

definition verify_password :: "'h argon2_library \<Rightarrow> rstring \<Rightarrow> rstring \<Rightarrow> bool repo" where
  "verify_password lib password password_hash =
     ret (case al_parse lib password_hash of None \<Rightarrow> False | Some h \<Rightarrow> al_matches lib password h)"

definition argon2_adapter :: "'h argon2_library \<Rightarrow> world PasswordPort" where
  "argon2_adapter lib =
     \<lparr>pw_hash_password = hash_password lib, pw_verify_password = verify_password lib\<rparr>"

text \<open>The use case as the program builds it.\<close>

definition auth_use_case ::
  "'h argon2_library \<Rightarrow> jwt_library \<Rightarrow> world RefreshTokenPort \<Rightarrow> world AuthUseCase" where
  "auth_use_case argon jwt tokens =
     \<lparr>user_repo = sqlx_user_repository, session_repo = sqlx_session_repository,
      password_port = argon2_adapter argon, jwt_port = jwt_adapter jwt, refresh_port = tokens,
      auth_runtime = sqlx_runtime (jl_hyphenated jwt)\<rparr>"

section \<open>The bearer token of a request\<close>

text \<open>
  A header value is \<open>None\<close> when the header is missing, \<open>Some None\<close> when it is not visible ASCII.
\<close>

definition extract_bearer_token :: "rstring option option \<Rightarrow> rstring AppResult" where
  "extract_bearer_token header =
     (case header of
        None \<Rightarrow> Inl (Unauthorized ''authorization header is required'')
      | Some None \<Rightarrow> Inl (Unauthorized ''authorization header is invalid'')
      | Some (Some value) \<Rightarrow>
          (case strip_prefix (lit ''Bearer '') value of
             None \<Rightarrow> Inl (Unauthorized ''bearer token is required'')
           | Some token \<Rightarrow>
               if trim token = [] then Inl (Unauthorized ''bearer token is required'')
               else Inr token))"

definition authenticated_user_id :: "'s AuthUseCase \<Rightarrow> rstring option option \<Rightarrow> ('s, uuid) app" where
  "authenticated_user_id uc header =
     bnd (from_result (extract_bearer_token header)) (\<lambda>token. verify_access_token uc token)"

end
