(* ===== verification/Websocket.thy ===== *)
theory Websocket
  imports Realtime Message_Service Conversation_Service Auth
begin

text \<open>
  A websocket session (\<open>ws_handler\<close>, \<open>handle_socket\<close>, \<open>handle_command\<close> and
  \<open>resolve_ws_token\<close> of \<open>interfaces/ws/gateway.rs\<close>): the token, the registration with the hub,
  the loop over the frames of the client, and the cleanup.  The theory \<open>Sessions\<close> interleaves the
  sessions of one server instance with each other, with remote events and with the requests.
\<close>

definition PRESENCE_TTL_SECS :: int where "PRESENCE_TTL_SECS = 90"

section \<open>The token\<close>

definition resolve_ws_token :: "rstring option \<Rightarrow> rstring option option \<Rightarrow> rstring AppResult" where
  "resolve_ws_token token_query header =
     (case (case token_query of
              None \<Rightarrow> None
            | Some token \<Rightarrow> if trim token \<noteq> [] then Some (trim token) else None) of
        Some token \<Rightarrow> Inr token
      | None \<Rightarrow>
          (case header of
             None \<Rightarrow> Inl (Unauthorized ''authorization token is required'')
           | Some None \<Rightarrow> Inl (Unauthorized ''authorization header is invalid'')
           | Some (Some value) \<Rightarrow>
               (case strip_prefix (lit ''Bearer '') value of
                  None \<Rightarrow> Inl (Unauthorized ''bearer token is required'')
                | Some token \<Rightarrow>
                    if trim token = [] then Inl (Unauthorized ''bearer token is required'')
                    else Inr (trim token))))"

section \<open>Running a use case on the server's database\<close>

definition in_db :: "(world, 'a) app \<Rightarrow> (server, 'a) app" where
  "in_db m s = (case m (database s) of (r, w) \<Rightarrow> (r, s\<lparr>database := w\<rparr>))"

definition simple_text :: "env \<Rightarrow> uuid \<Rightarrow> rstring" where
  "simple_text env u = lit (env_show_uuid env u)"

text \<open>\<open>ws_handler\<close> before the upgrade: whose session it will be.\<close>

definition ws_handler ::
  "world AuthUseCase \<Rightarrow> rstring option \<Rightarrow> rstring option option \<Rightarrow> (server, uuid) app" where
  "ws_handler auth token_query header =
     bnd (from_result (resolve_ws_token token_query header)) (\<lambda>token.
     in_db (verify_access_token auth token))"

section \<open>Commands\<close>

definition send_error :: "uuid \<Rightarrow> string \<Rightarrow> string \<Rightarrow> server \<Rightarrow> server" where
  "send_error c code message = on_gate (send_to_connection c (ErrorEvent code message))"

definition on_hub :: "(HubState \<Rightarrow> HubState) \<Rightarrow> server \<Rightarrow> server" where
  "on_hub f = on_gate (\<lambda>g. g\<lparr>hub := f (hub g)\<rparr>)"

text \<open>A rate-limited announcement, \<open>TYPING\<close> or \<open>THREAD_TYPING\<close>.\<close>

definition typing_key :: "env \<Rightarrow> uuid \<Rightarrow> uuid \<Rightarrow> string" where
  "typing_key env user channel =
     ''rl:typing:'' @ env_show_uuid env user @ '':'' @ env_show_uuid env channel"

definition thread_typing_key :: "env \<Rightarrow> uuid \<Rightarrow> uuid \<Rightarrow> string" where
  "thread_typing_key env user thread =
     ''rl:typing:thread:'' @ env_show_uuid env user @ '':'' @ env_show_uuid env thread"

fun handle_command :: "env \<Rightarrow> uuid \<Rightarrow> uuid \<Rightarrow> ClientCommand \<Rightarrow> server \<Rightarrow> server" where
  "handle_command env c user (Identify token) s = on_gate (send_to_connection c (Ready user)) s"
| "handle_command env c user (Heartbeat ts) s =
     (let s1 = on_gate (touch_heartbeat c) s;
          s2 = set_presence_state env user Online PRESENCE_TTL_SECS s1
      in on_gate (send_to_connection c (HeartbeatAck ts)) s2)"
| "handle_command env c user (SubscribeChannel channel) s =
     (case in_db (channel_permissions message_use_case user channel) s of
        (Inr bits, s1) \<Rightarrow>
          if has bits VIEW_CHANNEL
          then on_gate (send_to_connection c (ChannelSubscribeAck channel))
                 (on_hub (subscribe_channel c channel) s1)
          else send_error c ''FORBIDDEN'' ''missing VIEW_CHANNEL permission'' s1
      | (Inl err, s1) \<Rightarrow> send_error c ''SUBSCRIBE_FAILED'' (error_message err) s1)"
| "handle_command env c user (UnsubscribeChannel channel) s = on_hub (unsubscribe_channel c channel) s"
| "handle_command env c user (TypingStart channel) s =
     (case in_db (channel_permissions message_use_case user channel) s of
        (Inl err, s1) \<Rightarrow> s1
      | (Inr bits, s1) \<Rightarrow>
          if \<not> has bits SEND_MESSAGES then s1
          else case server_allow_rate_limit (typing_key env user channel) 8 5 s1 of
              (allowed, s2) \<Rightarrow>
                if \<not> allowed then s2
                else publish_channel_event env channel (Typing channel user) s2)"
| "handle_command env c user (SubscribeThread thread) s =
     (case in_db (can_access_thread (conversation_use_case (simple_text env)) thread user) s of
        (Inr True, s1) \<Rightarrow>
          on_gate (send_to_connection c (ThreadSubscribeAck thread))
            (on_hub (subscribe_thread c thread) s1)
      | (Inr False, s1) \<Rightarrow> send_error c ''FORBIDDEN'' ''thread not accessible'' s1
      | (Inl err, s1) \<Rightarrow> send_error c ''SUBSCRIBE_FAILED'' (error_message err) s1)"
| "handle_command env c user (UnsubscribeThread thread) s = on_hub (unsubscribe_thread c thread) s"
| "handle_command env c user (ThreadTypingStart thread) s =
     (case in_db (can_access_thread (conversation_use_case (simple_text env)) thread user) s of
        (Inl err, s1) \<Rightarrow> s1
      | (Inr can_access, s1) \<Rightarrow>
          if \<not> can_access then s1
          else case server_allow_rate_limit (thread_typing_key env user thread) 8 5 s1 of
              (allowed, s2) \<Rightarrow>
                if \<not> allowed then s2
                else publish_thread_event env thread (ThreadTyping thread user) s2)"

section \<open>The session\<close>

text \<open>
  Before the loop: a fresh outbound channel (the \<open>n\<close>-th connection has the \<open>n\<close>-th channel), the
  registration, the presence of a user who was not connected, and \<open>READY\<close>, sent on the channel
  directly.
\<close>

definition open_socket :: "env \<Rightarrow> uuid \<Rightarrow> server \<Rightarrow> uuid \<times> server" where
  "open_socket env user s =
     (let tx = conns_drawn (gate s);
          (r, g) = hub_register user tx (gate s);
          s1 = s\<lparr>gate := g\<rparr>;
          s2 = (if rg_first_connection r
                then publish_presence_event env (PresenceUpdate user Online)
                       (set_presence_state env user Online PRESENCE_TTL_SECS s1)
                else s1);
          s3 = on_gate (\<lambda>g. g\<lparr>outbox := (outbox g)(tx := outbox g tx @ [Ready user])\<rparr>) s2
      in (rg_connection_id r, s3))"

text \<open>What the loop waits for: the shutdown, a frame, or the end of the stream or the timeout.\<close>

datatype socket_input =
    ShutdownRequested | FrameText rstring | FrameClose | FrameOther | StreamError | StreamEnded
  | HeartbeatTimeout

text \<open>One turn of the loop: whether it goes on, and the server.\<close>

fun socket_step :: "env \<Rightarrow> uuid \<Rightarrow> uuid \<Rightarrow> socket_input \<Rightarrow> server \<Rightarrow> bool \<times> server" where
  "socket_step env c user (FrameText payload) s =
     (if env_ws_max_message_bytes env < byte_len payload
      then (False, send_error c ''FRAME_TOO_LARGE'' ''frame too large'' s)
      else case env_parse_command env payload of
          None \<Rightarrow> (True, send_error c ''INVALID_COMMAND'' ''failed to parse command'' s)
        | Some cmd \<Rightarrow> (True, handle_command env c user cmd s))"
| "socket_step env c user FrameOther s = (True, s)"
| "socket_step env c user ShutdownRequested s = (False, s)"
| "socket_step env c user FrameClose s = (False, s)"
| "socket_step env c user StreamError s = (False, s)"
| "socket_step env c user StreamEnded s = (False, s)"
| "socket_step env c user HeartbeatTimeout s = (False, s)"

text \<open>After the loop; \<open>tx\<close> is the channel, whose receiver dies with the writer task.\<close>

definition close_socket :: "env \<Rightarrow> uuid \<Rightarrow> nat \<Rightarrow> server \<Rightarrow> server" where
  "close_socket env c tx s =
     (let (r, h) = hub_unregister c (hub (gate s));
          s1 = on_hub (\<lambda>_. h) s;
          s2 = (case r of
                  None \<Rightarrow> s1
                | Some u \<Rightarrow>
                    if un_became_offline u
                    then publish_presence_event env (PresenceUpdate (un_user_id u) Offline)
                           (set_presence_state env (un_user_id u) Offline PRESENCE_TTL_SECS s1)
                    else s1)
      in on_gate (\<lambda>g. g\<lparr>receiver_gone := (receiver_gone g)(tx := True)\<rparr>) s2)"

text \<open>A whole session on its own, over the inputs that it will see.\<close>

fun socket_loop :: "env \<Rightarrow> uuid \<Rightarrow> uuid \<Rightarrow> socket_input list \<Rightarrow> server \<Rightarrow> server" where
  "socket_loop env c user [] s = s"
| "socket_loop env c user (i # is) s =
     (case socket_step env c user i s of (go, s1) \<Rightarrow> if go then socket_loop env c user is s1 else s1)"

definition handle_socket :: "env \<Rightarrow> uuid \<Rightarrow> socket_input list \<Rightarrow> server \<Rightarrow> server" where
  "handle_socket env user inputs s =
     (case open_socket env user s of
        (c, s1) \<Rightarrow> close_socket env c (conns_drawn (gate s)) (socket_loop env c user inputs s1))"

end
