(* ===== verification/Friendship.thy ===== *)
theory Friendship
  imports Database Ports
begin

text \<open>
  Friend requests and friendships: \<open>SqlxFriendshipRepository\<close>
  (\<open>infrastructure/db/repositories/friendship_repository.rs\<close>) and \<open>FriendshipUseCase\<close>
  (\<open>application/use_cases/friendship.rs\<close>).
\<close>

section \<open>Statements\<close>

definition sort_pair :: "uuid \<Rightarrow> uuid \<Rightarrow> uuid \<times> uuid" where
  "sort_pair a b = (if a < b then (a, b) else (b, a))"

definition map_fk_as_not_found :: error_map where
  "map_fk_as_not_found text e =
     (if e = DatabaseError foreign_key_violation then NotFound ''referenced user not found''
      else from_sqlx text e)"

definition already_friends :: "uuid \<Rightarrow> uuid \<Rightarrow> db \<Rightarrow> bool" where
  "already_friends a b d \<longleftrightarrow> (\<exists>f\<in>set (friends d). frd_user_id_a f = a \<and> frd_user_id_b f = b)"

definition is_request :: "uuid \<Rightarrow> uuid \<Rightarrow> FriendRequestRecord \<Rightarrow> bool" where
  "is_request from to r \<longleftrightarrow> fq_from_user_id r = from \<and> fq_to_user_id r = to"

definition pending_exists :: "uuid \<Rightarrow> uuid \<Rightarrow> db \<Rightarrow> bool" where
  "pending_exists from to d \<longleftrightarrow> (\<exists>r\<in>set (friend_requests d). is_request from to r \<and> fq_status r = ''PENDING'')"

text \<open>
  \<open>INSERT ... ON CONFLICT (from_user_id, to_user_id) DO UPDATE SET status = 'PENDING' ... WHERE
  status <> 'PENDING' RETURNING ...\<close>: no row when the request is already pending.
\<close>

definition upsert_friend_request :: "uuid \<Rightarrow> uuid \<Rightarrow> FriendRequestRecord option query" where
  "upsert_friend_request from to t d =
     (let row = \<lparr>fq_from_user_id = from, fq_to_user_id = to, fq_status = ''PENDING'',
                 fq_created_at = t, fq_responded_at = None\<rparr>;
          hit = is_request from to
      in if from = to then Inl (DatabaseError check_violation)
         else case find hit (friend_requests d) of
           Some r \<Rightarrow>
             if fq_status r \<noteq> ''PENDING''
             then Inr (Some row, d\<lparr>friend_requests := update_where hit (\<lambda>_. row) (friend_requests d)\<rparr>)
             else Inr (None, d)
         | None \<Rightarrow>
             if from \<notin> usr_id ` set (users d) \<or> to \<notin> usr_id ` set (users d)
             then Inl (DatabaseError foreign_key_violation)
             else Inr (Some row, d\<lparr>friend_requests := friend_requests d @ [row]\<rparr>))"

definition set_request_status ::
  "(FriendRequestRecord \<Rightarrow> bool) \<Rightarrow> string \<Rightarrow> nat query" where
  "set_request_status hit status t d =
     Inr (length (filter hit (friend_requests d)),
          d\<lparr>friend_requests := update_where hit
              (\<lambda>r. r\<lparr>fq_status := status, fq_responded_at := Some t\<rparr>) (friend_requests d)\<rparr>)"

definition insert_friends_or_ignore :: "uuid \<Rightarrow> uuid \<Rightarrow> unit query" where
  "insert_friends_or_ignore a b t d =
     (if \<not> a < b then Inl (DatabaseError check_violation)
      else if already_friends a b d then Inr ((), d)
      else if a \<notin> usr_id ` set (users d) \<or> b \<notin> usr_id ` set (users d)
      then Inl (DatabaseError foreign_key_violation)
      else Inr ((), d\<lparr>friends := friends d @
             [\<lparr>frd_user_id_a = a, frd_user_id_b = b, frd_created_at = t\<rparr>]\<rparr>))"

text \<open>
  Accepting a friend request also opens the pair's pending direct thread:
  \<open>accepted_at = COALESCE(accepted_at, NOW())\<close>.
\<close>

definition activate_pair_thread :: "uuid \<Rightarrow> uuid \<Rightarrow> unit query" where
  "activate_pair_thread a b t d =
     Inr ((), d\<lparr>threads := update_where
       (\<lambda>r. th_kind r = ''DIRECT'' \<and> th_direct_a_user_id r = Some a \<and>
            th_direct_b_user_id r = Some b \<and> th_direct_status r = ''PENDING'')
       (\<lambda>r. r\<lparr>th_direct_status := ''ACTIVE'',
              th_accepted_at := Some (case th_accepted_at r of Some x \<Rightarrow> x | None \<Rightarrow> t)\<rparr>)
       (threads d)\<rparr>)"

definition select_friend :: "uuid \<Rightarrow> uuid \<Rightarrow> uuid \<Rightarrow> db \<Rightarrow> FriendSummary option" where
  "select_friend a b friend_id d =
     Option.bind (find (\<lambda>f. frd_user_id_a f = a \<and> frd_user_id_b f = b) (friends d)) (\<lambda>f.
     map_option (\<lambda>u. \<lparr>fr_user_id = usr_id u, fr_username = usr_username u,
                      fr_created_at = frd_created_at f\<rparr>)
       (find (\<lambda>u. usr_id u = friend_id) (users d)))"

definition request_summary :: "db \<Rightarrow> FriendRequestRecord \<Rightarrow> FriendRequestSummary option" where
  "request_summary d r =
     Option.bind (find (\<lambda>u. usr_id u = fq_from_user_id r) (users d)) (\<lambda>fu.
     map_option (\<lambda>tu. \<lparr>fs_from_user_id = fq_from_user_id r, fs_to_user_id = fq_to_user_id r,
                       fs_from_username = usr_username fu, fs_to_username = usr_username tu,
                       fs_status = fq_status r, fs_created_at = fq_created_at r,
                       fs_responded_at = fq_responded_at r\<rparr>)
       (find (\<lambda>u. usr_id u = fq_to_user_id r) (users d)))"

section \<open>Repository methods\<close>

definition repo_create_friend_request :: "uuid \<Rightarrow> uuid \<Rightarrow> FriendRequestRecord repo" where
  "repo_create_friend_request from to =
     (case sort_pair from to of (a, b) \<Rightarrow>
        bnd (sql (select_rows (already_friends a b))) (\<lambda>friends.
        bnd (fail_if friends (Conflict ''users are already friends'')) (\<lambda>_.
        bnd (sql (select_rows (pending_exists to from))) (\<lambda>incoming.
        bnd (fail_if incoming (Conflict ''incoming friend request already exists from this user''))
          (\<lambda>_.
        bnd (run_sql map_fk_as_not_found (upsert_friend_request from to)) (\<lambda>request.
        ok_or (Conflict ''friend request is already pending'') request))))))"

definition friend_summary_for_user :: "uuid \<Rightarrow> uuid \<Rightarrow> FriendSummary repo" where
  "friend_summary_for_user user_id friend_user_id =
     (case sort_pair user_id friend_user_id of (a, b) \<Rightarrow>
        sql (select_one (select_friend a b friend_user_id)))"

definition repo_accept_friend_request :: "uuid \<Rightarrow> uuid \<Rightarrow> FriendSummary option repo" where
  "repo_accept_friend_request from to = transaction (
     bnd (sql (select_rows (\<lambda>d. map_option fq_status (find (is_request from to) (friend_requests d)))))
       (\<lambda>row.
     case row of
       None \<Rightarrow> dropped None
     | Some status \<Rightarrow>
         bnd (fail_if (status = ''REJECTED'') (Validation ''friend request is already rejected'')) (\<lambda>_.
         bnd (if status = ''PENDING''
              then bnd (sql (set_request_status (is_request from to) ''ACCEPTED'')) (\<lambda>_. ret ())
              else ret ()) (\<lambda>_.
         case sort_pair from to of (a, b) \<Rightarrow>
           bnd (sql (insert_friends_or_ignore a b)) (\<lambda>_.
           bnd (sql (activate_pair_thread a b)) (\<lambda>_.
           bnd (friend_summary_for_user to from) (\<lambda>friend.
           commit (Some friend))))))))"

definition repo_reject_friend_request :: "uuid \<Rightarrow> uuid \<Rightarrow> bool repo" where
  "repo_reject_friend_request from to =
     bnd (sql (set_request_status (\<lambda>r. is_request from to r \<and> fq_status r = ''PENDING'') ''REJECTED''))
       (\<lambda>rows. ret (0 < rows))"

definition repo_list_pending_inbox_requests :: "uuid \<Rightarrow> FriendRequestSummary list repo" where
  "repo_list_pending_inbox_requests u =
     sql (select_rows (\<lambda>d. List.map_filter (request_summary d)
       (order_desc fq_created_at
         (filter (\<lambda>r. fq_to_user_id r = u \<and> fq_status r = ''PENDING'') (friend_requests d)))))"

definition repo_list_pending_outbox_requests :: "uuid \<Rightarrow> FriendRequestSummary list repo" where
  "repo_list_pending_outbox_requests u =
     sql (select_rows (\<lambda>d. List.map_filter (request_summary d)
       (order_desc fq_created_at
         (filter (\<lambda>r. fq_from_user_id r = u \<and> fq_status r = ''PENDING'') (friend_requests d)))))"

definition repo_list_friends :: "uuid \<Rightarrow> FriendSummary list repo" where
  "repo_list_friends u =
     sql (select_rows (\<lambda>d. List.map_filter
       (\<lambda>f. let other = (if frd_user_id_a f = u then frd_user_id_b f else frd_user_id_a f)
            in map_option (\<lambda>x. \<lparr>fr_user_id = other, fr_username = usr_username x,
                                fr_created_at = frd_created_at f\<rparr>)
                 (find (\<lambda>x. usr_id x = other) (users d)))
       (order_desc frd_created_at
         (filter (\<lambda>f. frd_user_id_a f = u \<or> frd_user_id_b f = u) (friends d)))))"

definition sqlx_friendship_repository :: "world FriendshipRepository" where
  "sqlx_friendship_repository =
     \<lparr>fp_create_friend_request = repo_create_friend_request,
      fp_accept_friend_request = repo_accept_friend_request,
      fp_reject_friend_request = repo_reject_friend_request,
      fp_list_pending_inbox_requests = repo_list_pending_inbox_requests,
      fp_list_pending_outbox_requests = repo_list_pending_outbox_requests,
      fp_list_friends = repo_list_friends\<rparr>"

section \<open>Use case\<close>

record CreateFriendRequestCommand =
  cfr_from_user_id :: uuid
  cfr_to_user_id :: uuid

record RespondFriendRequestCommand =
  rfr_user_id :: uuid
  rfr_from_user_id :: uuid

datatype FriendRequestInboxFilter = InboxPending | Outbox

definition create_friend_request ::
  "'s FriendshipRepository \<Rightarrow> CreateFriendRequestCommand \<Rightarrow> ('s, FriendRequestRecord) app" where
  "create_friend_request repo cmd =
     bnd (fail_if (cfr_from_user_id cmd = cfr_to_user_id cmd)
            (Validation ''cannot send friend request to yourself'')) (\<lambda>_.
     fp_create_friend_request repo (cfr_from_user_id cmd) (cfr_to_user_id cmd))"

definition accept_friend_request ::
  "'s FriendshipRepository \<Rightarrow> RespondFriendRequestCommand \<Rightarrow> ('s, FriendSummary) app" where
  "accept_friend_request repo cmd =
     bnd (fp_accept_friend_request repo (rfr_from_user_id cmd) (rfr_user_id cmd)) (\<lambda>r.
     ok_or (NotFound ''friend request not found'') r)"

definition reject_friend_request ::
  "'s FriendshipRepository \<Rightarrow> RespondFriendRequestCommand \<Rightarrow> ('s, unit) app" where
  "reject_friend_request repo cmd =
     bnd (fp_reject_friend_request repo (rfr_from_user_id cmd) (rfr_user_id cmd)) (\<lambda>rejected.
     bnd (fail_if (\<not> rejected) (NotFound ''friend request not found'')) (\<lambda>_.
     ret ()))"

definition list_friend_requests ::
  "'s FriendshipRepository \<Rightarrow> uuid \<Rightarrow> FriendRequestInboxFilter \<Rightarrow> ('s, FriendRequestSummary list) app" where
  "list_friend_requests repo user_id flt =
     (case flt of
        InboxPending \<Rightarrow> fp_list_pending_inbox_requests repo user_id
      | Outbox \<Rightarrow> fp_list_pending_outbox_requests repo user_id)"

definition list_friends :: "'s FriendshipRepository \<Rightarrow> uuid \<Rightarrow> ('s, FriendSummary list) app" where
  "list_friends repo user_id = fp_list_friends repo user_id"

end
