(* ===== verification/Handlers.thy ===== *)
theory Handlers
  imports Websocket Friendship
begin

text \<open>
  The HTTP handlers that do more than call a use case (\<open>interfaces/http/handlers/\<close>): those that
  limit the rate of requests and those that publish events.  A handler authenticates the bearer
  token, runs its use case on the database and announces the outcome.
\<close>

record application =
  app_env :: env
  app_auth :: "world AuthUseCase"

definition app_conversations :: "application \<Rightarrow> world ConversationUseCase" where
  "app_conversations app = conversation_use_case (simple_text (app_env app))"

definition authenticate :: "application \<Rightarrow> rstring option option \<Rightarrow> (server, uuid) app" where
  "authenticate app header = in_db (authenticated_user_id (app_auth app) header)"

text \<open>A step of the server that returns nothing and cannot fail.\<close>

definition effect :: "(server \<Rightarrow> server) \<Rightarrow> (server, unit) app" where
  "effect f s = (Inr (), f s)"

definition limited :: "string \<Rightarrow> int \<Rightarrow> int \<Rightarrow> (server, unit) app" where
  "limited key limit window_secs s =
     (case server_allow_rate_limit key limit window_secs s of
        (allowed, s1) \<Rightarrow>
          (if allowed then Inr () else Inl (RateLimited ''message rate limit exceeded''), s1))"

section \<open>Channel messages\<close>

definition message_key :: "env \<Rightarrow> uuid \<Rightarrow> uuid \<Rightarrow> string" where
  "message_key env user channel =
     ''rl:message:'' @ env_show_uuid env user @ '':'' @ env_show_uuid env channel"

definition post_message ::
  "application \<Rightarrow> rstring option option \<Rightarrow> uuid \<Rightarrow> rstring \<Rightarrow> (server, MessageRecord) app" where
  "post_message app header channel_id content =
     bnd (authenticate app header) (\<lambda>user_id.
     bnd (limited (message_key (app_env app) user_id channel_id) 30 10) (\<lambda>_.
     bnd (in_db (create_message message_use_case
            \<lparr>cm_user_id = user_id, cm_channel_id = channel_id, cm_content = content\<rparr>)) (\<lambda>message.
     bnd (effect (publish_channel_event (app_env app) channel_id
            (MessageCreate channel_id (message_payload (env_rfc3339 (app_env app)) message)))) (\<lambda>_.
     ret message))))"

definition patch_message ::
  "application \<Rightarrow> rstring option option \<Rightarrow> uuid \<Rightarrow> rstring \<Rightarrow> (server, MessageRecord) app" where
  "patch_message app header message_id content =
     bnd (authenticate app header) (\<lambda>user_id.
     bnd (in_db (edit_message message_use_case
            \<lparr>em_user_id = user_id, em_message_id = message_id, em_content = content\<rparr>)) (\<lambda>message.
     bnd (effect (publish_channel_event (app_env app) (msg_channel_id message)
            (MessageUpdate (msg_channel_id message)
              (message_payload (env_rfc3339 (app_env app)) message)))) (\<lambda>_.
     ret message)))"

definition remove_message :: "application \<Rightarrow> rstring option option \<Rightarrow> uuid \<Rightarrow> (server, unit) app" where
  "remove_message app header message_id =
     bnd (authenticate app header) (\<lambda>user_id.
     bnd (in_db (delete_message message_use_case
            \<lparr>dm_user_id = user_id, dm_message_id = message_id\<rparr>)) (\<lambda>deleted.
     effect (publish_channel_event (app_env app) (md_channel_id deleted)
       (message_deleted_event (env_rfc3339 (app_env app)) deleted))))"

section \<open>Thread messages\<close>

definition thread_message_key :: "env \<Rightarrow> uuid \<Rightarrow> uuid \<Rightarrow> string" where
  "thread_message_key env user thread =
     ''rl:thread-message:'' @ env_show_uuid env user @ '':'' @ env_show_uuid env thread"

definition post_thread_message ::
  "application \<Rightarrow> rstring option option \<Rightarrow> uuid \<Rightarrow> rstring \<Rightarrow> (server, ThreadMessageRecord) app" where
  "post_thread_message app header thread_id content =
     bnd (authenticate app header) (\<lambda>user_id.
     bnd (limited (thread_message_key (app_env app) user_id thread_id) 30 10) (\<lambda>_.
     bnd (in_db (create_thread_message (app_conversations app)
            \<lparr>ctm_user_id = user_id, ctm_thread_id = thread_id, ctm_content = content\<rparr>)) (\<lambda>message.
     bnd (effect (publish_thread_event (app_env app) thread_id
            (ThreadMessageCreate thread_id
              (thread_message_payload (env_rfc3339 (app_env app)) message)))) (\<lambda>_.
     ret message))))"

definition patch_thread_message ::
  "application \<Rightarrow> rstring option option \<Rightarrow> uuid \<Rightarrow> rstring \<Rightarrow> (server, ThreadMessageRecord) app" where
  "patch_thread_message app header message_id content =
     bnd (authenticate app header) (\<lambda>user_id.
     bnd (in_db (edit_thread_message (app_conversations app)
            \<lparr>etm_user_id = user_id, etm_message_id = message_id, etm_content = content\<rparr>)) (\<lambda>message.
     bnd (effect (publish_thread_event (app_env app) (tmsg_thread_id message)
            (ThreadMessageUpdate (tmsg_thread_id message)
              (thread_message_payload (env_rfc3339 (app_env app)) message)))) (\<lambda>_.
     ret message)))"

definition remove_thread_message ::
  "application \<Rightarrow> rstring option option \<Rightarrow> uuid \<Rightarrow> (server, unit) app" where
  "remove_thread_message app header message_id =
     bnd (authenticate app header) (\<lambda>user_id.
     bnd (in_db (delete_thread_message (app_conversations app)
            \<lparr>dtm_user_id = user_id, dtm_message_id = message_id\<rparr>)) (\<lambda>deleted.
     effect (publish_thread_event (app_env app) (tmd_thread_id deleted)
       (thread_message_deleted_event (env_rfc3339 (app_env app)) deleted))))"

section \<open>Direct threads\<close>

definition open_direct_thread ::
  "application \<Rightarrow> rstring option option \<Rightarrow> uuid \<Rightarrow> (server, DirectThreadUpsertResult) app" where
  "open_direct_thread app header peer =
     bnd (authenticate app header) (\<lambda>user_id.
     bnd (in_db (create_direct_thread (app_conversations app)
            \<lparr>cd_user_id = user_id, cd_peer_user_id = peer\<rparr>)) (\<lambda>r.
     let thread = up_thread r in
     bnd (if up_created r \<and> dt_status thread = ''PENDING'' \<and> dt_requested_by thread = Some user_id
          then effect (publish_user_event (app_env app) (dt_peer_user_id thread)
                 (ThreadRequestReceived (dt_id thread) user_id (dt_peer_user_id thread)))
          else ret ()) (\<lambda>_.
     ret r)))"

text \<open>The announcement of an accepted request: one publication for each of the two users.\<close>

definition announce_accepted :: "env \<Rightarrow> uuid \<Rightarrow> uuid \<Rightarrow> DirectThreadTransition \<Rightarrow> server \<Rightarrow> server" where
  "announce_accepted env thread_id user_id transition s =
     (let event = ThreadAccepted thread_id user_id (tr_requester_user_id transition)
                    (tr_receiver_user_id transition)
      in publish_user_event env (tr_receiver_user_id transition) event
           (publish_user_event env (tr_requester_user_id transition) event s))"

definition accept_thread_request ::
  "application \<Rightarrow> rstring option option \<Rightarrow> uuid \<Rightarrow> (server, DirectThreadSummary) app" where
  "accept_thread_request app header thread_id =
     bnd (authenticate app header) (\<lambda>user_id.
     bnd (in_db (accept_direct_thread (app_conversations app)
            \<lparr>ad_user_id = user_id, ad_thread_id = thread_id\<rparr>)) (\<lambda>transition.
     bnd (effect (announce_accepted (app_env app) thread_id user_id transition)) (\<lambda>_.
     in_db (get_direct_thread (app_conversations app) thread_id user_id))))"

definition reject_thread_request ::
  "application \<Rightarrow> rstring option option \<Rightarrow> uuid \<Rightarrow> (server, unit) app" where
  "reject_thread_request app header thread_id =
     bnd (authenticate app header) (\<lambda>user_id.
     bnd (in_db (reject_direct_thread (app_conversations app)
            \<lparr>rd_user_id = user_id, rd_thread_id = thread_id\<rparr>)) (\<lambda>_.
     ret ()))"

section \<open>Query parameters\<close>

definition parse_inbox_filter :: "rstring option \<Rightarrow> DirectInboxFilter AppResult" where
  "parse_inbox_filter inbox =
     (case (case map_option trim inbox of Some v \<Rightarrow> if v = [] then None else Some v | None \<Rightarrow> None) of
        None \<Rightarrow> Inr All
      | Some v \<Rightarrow>
          if eq_ignore_ascii_case v (lit ''pending'') then Inr Pending
          else Inl (Validation ''invalid inbox filter''))"

definition parse_friend_request_filter :: "rstring option \<Rightarrow> FriendRequestInboxFilter AppResult" where
  "parse_friend_request_filter raw =
     (case raw of
        None \<Rightarrow> Inr InboxPending
      | Some value \<Rightarrow>
          let v = to_ascii_lowercase (trim value)
          in if v = lit ''pending'' then Inr InboxPending
             else if v = lit ''outbox'' then Inr Outbox
             else Inl (Validation ''inbox must be one of: pending, outbox''))"

text \<open>The metadata of a session from the request's headers, each absent or possibly unreadable.\<close>

definition read_header :: "rstring option option \<Rightarrow> rstring option" where
  "read_header header =
     (case header of
        Some (Some value) \<Rightarrow> if trim value = [] then None else Some (trim value)
      | _ \<Rightarrow> None)"

definition build_session_context ::
  "rstring option option \<Rightarrow> rstring option option \<Rightarrow> SessionContext" where
  "build_session_context user_agent x_forwarded_for =
     \<lparr>ctx_user_agent = read_header user_agent, ctx_ip = read_header x_forwarded_for\<rparr>"


section \<open>Fan-out\<close>

text \<open>
  What a step published, and the delivery of publications to an instance.  An event is understood
  if the JSON that one instance writes is read back by the other.
\<close>

definition new_publications :: "redis \<Rightarrow> redis \<Rightarrow> (string \<times> rstring) list" where
  "new_publications r r' = drop (length (rd_published r)) (rd_published r')"

definition deliver :: "env \<Rightarrow> (string \<times> rstring) list \<Rightarrow> gateway \<Rightarrow> gateway" where
  "deliver env pubs g = fold (\<lambda>(channel, payload). handle_payload env payload) pubs g"

definition understood :: "env \<Rightarrow> env \<Rightarrow> ServerEvent \<Rightarrow> bool" where
  "understood here there e \<longleftrightarrow>
     (let envelope = \<lparr>origin_instance_id = env_instance_id here, envelope_event = e\<rparr>
      in case env_envelope_json here envelope of
           Inl _ \<Rightarrow> False
         | Inr payload \<Rightarrow> env_parse_envelope there payload = Some envelope)"

text \<open>Two different instances: their ids are UUID texts, never empty and never the same.\<close>

definition distinct_instances :: "env \<Rightarrow> env \<Rightarrow> bool" where
  "distinct_instances here there \<longleftrightarrow>
     env_instance_id here \<noteq> [] \<and> env_instance_id here \<noteq> env_instance_id there"

lemma publish_envelope_answers:
  assumes "answers r"
    and "env_envelope_json env \<lparr>origin_instance_id = env_instance_id env, envelope_event = e\<rparr> = Inr p"
  shows "\<exists>r'. publish_envelope env channel e r = (Inr (), r') \<and> answers r' \<and>
              rd_published r' = rd_published r @ [(channel, p)]"
  using assms by (auto simp: publish_envelope_def bnd_def map_error_def get_connection_def publish_def
      send_command_def from_result_def answers_def)

lemma handle_payload_echo:
  assumes "understood here here e" and "env_instance_id here \<noteq> []"
    and "env_envelope_json here \<lparr>origin_instance_id = env_instance_id here, envelope_event = e\<rparr> = Inr p"
  shows "handle_payload here p g = g"
  using assms by (simp add: handle_payload_def understood_def)

lemma handle_payload_remote:
  assumes "understood here there e" and "distinct_instances here there"
    and "env_envelope_json here \<lparr>origin_instance_id = env_instance_id here, envelope_event = e\<rparr> = Inr p"
  shows "handle_payload there p g = dispatch_event e g"
  using assms by (simp add: handle_payload_def understood_def distinct_instances_def)




text \<open>
  Two instances with one connection each, for the examples: \<open>demo_env i e\<close> is instance \<open>i\<close>, with a
  JSON library that knows the one event \<open>e\<close>, published by instance \<open>A\<close>.
\<close>

definition demo_env :: "string \<Rightarrow> ServerEvent \<Rightarrow> env" where
  "demo_env i e =
     \<lparr>env_instance_id = i, env_show_uuid = (\<lambda>u. ''u''), env_envelope_json = (\<lambda>_. Inr [1]),
      env_parse_envelope = (\<lambda>_. Some \<lparr>origin_instance_id = ''A'', envelope_event = e\<rparr>),
      env_parse_event = (\<lambda>_. None), env_parse_command = (\<lambda>_. None), env_rfc3339 = (\<lambda>_. None),
      env_ws_max_message_bytes = 4096\<rparr>"

definition demo_gate :: "uuid \<Rightarrow> uuid \<Rightarrow> gateway" where
  "demo_gate u k =
     \<lparr>hub = subscribe_channel 7 k (snd (register_at u 0 7 0 new_hub)), outbox = (\<lambda>_. []),
      receiver_gone = (\<lambda>_. False), instant = 0, conn_id_at = of_nat, conns_drawn = 1\<rparr>"

definition demo_world :: world where
  "demo_world = \<lparr>clock = 0, uuid_at = of_nat, drawn = 0, down = (\<lambda>_. False), issued = 0,
     sqlx_text = (\<lambda>_. ''error''), tables = empty_db\<rparr>"

definition demo_server :: "uuid \<Rightarrow> uuid \<Rightarrow> server" where
  "demo_server u k = \<lparr>database = demo_world, gate = demo_gate u k, redis = idle_redis\<rparr>"

lemma demo_gate_ok: "hub_ok (hub (demo_gate u k))"
  by (simp add: demo_gate_def hub_ok_subscribe_channel hub_ok_register id_unused_def sender_unused_def
      new_hub_def connection_def hub_ok_new [unfolded new_hub_def])

definition demo_conn :: "uuid \<Rightarrow> uuid \<Rightarrow> ConnectionState" where
  "demo_conn u k = \<lparr>con_user_id = u, con_sender = 0, con_channels = [k], con_threads = [],
                    con_last_heartbeat = 0\<rparr>"

lemma demo_gate_connection: "connection (hub (demo_gate u k)) 7 = Some (demo_conn u k)"
  by (simp add: demo_gate_def demo_conn_def subscribe_channel_def Let_def List.insert_def)

lemma demo_conn_fields [simp]:
  "con_user_id (demo_conn u k) = u" "con_sender (demo_conn u k) = 0" "con_channels (demo_conn u k) = [k]"
  by (simp_all add: demo_conn_def)

lemma demo_understood: "understood (demo_env ''A'' e) (demo_env i e) e"
  by (simp add: understood_def demo_env_def)

lemma demo_redis: "answers (redis (demo_server u k))"
  by (simp add: demo_server_def answers_def idle_redis_def)

lemma demo_instances: "distinct_instances (demo_env ''A'' e) (demo_env ''B'' e)"
  by (simp add: distinct_instances_def demo_env_def)

lemma demo_server_gate [simp]: "gate (demo_server u k) = demo_gate u k"
  by (simp add: demo_server_def)

lemma demo_server_ok: "hub_ok (hub (gate (demo_server u k)))"
  "connection (hub (gate (demo_server u k))) 7 = Some (demo_conn u k)"
  by (simp_all add: demo_gate_ok demo_gate_connection)

lemma demo_gate_fields [simp]:
  "outbox (demo_gate u k) m = []" "\<not> receiver_gone (demo_gate u k) m"
  by (simp_all add: demo_gate_def)


text \<open>How many copies of \<open>THREAD_ACCEPTED\<close> one dispatch sends to a user's connection.\<close>

lemma dispatch_accepted:
  assumes ok: "hub_ok (hub g)" and c: "connection (hub g) c = Some conn"
    and up: "\<not> receiver_gone g (con_sender conn)" and ne: "rq \<noteq> rc"
    and u: "con_user_id conn \<in> {rq, rc}" and e: "e = ThreadAccepted t by rq rc"
  shows "outbox (dispatch_event e g) (con_sender conn) = outbox g (con_sender conn) @ [e]"
  using broadcast_to_user_once [of "broadcast_to_user rq e g" c conn rc e]
    broadcast_to_user_once [OF ok c, of rq e] ok c up ne u
  by (auto simp: e Let_def)

text \<open>
  Accepting a direct thread tells a user once on the instance that handles the request, but
  twice on every other instance: the event is published once for the requester and once for the
  receiver, and each publication is dispatched to both of them.
\<close>

theorem accepted_event_duplicated_remotely:
  assumes up: "answers (redis s)" and ids: "distinct_instances here there"
    and tr: "tr_requester_user_id tr = rq" "tr_receiver_user_id tr = rc" "rq \<noteq> rc"
    and e: "e = ThreadAccepted t rc rq rc"
    and json: "understood here here e" "understood here there e"
    and s': "s' = announce_accepted here t rc tr s"
    and pubs: "pubs = new_publications (redis s) (redis s')"
    and A: "hub_ok (hub (gate s))" "connection (hub (gate s)) c = Some conn"
      "con_user_id conn \<in> {rq, rc}" "\<not> receiver_gone (gate s) (con_sender conn)"
    and B: "hub_ok (hub g)" "connection (hub g) d = Some conn'"
      "con_user_id conn' \<in> {rq, rc}" "\<not> receiver_gone g (con_sender conn')"
  shows "outbox (deliver here pubs (gate s')) (con_sender conn) = outbox (gate s) (con_sender conn) @ [e]
       \<and> outbox (deliver there pubs g) (con_sender conn') = outbox g (con_sender conn') @ [e, e]"
proof -
  from json(1) obtain p where
    p: "env_envelope_json here \<lparr>origin_instance_id = env_instance_id here, envelope_event = e\<rparr> = Inr p"
    by (auto simp: understood_def Let_def split: sum.splits)
  let ?ch = "\<lambda>u. ''events:user:'' @ env_show_uuid here u"
  from publish_envelope_answers [OF up p, of "?ch rq"]
  obtain r where r: "publish_envelope here (?ch rq) e (redis s) = (Inr (), r)" "answers r"
    "rd_published r = rd_published (redis s) @ [(?ch rq, p)]" by blast
  from publish_envelope_answers [OF r(2) p, of "?ch rc"]
  have "pubs = [(?ch rq, p), (?ch rc, p)]"
    using r by (auto simp: pubs s' new_publications_def announce_accepted_def publish_user_event_def
        on_redis_def on_gate_def redis_publish_user_event_def Let_def tr e)
  moreover have "gate s' = broadcast_to_user rc e (broadcast_to_user rq e (gate s))"
    by (simp add: s' announce_accepted_def publish_user_event_def on_redis_def on_gate_def Let_def tr e)
  ultimately have "deliver here pubs (gate s') = broadcast_to_user rc e (broadcast_to_user rq e (gate s))"
    "deliver there pubs g = dispatch_event e (dispatch_event e g)"
    using ids handle_payload_echo [OF json(1) _ p] handle_payload_remote [OF json(2) ids p]
    by (simp_all add: deliver_def distinct_instances_def)
  moreover have "broadcast_to_user rc e (broadcast_to_user rq e (gate s)) = dispatch_event e (gate s)"
    using tr(3) by (simp add: e Let_def)
  moreover have "hub_ok (hub (dispatch_event e g))" "connection (hub (dispatch_event e g)) d = Some conn'"
    "\<not> receiver_gone (dispatch_event e g) (con_sender conn')"
    using B tr(3) by (simp_all add: e Let_def)
  ultimately show ?thesis
    using dispatch_accepted [OF A(1,2,4) tr(3) A(3) e] dispatch_accepted [OF B(1,2,4) tr(3) B(3) e]
      dispatch_accepted [OF _ _ _ tr(3) B(3) e, of "dispatch_event e g" d] by simp
qed

theorem accepted_event_duplicated_remotely_witness:
  "let e = ThreadAccepted 9 2 1 2;
       tr = \<lparr>tr_thread_id = 9, tr_requester_user_id = 1, tr_receiver_user_id = 2, tr_accepted_at = Some 0\<rparr>;
       s' = announce_accepted (demo_env ''A'' e) 9 2 tr (demo_server 2 5);
       pubs = new_publications (redis (demo_server 2 5)) (redis s')
   in outbox (deliver (demo_env ''A'' e) pubs (gate s')) 0 = [e] \<and>
      outbox (deliver (demo_env ''B'' e) pubs (demo_gate 1 5)) 0 = [e, e]"
  unfolding Let_def
  using accepted_event_duplicated_remotely [OF demo_redis [of 2 5] demo_instances refl refl _ _
      demo_understood demo_understood refl refl demo_server_ok _ _ demo_gate_ok demo_gate_connection, of
      "\<lparr>tr_thread_id = 9, tr_requester_user_id = 1, tr_receiver_user_id = 2, tr_accepted_at = Some 0\<rparr>"
      "ThreadAccepted 9 2 1 2" 9 1 5]
  by simp

end
