(* ===== verification/Sessions.thy ===== *)
theory Sessions
  imports Handlers
begin

text \<open>
  The websocket sessions of one server instance as a state machine: sessions open, handle frames,
  end and clean up, writer tasks stop, events arrive from other instances and from requests, and the
  rest of the system changes the database and Redis, in any order.  The invariant says that the hub
  knows exactly the sessions that are open.
\<close>

section \<open>Steps of a session\<close>

text \<open>What the hub knows of a connection for its whole life: whose it is and its channel.\<close>

definition owner :: "gateway \<Rightarrow> uuid \<Rightarrow> (uuid \<times> nat) option" where
  "owner g c = map_option (\<lambda>conn. (con_user_id conn, con_sender conn)) (connection (hub g) c)"

text \<open>
  A step on behalf of connection \<open>c\<close>: it keeps the invariant of the hub, registers and unregisters
  nobody, and enters no other connection in an index.
\<close>

definition acts_for :: "uuid \<Rightarrow> gateway \<Rightarrow> gateway \<Rightarrow> bool" where
  "acts_for c g g' \<longleftrightarrow>
     conns_drawn g' = conns_drawn g \<and> conn_id_at g' = conn_id_at g \<and> owner g' = owner g \<and>
     (hub_ok (hub g) \<longrightarrow> hub_ok (hub g')) \<and>
     (\<forall>k. set (members (channel_subscribers (hub g')) k)
            \<subseteq> insert c (set (members (channel_subscribers (hub g)) k)) \<and>
          set (members (thread_subscribers (hub g')) k)
            \<subseteq> insert c (set (members (thread_subscribers (hub g)) k)))"

lemma acts_for_refl [simp]: "acts_for c g g"
  by (auto simp: acts_for_def)

lemma acts_for_trans [trans]: "acts_for c g g' \<Longrightarrow> acts_for c g' g'' \<Longrightarrow> acts_for c g g''"
  unfolding acts_for_def by fastforce

lemma acts_for_same_hub:
  "hub g' = hub g \<Longrightarrow> conns_drawn g' = conns_drawn g \<Longrightarrow> conn_id_at g' = conn_id_at g \<Longrightarrow> acts_for c g g'"
  by (auto simp: acts_for_def owner_def)

lemma owner_map: "(\<And>d. map_option (\<lambda>x. (con_user_id x, con_sender x)) (connection h d) =
    map_option (\<lambda>x. (con_user_id x, con_sender x)) (connection (hub g) d)) \<Longrightarrow>
  owner (g\<lparr>hub := h\<rparr>) = owner g"
  by (simp add: owner_def fun_eq_iff)

lemma acts_for_subscribe_channel: "acts_for c g (g\<lparr>hub := subscribe_channel c k (hub g)\<rparr>)"
  using hub_ok_subscribe_channel [of "hub g" c k]
  by (auto simp: acts_for_def channel_topic.subscribe_index
      subscribe_channel_def Let_def option.map_comp comp_def intro!: owner_map)

lemma acts_for_unsubscribe_channel: "acts_for c g (g\<lparr>hub := unsubscribe_channel c k (hub g)\<rparr>)"
  using hub_ok_unsubscribe_channel [of "hub g" c k]
  by (auto simp: acts_for_def channel_topic.unsubscribe_index
      unsubscribe_channel_def Let_def option.map_comp comp_def intro!: owner_map)

lemma acts_for_subscribe_thread: "acts_for c g (g\<lparr>hub := subscribe_thread c k (hub g)\<rparr>)"
  using hub_ok_subscribe_thread [of "hub g" c k]
  by (auto simp: acts_for_def thread_topic.subscribe_index
      subscribe_thread_def Let_def option.map_comp comp_def intro!: owner_map)

lemma acts_for_unsubscribe_thread: "acts_for c g (g\<lparr>hub := unsubscribe_thread c k (hub g)\<rparr>)"
  using hub_ok_unsubscribe_thread [of "hub g" c k]
  by (auto simp: acts_for_def thread_topic.unsubscribe_index
      unsubscribe_thread_def Let_def option.map_comp comp_def intro!: owner_map)

lemma acts_for_touch: "acts_for c g (touch_heartbeat c g)"
  using hub_ok_touch_heartbeat [of g c]
  by (auto simp: acts_for_def touch_heartbeat_def option.map_comp comp_def intro!: owner_map)

lemma broadcast_ids [simp]:
  "conns_drawn (broadcast_to_channel k e g) = conns_drawn g"
  "conn_id_at (broadcast_to_channel k e g) = conn_id_at g"
  "conns_drawn (broadcast_to_thread k e g) = conns_drawn g"
  "conn_id_at (broadcast_to_thread k e g) = conn_id_at g"
  "conns_drawn (broadcast_to_user k e g) = conns_drawn g"
  "conn_id_at (broadcast_to_user k e g) = conn_id_at g"
  by (simp_all add: broadcast_to_channel_def broadcast_to_thread_def broadcast_to_user_def split: option.splits)

lemma broadcast_global_frame [simp]:
  "hub (broadcast_global e g) = hub g"
  "receiver_gone (broadcast_global e g) = receiver_gone g"
  "conns_drawn (broadcast_global e g) = conns_drawn g"
  "conn_id_at (broadcast_global e g) = conn_id_at g"
proof -
  have "hub (fold (\<lambda>(c, conn). send_event e conn) cs g) = hub g \<and>
    receiver_gone (fold (\<lambda>(c, conn). send_event e conn) cs g) = receiver_gone g \<and>
    conns_drawn (fold (\<lambda>(c, conn). send_event e conn) cs g) = conns_drawn g \<and>
    conn_id_at (fold (\<lambda>(c, conn). send_event e conn) cs g) = conn_id_at g"
    for cs :: "(uuid \<times> ConnectionState) list"
    by (induction cs arbitrary: g) (auto split: prod.splits)
  then show "hub (broadcast_global e g) = hub g"
    "receiver_gone (broadcast_global e g) = receiver_gone g"
    "conns_drawn (broadcast_global e g) = conns_drawn g"
    "conn_id_at (broadcast_global e g) = conn_id_at g"
    by (simp_all add: broadcast_global_def)
qed

lemma gate_simps [simp]:
  "gate (on_gate f s) = f (gate s)" "gate (on_redis r s) = gate s"
  "gate (set_presence_state env u st n s) = gate s"
  "gate (publish_channel_event env k e s) = broadcast_to_channel k e (gate s)"
  "gate (publish_thread_event env k e s) = broadcast_to_thread k e (gate s)"
  "gate (publish_user_event env k e s) = broadcast_to_user k e (gate s)"
  "gate (publish_presence_event env e s) = broadcast_global e (gate s)"
  "gate (on_hub h s) = (gate s)\<lparr>hub := h (hub (gate s))\<rparr>"
  "gate (send_error c code msg s) = send_to_connection c (ErrorEvent code msg) (gate s)"
  by (simp_all add: on_gate_def on_redis_def set_presence_state_def publish_channel_event_def
      publish_thread_event_def publish_user_event_def publish_presence_event_def on_hub_def
      send_error_def split: PresenceStatus.split)

lemma gate_in_db [simp]: "in_db m s = (r, s') \<Longrightarrow> gate s' = gate s"
  by (auto simp: in_db_def split: prod.splits)

lemma gate_rate_limit [simp]: "server_allow_rate_limit k l w s = (ok, s') \<Longrightarrow> gate s' = gate s"
  by (auto simp: server_allow_rate_limit_def split: prod.splits)

lemma dispatch_frame [simp]:
  "hub (dispatch_event e g) = hub g" "receiver_gone (dispatch_event e g) = receiver_gone g"
  "conns_drawn (dispatch_event e g) = conns_drawn g" "conn_id_at (dispatch_event e g) = conn_id_at g"
  by (cases e; simp add: Let_def)+

lemma handle_payload_frame [simp]:
  "hub (handle_payload env p g) = hub g" "receiver_gone (handle_payload env p g) = receiver_gone g"
  "conns_drawn (handle_payload env p g) = conns_drawn g"
  "conn_id_at (handle_payload env p g) = conn_id_at g"
  by (simp_all add: handle_payload_def split: option.splits)

lemma acts_for_send [simp]: "acts_for c g g' \<Longrightarrow> acts_for c g (send_to_connection d e g')"
  by (rule acts_for_trans, assumption, rule acts_for_same_hub) simp_all

lemma handle_command_acts: "acts_for c (gate s) (gate (handle_command env c user cmd s))"
proof (cases cmd)
  case (SubscribeChannel channel)
  then show ?thesis
    by (auto simp: acts_for_subscribe_channel split: prod.splits sum.splits)
next
  case (SubscribeThread thread)
  then show ?thesis
    by (auto simp: acts_for_subscribe_thread split: prod.splits sum.splits bool.splits)
qed (auto simp: Let_def acts_for_unsubscribe_channel acts_for_unsubscribe_thread acts_for_touch
    split: prod.splits sum.splits intro: acts_for_same_hub)

lemma socket_step_acts: "acts_for c (gate s) (gate (snd (socket_step env c user i s)))"
  by (cases i) (auto simp: handle_command_acts split: option.splits)


section \<open>The state machine\<close>

text \<open>
  A session is its connection, its user and its channel.  It is open while its loop runs, ending
  between the loop and its cleanup.  \<open>stopped\<close> records that \<open>shutdown_all\<close> has run.
\<close>

type_synonym session = "uuid \<times> uuid \<times> nat"

record node =
  srv :: server
  opened :: "session list"
  ending :: "session list"
  stopped :: bool

text \<open>What the other tasks of the instance do to the gateway: they only send events.\<close>

datatype outside =
    RemoteEvent rstring
  | ChannelEvent uuid ServerEvent
  | ThreadEvent uuid ServerEvent
  | UserEvent uuid ServerEvent

fun outside_step :: "env \<Rightarrow> outside \<Rightarrow> server \<Rightarrow> server" where
  "outside_step env (RemoteEvent payload) s = on_gate (handle_payload env payload) s"
| "outside_step env (ChannelEvent k e) s = publish_channel_event env k e s"
| "outside_step env (ThreadEvent k e) s = publish_thread_event env k e s"
| "outside_step env (UserEvent k e) s = publish_user_event env k e s"

text \<open>
  The ids drawn so far.  A connection gets one that was not: \<open>Uuid::new_v4\<close> does not repeat itself.
\<close>

definition drawn_id :: "gateway \<Rightarrow> uuid \<Rightarrow> bool" where
  "drawn_id g c \<longleftrightarrow> (\<exists>m < conns_drawn g. c = conn_id_at g m)"

inductive ws_step :: "env \<Rightarrow> node \<Rightarrow> node \<Rightarrow> bool" for env where
  connect: "\<not> drawn_id (gate (srv n)) (conn_id_at (gate (srv n)) (conns_drawn (gate (srv n)))) \<Longrightarrow>
    open_socket env u (srv n) = (c, s) \<Longrightarrow>
    ws_step env n (n\<lparr>srv := s, opened := (c, u, conns_drawn (gate (srv n))) # opened n\<rparr>)"
| frame: "(c, u, tx) \<in> set (opened n) \<Longrightarrow> socket_step env c u i (srv n) = (True, s) \<Longrightarrow>
    ws_step env n (n\<lparr>srv := s\<rparr>)"
| last_frame: "(c, u, tx) \<in> set (opened n) \<Longrightarrow> socket_step env c u i (srv n) = (False, s) \<Longrightarrow>
    ws_step env n (n\<lparr>srv := s, opened := removeAll (c, u, tx) (opened n),
                     ending := (c, u, tx) # ending n\<rparr>)"
| cleanup: "(c, u, tx) \<in> set (ending n) \<Longrightarrow>
    ws_step env n (n\<lparr>srv := close_socket env c tx (srv n), ending := removeAll (c, u, tx) (ending n)\<rparr>)"
| writer_stops: "(c, u, tx) \<in> set (opened n @ ending n) \<Longrightarrow>
    ws_step env n (n\<lparr>srv := on_gate (\<lambda>g. g\<lparr>receiver_gone := (receiver_gone g)(tx := True)\<rparr>) (srv n)\<rparr>)"
| elsewhere: "ws_step env n (n\<lparr>srv := outside_step env ev (srv n)\<rparr>)"
| environment: "ws_step env n (n\<lparr>srv := (srv n)\<lparr>database := w, redis := r\<rparr>\<rparr>)"
| tick: "ws_step env n (n\<lparr>srv := on_gate (\<lambda>g. g\<lparr>instant := Suc (instant g)\<rparr>) (srv n)\<rparr>)"
| stop: "ws_step env n (n\<lparr>srv := on_hub shutdown_all (srv n), stopped := True\<rparr>)"

text \<open>A freshly started instance: no connection and no session.\<close>

definition fresh_node :: "node \<Rightarrow> bool" where
  "fresh_node n \<longleftrightarrow> hub (gate (srv n)) = new_hub \<and> conns_drawn (gate (srv n)) = 0 \<and>
     opened n = [] \<and> ending n = [] \<and> \<not> stopped n"

inductive ws_reach :: "env \<Rightarrow> node \<Rightarrow> bool" for env where
  start: "fresh_node n \<Longrightarrow> ws_reach env n"
| step: "ws_reach env n \<Longrightarrow> ws_step env n n' \<Longrightarrow> ws_reach env n'"

section \<open>The invariant\<close>

text \<open>The connections that some topic lists.\<close>

definition indexed :: "gateway \<Rightarrow> uuid set" where
  "indexed g = {c. \<exists>k. c \<in> set (members (channel_subscribers (hub g)) k) \<or>
                      c \<in> set (members (thread_subscribers (hub g)) k)}"

lemma indexed_acts_for: "acts_for c g g' \<Longrightarrow> indexed g' \<subseteq> insert c (indexed g)"
  unfolding acts_for_def indexed_def by blast

text \<open>
  On the gateway alone: the hub's invariant, and every id and channel that it knows was drawn, the
  \<open>n\<close>-th connection on the \<open>n\<close>-th channel.
\<close>

definition gate_ok :: "gateway \<Rightarrow> bool" where
  "gate_ok g \<longleftrightarrow> hub_ok (hub g) \<and>
     (\<forall>c u tx. owner g c = Some (u, tx) \<longrightarrow> tx < conns_drawn g \<and> c = conn_id_at g tx) \<and>
     (\<forall>c \<in> indexed g. drawn_id g c)"

text \<open>No index names a connection that is not registered.\<close>

definition no_stale :: "gateway \<Rightarrow> bool" where
  "no_stale g \<longleftrightarrow> (\<forall>c \<in> indexed g. owner g c \<noteq> None)"

definition sessions_ok :: "session set \<Rightarrow> bool \<Rightarrow> gateway \<Rightarrow> bool" where
  "sessions_ok S stop g \<longleftrightarrow>
     inj_on fst S \<and>
     (\<forall>c u tx. (c, u, tx) \<in> S \<longrightarrow> tx < conns_drawn g \<and> c = conn_id_at g tx \<and>
        (owner g c = Some (u, tx) \<or> stop \<and> owner g c = None)) \<and>
     (\<forall>c u tx. owner g c = Some (u, tx) \<longrightarrow> (c, u, tx) \<in> S)"

definition node_ok :: "node \<Rightarrow> bool" where
  "node_ok n \<longleftrightarrow> gate_ok (gate (srv n)) \<and> (\<not> stopped n \<longrightarrow> no_stale (gate (srv n))) \<and>
     sessions_ok (set (opened n) \<union> set (ending n)) (stopped n) (gate (srv n)) \<and>
     set (opened n) \<inter> set (ending n) = {}"

lemma drawn_id_cong:
  "conns_drawn g' = conns_drawn g \<Longrightarrow> conn_id_at g' = conn_id_at g \<Longrightarrow> drawn_id g' c = drawn_id g c"
  by (simp add: drawn_id_def)

lemma gate_ok_acts_for:
  assumes "gate_ok g" and "acts_for c g g'" and "drawn_id g c"
  shows "gate_ok g'"
  using assms indexed_acts_for [OF assms(2)]
  by (auto simp: gate_ok_def acts_for_def drawn_id_cong [of g' g])

lemma no_stale_acts_for:
  assumes "no_stale g" and "acts_for c g g'" and "owner g c \<noteq> None"
  shows "no_stale g'"
  using assms indexed_acts_for [OF assms(2)] by (auto simp: no_stale_def acts_for_def)

lemma sessions_ok_acts_for: "acts_for c g g' \<Longrightarrow> sessions_ok S stop g' = sessions_ok S stop g"
  by (auto simp: sessions_ok_def acts_for_def)

lemma sessions_okD:
  "sessions_ok S stop g \<Longrightarrow> (c, u, tx) \<in> S \<Longrightarrow> tx < conns_drawn g \<and> c = conn_id_at g tx \<and>
     (owner g c = Some (u, tx) \<or> stop \<and> owner g c = None)"
  by (simp add: sessions_ok_def)

lemma sessions_ok_owner: "sessions_ok S stop g \<Longrightarrow> owner g c = Some (u, tx) \<Longrightarrow> (c, u, tx) \<in> S"
  by (simp add: sessions_ok_def)

lemma sessions_ok_inj: "sessions_ok S stop g \<Longrightarrow> inj_on fst S"
  by (simp add: sessions_ok_def)

lemma sessions_ok_drawn: "sessions_ok S stop g \<Longrightarrow> (c, u, tx) \<in> S \<Longrightarrow> drawn_id g c"
  by (auto simp: sessions_ok_def drawn_id_def)

text \<open>Steps that leave the hub and the counters alone.\<close>

lemma node_ok_same_hub:
  assumes "node_ok n" and "hub (gate s) = hub (gate (srv n))"
    and "conns_drawn (gate s) = conns_drawn (gate (srv n))"
    and "conn_id_at (gate s) = conn_id_at (gate (srv n))"
  shows "node_ok (n\<lparr>srv := s\<rparr>)"
proof -
  have "owner (gate s) = owner (gate (srv n))"
    using assms(2) by (simp add: owner_def fun_eq_iff)
  with assms show ?thesis
    by (simp add: node_ok_def gate_ok_def no_stale_def sessions_ok_def drawn_id_def indexed_def)
qed


section \<open>Opening and closing keep it\<close>

lemma hub_open_socket:
  assumes "open_socket env u s = (c, s')"
  shows "c = conn_id_at (gate s) (conns_drawn (gate s))"
    and "hub (gate s') = snd (register_at u (conns_drawn (gate s)) c (instant (gate s)) (hub (gate s)))"
    and "conns_drawn (gate s') = Suc (conns_drawn (gate s))"
    and "conn_id_at (gate s') = conn_id_at (gate s)"
  using assms by (auto simp: open_socket_def hub_register_def register_at_def Let_def
      split: prod.splits if_splits)

lemma hub_close_socket [simp]:
  "hub (gate (close_socket env c tx s)) = snd (hub_unregister c (hub (gate s)))"
  "conns_drawn (gate (close_socket env c tx s)) = conns_drawn (gate s)"
  "conn_id_at (gate (close_socket env c tx s)) = conn_id_at (gate s)"
  by (auto simp: close_socket_def Let_def split: prod.splits option.splits if_splits)

text \<open>The next id is new: every id in use was drawn before it.\<close>

lemma next_id_unused:
  assumes "gate_ok g" and new: "\<not> drawn_id g (conn_id_at g (conns_drawn g))"
  shows "id_unused (conn_id_at g (conns_drawn g)) (hub g)" and "sender_unused (conns_drawn g) (hub g)"
proof -
  have "owner g (conn_id_at g (conns_drawn g)) = None"
    using assms by (cases "owner g (conn_id_at g (conns_drawn g))") (auto simp: gate_ok_def drawn_id_def)
  with new assms show "id_unused (conn_id_at g (conns_drawn g)) (hub g)"
    by (auto simp: id_unused_def gate_ok_def indexed_def owner_def)
  show "sender_unused (conns_drawn g) (hub g)"
    using assms by (fastforce simp: sender_unused_def gate_ok_def owner_def)
qed

lemma node_ok_connect:
  assumes ok: "node_ok n" and fresh_id: "\<not> drawn_id (gate (srv n)) (conn_id_at (gate (srv n)) (conns_drawn (gate (srv n))))"
    and s: "open_socket env u (srv n) = (c, s)"
  shows "node_ok (n\<lparr>srv := s, opened := (c, u, conns_drawn (gate (srv n))) # opened n\<rparr>)"
proof -
  let ?g = "gate (srv n)"
  note h = hub_open_socket [OF s]
  have g: "gate_ok ?g" using ok by (simp add: node_ok_def)
  note new = next_id_unused [OF g fresh_id, folded h(1)]
  have own: "owner (gate s) d = (if d = c then Some (u, conns_drawn ?g) else owner ?g d)" for d
    by (simp add: owner_def h(2))
  have idx: "indexed (gate s) = indexed ?g"
    by (simp add: indexed_def h(2))
  have "hub_ok (hub (gate s))"
    unfolding h(2) using g new by (simp add: gate_ok_def hub_ok_register)
  moreover have "drawn_id ?g d \<Longrightarrow> drawn_id (gate s) d" for d
    using h(3,4) by (auto simp: drawn_id_def intro: less_SucI)
  ultimately have "gate_ok (gate s)"
    using g by (auto simp: gate_ok_def own idx h(1,3,4) intro: less_SucI split: if_splits)
  moreover have "\<not> stopped n \<longrightarrow> no_stale (gate s)"
    using ok by (auto simp: node_ok_def no_stale_def idx own)
  moreover have "sessions_ok (insert (c, u, conns_drawn ?g) (set (opened n) \<union> set (ending n)))
      (stopped n) (gate s)"
  proof -
    have old: "sessions_ok (set (opened n) \<union> set (ending n)) (stopped n) ?g"
      using ok by (simp add: node_ok_def)
    have fresh: "d \<noteq> c" if "(d, v, ty) \<in> set (opened n) \<union> set (ending n)" for d v ty
      using sessions_ok_drawn [OF old that] fresh_id h(1) by auto
    have "owner ?g c = None"
      using new by (simp add: id_unused_def owner_def)
    with fresh show ?thesis
      using sessions_okD [OF old] sessions_ok_owner [OF old] sessions_ok_inj [OF old]
      by (fastforce simp: sessions_ok_def own h(3,4) inj_on_def less_Suc_eq simp flip: h(1))
  qed
  moreover have "(c, u, conns_drawn ?g) \<notin> set (ending n)"
    using ok by (auto simp: node_ok_def sessions_ok_def)
  ultimately show ?thesis
    using ok by (simp add: node_ok_def)
qed

lemma node_ok_cleanup:
  assumes ok: "node_ok n" and x: "(c, u, tx) \<in> set (ending n)"
  shows "node_ok (n\<lparr>srv := close_socket env c tx (srv n), ending := removeAll (c, u, tx) (ending n)\<rparr>)"
proof -
  let ?g = "gate (srv n)" and ?g' = "gate (close_socket env c tx (srv n))"
  have g: "gate_ok ?g" and sess: "sessions_ok (set (opened n) \<union> set (ending n)) (stopped n) ?g"
    and disj: "set (opened n) \<inter> set (ending n) = {}"
    using ok by (simp_all add: node_ok_def)
  have own: "owner ?g' d = (if d = c then None else owner ?g d)" for d
    by (simp add: owner_def)
  have idx: "indexed ?g' \<subseteq> indexed ?g"
    by (auto simp: indexed_def hub_unregister_def Let_def split: option.splits if_splits)
  have clean: "owner ?g c \<noteq> None \<Longrightarrow> c \<notin> indexed ?g'"
    using unregister_leaves_no_trace [of "hub ?g" c] g
    by (auto simp: gate_ok_def id_unused_def indexed_def owner_def)
  have "hub_ok (hub ?g')"
    using g by (simp add: gate_ok_def hub_ok_unregister)
  then have "gate_ok ?g'"
    using g idx by (auto simp: gate_ok_def own drawn_id_def)
  moreover have "\<not> stopped n \<longrightarrow> no_stale ?g'"
  proof
    assume "\<not> stopped n"
    then have "owner ?g c = Some (u, tx)" "no_stale ?g"
      using ok sess x by (auto simp: sessions_ok_def node_ok_def)
    with clean idx show "no_stale ?g'"
      by (auto simp: no_stale_def own)
  qed
  moreover have "sessions_ok (set (opened n) \<union> set (removeAll (c, u, tx) (ending n))) (stopped n) ?g'"
    (is "sessions_ok ?S' _ _")
  proof -
    let ?S = "set (opened n) \<union> set (ending n)"
    have sub: "?S' \<subseteq> ?S" "?S \<subseteq> insert (c, u, tx) ?S'"
      by auto
    have x': "(c, u, tx) \<in> ?S" "(c, u, tx) \<notin> ?S'"
      using x disj by (simp_all add: disjoint_iff) blast
    have ne: "d \<noteq> c" if "(d, v, ty) \<in> ?S'" for d v ty
    proof
      assume "d = c"
      then have "(d, v, ty) = (c, u, tx)"
        using inj_onD [OF sessions_ok_inj [OF sess] _ subsetD [OF sub(1) that] x'(1)] by simp
      with that x'(2) show False by simp
    qed
    show ?thesis
      unfolding sessions_ok_def hub_close_socket own
    proof (intro conjI allI impI)
      show "inj_on fst ?S'"
        by (rule inj_on_subset [OF sessions_ok_inj [OF sess] sub(1)])
    next
      fix d v ty assume "(if d = c then None else owner ?g d) = Some (v, ty)"
      then have "d \<noteq> c" "owner ?g d = Some (v, ty)" by (simp_all split: if_splits)
      with sessions_ok_owner [OF sess] sub(2) show "(d, v, ty) \<in> ?S'" by blast
    next
      fix d v ty assume d: "(d, v, ty) \<in> ?S'"
      note in_S = sessions_okD [OF sess subsetD [OF sub(1) d]]
      show "ty < conns_drawn ?g" "d = conn_id_at ?g ty"
        using in_S by simp_all
      have same: "(if d = c then None else owner ?g d) = owner ?g d"
        using ne [OF d] by simp
      show "(if d = c then None else owner ?g d) = Some (v, ty) \<or>
         stopped n \<and> (if d = c then None else owner ?g d) = None"
        unfolding same by (rule in_S [THEN conjunct2, THEN conjunct2])
    qed
  qed
  moreover have "set (opened n) \<inter> set (removeAll (c, u, tx) (ending n)) = {}"
    using disj by auto
  ultimately show ?thesis
    by (simp add: node_ok_def)
qed

lemma node_ok_frame:
  assumes ok: "node_ok n" and x: "(c, u, tx) \<in> set (opened n)"
    and s: "socket_step env c u i (srv n) = (go, s)"
  shows "node_ok (n\<lparr>srv := s\<rparr>)"
proof -
  let ?g = "gate (srv n)"
  have acts: "acts_for c ?g (gate s)"
    using socket_step_acts [of c "srv n" env u i] s by simp
  have sess: "sessions_ok (set (opened n) \<union> set (ending n)) (stopped n) ?g"
    using ok by (simp add: node_ok_def)
  have x': "(c, u, tx) \<in> set (opened n) \<union> set (ending n)" using x by simp
  have "gate_ok ?g"
    using ok by (simp add: node_ok_def)
  then have "gate_ok (gate s)"
    using acts sessions_ok_drawn [OF sess x'] by (rule gate_ok_acts_for)
  moreover have "\<not> stopped n \<longrightarrow> no_stale (gate s)"
    using ok acts sessions_okD [OF sess x'] by (auto simp: node_ok_def intro: no_stale_acts_for)
  ultimately show ?thesis
    using ok sessions_ok_acts_for [OF acts] by (simp add: node_ok_def)
qed

lemma node_ok_move:
  assumes ok: "node_ok n" and x: "x \<in> set (opened n)"
  shows "node_ok (n\<lparr>opened := removeAll x (opened n), ending := x # ending n\<rparr>)"
proof -
  have "set (removeAll x (opened n)) \<union> set (x # ending n) = set (opened n) \<union> set (ending n)"
    using x by auto
  with ok show ?thesis by (auto simp: node_ok_def)
qed

lemma node_ok_stop:
  assumes "node_ok n"
  shows "node_ok (n\<lparr>srv := on_hub shutdown_all (srv n), stopped := True\<rparr>)"
  using assms by (auto simp: node_ok_def gate_ok_def sessions_ok_def shutdown_all_def owner_def
      indexed_def connection_def new_hub_def hub_ok_new [unfolded new_hub_def])

lemma gate_outside_step:
  "hub (gate (outside_step env ev s)) = hub (gate s)"
  "conns_drawn (gate (outside_step env ev s)) = conns_drawn (gate s)"
  "conn_id_at (gate (outside_step env ev s)) = conn_id_at (gate s)"
  by (cases ev; simp)+

lemma node_ok_step:
  assumes "ws_step env n n'" and "node_ok n"
  shows "node_ok n'"
  using assms
proof (cases rule: ws_step.cases)
  case (last_frame c u tx i s)
  then show ?thesis
    using node_ok_move [OF node_ok_frame [OF assms(2) last_frame(2,3)], of "(c, u, tx)"] by simp
qed (auto intro: node_ok_connect node_ok_frame node_ok_cleanup node_ok_stop node_ok_same_hub
    simp: gate_outside_step)

lemma node_ok_reach: "ws_reach env n \<Longrightarrow> node_ok n"
proof (induction rule: ws_reach.induct)
  case (start n)
  then show ?case
    by (auto simp: fresh_node_def node_ok_def gate_ok_def no_stale_def sessions_ok_def indexed_def
        owner_def connection_def new_hub_def hub_ok_new [unfolded new_hub_def])
qed (rule node_ok_step)

section \<open>What the machine guarantees\<close>

text \<open>
  C1: in every reachable state the hub is consistent and knows exactly the sessions: each registered
  connection belongs to one open or ending session, of its user and on its channel; until the hub is
  shut down, each such session is registered and every subscriber of a topic is a session.
\<close>

theorem hub_knows_the_sessions:
  assumes "ws_reach env n"
  shows "hub_ok (hub (gate (srv n))) \<and>
    (\<forall>c u tx. owner (gate (srv n)) c = Some (u, tx) \<longrightarrow> (c, u, tx) \<in> set (opened n) \<union> set (ending n)) \<and>
    (\<not> stopped n \<longrightarrow>
      (\<forall>(c, u, tx) \<in> set (opened n) \<union> set (ending n). owner (gate (srv n)) c = Some (u, tx)) \<and>
      (\<forall>c \<in> indexed (gate (srv n)). owner (gate (srv n)) c \<noteq> None))"
  using node_ok_reach [OF assms]
  by (auto simp: node_ok_def gate_ok_def sessions_ok_def no_stale_def)

text \<open>An instance that has started, and the same after a user has connected.\<close>

definition demo_node :: node where
  "demo_node = \<lparr>srv = \<lparr>database = demo_world, gate = \<lparr>hub = new_hub, outbox = (\<lambda>_. []),
     receiver_gone = (\<lambda>_. False), instant = 0, conn_id_at = of_nat, conns_drawn = 0\<rparr>,
     redis = idle_redis\<rparr>, opened = [], ending = [], stopped = False\<rparr>"

definition demo_joined :: "env \<Rightarrow> node" where
  "demo_joined env = demo_node\<lparr>srv := snd (open_socket env 1 (srv demo_node)), opened := [(0, 1, 0)]\<rparr>"

lemma demo_node_reach: "ws_reach env demo_node"
  by (rule ws_reach.start) (simp add: fresh_node_def demo_node_def)

lemma demo_joined_reach: "ws_reach env (demo_joined env)"
proof (rule ws_reach.step [OF demo_node_reach])
  let ?s = "snd (open_socket env 1 (srv demo_node))"
  have "open_socket env 1 (srv demo_node) = (0, ?s)"
    by (simp add: prod_eq_iff open_socket_def hub_register_def register_at_def Let_def demo_node_def
        split: prod.splits)
  from ws_step.connect [OF _ this]
  show "ws_step env demo_node (demo_joined env)"
    by (simp add: demo_joined_def drawn_id_def demo_node_def)
qed

theorem hub_knows_the_sessions_witness:
  "owner (gate (srv (demo_joined (demo_env ''A'' (Ready 1))))) 0 = Some (1, 0)"
  using hub_knows_the_sessions [OF demo_joined_reach [of "demo_env ''A'' (Ready 1)"]]
  by (simp add: demo_joined_def demo_node_def)

text \<open>
  Nothing leaks: when every session has come to its end and been cleaned up, the hub is empty,
  its connections as well as all its indexes, unless it was shut down with sessions open.
\<close>

theorem hub_empties:
  assumes "ws_reach env n" and "\<not> stopped n" and "opened n = []" and "ending n = []"
  shows "connections (hub (gate (srv n))) = [] \<and> indexed (gate (srv n)) = {} \<and>
         (\<forall>u. members (user_connections (hub (gate (srv n)))) u = [])"
proof -
  let ?g = "gate (srv n)"
  have own: "owner ?g c = None" for c
    using node_ok_reach [OF assms(1)] assms(3,4)
    by (cases "owner ?g c") (auto simp: node_ok_def sessions_ok_def)
  then have none: "connection (hub ?g) c = None" for c
    by (simp add: owner_def)
  have "indexed ?g = {}"
    using node_ok_reach [OF assms(1)] assms(2) own by (auto simp: node_ok_def no_stale_def)
  moreover have "connections (hub ?g) = []"
    using none by (simp add: connection_def fun_eq_iff flip: map_of_eq_empty_iff)
  moreover have "members (user_connections (hub ?g)) u = []" for u
    using node_ok_reach [OF assms(1)] none
    by (auto simp: node_ok_def gate_ok_def hub_ok_def users_ok_def simp flip: set_empty)
  ultimately show ?thesis by blast
qed

theorem hub_empties_witness: "connections (hub (gate (srv demo_node))) = []"
  using hub_empties [OF demo_node_reach] by (simp add: demo_node_def)

text \<open>
  C2: in every reachable state a broadcast sends one copy to each connection that is subscribed to
  the channel (the thread, or belongs to the user) and still has its receiver, and nothing to any
  other connection.
\<close>

theorem broadcasts_are_exact:
  assumes "ws_reach env n" and "g = gate (srv n)" and "connection (hub g) c = Some conn"
    and "\<not> receiver_gone g (con_sender conn)"
  shows "outbox (broadcast_to_channel k e g) (con_sender conn) =
           outbox g (con_sender conn) @ (if k \<in> set (con_channels conn) then [e] else [])
       \<and> outbox (broadcast_to_thread k e g) (con_sender conn) =
           outbox g (con_sender conn) @ (if k \<in> set (con_threads conn) then [e] else [])
       \<and> outbox (broadcast_to_user k e g) (con_sender conn) =
           outbox g (con_sender conn) @ (if con_user_id conn = k then [e] else [])
       \<and> outbox (broadcast_global e g) (con_sender conn) = outbox g (con_sender conn) @ [e]"
proof -
  have ok: "hub_ok (hub g)"
    using node_ok_reach [OF assms(1)] by (simp add: node_ok_def gate_ok_def assms(2))
  then have "agree channel_subscribers con_channels (hub g)" "agree thread_subscribers con_threads (hub g)"
    by (simp_all add: hub_ok_def)
  then show ?thesis
    using channel_topic.broadcast_once [OF _ hub_ok_senders [OF ok] assms(3)]
      thread_topic.broadcast_once [OF _ hub_ok_senders [OF ok] assms(3)]
      broadcast_to_user_once [OF ok assms(3)] broadcast_global_once [OF ok assms(3)] assms(4)
    by simp
qed

theorem broadcasts_are_exact_witness:
  "let g = gate (srv (demo_joined (demo_env ''A'' (Ready 1))))
   in outbox (broadcast_to_user 1 (Ready 1) g) 0 = outbox g 0 @ [Ready 1] \<and>
      outbox (broadcast_to_channel 5 (Ready 1) g) 0 = outbox g 0"
proof -
  let ?n = "demo_joined (demo_env ''A'' (Ready 1))"
  have h: "hub (gate (srv ?n)) = snd (register_at 1 0 0 0 new_hub)" "receiver_gone (gate (srv ?n)) 0 = False"
    by (simp_all add: demo_joined_def demo_node_def open_socket_def hub_register_def register_at_def Let_def
        publish_presence_event_def on_gate_def on_redis_def set_presence_state_def)
  then have "connection (hub (gate (srv ?n))) 0 =
    Some \<lparr>con_user_id = 1, con_sender = 0, con_channels = [], con_threads = [], con_last_heartbeat = 0\<rparr>"
    by simp
  from broadcasts_are_exact [OF demo_joined_reach refl this] h(2) show ?thesis
    by (simp add: Let_def)
qed

text \<open>What a command does to the two indexes of topics.\<close>

definition may_view :: "uuid \<Rightarrow> uuid \<Rightarrow> server \<Rightarrow> bool" where
  "may_view user k s \<longleftrightarrow>
     (case fst (channel_permissions message_use_case user k (database s)) of
        Inl _ \<Rightarrow> False | Inr bits \<Rightarrow> has bits VIEW_CHANNEL)"

definition may_access :: "env \<Rightarrow> uuid \<Rightarrow> uuid \<Rightarrow> server \<Rightarrow> bool" where
  "may_access env user k s \<longleftrightarrow>
     fst (can_access_thread (conversation_use_case (simple_text env)) k user (database s)) = Inr True"

definition commanded_channels ::
  "uuid \<Rightarrow> uuid \<Rightarrow> ClientCommand \<Rightarrow> server \<Rightarrow> index \<Rightarrow> index" where
  "commanded_channels c user cmd s idx =
     (case cmd of
        SubscribeChannel k \<Rightarrow> if may_view user k s then index_insert k c idx else idx
      | UnsubscribeChannel k \<Rightarrow> index_remove k c idx
      | _ \<Rightarrow> idx)"

definition commanded_threads ::
  "env \<Rightarrow> uuid \<Rightarrow> uuid \<Rightarrow> ClientCommand \<Rightarrow> server \<Rightarrow> index \<Rightarrow> index" where
  "commanded_threads env c user cmd s idx =
     (case cmd of
        SubscribeThread k \<Rightarrow> if may_access env user k s then index_insert k c idx else idx
      | UnsubscribeThread k \<Rightarrow> index_remove k c idx
      | _ \<Rightarrow> idx)"

lemma other_index [simp]:
  "thread_subscribers (subscribe_channel c k h) = thread_subscribers h"
  "thread_subscribers (unsubscribe_channel c k h) = thread_subscribers h"
  "channel_subscribers (subscribe_thread c k h) = channel_subscribers h"
  "channel_subscribers (unsubscribe_thread c k h) = channel_subscribers h"
  by (simp_all add: subscribe_channel_def unsubscribe_channel_def subscribe_thread_def
      unsubscribe_thread_def Let_def)

lemma hub_touch_heartbeat [simp]:
  "channel_subscribers (hub (touch_heartbeat c g)) = channel_subscribers (hub g)"
  "thread_subscribers (hub (touch_heartbeat c g)) = thread_subscribers (hub g)"
  by (simp_all add: touch_heartbeat_def)

lemma handle_command_indexes:
  "channel_subscribers (hub (gate (handle_command env c user cmd s))) =
     commanded_channels c user cmd s (channel_subscribers (hub (gate s)))"
  "thread_subscribers (hub (gate (handle_command env c user cmd s))) =
     commanded_threads env c user cmd s (thread_subscribers (hub (gate s)))"
proof -
  have "channel_subscribers (hub (gate (handle_command env c user cmd s))) =
       commanded_channels c user cmd s (channel_subscribers (hub (gate s))) \<and>
     thread_subscribers (hub (gate (handle_command env c user cmd s))) =
       commanded_threads env c user cmd s (thread_subscribers (hub (gate s)))"
  proof (cases cmd)
    case (SubscribeChannel k)
    obtain r w where "channel_permissions message_use_case user k (database s) = (r, w)" by fastforce
    then show ?thesis
      by (cases r) (simp_all add: SubscribeChannel in_db_def commanded_channels_def commanded_threads_def
          may_view_def channel_topic.subscribe_index)
  next
    case (TypingStart k)
    obtain r w where "channel_permissions message_use_case user k (database s) = (r, w)" by fastforce
    moreover obtain ok s2 where lim:
      "server_allow_rate_limit (typing_key env user k) 8 5 (s\<lparr>database := w\<rparr>) = (ok, s2)" by fastforce
    ultimately show ?thesis
      using gate_rate_limit [OF lim]
      by (cases r) (simp_all add: TypingStart in_db_def commanded_channels_def commanded_threads_def)
  next
    case (SubscribeThread k)
    obtain r w where "can_access_thread (conversation_use_case (simple_text env)) k user (database s) = (r, w)"
      by fastforce
    then show ?thesis
      by (cases r) (simp_all add: SubscribeThread in_db_def commanded_channels_def commanded_threads_def
          may_access_def thread_topic.subscribe_index split: bool.split)
  next
    case (ThreadTypingStart k)
    obtain r w where "can_access_thread (conversation_use_case (simple_text env)) k user (database s) = (r, w)"
      by fastforce
    moreover obtain ok s2 where lim:
      "server_allow_rate_limit (thread_typing_key env user k) 8 5 (s\<lparr>database := w\<rparr>) = (ok, s2)" by fastforce
    ultimately show ?thesis
      using gate_rate_limit [OF lim]
      by (cases r) (simp_all add: ThreadTypingStart in_db_def commanded_channels_def commanded_threads_def)
  qed (simp_all add: commanded_channels_def commanded_threads_def Let_def
      channel_topic.unsubscribe_index thread_topic.unsubscribe_index)
  then show "channel_subscribers (hub (gate (handle_command env c user cmd s))) =
      commanded_channels c user cmd s (channel_subscribers (hub (gate s)))"
    "thread_subscribers (hub (gate (handle_command env c user cmd s))) =
      commanded_threads env c user cmd s (thread_subscribers (hub (gate s)))" by blast+
qed

text \<open>
  C24: no command makes a connection a subscriber of a channel but the subscription command of that
  very connection, and only when its user has the permission to view the channel at that moment; of a
  thread, only when the user can access the thread.
\<close>

theorem subscription_needs_permission:
  assumes s': "s' = handle_command env c user cmd s"
  shows "(d \<in> set (members (channel_subscribers (hub (gate s'))) k) \<longrightarrow>
            d \<in> set (members (channel_subscribers (hub (gate s))) k) \<or>
            cmd = SubscribeChannel k \<and> d = c \<and> may_view user k s) \<and>
         (d \<in> set (members (thread_subscribers (hub (gate s'))) k) \<longrightarrow>
            d \<in> set (members (thread_subscribers (hub (gate s))) k) \<or>
            cmd = SubscribeThread k \<and> d = c \<and> may_access env user k s)"
  unfolding s' handle_command_indexes
  by (cases cmd) (auto simp: commanded_channels_def commanded_threads_def split: if_splits)

theorem subscription_needs_permission_witness:
  "3 \<notin> set (members (channel_subscribers
     (hub (gate (handle_command (demo_env ''A'' (Ready 1)) 7 1 (SubscribeChannel 5) (demo_server 1 5))))) 5)"
  using subscription_needs_permission [OF refl, where d = 3 and k = 5 and c = 7 and
      cmd = "SubscribeChannel 5" and s = "demo_server 1 5" and user = 1 and
      env = "demo_env ''A'' (Ready 1)"]
  by (auto simp: demo_gate_def channel_topic.subscribe_index new_hub_def)

section \<open>Presence\<close>

lemma wp_update [simp]: "wp (\<lambda>r. (Inr (v r), f r)) Q E s = Q (v s) (f s)"
  by (simp add: wp_def)

lemma publish_keeps_keys: "rd_get (snd (publish_envelope env ch e r)) k = rd_get r k"
proof -
  have "keeps (\<lambda>r. rd_get r k = v) (publish_envelope env ch e)" for v
    by (rule keepsI) (auto simp: publish_envelope_def get_connection_def publish_def rd_get_def
        split: sum.splits)
  then show ?thesis by (simp add: keeps_def)
qed

lemma presence_after_close:
  assumes r: "fst (hub_unregister c (hub (gate s))) = Some r" and up: "answers (redis s)"
  shows "rd_get (redis (close_socket env c tx s)) (presence_key (env_show_uuid env) (un_user_id r)) =
    (if un_became_offline r then None
     else rd_get (redis s) (presence_key (env_show_uuid env) (un_user_id r)))"
proof -
  have gone: "rd_get (clear_presence (env_show_uuid env) u (redis s))
      (presence_key (env_show_uuid env) u) = None" for u
    using up by (simp add: clear_presence_def bnd_def get_connection_def send_command_def del_def
        rd_get_def rd_lookup_def answers_def delete_conv')
  obtain h where "hub_unregister c (hub (gate s)) = (Some r, h)"
    using r by (cases "hub_unregister c (hub (gate s))") simp
  then show ?thesis
    using gone by (simp add: close_socket_def on_gate_def on_redis_def on_hub_def
        publish_presence_event_def redis_publish_presence_def set_presence_state_def publish_keeps_keys)
qed

text \<open>
  C37: the end of a session clears the user's presence exactly when it was the user's last session on
  this instance; otherwise it leaves the presence as it was.
\<close>

theorem last_session_clears_presence:
  assumes reach: "ws_reach env n" and run: "\<not> stopped n" and x: "(c, u, tx) \<in> set (ending n)"
    and up: "answers (redis (srv n))" and key: "key = presence_key (env_show_uuid env) u"
  shows "rd_get (redis (close_socket env c tx (srv n))) key =
    (if \<exists>d ty. (d, u, ty) \<in> set (opened n) \<union> set (ending n) \<and> d \<noteq> c
     then rd_get (redis (srv n)) key else None)"
proof -
  let ?g = "gate (srv n)"
  have ok: "hub_ok (hub ?g)" and sess: "sessions_ok (set (opened n) \<union> set (ending n)) False ?g"
    using node_ok_reach [OF reach] run by (simp_all add: node_ok_def gate_ok_def)
  have "(c, u, tx) \<in> set (opened n) \<union> set (ending n)" using x by simp
  from sessions_okD [OF sess this] have "owner ?g c = Some (u, tx)" by blast
  then obtain r where r: "fst (hub_unregister c (hub ?g)) = Some r" "un_user_id r = u"
    by (auto simp: hub_unregister_def owner_def Let_def)
  have "online (snd (hub_unregister c (hub ?g))) u \<longleftrightarrow>
      (\<exists>d conn. d \<noteq> c \<and> connection (hub ?g) d = Some conn \<and> con_user_id conn = u)"
    by (subst online_iff [OF hub_ok_unregister [OF ok]]) (auto split: if_splits)
  also have "\<dots> \<longleftrightarrow> (\<exists>d ty. d \<noteq> c \<and> owner ?g d = Some (u, ty))"
    by (auto simp: owner_def)
  also have "\<dots> \<longleftrightarrow> (\<exists>d ty. (d, u, ty) \<in> set (opened n) \<union> set (ending n) \<and> d \<noteq> c)"
    using sessions_ok_owner [OF sess] sessions_okD [OF sess] by blast
  finally have offline: "un_became_offline r = (\<not> (\<exists>d ty. (d, u, ty) \<in> set (opened n) \<union> set (ending n) \<and> d \<noteq> c))"
    using became_offline_iff [OF ok r(1)] by (simp only: r(2))
  show ?thesis
    using presence_after_close [OF r(1) up, of env tx] unfolding key r(2) offline
    by (simp only: if_not_P if_P split: if_split) blast
qed

text \<open>A session that has ended its loop, with the user's presence in Redis.\<close>

definition demo_ending :: "env \<Rightarrow> node" where
  "demo_ending env = (demo_joined env)\<lparr>opened := [], ending := [(0, 1, 0)]\<rparr>"

definition demo_presence :: "env \<Rightarrow> node" where
  "demo_presence env = (demo_ending env)\<lparr>srv := (srv (demo_ending env))
     \<lparr>database := demo_world,
      redis := idle_redis\<lparr>rd_store := [(''presence:user:u'', Text ''ONLINE'', Some (seconds 90))]\<rparr>\<rparr>\<rparr>"

lemma demo_ending_reach: "ws_reach env (demo_ending env)"
proof (rule ws_reach.step [OF demo_joined_reach])
  have "socket_step env 0 1 FrameClose (srv (demo_joined env)) = (False, srv (demo_joined env))" by simp
  from ws_step.last_frame [OF _ this]
  show "ws_step env (demo_joined env) (demo_ending env)"
    by (simp add: demo_ending_def demo_joined_def demo_node_def)
qed

lemma demo_presence_reach: "ws_reach env (demo_presence env)"
  unfolding demo_presence_def by (rule ws_reach.step [OF demo_ending_reach ws_step.environment])

theorem last_session_clears_presence_witness:
  "let s = srv (demo_presence (demo_env ''A'' (Ready 1)))
   in rd_get (redis s) ''presence:user:u'' = Some (Text ''ONLINE'') \<and>
      rd_get (redis (close_socket (demo_env ''A'' (Ready 1)) 0 0 s)) ''presence:user:u'' = None"
  using last_session_clears_presence [OF demo_presence_reach _ _ _ refl, of "demo_env ''A'' (Ready 1)" 0 1 0]
  by (simp add: demo_presence_def demo_ending_def demo_joined_def demo_node_def demo_env_def
      presence_key_def answers_def idle_redis_def rd_get_def rd_lookup_def seconds_def Let_def)

text \<open>
  Presence is not counted across instances: a user who is connected to two instances and
  disconnects from one of them is online on the other, with no presence in Redis.
\<close>

theorem presence_lost_with_two_instances:
  "let A = demo_env ''A'' (Ready 1); B = demo_env ''B'' (Ready 1);
       (c, a) = open_socket A 1 (srv demo_node);
       (d, b) = open_socket B 1 ((srv demo_node)\<lparr>redis := redis a\<rparr>);
       a' = close_socket A c 0 (a\<lparr>redis := redis b\<rparr>)
   in online (hub (gate b)) 1 \<and>
      rd_get (redis b) ''presence:user:u'' = Some (Text ''ONLINE'') \<and>
      rd_get (redis a') ''presence:user:u'' = None"
  by code_simp

end
