(* ===== verification/Hub_Refinement.thy ===== *)
theory Hub_Refinement
  imports Sessions
begin

text \<open>
  The hub against its specification.  The specification has no index and no hash map: connections are
  numbered in the order of their arrival, each has a user and two sets of topics, and an event goes into
  the box of every connection that fits.  The hub refines it: run side by side on any sequence of
  operations, the two give the same answers and fill the same boxes.
\<close>

section \<open>Operations\<close>

datatype hub_op =
    Connect uuid
  | Disconnect nat
  | JoinChannel nat uuid
  | LeaveChannel nat uuid
  | JoinThread nat uuid
  | LeaveThread nat uuid
  | Beat nat
  | ToChannel uuid ServerEvent
  | ToThread uuid ServerEvent
  | ToUser uuid ServerEvent
  | ToAll ServerEvent
  | ReceiverDies nat
  | ShutDown

text \<open>
  The hub's methods, on the connection with a given number.  The answer is the flag that drives presence:
  whether the connection is the user's first, whether the user went offline.
\<close>

fun run_hub :: "hub_op \<Rightarrow> gateway \<Rightarrow> bool \<times> gateway" where
  "run_hub (Connect u) g = (case hub_register u (conns_drawn g) g of (r, g') \<Rightarrow> (rg_first_connection r, g'))"
| "run_hub (Disconnect n) g = (case hub_unregister (conn_id_at g n) (hub g) of (r, h) \<Rightarrow>
     (case r of None \<Rightarrow> False | Some x \<Rightarrow> un_became_offline x, g\<lparr>hub := h\<rparr>))"
| "run_hub (JoinChannel n k) g = (False, g\<lparr>hub := subscribe_channel (conn_id_at g n) k (hub g)\<rparr>)"
| "run_hub (LeaveChannel n k) g = (False, g\<lparr>hub := unsubscribe_channel (conn_id_at g n) k (hub g)\<rparr>)"
| "run_hub (JoinThread n k) g = (False, g\<lparr>hub := subscribe_thread (conn_id_at g n) k (hub g)\<rparr>)"
| "run_hub (LeaveThread n k) g = (False, g\<lparr>hub := unsubscribe_thread (conn_id_at g n) k (hub g)\<rparr>)"
| "run_hub (Beat n) g = (False, touch_heartbeat (conn_id_at g n) g)"
| "run_hub (ToChannel k e) g = (False, broadcast_to_channel k e g)"
| "run_hub (ToThread k e) g = (False, broadcast_to_thread k e g)"
| "run_hub (ToUser u e) g = (False, broadcast_to_user u e g)"
| "run_hub (ToAll e) g = (False, broadcast_global e g)"
| "run_hub (ReceiverDies n) g = (False, g\<lparr>receiver_gone := (receiver_gone g)(n := True)\<rparr>)"
| "run_hub ShutDown g = (False, g\<lparr>hub := shutdown_all (hub g)\<rparr>)"

section \<open>The specification\<close>

record peer =
  peer_user :: uuid
  peer_channels :: "uuid set"
  peer_threads :: "uuid set"

record hub_spec =
  peers :: "nat \<Rightarrow> peer option"
  arrived :: nat
  boxes :: "nat \<Rightarrow> ServerEvent list"
  deaf :: "nat \<Rightarrow> bool"

definition present :: "uuid \<Rightarrow> hub_spec \<Rightarrow> bool" where
  "present u a \<longleftrightarrow> (\<exists>m<arrived a. map_option peer_user (peers a m) = Some u)"

definition post :: "(peer \<Rightarrow> bool) \<Rightarrow> ServerEvent \<Rightarrow> hub_spec \<Rightarrow> hub_spec" where
  "post P e a = a\<lparr>boxes := \<lambda>n. boxes a n @
     (case peers a n of None \<Rightarrow> [] | Some p \<Rightarrow> if P p \<and> \<not> deaf a n then [e] else [])\<rparr>"

definition adjust :: "nat \<Rightarrow> (peer \<Rightarrow> peer) \<Rightarrow> hub_spec \<Rightarrow> hub_spec" where
  "adjust n f a = a\<lparr>peers := (peers a)(n := map_option f (peers a n))\<rparr>"

fun run_spec :: "hub_op \<Rightarrow> hub_spec \<Rightarrow> bool \<times> hub_spec" where
  "run_spec (Connect u) a = (\<not> present u a,
     a\<lparr>peers := (peers a)(arrived a \<mapsto> \<lparr>peer_user = u, peer_channels = {}, peer_threads = {}\<rparr>),
       arrived := Suc (arrived a)\<rparr>)"
| "run_spec (Disconnect n) a =
     (let a' = a\<lparr>peers := (peers a)(n := None)\<rparr>
      in (case peers a n of None \<Rightarrow> False | Some p \<Rightarrow> \<not> present (peer_user p) a', a'))"
| "run_spec (JoinChannel n k) a = (False, adjust n (\<lambda>p. p\<lparr>peer_channels := insert k (peer_channels p)\<rparr>) a)"
| "run_spec (LeaveChannel n k) a = (False, adjust n (\<lambda>p. p\<lparr>peer_channels := peer_channels p - {k}\<rparr>) a)"
| "run_spec (JoinThread n k) a = (False, adjust n (\<lambda>p. p\<lparr>peer_threads := insert k (peer_threads p)\<rparr>) a)"
| "run_spec (LeaveThread n k) a = (False, adjust n (\<lambda>p. p\<lparr>peer_threads := peer_threads p - {k}\<rparr>) a)"
| "run_spec (Beat n) a = (False, a)"
| "run_spec (ToChannel k e) a = (False, post (\<lambda>p. k \<in> peer_channels p) e a)"
| "run_spec (ToThread k e) a = (False, post (\<lambda>p. k \<in> peer_threads p) e a)"
| "run_spec (ToUser u e) a = (False, post (\<lambda>p. peer_user p = u) e a)"
| "run_spec (ToAll e) a = (False, post (\<lambda>_. True) e a)"
| "run_spec (ReceiverDies n) a = (False, a\<lparr>deaf := (deaf a)(n := True)\<rparr>)"
| "run_spec ShutDown a = (False, a\<lparr>peers := \<lambda>_. None\<rparr>)"

section \<open>The simulation\<close>

definition view :: "ConnectionState \<Rightarrow> peer" where
  "view conn = \<lparr>peer_user = con_user_id conn, peer_channels = set (con_channels conn),
     peer_threads = set (con_threads conn)\<rparr>"

lemma view_simps [simp]:
  "peer_user (view conn) = con_user_id conn" "peer_channels (view conn) = set (con_channels conn)"
  "peer_threads (view conn) = set (con_threads conn)"
  by (simp_all add: view_def)

definition sim :: "gateway \<Rightarrow> hub_spec \<Rightarrow> bool" where
  "sim g a \<longleftrightarrow> gate_ok g \<and> inj_on (conn_id_at g) {..<conns_drawn g} \<and> arrived a = conns_drawn g \<and>
     deaf a = receiver_gone g \<and> boxes a = outbox g \<and>
     (\<forall>n. peers a n = (if n < conns_drawn g then map_option view (connection (hub g) (conn_id_at g n)) else None))"

text \<open>A registered connection is the one with the number of its outbound channel.\<close>

lemma sim_connection:
  assumes "sim g a" and "connection (hub g) c = Some conn"
  shows "con_sender conn < arrived a" "c = conn_id_at g (con_sender conn)" "peers a (con_sender conn) = Some (view conn)"
proof -
  have "owner g c = Some (con_user_id conn, con_sender conn)" using assms(2) by (simp add: owner_def)
  with assms show "con_sender conn < arrived a" "c = conn_id_at g (con_sender conn)"
    by (auto simp: sim_def gate_ok_def)
  with assms show "peers a (con_sender conn) = Some (view conn)" by (auto simp: sim_def)
qed

lemma sim_peer:
  assumes "sim g a" and "peers a n = Some p"
  obtains conn where "connection (hub g) (conn_id_at g n) = Some conn" "con_sender conn = n" "p = view conn"
    "n < conns_drawn g"
proof -
  from assms obtain conn where c: "n < conns_drawn g" "connection (hub g) (conn_id_at g n) = Some conn" "p = view conn"
    by (auto simp: sim_def split: if_splits)
  have "inj_on (conn_id_at g) {..<conns_drawn g}" "arrived a = conns_drawn g" using assms(1) by (simp_all add: sim_def)
  then have "con_sender conn = n" using sim_connection(1,2) [OF assms(1) c(2)] c(1) by (auto dest: inj_onD)
  with c that show ?thesis by blast
qed

lemma sim_hub_ok: "sim g a \<Longrightarrow> hub_ok (hub g)"
  by (simp add: sim_def gate_ok_def)

lemma sim_present:
  assumes "sim g a"
  shows "present u a \<longleftrightarrow> online (hub g) u"
proof
  assume "present u a"
  then obtain m p where "peers a m = Some p" "peer_user p = u" by (auto simp: present_def)
  moreover from sim_peer [OF assms this(1)] obtain conn where
    "connection (hub g) (conn_id_at g m) = Some conn" "p = view conn" by metis
  ultimately show "online (hub g) u" by (auto simp: online_iff [OF sim_hub_ok [OF assms]])
next
  assume "online (hub g) u"
  then obtain c conn where "connection (hub g) c = Some conn" "con_user_id conn = u"
    by (auto simp: online_iff [OF sim_hub_ok [OF assms]])
  with sim_connection [OF assms this(1)] show "present u a" by (auto simp: present_def)
qed

lemma sim_post:
  assumes sim: "sim g a" and cs: "distinct cs"
    and fits: "\<And>c conn. connection (hub g) c = Some conn \<Longrightarrow> c \<in> set cs \<longleftrightarrow> P (view conn)"
  shows "outbox (send_to_all cs e g) = boxes (post P e a)"
proof
  fix n
  have same: "boxes a = outbox g" "deaf a = receiver_gone g" using sim by (simp_all add: sim_def)
  show "outbox (send_to_all cs e g) n = boxes (post P e a) n"
  proof (cases "peers a n")
    case None
    then have "connection (hub g) c = Some conn \<Longrightarrow> con_sender conn \<noteq> n" for c conn
      using sim_connection(3) [OF sim] by fastforce
    then have "filter (listening (hub g) n) cs = []" by (auto simp: listening_def filter_empty_conv)
    then show ?thesis by (simp add: outbox_send_to_all post_def None same)
  next
    case (Some p)
    then obtain conn where c: "connection (hub g) (conn_id_at g n) = Some conn" "con_sender conn = n" "p = view conn"
      using sim_peer [OF sim] by metis
    show ?thesis
      using send_to_all_once [OF hub_ok_senders [OF sim_hub_ok [OF sim]] c(1) cs, of e] fits [OF c(1)]
      by (simp add: c(2,3) post_def Some same)
  qed
qed

text \<open>An event changes the boxes only.\<close>

lemma sim_boxes:
  assumes "sim g a" and "hub g' = hub g" and "receiver_gone g' = receiver_gone g"
    and "conns_drawn g' = conns_drawn g" and "conn_id_at g' = conn_id_at g" and "outbox g' = boxes (post P e a)"
  shows "sim g' (post P e a)"
proof -
  have "owner g' = owner g" using assms(2) by (simp add: owner_def fun_eq_iff)
  with assms show ?thesis
    by (simp add: sim_def post_def gate_ok_def indexed_def drawn_id_def)
qed

text \<open>A change of one connection's topics.\<close>

lemma sim_adjust:
  assumes sim: "sim g a" and n: "n < arrived a" and acts: "acts_for (conn_id_at g n) g g'"
    and same: "receiver_gone g' = receiver_gone g" "outbox g' = outbox g"
    and view: "\<And>d. map_option view (connection (hub g') d) =
      map_option (if d = conn_id_at g n then f else (\<lambda>p. p)) (map_option view (connection (hub g) d))"
  shows "sim g' (adjust n f a)"
proof -
  have g: "gate_ok g" and inj: "inj_on (conn_id_at g) {..<conns_drawn g}" and nn: "n < conns_drawn g"
    using sim n by (simp_all add: sim_def)
  have "drawn_id g (conn_id_at g n)" using nn by (auto simp: drawn_id_def)
  with g acts have "gate_ok g'" by (rule gate_ok_acts_for)
  moreover have ids: "conn_id_at g' = conn_id_at g" "conns_drawn g' = conns_drawn g"
    using acts by (simp_all add: acts_for_def)
  moreover have "conn_id_at g m = conn_id_at g n \<longleftrightarrow> m = n" if "m < conns_drawn g" for m
    using inj nn that by (auto dest: inj_onD)
  ultimately show ?thesis
    using sim by (auto simp: sim_def adjust_def same view ids option.map_ident)
qed

section \<open>Steps\<close>

text \<open>Registration and its opposite.\<close>

lemma gate_ok_register:
  assumes g: "gate_ok g" and new: "\<not> drawn_id g (conn_id_at g (conns_drawn g))"
  shows "gate_ok (snd (hub_register u (conns_drawn g) g))"
proof -
  let ?c = "conn_id_at g (conns_drawn g)" and ?g = "snd (hub_register u (conns_drawn g) g)"
  have h: "hub ?g = snd (register_at u (conns_drawn g) ?c (instant g) (hub g))"
    "conns_drawn ?g = Suc (conns_drawn g)" "conn_id_at ?g = conn_id_at g"
    by (simp_all add: hub_register_def split: prod.split)
  have own: "owner ?g d = (if d = ?c then Some (u, conns_drawn g) else owner g d)" for d
    by (simp add: owner_def h(1))
  have idx: "indexed ?g = indexed g" by (simp add: indexed_def h(1))
  have "hub_ok (hub ?g)"
    unfolding h(1) using g next_id_unused [OF g new] by (simp add: gate_ok_def hub_ok_register)
  moreover have "drawn_id g d \<Longrightarrow> drawn_id ?g d" for d
    using h(2,3) by (auto simp: drawn_id_def intro: less_SucI)
  ultimately show ?thesis
    using g by (auto simp: gate_ok_def own idx h(2,3) intro: less_SucI split: if_splits)
qed

lemma gate_ok_unregister:
  assumes g: "gate_ok g"
  shows "gate_ok (g\<lparr>hub := snd (hub_unregister c (hub g))\<rparr>)" (is "gate_ok ?g")
proof -
  have own: "owner ?g d = (if d = c then None else owner g d)" for d by (simp add: owner_def)
  have "indexed ?g \<subseteq> indexed g"
    by (auto simp: indexed_def hub_unregister_def Let_def split: option.splits if_splits)
  moreover have "hub_ok (hub ?g)" using g by (simp add: gate_ok_def hub_ok_unregister)
  ultimately show ?thesis using g by (auto simp: gate_ok_def own drawn_id_def)
qed

lemma sim_connect:
  assumes sim: "sim g a" and new: "\<not> drawn_id g (conn_id_at g (conns_drawn g))"
  shows "fst (run_hub (Connect u) g) = fst (run_spec (Connect u) a) \<and>
    sim (snd (run_hub (Connect u) g)) (snd (run_spec (Connect u) a))"
proof -
  let ?c = "conn_id_at g (conns_drawn g)" and ?g = "snd (hub_register u (conns_drawn g) g)"
  have g: "gate_ok g" and inj: "inj_on (conn_id_at g) {..<conns_drawn g}" using sim by (simp_all add: sim_def)
  have h: "hub ?g = snd (register_at u (conns_drawn g) ?c (instant g) (hub g))"
    "conns_drawn ?g = Suc (conns_drawn g)" "conn_id_at ?g = conn_id_at g" "outbox ?g = outbox g"
    "receiver_gone ?g = receiver_gone g"
    by (simp_all add: hub_register_def split: prod.split)
  have other: "conn_id_at g n \<noteq> ?c" if "n < conns_drawn g" for n
    using new that by (auto simp: drawn_id_def)
  have "?c \<notin> conn_id_at g ` {..<conns_drawn g}" using other by fastforce
  then have "inj_on (conn_id_at g) {..<Suc (conns_drawn g)}"
    using inj by (simp add: lessThan_Suc)
  then have "sim ?g (snd (run_spec (Connect u) a))"
    using sim gate_ok_register [OF g new] other
    by (auto simp: sim_def h view_def less_Suc_eq)
  moreover have "fst (run_hub (Connect u) g) = (\<not> present u a)"
    using first_connection_iff [OF sim_hub_ok [OF sim] next_id_unused(1) [OF g new], of u "conns_drawn g" "instant g"]
    by (simp add: sim_present [OF sim] hub_register_def split: prod.split) (metis fst_conv)
  ultimately show ?thesis by (simp add: split_beta)
qed

lemma sim_disconnect:
  assumes sim: "sim g a" and n: "n < arrived a"
  shows "fst (run_hub (Disconnect n) g) = fst (run_spec (Disconnect n) a) \<and>
    sim (snd (run_hub (Disconnect n) g)) (snd (run_spec (Disconnect n) a))"
proof -
  let ?c = "conn_id_at g n"
  let ?g = "g\<lparr>hub := snd (hub_unregister ?c (hub g))\<rparr>" and ?a = "a\<lparr>peers := (peers a)(n := None)\<rparr>"
  have g: "gate_ok g" and inj: "inj_on (conn_id_at g) {..<conns_drawn g}" and nn: "n < conns_drawn g"
    using sim n by (simp_all add: sim_def)
  have "conn_id_at g m = ?c \<longleftrightarrow> m = n" if "m < conns_drawn g" for m
    using inj nn that by (auto dest: inj_onD)
  then have sim': "sim ?g ?a"
    using sim gate_ok_unregister [OF g, of ?c] by (auto simp: sim_def)
  have flag: "(case fst (hub_unregister ?c (hub g)) of None \<Rightarrow> False | Some x \<Rightarrow> un_became_offline x) =
      (case peers a n of None \<Rightarrow> False | Some p \<Rightarrow> \<not> present (peer_user p) ?a)"
  proof (cases "connection (hub g) ?c")
    case None
    then show ?thesis using sim nn by (simp add: sim_def hub_unregister_def)
  next
    case (Some conn)
    then obtain r where r: "fst (hub_unregister ?c (hub g)) = Some r" "un_user_id r = con_user_id conn"
      by (simp add: hub_unregister_def Let_def)
    have "peers a n = Some (view conn)" using sim nn Some by (simp add: sim_def)
    then show ?thesis
      using became_offline_iff [OF sim_hub_ok [OF sim] r(1)] sim_present [OF sim', of "con_user_id conn"]
      by (simp add: r)
  qed
  then show ?thesis using sim' by (simp add: split_beta Let_def)
qed

text \<open>The topics of a connection after a change.\<close>

lemma view_topics:
  "map_option view (connection (subscribe_channel c k h) d) = map_option
     (if d = c then \<lambda>p. p\<lparr>peer_channels := insert k (peer_channels p)\<rparr> else (\<lambda>p. p)) (map_option view (connection h d))"
  "map_option view (connection (unsubscribe_channel c k h) d) = map_option
     (if d = c then \<lambda>p. p\<lparr>peer_channels := peer_channels p - {k}\<rparr> else (\<lambda>p. p)) (map_option view (connection h d))"
  "map_option view (connection (subscribe_thread c k h) d) = map_option
     (if d = c then \<lambda>p. p\<lparr>peer_threads := insert k (peer_threads p)\<rparr> else (\<lambda>p. p)) (map_option view (connection h d))"
  "map_option view (connection (unsubscribe_thread c k h) d) = map_option
     (if d = c then \<lambda>p. p\<lparr>peer_threads := peer_threads p - {k}\<rparr> else (\<lambda>p. p)) (map_option view (connection h d))"
  "map_option view (connection (hub (touch_heartbeat c g)) d) = map_option
     (if d = c then (\<lambda>p. p) else (\<lambda>p. p)) (map_option view (connection (hub g) d))"
  by (cases "connection h d"; cases "connection (hub g) d";
      auto simp: subscribe_channel_def unsubscribe_channel_def subscribe_thread_def unsubscribe_thread_def
        touch_heartbeat_def Let_def view_def)+

lemma touch_heartbeat_same:
  "receiver_gone (touch_heartbeat c g) = receiver_gone g" "outbox (touch_heartbeat c g) = outbox g"
  by (simp_all add: touch_heartbeat_def)

definition names_known :: "nat \<Rightarrow> hub_op \<Rightarrow> bool" where
  "names_known m op = (case op of Disconnect n \<Rightarrow> n < m | JoinChannel n _ \<Rightarrow> n < m | LeaveChannel n _ \<Rightarrow> n < m
     | JoinThread n _ \<Rightarrow> n < m | LeaveThread n _ \<Rightarrow> n < m | Beat n \<Rightarrow> n < m | _ \<Rightarrow> True)"

lemma sim_step:
  assumes sim: "sim g a" and known: "names_known (arrived a) op"
    and new: "\<And>u. op = Connect u \<Longrightarrow> \<not> drawn_id g (conn_id_at g (conns_drawn g))"
  shows "fst (run_hub op g) = fst (run_spec op a) \<and> sim (snd (run_hub op g)) (snd (run_spec op a))"
proof (cases op)
  case (Connect u)
  then show ?thesis using sim_connect [OF sim new] by simp
next
  case (Disconnect n)
  then show ?thesis using sim_disconnect [OF sim, of n] known by (simp add: names_known_def)
next
  case (JoinChannel n k)
  then show ?thesis using known
    by (auto simp: names_known_def view_topics acts_for_subscribe_channel intro!: sim_adjust [OF sim])
next
  case (LeaveChannel n k)
  then show ?thesis using known
    by (auto simp: names_known_def view_topics acts_for_unsubscribe_channel intro!: sim_adjust [OF sim])
next
  case (JoinThread n k)
  then show ?thesis using known
    by (auto simp: names_known_def view_topics acts_for_subscribe_thread intro!: sim_adjust [OF sim])
next
  case (LeaveThread n k)
  then show ?thesis using known
    by (auto simp: names_known_def view_topics acts_for_unsubscribe_thread intro!: sim_adjust [OF sim])
next
  case (Beat n)
  have "sim (touch_heartbeat (conn_id_at g n) g) (adjust n (\<lambda>p. p) a)"
    using known Beat
    by (intro sim_adjust [OF sim]) (simp_all add: names_known_def view_topics acts_for_touch touch_heartbeat_same)
  then show ?thesis by (simp add: Beat adjust_def option.map_ident)
next
  case (ToChannel k e)
  have ok: "agree channel_subscribers con_channels (hub g)" using sim_hub_ok [OF sim] by (simp add: hub_ok_def)
  have "outbox (broadcast_to_channel k e g) = boxes (post (\<lambda>p. k \<in> peer_channels p) e a)"
    unfolding channel_topic.broadcast_members using ok by (intro sim_post [OF sim]) (simp_all add: agree_def)
  then show ?thesis unfolding ToChannel by (auto intro!: sim_boxes [OF sim])
next
  case (ToThread k e)
  have ok: "agree thread_subscribers con_threads (hub g)" using sim_hub_ok [OF sim] by (simp add: hub_ok_def)
  have "outbox (broadcast_to_thread k e g) = boxes (post (\<lambda>p. k \<in> peer_threads p) e a)"
    unfolding thread_topic.broadcast_members using ok by (intro sim_post [OF sim]) (simp_all add: agree_def)
  then show ?thesis unfolding ToThread by (auto intro!: sim_boxes [OF sim])
next
  case (ToUser u e)
  have users: "users_ok (hub g)" using sim_hub_ok [OF sim] by (simp add: hub_ok_def)
  have "broadcast_to_user u e g = send_to_all (members (user_connections (hub g)) u) e g"
    by (simp add: broadcast_to_user_def members_def send_to_all_def split: option.split)
  moreover have "outbox (send_to_all (members (user_connections (hub g)) u) e g) =
      boxes (post (\<lambda>p. peer_user p = u) e a)"
    using users by (intro sim_post [OF sim]) (auto simp: users_ok_def)
  ultimately show ?thesis unfolding ToUser by (auto intro!: sim_boxes [OF sim])
next
  case (ToAll e)
  have ok: "distinct (map fst (connections (hub g)))" using sim_hub_ok [OF sim] by (simp add: hub_ok_def)
  have "outbox (send_to_all (map fst (connections (hub g))) e g) = boxes (post (\<lambda>_. True) e a)"
    using ok by (intro sim_post [OF sim]) (auto simp: connection_def dest: map_of_SomeD intro: rev_image_eqI)
  then show ?thesis unfolding ToAll
    using broadcast_global_send_to_all [OF sim_hub_ok [OF sim], of e] by (auto intro!: sim_boxes [OF sim])
next
  case (ReceiverDies n)
  have "owner (g\<lparr>receiver_gone := f\<rparr>) = owner g" for f by (simp add: owner_def fun_eq_iff)
  with sim show ?thesis unfolding ReceiverDies by (auto simp: sim_def gate_ok_def indexed_def drawn_id_def)
next
  case ShutDown
  with sim show ?thesis
    by (auto simp: sim_def gate_ok_def indexed_def drawn_id_def owner_def shutdown_all_def connection_def new_hub_def
        hub_ok_new [unfolded new_hub_def])
qed

section \<open>Sequences of operations\<close>

fun run_ops :: "('o \<Rightarrow> 's \<Rightarrow> bool \<times> 's) \<Rightarrow> 'o list \<Rightarrow> 's \<Rightarrow> bool list \<times> 's" where
  "run_ops f [] s = ([], s)"
| "run_ops f (x # xs) s = (let (b, s1) = f x s; (bs, s2) = run_ops f xs s1 in (b # bs, s2))"

fun all_known :: "nat \<Rightarrow> hub_op list \<Rightarrow> bool" where
  "all_known m [] = True"
| "all_known m (op # ops) = (names_known m op \<and> all_known (case op of Connect _ \<Rightarrow> Suc m | _ \<Rightarrow> m) ops)"

lemma run_hub_ids [simp]: "conn_id_at (snd (run_hub op g)) = conn_id_at g"
  by (cases op) (simp_all add: hub_register_def touch_heartbeat_def split: prod.split)

lemma run_spec_arrived: "arrived (snd (run_spec op a)) = (case op of Connect _ \<Rightarrow> Suc (arrived a) | _ \<Rightarrow> arrived a)"
  by (cases op) (simp_all add: adjust_def post_def Let_def)

lemma sim_run_ops:
  assumes "sim g a" and "all_known (arrived a) ops" and "inj_on (conn_id_at g) {..<arrived a + length ops}"
  shows "fst (run_ops run_hub ops g) = fst (run_ops run_spec ops a) \<and>
    sim (snd (run_ops run_hub ops g)) (snd (run_ops run_spec ops a))"
  using assms
proof (induction ops arbitrary: g a)
  case (Cons op ops)
  have drawn: "conns_drawn g = arrived a" using Cons.prems(1) by (simp add: sim_def)
  have "\<not> drawn_id g (conn_id_at g (conns_drawn g))"
    using Cons.prems(3) unfolding drawn_id_def drawn by (auto dest: inj_onD)
  then have step: "fst (run_hub op g) = fst (run_spec op a)" "sim (snd (run_hub op g)) (snd (run_spec op a))"
    using sim_step [OF Cons.prems(1)] Cons.prems(2) by simp_all
  have "inj_on (conn_id_at g) {..<arrived (snd (run_spec op a)) + length ops}"
    by (rule inj_on_subset [OF Cons.prems(3)]) (auto simp: run_spec_arrived split: hub_op.splits)
  with Cons.IH [OF step(2)] Cons.prems(2)
  have "fst (run_ops run_hub ops (snd (run_hub op g))) = fst (run_ops run_spec ops (snd (run_spec op a))) \<and>
    sim (snd (run_ops run_hub ops (snd (run_hub op g)))) (snd (run_ops run_spec ops (snd (run_spec op a))))"
    by (simp add: run_spec_arrived)
  with step(1) show ?case by (simp add: Let_def split_beta)
qed simp

text \<open>
  C3: the hub implements its specification: from an empty hub, and on every sequence of registrations,
  ends of connections, subscriptions and events that names only connections that have been registered, it
  gives the same answers about presence as the specification and sends the same events, in the same order,
  to every connection, provided that the connection ids do not repeat.
\<close>

theorem hub_refines_specification:
  assumes g: "hub g = new_hub" "conns_drawn g = 0" and ids: "inj_on (conn_id_at g) {..<length ops}"
    and known: "all_known 0 ops"
    and a: "a = \<lparr>peers = \<lambda>_. None, arrived = 0, boxes = outbox g, deaf = receiver_gone g\<rparr>"
  shows "fst (run_ops run_hub ops g) = fst (run_ops run_spec ops a) \<and>
    outbox (snd (run_ops run_hub ops g)) = boxes (snd (run_ops run_spec ops a))"
proof -
  have "sim g a"
    using g by (simp add: sim_def a gate_ok_def owner_def indexed_def connection_def new_hub_def
        hub_ok_new [unfolded new_hub_def])
  from sim_run_ops [OF this, of ops] known ids show ?thesis by (simp add: a) (simp add: sim_def)
qed

theorem hub_refines_specification_witness:
  "outbox (snd (run_ops run_hub
     [Connect 1, Connect 2, JoinChannel 0 5, JoinChannel 1 5, Disconnect 1, ToChannel 5 (Ready 7), ToUser 1 (Ready 8)]
     (gate (srv demo_node)))) 0 = [Ready 7, Ready 8]"
proof -
  let ?g = "gate (srv demo_node)"
  let ?a = "\<lparr>peers = \<lambda>_. None, arrived = 0, boxes = outbox ?g, deaf = receiver_gone ?g\<rparr>"
  let ?ops = "[Connect 1, Connect 2, JoinChannel 0 5, JoinChannel 1 5, Disconnect 1, ToChannel 5 (Ready 7), ToUser 1 (Ready 8)]"
  have g: "hub ?g = new_hub" "conns_drawn ?g = 0" by (simp_all add: demo_node_def)
  have ids: "inj_on (conn_id_at ?g) {..<length ?ops}"
    by (auto simp: demo_node_def inj_on_def word_of_nat_eq_iff take_bit_nat_eq_self)
  have "all_known 0 ?ops" by (simp add: names_known_def)
  from hub_refines_specification [OF g ids this refl]
  show ?thesis by (simp add: adjust_def post_def Let_def) (simp add: demo_node_def)
qed

end
