(* ===== verification/Session_Life.thy ===== *)
theory Session_Life
  imports Sessions
begin






end
