(* ===== verification/Dto.thy ===== *)
theory Dto
  imports Domain Rust_Text
begin

text \<open>
  The bodies and query strings of the HTTP requests (\<open>interfaces/http/dto/\<close>), after \<open>serde\<close> has
  parsed them.  An \<open>i32\<close> or \<open>i64\<close> is an \<open>int\<close> here: the use cases compare the limits and caps that they
  carry with constants before they compute with them.
\<close>

section \<open>Accounts\<close>

record RegisterRequest =
  rgr_username :: rstring
  rgr_email :: "rstring option"
  rgr_password :: rstring

record LoginRequest =
  liq_username_or_email :: rstring
  liq_password :: rstring

record RefreshRequest =
  rfq_refresh_token :: rstring

record LogoutRequest =
  loq_refresh_token :: rstring

section \<open>Guilds\<close>

record CreateGuildRequest =
  cgq_name :: rstring

record CreateChannelRequest =
  ccq_name :: rstring

record CreateGuildInviteRequest =
  giq_expires_in_seconds :: "u64 option"
  giq_max_uses :: "int option"

section \<open>Friends\<close>

record CreateFriendRequest =
  cfq_to_user_id :: uuid

record ListFriendRequestsQuery =
  lfq_inbox :: "rstring option"

section \<open>Channel messages\<close>

record CreateMessageRequest =
  cmq_content :: rstring

record UpdateMessageRequest =
  umq_content :: rstring

record ListMessagesQuery =
  lmq_before :: "uuid option"
  lmq_limit :: "int option"

record MarkChannelReadRequest =
  mcq_last_read_message_id :: "uuid option"

section \<open>Threads\<close>

record CreateDirectThreadRequest =
  cdq_peer_user_id :: uuid

record ListDirectThreadsQuery =
  ldq_inbox :: "rstring option"

record CreateGroupThreadRequest =
  gtq_name :: rstring
  gtq_member_user_ids :: "uuid list"

record AddGroupMemberRequest =
  agq_user_id :: uuid

record CreateGroupInviteRequest =
  gvq_expires_in_seconds :: "u64 option"
  gvq_max_uses :: "int option"

record CreateThreadMessageRequest =
  tmq_content :: rstring

record UpdateThreadMessageRequest =
  utq_content :: rstring

record ListThreadMessagesQuery =
  ltq_before :: "uuid option"
  ltq_limit :: "int option"

record MarkThreadReadRequest =
  mtq_last_read_message_id :: "uuid option"

end
