(* ===== verification/Http.thy ===== *)
theory Http
  imports Handlers Guild_Service Dto
begin

text \<open>
  The HTTP interface (\<open>interfaces/http/\<close>): one definition for each handler of
  \<open>handlers/*.rs\<close>, the requests that the router of \<open>router.rs\<close> hands to them, and its table.  A
  request stands here after the extraction by \<open>axum\<close> and \<open>serde\<close>: path parameters, query and JSON
  body are parsed.  A response is the JSON value that the handler returns, by its fields, or an error.
\<close>

record request_headers =
  hdr_authorization :: "rstring option option"
  hdr_user_agent :: "rstring option option"
  hdr_x_forwarded_for :: "rstring option option"

datatype (plugins only: code) body =
    UserBody UserProfile
  | TokensBody TokenPair
  | MessageBody string
  | GuildBody GuildSummary
  | GuildsBody "GuildSummary list"
  | JoinedBody GuildSummary bool
  | ChannelBody ChannelRecord
  | ChannelsBody "ChannelRecord list"
  | GuildInviteBody GuildInviteRecord
  | FriendRequestBody FriendRequestRecord
  | FriendRequestsBody "FriendRequestSummary list"
  | FriendBody FriendSummary
  | FriendsBody "FriendSummary list"
  | ChannelMessageBody MessageRecord
  | ChannelPageBody "MessageRecord list" "uuid option"
  | ChannelReadBody ChannelReadState
  | OpenedThreadBody DirectThreadSummary bool
  | DirectThreadBody DirectThreadSummary
  | DirectThreadsBody "DirectThreadSummary list"
  | GroupThreadBody GroupThreadSummary
  | GroupThreadsBody "GroupThreadSummary list"
  | GroupInviteBody GroupInviteRecord
  | ThreadReadBody ThreadReadState
  | ThreadMessageBody ThreadMessageRecord
  | ThreadPageBody "ThreadMessageRecord list" "uuid option"

type_synonym handler = "(server, body) app"

definition app_guilds :: "application \<Rightarrow> world GuildChannelUseCase" where
  "app_guilds app = guild_use_case (simple_text (app_env app))"

text \<open>\<open>authenticated_user_id(&state, &headers)?\<close>, the first step of most handlers.\<close>

definition with_user :: "application \<Rightarrow> request_headers \<Rightarrow> (uuid \<Rightarrow> handler) \<Rightarrow> handler" where
  "with_user app headers k = bnd (authenticate app (hdr_authorization headers)) k"

section \<open>Accounts\<close>

text \<open>\<open>lower\<close> is \<open>str::to_lowercase\<close>.\<close>

definition http_register ::
  "(rstring \<Rightarrow> rstring) \<Rightarrow> application \<Rightarrow> RegisterRequest \<Rightarrow> handler" where
  "http_register lower app payload =
     bnd (in_db (register lower (app_auth app)
            \<lparr>reg_username = rgr_username payload, reg_email = rgr_email payload, reg_password = rgr_password payload\<rparr>)) (\<lambda>user.
     ret (UserBody user))"

definition session_context :: "request_headers \<Rightarrow> SessionContext" where
  "session_context headers = build_session_context (hdr_user_agent headers) (hdr_x_forwarded_for headers)"

definition http_login :: "application \<Rightarrow> request_headers \<Rightarrow> LoginRequest \<Rightarrow> handler" where
  "http_login app headers payload =
     bnd (in_db (login (app_auth app)
            \<lparr>log_username_or_email = liq_username_or_email payload, log_password = liq_password payload,
             log_context = session_context headers\<rparr>)) (\<lambda>tokens.
     ret (TokensBody tokens))"

definition http_refresh :: "application \<Rightarrow> request_headers \<Rightarrow> RefreshRequest \<Rightarrow> handler" where
  "http_refresh app headers payload =
     bnd (in_db (refresh (app_auth app)
            \<lparr>ref_refresh_token = rfq_refresh_token payload, ref_context = session_context headers\<rparr>)) (\<lambda>tokens.
     ret (TokensBody tokens))"

definition http_logout :: "application \<Rightarrow> LogoutRequest \<Rightarrow> handler" where
  "http_logout app payload =
     bnd (in_db (logout (app_auth app) \<lparr>out_refresh_token = loq_refresh_token payload\<rparr>)) (\<lambda>_.
     ret (MessageBody ''logout successful''))"

definition http_me :: "application \<Rightarrow> request_headers \<Rightarrow> handler" where
  "http_me app headers =
     with_user app headers (\<lambda>user_id.
     bnd (in_db (me (app_auth app) user_id)) (\<lambda>user.
     ret (UserBody user)))"

section \<open>Guilds\<close>

definition http_create_guild :: "application \<Rightarrow> request_headers \<Rightarrow> CreateGuildRequest \<Rightarrow> handler" where
  "http_create_guild app headers payload =
     with_user app headers (\<lambda>user_id.
     bnd (in_db (create_guild (app_guilds app) \<lparr>cg_user_id = user_id, cg_name = cgq_name payload\<rparr>)) (\<lambda>guild.
     ret (GuildBody guild)))"

definition http_list_guilds :: "application \<Rightarrow> request_headers \<Rightarrow> handler" where
  "http_list_guilds app headers =
     with_user app headers (\<lambda>user_id.
     bnd (in_db (list_guilds (app_guilds app) user_id)) (\<lambda>guilds.
     ret (GuildsBody guilds)))"

definition http_get_guild :: "application \<Rightarrow> request_headers \<Rightarrow> uuid \<Rightarrow> handler" where
  "http_get_guild app headers gid =
     with_user app headers (\<lambda>user_id.
     bnd (in_db (get_guild (app_guilds app) gid user_id)) (\<lambda>guild.
     ret (GuildBody guild)))"

definition http_join_guild :: "application \<Rightarrow> request_headers \<Rightarrow> uuid \<Rightarrow> handler" where
  "http_join_guild app headers gid =
     with_user app headers (\<lambda>user_id.
     bnd (in_db (join_guild_by_id (app_guilds app) \<lparr>jn_user_id = user_id, jn_guild_id = gid\<rparr>)) (\<lambda>_.
     ret (MessageBody ''joined guild'')))"

definition http_leave_guild :: "application \<Rightarrow> request_headers \<Rightarrow> uuid \<Rightarrow> handler" where
  "http_leave_guild app headers gid =
     with_user app headers (\<lambda>user_id.
     bnd (in_db (leave_guild (app_guilds app) \<lparr>lg_user_id = user_id, lg_guild_id = gid\<rparr>)) (\<lambda>_.
     ret (MessageBody ''left guild'')))"

definition http_create_channel :: "application \<Rightarrow> request_headers \<Rightarrow> uuid \<Rightarrow> CreateChannelRequest \<Rightarrow> handler" where
  "http_create_channel app headers gid payload =
     with_user app headers (\<lambda>user_id.
     bnd (in_db (create_channel (app_guilds app)
            \<lparr>cc_user_id = user_id, cc_guild_id = gid, cc_name = ccq_name payload\<rparr>)) (\<lambda>channel.
     ret (ChannelBody channel)))"

definition http_list_channels :: "application \<Rightarrow> request_headers \<Rightarrow> uuid \<Rightarrow> handler" where
  "http_list_channels app headers gid =
     with_user app headers (\<lambda>user_id.
     bnd (in_db (list_channels (app_guilds app) gid user_id)) (\<lambda>channels.
     ret (ChannelsBody channels)))"

definition http_get_channel :: "application \<Rightarrow> request_headers \<Rightarrow> uuid \<Rightarrow> handler" where
  "http_get_channel app headers channel_id =
     with_user app headers (\<lambda>user_id.
     bnd (in_db (get_channel (app_guilds app) channel_id user_id)) (\<lambda>channel.
     ret (ChannelBody channel)))"

definition http_create_guild_invite :: "application \<Rightarrow> request_headers \<Rightarrow> uuid \<Rightarrow> CreateGuildInviteRequest \<Rightarrow> handler" where
  "http_create_guild_invite app headers gid payload =
     with_user app headers (\<lambda>user_id.
     bnd (in_db (create_guild_invite (app_guilds app)
            \<lparr>cgi_actor_user_id = user_id, cgi_guild_id = gid,
             cgi_expires_in_seconds = giq_expires_in_seconds payload, cgi_max_uses = giq_max_uses payload\<rparr>)) (\<lambda>invite.
     ret (GuildInviteBody invite)))"

definition http_join_guild_invite :: "application \<Rightarrow> request_headers \<Rightarrow> rstring \<Rightarrow> handler" where
  "http_join_guild_invite app headers token =
     with_user app headers (\<lambda>user_id.
     bnd (in_db (join_guild_invite (app_guilds app)
            \<lparr>jgi_user_id = user_id, jgi_token = token\<rparr>)) (\<lambda>result.
     ret (JoinedBody (join_guild result) (join_joined result))))"

section \<open>Friends\<close>

definition http_create_friend_request :: "application \<Rightarrow> request_headers \<Rightarrow> CreateFriendRequest \<Rightarrow> handler" where
  "http_create_friend_request app headers payload =
     with_user app headers (\<lambda>user_id.
     bnd (in_db (create_friend_request sqlx_friendship_repository
            \<lparr>cfr_from_user_id = user_id, cfr_to_user_id = cfq_to_user_id payload\<rparr>)) (\<lambda>request.
     ret (FriendRequestBody request)))"

definition http_accept_friend_request :: "application \<Rightarrow> request_headers \<Rightarrow> uuid \<Rightarrow> handler" where
  "http_accept_friend_request app headers from_user_id =
     with_user app headers (\<lambda>user_id.
     bnd (in_db (accept_friend_request sqlx_friendship_repository
            \<lparr>rfr_user_id = user_id, rfr_from_user_id = from_user_id\<rparr>)) (\<lambda>friend.
     ret (FriendBody friend)))"

definition http_reject_friend_request :: "application \<Rightarrow> request_headers \<Rightarrow> uuid \<Rightarrow> handler" where
  "http_reject_friend_request app headers from_user_id =
     with_user app headers (\<lambda>user_id.
     bnd (in_db (reject_friend_request sqlx_friendship_repository
            \<lparr>rfr_user_id = user_id, rfr_from_user_id = from_user_id\<rparr>)) (\<lambda>_.
     ret (MessageBody ''friend request rejected'')))"

definition http_list_friends :: "application \<Rightarrow> request_headers \<Rightarrow> handler" where
  "http_list_friends app headers =
     with_user app headers (\<lambda>user_id.
     bnd (in_db (list_friends sqlx_friendship_repository user_id)) (\<lambda>friends.
     ret (FriendsBody friends)))"

definition http_list_friend_requests :: "application \<Rightarrow> request_headers \<Rightarrow> ListFriendRequestsQuery \<Rightarrow> handler" where
  "http_list_friend_requests app headers payload =
     with_user app headers (\<lambda>user_id.
     bnd (from_result (parse_friend_request_filter (lfq_inbox payload))) (\<lambda>filter.
     bnd (in_db (list_friend_requests sqlx_friendship_repository user_id filter)) (\<lambda>requests.
     ret (FriendRequestsBody requests))))"

section \<open>Channel messages\<close>

definition http_create_message :: "application \<Rightarrow> request_headers \<Rightarrow> uuid \<Rightarrow> CreateMessageRequest \<Rightarrow> handler" where
  "http_create_message app headers channel_id payload =
     bnd (post_message app (hdr_authorization headers) channel_id (cmq_content payload)) (\<lambda>message.
     ret (ChannelMessageBody message))"

definition http_list_messages :: "application \<Rightarrow> request_headers \<Rightarrow> uuid \<Rightarrow> ListMessagesQuery \<Rightarrow> handler" where
  "http_list_messages app headers channel_id payload =
     with_user app headers (\<lambda>user_id.
     bnd (in_db (list_messages message_use_case
            \<lparr>lm_user_id = user_id, lm_channel_id = channel_id, lm_before = lmq_before payload, lm_limit = lmq_limit payload\<rparr>)) (\<lambda>page.
     ret (ChannelPageBody (mp_messages page) (mp_next_cursor page))))"

definition http_update_message :: "application \<Rightarrow> request_headers \<Rightarrow> uuid \<Rightarrow> UpdateMessageRequest \<Rightarrow> handler" where
  "http_update_message app headers message_id payload =
     bnd (patch_message app (hdr_authorization headers) message_id (umq_content payload)) (\<lambda>message.
     ret (ChannelMessageBody message))"

definition http_delete_message :: "application \<Rightarrow> request_headers \<Rightarrow> uuid \<Rightarrow> handler" where
  "http_delete_message app headers message_id =
     bnd (remove_message app (hdr_authorization headers) message_id) (\<lambda>_.
     ret (MessageBody ''message deleted''))"

definition http_mark_channel_read :: "application \<Rightarrow> request_headers \<Rightarrow> uuid \<Rightarrow> MarkChannelReadRequest \<Rightarrow> handler" where
  "http_mark_channel_read app headers channel_id payload =
     with_user app headers (\<lambda>user_id.
     bnd (in_db (mark_channel_read message_use_case
            \<lparr>mk_user_id = user_id, mk_channel_id = channel_id,
             mk_last_read_message_id = mcq_last_read_message_id payload\<rparr>)) (\<lambda>state.
     ret (ChannelReadBody state)))"

section \<open>Threads\<close>

definition http_create_direct_thread :: "application \<Rightarrow> request_headers \<Rightarrow> CreateDirectThreadRequest \<Rightarrow> handler" where
  "http_create_direct_thread app headers payload =
     bnd (open_direct_thread app (hdr_authorization headers) (cdq_peer_user_id payload)) (\<lambda>r.
     ret (OpenedThreadBody (up_thread r) (up_created r)))"

definition http_list_direct_threads :: "application \<Rightarrow> request_headers \<Rightarrow> ListDirectThreadsQuery \<Rightarrow> handler" where
  "http_list_direct_threads app headers payload =
     with_user app headers (\<lambda>user_id.
     bnd (from_result (parse_inbox_filter (ldq_inbox payload))) (\<lambda>filter.
     bnd (in_db (list_direct_threads (app_conversations app) user_id filter)) (\<lambda>threads.
     ret (DirectThreadsBody threads))))"

definition http_get_direct_thread :: "application \<Rightarrow> request_headers \<Rightarrow> uuid \<Rightarrow> handler" where
  "http_get_direct_thread app headers thread_id =
     with_user app headers (\<lambda>user_id.
     bnd (in_db (get_direct_thread (app_conversations app) thread_id user_id)) (\<lambda>thread.
     ret (DirectThreadBody thread)))"

definition http_accept_direct_thread :: "application \<Rightarrow> request_headers \<Rightarrow> uuid \<Rightarrow> handler" where
  "http_accept_direct_thread app headers thread_id =
     bnd (accept_thread_request app (hdr_authorization headers) thread_id) (\<lambda>thread.
     ret (DirectThreadBody thread))"

definition http_reject_direct_thread :: "application \<Rightarrow> request_headers \<Rightarrow> uuid \<Rightarrow> handler" where
  "http_reject_direct_thread app headers thread_id =
     bnd (reject_thread_request app (hdr_authorization headers) thread_id) (\<lambda>_.
     ret (MessageBody ''direct thread rejected''))"

definition http_create_group_thread :: "application \<Rightarrow> request_headers \<Rightarrow> CreateGroupThreadRequest \<Rightarrow> handler" where
  "http_create_group_thread app headers payload =
     with_user app headers (\<lambda>user_id.
     bnd (in_db (create_group_thread (app_conversations app)
            \<lparr>cgt_owner_id = user_id, cgt_name = gtq_name payload, cgt_member_user_ids = gtq_member_user_ids payload\<rparr>)) (\<lambda>thread.
     ret (GroupThreadBody thread)))"

definition http_list_group_threads :: "application \<Rightarrow> request_headers \<Rightarrow> handler" where
  "http_list_group_threads app headers =
     with_user app headers (\<lambda>user_id.
     bnd (in_db (list_group_threads (app_conversations app) user_id)) (\<lambda>threads.
     ret (GroupThreadsBody threads)))"

definition http_get_group_thread :: "application \<Rightarrow> request_headers \<Rightarrow> uuid \<Rightarrow> handler" where
  "http_get_group_thread app headers thread_id =
     with_user app headers (\<lambda>user_id.
     bnd (in_db (get_group_thread (app_conversations app) thread_id user_id)) (\<lambda>thread.
     ret (GroupThreadBody thread)))"

definition http_add_group_member :: "application \<Rightarrow> request_headers \<Rightarrow> uuid \<Rightarrow> AddGroupMemberRequest \<Rightarrow> handler" where
  "http_add_group_member app headers thread_id payload =
     with_user app headers (\<lambda>user_id.
     bnd (in_db (add_group_member (app_conversations app)
            \<lparr>ag_actor_user_id = user_id, ag_thread_id = thread_id, ag_user_id = agq_user_id payload\<rparr>)) (\<lambda>_.
     ret (MessageBody ''member added'')))"

definition http_leave_group_thread :: "application \<Rightarrow> request_headers \<Rightarrow> uuid \<Rightarrow> handler" where
  "http_leave_group_thread app headers thread_id =
     with_user app headers (\<lambda>user_id.
     bnd (in_db (leave_group (app_conversations app) \<lparr>lgr_user_id = user_id, lgr_thread_id = thread_id\<rparr>)) (\<lambda>_.
     ret (MessageBody ''left group'')))"

definition http_create_group_invite :: "application \<Rightarrow> request_headers \<Rightarrow> uuid \<Rightarrow> CreateGroupInviteRequest \<Rightarrow> handler" where
  "http_create_group_invite app headers thread_id payload =
     with_user app headers (\<lambda>user_id.
     bnd (in_db (create_group_invite (app_conversations app)
            \<lparr>cgv_actor_user_id = user_id, cgv_thread_id = thread_id,
             cgv_expires_in_seconds = gvq_expires_in_seconds payload, cgv_max_uses = gvq_max_uses payload\<rparr>)) (\<lambda>invite.
     ret (GroupInviteBody invite)))"

definition http_join_group_invite :: "application \<Rightarrow> request_headers \<Rightarrow> rstring \<Rightarrow> handler" where
  "http_join_group_invite app headers token =
     with_user app headers (\<lambda>user_id.
     bnd (in_db (join_group_invite (app_conversations app)
            \<lparr>jgv_user_id = user_id, jgv_token = token\<rparr>)) (\<lambda>thread.
     ret (GroupThreadBody thread)))"

definition http_mark_thread_read :: "application \<Rightarrow> request_headers \<Rightarrow> uuid \<Rightarrow> MarkThreadReadRequest \<Rightarrow> handler" where
  "http_mark_thread_read app headers thread_id payload =
     with_user app headers (\<lambda>user_id.
     bnd (in_db (mark_thread_read (app_conversations app)
            \<lparr>mt_user_id = user_id, mt_thread_id = thread_id,
             mt_last_read_message_id = mtq_last_read_message_id payload\<rparr>)) (\<lambda>state.
     ret (ThreadReadBody state)))"

definition http_create_thread_message :: "application \<Rightarrow> request_headers \<Rightarrow> uuid \<Rightarrow> CreateThreadMessageRequest \<Rightarrow> handler" where
  "http_create_thread_message app headers thread_id payload =
     bnd (post_thread_message app (hdr_authorization headers) thread_id (tmq_content payload)) (\<lambda>message.
     ret (ThreadMessageBody message))"

definition http_list_thread_messages :: "application \<Rightarrow> request_headers \<Rightarrow> uuid \<Rightarrow> ListThreadMessagesQuery \<Rightarrow> handler" where
  "http_list_thread_messages app headers thread_id payload =
     with_user app headers (\<lambda>user_id.
     bnd (in_db (list_thread_messages (app_conversations app)
            \<lparr>ltm_user_id = user_id, ltm_thread_id = thread_id, ltm_before = ltq_before payload, ltm_limit = ltq_limit payload\<rparr>)) (\<lambda>page.
     ret (ThreadPageBody (tmp_messages page) (tmp_next_cursor page))))"

definition http_update_thread_message :: "application \<Rightarrow> request_headers \<Rightarrow> uuid \<Rightarrow> UpdateThreadMessageRequest \<Rightarrow> handler" where
  "http_update_thread_message app headers message_id payload =
     bnd (patch_thread_message app (hdr_authorization headers) message_id (utq_content payload)) (\<lambda>message.
     ret (ThreadMessageBody message))"

definition http_delete_thread_message :: "application \<Rightarrow> request_headers \<Rightarrow> uuid \<Rightarrow> handler" where
  "http_delete_thread_message app headers message_id =
     bnd (remove_thread_message app (hdr_authorization headers) message_id) (\<lambda>_.
     ret (MessageBody ''message deleted''))"

section \<open>Requests\<close>

text \<open>
  The requests of the API.  The routes \<open>/health\<close>, \<open>/metrics\<close> and \<open>/ws\<close> are not among them: the
  first two read no state of the model, the third opens a session (\<open>ws_handler\<close>).
\<close>

datatype (plugins only: code) api_request =
    ApiRegister RegisterRequest
  | ApiLogin LoginRequest
  | ApiRefresh RefreshRequest
  | ApiLogout LogoutRequest
  | ApiMe
  | ApiCreateGuild CreateGuildRequest
  | ApiListGuilds
  | ApiGetGuild uuid
  | ApiJoinGuild uuid
  | ApiLeaveGuild uuid
  | ApiCreateChannel uuid CreateChannelRequest
  | ApiListChannels uuid
  | ApiGetChannel uuid
  | ApiCreateGuildInvite uuid CreateGuildInviteRequest
  | ApiJoinGuildInvite rstring
  | ApiCreateFriendRequest CreateFriendRequest
  | ApiAcceptFriendRequest uuid
  | ApiRejectFriendRequest uuid
  | ApiListFriends
  | ApiListFriendRequests ListFriendRequestsQuery
  | ApiCreateMessage uuid CreateMessageRequest
  | ApiListMessages uuid ListMessagesQuery
  | ApiUpdateMessage uuid UpdateMessageRequest
  | ApiDeleteMessage uuid
  | ApiMarkChannelRead uuid MarkChannelReadRequest
  | ApiCreateDirectThread CreateDirectThreadRequest
  | ApiListDirectThreads ListDirectThreadsQuery
  | ApiGetDirectThread uuid
  | ApiAcceptDirectThread uuid
  | ApiRejectDirectThread uuid
  | ApiCreateGroupThread CreateGroupThreadRequest
  | ApiListGroupThreads
  | ApiGetGroupThread uuid
  | ApiAddGroupMember uuid AddGroupMemberRequest
  | ApiLeaveGroupThread uuid
  | ApiCreateGroupInvite uuid CreateGroupInviteRequest
  | ApiJoinGroupInvite rstring
  | ApiMarkThreadRead uuid MarkThreadReadRequest
  | ApiCreateThreadMessage uuid CreateThreadMessageRequest
  | ApiListThreadMessages uuid ListThreadMessagesQuery
  | ApiUpdateThreadMessage uuid UpdateThreadMessageRequest
  | ApiDeleteThreadMessage uuid

primrec api :: "(rstring \<Rightarrow> rstring) \<Rightarrow> application \<Rightarrow> request_headers \<Rightarrow> api_request \<Rightarrow> handler" where
  "api lower app headers (ApiRegister x) = http_register lower app x"
| "api lower app headers (ApiLogin x) = http_login app headers x"
| "api lower app headers (ApiRefresh x) = http_refresh app headers x"
| "api lower app headers (ApiLogout x) = http_logout app x"
| "api lower app headers ApiMe = http_me app headers"
| "api lower app headers (ApiCreateGuild x) = http_create_guild app headers x"
| "api lower app headers ApiListGuilds = http_list_guilds app headers"
| "api lower app headers (ApiGetGuild x) = http_get_guild app headers x"
| "api lower app headers (ApiJoinGuild x) = http_join_guild app headers x"
| "api lower app headers (ApiLeaveGuild x) = http_leave_guild app headers x"
| "api lower app headers (ApiCreateChannel x y) = http_create_channel app headers x y"
| "api lower app headers (ApiListChannels x) = http_list_channels app headers x"
| "api lower app headers (ApiGetChannel x) = http_get_channel app headers x"
| "api lower app headers (ApiCreateGuildInvite x y) = http_create_guild_invite app headers x y"
| "api lower app headers (ApiJoinGuildInvite x) = http_join_guild_invite app headers x"
| "api lower app headers (ApiCreateFriendRequest x) = http_create_friend_request app headers x"
| "api lower app headers (ApiAcceptFriendRequest x) = http_accept_friend_request app headers x"
| "api lower app headers (ApiRejectFriendRequest x) = http_reject_friend_request app headers x"
| "api lower app headers ApiListFriends = http_list_friends app headers"
| "api lower app headers (ApiListFriendRequests x) = http_list_friend_requests app headers x"
| "api lower app headers (ApiCreateMessage x y) = http_create_message app headers x y"
| "api lower app headers (ApiListMessages x y) = http_list_messages app headers x y"
| "api lower app headers (ApiUpdateMessage x y) = http_update_message app headers x y"
| "api lower app headers (ApiDeleteMessage x) = http_delete_message app headers x"
| "api lower app headers (ApiMarkChannelRead x y) = http_mark_channel_read app headers x y"
| "api lower app headers (ApiCreateDirectThread x) = http_create_direct_thread app headers x"
| "api lower app headers (ApiListDirectThreads x) = http_list_direct_threads app headers x"
| "api lower app headers (ApiGetDirectThread x) = http_get_direct_thread app headers x"
| "api lower app headers (ApiAcceptDirectThread x) = http_accept_direct_thread app headers x"
| "api lower app headers (ApiRejectDirectThread x) = http_reject_direct_thread app headers x"
| "api lower app headers (ApiCreateGroupThread x) = http_create_group_thread app headers x"
| "api lower app headers ApiListGroupThreads = http_list_group_threads app headers"
| "api lower app headers (ApiGetGroupThread x) = http_get_group_thread app headers x"
| "api lower app headers (ApiAddGroupMember x y) = http_add_group_member app headers x y"
| "api lower app headers (ApiLeaveGroupThread x) = http_leave_group_thread app headers x"
| "api lower app headers (ApiCreateGroupInvite x y) = http_create_group_invite app headers x y"
| "api lower app headers (ApiJoinGroupInvite x) = http_join_group_invite app headers x"
| "api lower app headers (ApiMarkThreadRead x y) = http_mark_thread_read app headers x y"
| "api lower app headers (ApiCreateThreadMessage x y) = http_create_thread_message app headers x y"
| "api lower app headers (ApiListThreadMessages x y) = http_list_thread_messages app headers x y"
| "api lower app headers (ApiUpdateThreadMessage x y) = http_update_thread_message app headers x y"
| "api lower app headers (ApiDeleteThreadMessage x) = http_delete_thread_message app headers x"

section \<open>The router\<close>

text \<open>
  The table of \<open>build_router\<close>: for each path, a list of segments of which some are parameters, the
  handlers of its methods.  \<open>axum\<close> answers 404 when no path matches and 405 when the path has no
  handler for the method; it answers HEAD with the handler of GET, which is left out here, as are the pages of
  the API documentation that a development set-up adds.
\<close>

datatype http_method = GET | POST | PUT | PATCH | DELETE

datatype segment = Fixed string | Param string

datatype (plugins only: code) endpoint =
    EpHealthCheck
  | EpMetrics
  | EpWsHandler
  | EpRegister
  | EpLogin
  | EpRefresh
  | EpLogout
  | EpMe
  | EpCreateGuild
  | EpListGuilds
  | EpGetGuild
  | EpJoinGuild
  | EpLeaveGuild
  | EpCreateChannel
  | EpListChannels
  | EpGetChannel
  | EpCreateGuildInvite
  | EpJoinGuildInvite
  | EpCreateFriendRequest
  | EpAcceptFriendRequest
  | EpRejectFriendRequest
  | EpListFriends
  | EpListFriendRequests
  | EpCreateMessage
  | EpListMessages
  | EpUpdateMessage
  | EpDeleteMessage
  | EpMarkChannelRead
  | EpCreateDirectThread
  | EpListDirectThreads
  | EpGetDirectThread
  | EpAcceptDirectThread
  | EpRejectDirectThread
  | EpCreateGroupThread
  | EpListGroupThreads
  | EpGetGroupThread
  | EpAddGroupMember
  | EpLeaveGroupThread
  | EpCreateGroupInvite
  | EpJoinGroupInvite
  | EpMarkThreadRead
  | EpCreateThreadMessage
  | EpListThreadMessages
  | EpUpdateThreadMessage
  | EpDeleteThreadMessage

definition router :: "(segment list \<times> (http_method \<times> endpoint) list) list" where
  "router =
    [([Fixed ''health''],
      [(GET, EpHealthCheck)]),
     ([Fixed ''metrics''],
      [(GET, EpMetrics)]),
     ([Fixed ''ws''],
      [(GET, EpWsHandler)]),
     ([Fixed ''api'', Fixed ''auth'', Fixed ''register''],
      [(POST, EpRegister)]),
     ([Fixed ''api'', Fixed ''auth'', Fixed ''login''],
      [(POST, EpLogin)]),
     ([Fixed ''api'', Fixed ''auth'', Fixed ''refresh''],
      [(POST, EpRefresh)]),
     ([Fixed ''api'', Fixed ''auth'', Fixed ''logout''],
      [(POST, EpLogout)]),
     ([Fixed ''api'', Fixed ''auth'', Fixed ''me''],
      [(GET, EpMe)]),
     ([Fixed ''api'', Fixed ''friends''],
      [(GET, EpListFriends)]),
     ([Fixed ''api'', Fixed ''friends'', Fixed ''requests''],
      [(POST, EpCreateFriendRequest), (GET, EpListFriendRequests)]),
     ([Fixed ''api'', Fixed ''friends'', Fixed ''requests'', Param ''from_user_id'', Fixed ''accept''],
      [(POST, EpAcceptFriendRequest)]),
     ([Fixed ''api'', Fixed ''friends'', Fixed ''requests'', Param ''from_user_id'', Fixed ''reject''],
      [(POST, EpRejectFriendRequest)]),
     ([Fixed ''api'', Fixed ''guilds''],
      [(POST, EpCreateGuild), (GET, EpListGuilds)]),
     ([Fixed ''api'', Fixed ''guilds'', Param ''guild_id''],
      [(GET, EpGetGuild)]),
     ([Fixed ''api'', Fixed ''guilds'', Param ''guild_id'', Fixed ''join''],
      [(POST, EpJoinGuild)]),
     ([Fixed ''api'', Fixed ''guilds'', Param ''guild_id'', Fixed ''leave''],
      [(POST, EpLeaveGuild)]),
     ([Fixed ''api'', Fixed ''guilds'', Param ''guild_id'', Fixed ''invites''],
      [(POST, EpCreateGuildInvite)]),
     ([Fixed ''api'', Fixed ''guild-invites'', Param ''token'', Fixed ''join''],
      [(POST, EpJoinGuildInvite)]),
     ([Fixed ''api'', Fixed ''guilds'', Param ''guild_id'', Fixed ''channels''],
      [(POST, EpCreateChannel), (GET, EpListChannels)]),
     ([Fixed ''api'', Fixed ''channels'', Param ''channel_id''],
      [(GET, EpGetChannel)]),
     ([Fixed ''api'', Fixed ''direct-threads''],
      [(POST, EpCreateDirectThread), (GET, EpListDirectThreads)]),
     ([Fixed ''api'', Fixed ''direct-threads'', Param ''thread_id''],
      [(GET, EpGetDirectThread)]),
     ([Fixed ''api'', Fixed ''direct-threads'', Param ''thread_id'', Fixed ''accept''],
      [(POST, EpAcceptDirectThread)]),
     ([Fixed ''api'', Fixed ''direct-threads'', Param ''thread_id'', Fixed ''reject''],
      [(POST, EpRejectDirectThread)]),
     ([Fixed ''api'', Fixed ''group-threads''],
      [(POST, EpCreateGroupThread), (GET, EpListGroupThreads)]),
     ([Fixed ''api'', Fixed ''group-threads'', Param ''thread_id''],
      [(GET, EpGetGroupThread)]),
     ([Fixed ''api'', Fixed ''group-threads'', Param ''thread_id'', Fixed ''members''],
      [(POST, EpAddGroupMember)]),
     ([Fixed ''api'', Fixed ''group-threads'', Param ''thread_id'', Fixed ''leave''],
      [(POST, EpLeaveGroupThread)]),
     ([Fixed ''api'', Fixed ''group-threads'', Param ''thread_id'', Fixed ''invites''],
      [(POST, EpCreateGroupInvite)]),
     ([Fixed ''api'', Fixed ''group-invites'', Param ''token'', Fixed ''join''],
      [(POST, EpJoinGroupInvite)]),
     ([Fixed ''api'', Fixed ''threads'', Param ''thread_id'', Fixed ''messages''],
      [(POST, EpCreateThreadMessage), (GET, EpListThreadMessages)]),
     ([Fixed ''api'', Fixed ''threads'', Param ''thread_id'', Fixed ''read''],
      [(PUT, EpMarkThreadRead)]),
     ([Fixed ''api'', Fixed ''thread-messages'', Param ''message_id''],
      [(PATCH, EpUpdateThreadMessage), (DELETE, EpDeleteThreadMessage)]),
     ([Fixed ''api'', Fixed ''channels'', Param ''channel_id'', Fixed ''messages''],
      [(POST, EpCreateMessage), (GET, EpListMessages)]),
     ([Fixed ''api'', Fixed ''channels'', Param ''channel_id'', Fixed ''read''],
      [(PUT, EpMarkChannelRead)]),
     ([Fixed ''api'', Fixed ''messages'', Param ''message_id''],
      [(PATCH, EpUpdateMessage), (DELETE, EpDeleteMessage)])]"

fun matches :: "segment list \<Rightarrow> string list \<Rightarrow> bool" where
  "matches [] [] = True"
| "matches (Fixed s # ss) (x # xs) = (x = s \<and> matches ss xs)"
| "matches (Param name # ss) (x # xs) = (x \<noteq> [] \<and> matches ss xs)"
| "matches _ _ = False"

datatype routing = NoRoute | MethodNotAllowed | Handled endpoint

definition route :: "http_method \<Rightarrow> string list \<Rightarrow> routing" where
  "route m path =
     (case find (\<lambda>(pattern, _). matches pattern path) router of
        None \<Rightarrow> NoRoute
      | Some (_, handlers) \<Rightarrow>
          (case map_of handlers m of None \<Rightarrow> MethodNotAllowed | Some e \<Rightarrow> Handled e))"

text \<open>The handler that a request of the API is for.\<close>

primrec endpoint_of :: "api_request \<Rightarrow> endpoint" where
  "endpoint_of (ApiRegister _) = EpRegister"
| "endpoint_of (ApiLogin _) = EpLogin"
| "endpoint_of (ApiRefresh _) = EpRefresh"
| "endpoint_of (ApiLogout _) = EpLogout"
| "endpoint_of (ApiMe) = EpMe"
| "endpoint_of (ApiCreateGuild _) = EpCreateGuild"
| "endpoint_of (ApiListGuilds) = EpListGuilds"
| "endpoint_of (ApiGetGuild _) = EpGetGuild"
| "endpoint_of (ApiJoinGuild _) = EpJoinGuild"
| "endpoint_of (ApiLeaveGuild _) = EpLeaveGuild"
| "endpoint_of (ApiCreateChannel _ _) = EpCreateChannel"
| "endpoint_of (ApiListChannels _) = EpListChannels"
| "endpoint_of (ApiGetChannel _) = EpGetChannel"
| "endpoint_of (ApiCreateGuildInvite _ _) = EpCreateGuildInvite"
| "endpoint_of (ApiJoinGuildInvite _) = EpJoinGuildInvite"
| "endpoint_of (ApiCreateFriendRequest _) = EpCreateFriendRequest"
| "endpoint_of (ApiAcceptFriendRequest _) = EpAcceptFriendRequest"
| "endpoint_of (ApiRejectFriendRequest _) = EpRejectFriendRequest"
| "endpoint_of (ApiListFriends) = EpListFriends"
| "endpoint_of (ApiListFriendRequests _) = EpListFriendRequests"
| "endpoint_of (ApiCreateMessage _ _) = EpCreateMessage"
| "endpoint_of (ApiListMessages _ _) = EpListMessages"
| "endpoint_of (ApiUpdateMessage _ _) = EpUpdateMessage"
| "endpoint_of (ApiDeleteMessage _) = EpDeleteMessage"
| "endpoint_of (ApiMarkChannelRead _ _) = EpMarkChannelRead"
| "endpoint_of (ApiCreateDirectThread _) = EpCreateDirectThread"
| "endpoint_of (ApiListDirectThreads _) = EpListDirectThreads"
| "endpoint_of (ApiGetDirectThread _) = EpGetDirectThread"
| "endpoint_of (ApiAcceptDirectThread _) = EpAcceptDirectThread"
| "endpoint_of (ApiRejectDirectThread _) = EpRejectDirectThread"
| "endpoint_of (ApiCreateGroupThread _) = EpCreateGroupThread"
| "endpoint_of (ApiListGroupThreads) = EpListGroupThreads"
| "endpoint_of (ApiGetGroupThread _) = EpGetGroupThread"
| "endpoint_of (ApiAddGroupMember _ _) = EpAddGroupMember"
| "endpoint_of (ApiLeaveGroupThread _) = EpLeaveGroupThread"
| "endpoint_of (ApiCreateGroupInvite _ _) = EpCreateGroupInvite"
| "endpoint_of (ApiJoinGroupInvite _) = EpJoinGroupInvite"
| "endpoint_of (ApiMarkThreadRead _ _) = EpMarkThreadRead"
| "endpoint_of (ApiCreateThreadMessage _ _) = EpCreateThreadMessage"
| "endpoint_of (ApiListThreadMessages _ _) = EpListThreadMessages"
| "endpoint_of (ApiUpdateThreadMessage _ _) = EpUpdateThreadMessage"
| "endpoint_of (ApiDeleteThreadMessage _) = EpDeleteThreadMessage"

text \<open>\<open>IntoResponse\<close>: the status and, for an error, its code and message.\<close>

definition into_response :: "body AppResult \<Rightarrow> nat \<times> (string \<times> string) option \<times> body option" where
  "into_response r =
     (case r of
        Inr body \<Rightarrow> (200, None, Some body)
      | Inl e \<Rightarrow> (case as_http_parts e of (status, code, message) \<Rightarrow> (status, Some (code, message), None)))"

end
