(* ===== verification/Auth_Proofs.thy ===== *)
theory Auth_Proofs
  imports Auth
begin

text \<open>
  What authentication promises: the invariant of accounts and sessions, the life of a refresh token
  (exchanged once, dead after that or after a logout), proved for any repository that keeps the contract
  of a locale, the outcome of a login, the lifetime of an access token and the text of a token.
\<close>

section \<open>The invariant\<close>

definition auth_ok :: "db \<Rightarrow> bool" where
  "auth_ok d \<longleftrightarrow> distinct (map usr_id (users d)) \<and> distinct (map usr_username (users d)) \<and>
     distinct (filter (\<lambda>e. e \<noteq> None) (map usr_email (users d))) \<and>
     distinct (map ses_id (user_sessions d)) \<and> distinct (map ses_refresh_token_hash (user_sessions d)) \<and>
     ses_user_id ` set (user_sessions d) \<subseteq> usr_id ` set (users d)"



lemma revoke_keys:
  assumes "revoke_where hit t d = Inr (x, d')"
  shows "users d' = users d" "map ses_id (user_sessions d') = map ses_id (user_sessions d)"
    "map ses_refresh_token_hash (user_sessions d') = map ses_refresh_token_hash (user_sessions d)"
    "map ses_user_id (user_sessions d') = map ses_user_id (user_sessions d)"
  using assms by (auto simp: revoke_where_def update_where_map)


lemma preserves_revoke_live: "(\<And>hit. preserves P (revoke_where hit)) \<Longrightarrow> preserves P (revoke_live_session hash)"
  by (auto simp: preserves_def revoke_live_session_def)

section \<open>Refresh tokens\<close>

text \<open>A token is dead when its session, the only one with its hash, was revoked.\<close>

definition dead :: "rstring \<Rightarrow> db \<Rightarrow> bool" where
  "dead h d \<longleftrightarrow> distinct (map ses_refresh_token_hash (user_sessions d)) \<and>
     (\<exists>s\<in>set (user_sessions d). ses_refresh_token_hash s = h \<and> ses_revoked_at s \<noteq> None)"

lemma dead_insert_session: "preserves (dead h) (insert_session sid user hash exp ctx)"
  by (rule preservesI) (auto simp: insert_session_def dead_def split: if_splits)

lemma dead_insert_user: "preserves (dead h) (insert_user uid name email hash)"
  by (rule preservesI) (auto simp: insert_user_def Let_def dead_def split: if_splits)

lemma dead_revoke: "preserves (dead h) (revoke_where hit)"
proof (rule preservesI)
  fix t d x d' assume q: "revoke_where hit t d = Inr (x, d')" and dead: "dead h d"
  then obtain s where s: "s \<in> set (user_sessions d)" "ses_refresh_token_hash s = h" "ses_revoked_at s \<noteq> None"
    by (auto simp: dead_def)
  let ?s = "if hit s then s\<lparr>ses_revoked_at := Some t\<rparr> else s"
  have "?s \<in> set (user_sessions d')"
    using q s(1) by (auto simp: revoke_where_def set_update_where)
  moreover have "ses_refresh_token_hash ?s = h" "ses_revoked_at ?s \<noteq> None" using s by simp_all
  ultimately show "dead h d'"
    using dead revoke_keys(3) [OF q] by (metis dead_def)
qed

lemma dead_no_live:
  assumes "dead h d"
  shows "find (live_session h t) (user_sessions d) = None"
proof -
  from assms obtain s where s: "s \<in> set (user_sessions d)" "ses_refresh_token_hash s = h" "ses_revoked_at s \<noteq> None"
    and d: "distinct (map ses_refresh_token_hash (user_sessions d))"
    by (auto simp: dead_def)
  have "x = s" if "x \<in> set (user_sessions d)" "ses_refresh_token_hash x = h" for x
    using d s(1,2) that by (auto simp: distinct_map dest: inj_onD)
  then show ?thesis using s(3) by (auto simp: find_None_iff_all live_session_def)
qed

section \<open>Requests\<close>

definition auth_app ::
  "'h argon2_library \<Rightarrow> jwt_library \<Rightarrow> (nat \<Rightarrow> 8 word list) \<Rightarrow> (rstring \<Rightarrow> rstring) \<Rightarrow> world AuthUseCase" where
  "auth_app argon jwt random hash =
     auth_use_case argon jwt \<lparr>rt_generate_refresh_token = generate_refresh_token random, rt_hash_refresh_token = hash\<rparr>"

datatype auth_request =
    Register RegisterCommand | Login LoginCommand | Refresh RefreshCommand | Logout LogoutCommand

fun serve_auth :: "(rstring \<Rightarrow> rstring) \<Rightarrow> world AuthUseCase \<Rightarrow> auth_request \<Rightarrow> world \<Rightarrow> world" where
  "serve_auth lower uc (Register cmd) w = snd (register lower uc cmd w)"
| "serve_auth lower uc (Login cmd) w = snd (login uc cmd w)"
| "serve_auth lower uc (Refresh cmd) w = snd (refresh uc cmd w)"
| "serve_auth lower uc (Logout cmd) w = snd (logout uc cmd w)"

lemma auth_app_fields [simp]:
  "user_repo (auth_app argon jwt random hash) = sqlx_user_repository"
  "session_repo (auth_app argon jwt random hash) = sqlx_session_repository"
  "password_port (auth_app argon jwt random hash) = argon2_adapter argon"
  "jwt_port (auth_app argon jwt random hash) = jwt_adapter jwt"
  "rt_generate_refresh_token (refresh_port (auth_app argon jwt random hash)) = generate_refresh_token random"
  "rt_hash_refresh_token (refresh_port (auth_app argon jwt random hash)) = hash"
  "rt_now_utc (auth_runtime (auth_app argon jwt random hash)) = now_utc"
  by (simp_all add: auth_app_def auth_use_case_def sqlx_runtime_def)

lemmas auth_methods = sqlx_user_repository_def sqlx_session_repository_def argon2_adapter_def jwt_adapter_def
  repo_create_user_def repo_find_user_by_login_identity_def repo_create_session_def repo_rotate_refresh_session_def
  revoke_old_refresh_token_def insert_rotated_session_def repo_revoke_by_refresh_hash_def revoke_session_def
  build_refresh_expiry_def issue_and_persist_tokens_def issue_access_token_def unix_now_def verify_password_def

lemma wp_generate [simp]:
  "wp (generate_refresh_token random) Q E w = Q (to_hex (random (drawn w))) (w\<lparr>drawn := Suc (drawn w)\<rparr>)"
  by (simp add: wp_def generate_refresh_token_def)

lemma wp_hash_password [simp]:
  "wp (hash_password lib pw) Q E w = (case al_hash_with lib (drawn w) pw of
     Inl e \<Rightarrow> E (Internal (''failed to hash password: '' @ e)) (w\<lparr>drawn := Suc (drawn w)\<rparr>)
   | Inr h \<Rightarrow> Q h (w\<lparr>drawn := Suc (drawn w)\<rparr>))"
  by (simp add: wp_def hash_password_def split: sum.split)

lemma auth_keeps_draws [intro]:
  "db_keeps P (generate_refresh_token random)" "db_keeps P (hash_password lib pw)"
  by (rule keepsI, simp split: sum.split)+

text \<open>A property of the tables that the four statements keep is kept by every request.\<close>

lemma validate_username_passed: "validate_username name = Inr x \<Longrightarrow> text_within 3 32 (trim name)"
  by (simp add: validate_username_def text_within_trim Let_def split: if_splits)

definition email_form :: "rstring option \<Rightarrow> bool" where
  "email_form email \<longleftrightarrow> (case email of None \<Rightarrow> True | Some e \<Rightarrow> 64 \<in> set e)"

lemma normalize_email_passed: "normalize_optional_email lower raw = Inr email \<Longrightarrow> email_form email"
  by (auto simp: normalize_optional_email_def email_form_def Let_def split: option.splits if_splits)

lemma auth_services_keep:
  assumes "\<And>uid name email hash. text_within 3 32 name \<Longrightarrow> email_form email \<Longrightarrow>
      preserves P (insert_user uid name email hash)"
    and "\<And>sid user hash exp ctx. preserves P (insert_session sid user hash exp ctx)"
    and "\<And>hit. preserves P (revoke_where hit)"
  shows "db_keeps P (register lower (auth_app argon jwt random hash) rg)"
    "db_keeps P (login (auth_app argon jwt random hash) lo)"
    "db_keeps P (refresh (auth_app argon jwt random hash) rf)"
    "db_keeps P (logout (auth_app argon jwt random hash) out)"
proof -
  note rules = assms(2,3) preserves_revoke_live [OF assms(3)]
  show "db_keeps P (register lower (auth_app argon jwt random hash) rg)"
    unfolding register_def
    by (intro keeps_validated keeps_bnd)
      (auto simp: auth_methods intro!: keeps_bnd db_keeps_run_sql
        intro: assms(1) validate_username_passed normalize_email_passed)
  show "db_keeps P (login (auth_app argon jwt random hash) lo)"
    "db_keeps P (refresh (auth_app argon jwt random hash) rf)"
    "db_keeps P (logout (auth_app argon jwt random hash) out)"
    by (auto simp: login_def refresh_def logout_def auth_methods Let_def
        intro!: keeps_bnd keeps_if db_keeps_transaction db_keeps_run_sql rules)
qed

lemma auth_serve_keeps:
  assumes "\<And>uid name email hash. text_within 3 32 name \<Longrightarrow> email_form email \<Longrightarrow>
      preserves P (insert_user uid name email hash)"
    and "\<And>sid user hash exp ctx. preserves P (insert_session sid user hash exp ctx)"
    and "\<And>hit. preserves P (revoke_where hit)" and "P (tables w)"
  shows "P (tables (serve_auth lower (auth_app argon jwt random hash) req w))"
proof -
  have "db_keeps P (register lower (auth_app argon jwt random hash) rg)"
    "db_keeps P (login (auth_app argon jwt random hash) lo)"
    "db_keeps P (refresh (auth_app argon jwt random hash) rf)"
    "db_keeps P (logout (auth_app argon jwt random hash) out)" for rg lo rf out
    by (rule auth_services_keep; rule assms(1-3); assumption)+
  from this [THEN keepsD, OF assms(4)] show ?thesis by (cases req) simp_all
qed


text \<open>
  Libraries for the examples: the hash of a password is the password itself, a token is the list of
  its claims, and the text of a UUID is its number.
\<close>

definition demo_argon :: "rstring argon2_library" where
  "demo_argon = \<lparr>al_hash_with = (\<lambda>_ pw. Inr pw), al_parse = Some, al_matches = (\<lambda>pw h. pw = h)\<rparr>"

definition demo_encode :: "AccessTokenClaims \<Rightarrow> rstring" where
  "demo_encode c = length (claim_sub c) # claim_sub c @ unat (claim_exp c) # unat (claim_iat c) # claim_jti c"

definition demo_decode :: "nat \<Rightarrow> u64 \<Rightarrow> rstring \<Rightarrow> AccessTokenClaims option" where
  "demo_decode leeway now token = (case token of [] \<Rightarrow> None | n # rest \<Rightarrow>
     (case drop n rest of e # i # j \<Rightarrow> if unat now \<le> e + leeway
         then Some \<lparr>claim_sub = take n rest, claim_exp = of_nat e, claim_iat = of_nat i, claim_jti = j\<rparr> else None
      | _ \<Rightarrow> None))"

definition demo_jwt :: jwt_library where
  "demo_jwt = \<lparr>jl_encode = (\<lambda>c. Inr (demo_encode c)), jl_decode = demo_decode 60, jl_hyphenated = (\<lambda>u. [unat u]),
     jl_parse_str = (\<lambda>s. case s of [n] \<Rightarrow> Some (of_nat n) | _ \<Rightarrow> None)\<rparr>"

lemma demo_decode_encode:
  "demo_decode leeway now (demo_encode c) = (if unat now \<le> unat (claim_exp c) + leeway then Some c else None)"
  by (simp add: demo_decode_def demo_encode_def)

definition account_world :: world where
  "account_world = \<lparr>clock = seconds 1000, uuid_at = (\<lambda>n. of_nat n + 100), drawn = 0, down = (\<lambda>_. False), issued = 0,
     sqlx_text = (\<lambda>_. ''error''), tables = empty_db
       \<lparr>users := [\<lparr>usr_id = 1, usr_username = lit ''ada'', usr_email = None, usr_password_hash = lit ''lovelace''\<rparr>],
        user_sessions := [\<lparr>ses_id = 3, ses_user_id = 1, ses_refresh_token_hash = lit ''t0'',
          ses_expires_at = seconds 2000, ses_revoked_at = None, ses_context = \<lparr>ctx_user_agent = None, ctx_ip = None\<rparr>\<rparr>]\<rparr>\<rparr>"

lemma account_world_ok: "auth_ok (tables account_world)" "healthy account_world"
  by (simp_all add: auth_ok_def account_world_def empty_db_def healthy_def)


section \<open>A refresh token is exchanged once\<close>

lemma dead_serve:
  "dead h (tables w) \<Longrightarrow>
   dead h (tables (fold (serve_auth lower (auth_app argon jwt random hash)) requests w))"
  by (induction requests arbitrary: w)
     (simp_all add: auth_serve_keeps dead_insert_user dead_insert_session dead_revoke)

lemma revoke_live_dead:
  assumes "distinct (map ses_refresh_token_hash (user_sessions d))"
    and "revoke_where hit t d = Inr (Some u, d')" and "\<And>s. hit s \<Longrightarrow> ses_refresh_token_hash s = h"
  shows "dead h d'"
proof -
  from assms(2) obtain s where s: "s \<in> set (user_sessions d)" "hit s"
    by (auto simp: revoke_where_def dest: find_in_set)
  then have "s\<lparr>ses_revoked_at := Some t\<rparr> \<in> set (user_sessions d')"
    using assms(2) by (auto simp: revoke_where_def set_update_where)
  then show ?thesis
    using assms(1) revoke_keys(3) [OF assms(2)] assms(3) [OF s(2)] unfolding dead_def
    by (intro conjI bexI [of _ "s\<lparr>ses_revoked_at := Some t\<rparr>"]) simp_all
qed

lemma revoke_known_dead:
  assumes ok: "auth_ok d" and known: "h \<in> ses_refresh_token_hash ` set (user_sessions d)"
    and q: "revoke_where (\<lambda>s. ses_refresh_token_hash s = h \<and> ses_revoked_at s = None) t d = Inr (x, d')"
  shows "dead h d'"
proof (cases x)
  case None
  with q have d: "d' = d" and no: "\<forall>s\<in>set (user_sessions d). \<not> (ses_refresh_token_hash s = h \<and> ses_revoked_at s = None)"
    by (auto simp: revoke_where_def find_None_iff_all update_where_def map_idI)
  show ?thesis using known ok no unfolding d dead_def auth_ok_def by force
next
  case (Some u)
  show ?thesis
    using ok q unfolding Some
    by (intro revoke_live_dead [of d "\<lambda>s. ses_refresh_token_hash s = h \<and> ses_revoked_at s = None" t u d'])
      (simp_all add: auth_ok_def)
qed

text \<open>
  What \<open>AuthUseCase\<close> relies on for the life of a token: a repository of sessions that kills the token
  that it rotates or revokes and refuses to rotate a dead one, and other ports that leave the sessions alone.
\<close>

locale session_port =
  fixes uc :: "'s AuthUseCase" and ok up :: "'s \<Rightarrow> bool" and gone known :: "rstring \<Rightarrow> 's \<Rightarrow> bool"
    and same :: "'s \<Rightarrow> 's \<Rightarrow> bool"
  assumes rotate_kills: "ok s \<Longrightarrow> wp (sn_rotate_refresh_session (session_repo uc) cmd)
      (\<lambda>_. gone (sr_old_refresh_token_hash cmd)) (\<lambda>_ _. True) s"
    and rotate_refuses: "up s \<Longrightarrow> gone (sr_old_refresh_token_hash cmd) s \<Longrightarrow>
      wp (sn_rotate_refresh_session (session_repo uc) cmd) (\<lambda>_ _. False)
        (\<lambda>e s'. e = Unauthorized ''invalid refresh token'' \<and> same s s') s"
    and revoke_kills: "ok s \<Longrightarrow> known h s \<Longrightarrow>
      wp (sn_revoke_by_refresh_hash (session_repo uc) h) (\<lambda>_. gone h) (\<lambda>_ _. True) s"
    and others: "wp (rt_generate_refresh_token (refresh_port uc)) (\<lambda>_. same s) (\<lambda>_ _. False) s"
      "wp (rt_now_utc (auth_runtime uc)) (\<lambda>_. same s) (\<lambda>_ _. False) s"
      "wp (jwt_issue_access_token (jwt_port uc) u) (\<lambda>_. same s) (\<lambda>_. same s) s"
    and same: "same s t \<Longrightarrow> ok s \<Longrightarrow> ok t" "same s t \<Longrightarrow> up s \<Longrightarrow> up t" "same s t \<Longrightarrow> gone h s \<Longrightarrow> gone h t"
      "same s t \<Longrightarrow> same t v \<Longrightarrow> same s v"
begin

lemma token_drawn:
  assumes "\<And>token t. same s t \<Longrightarrow> wp (k token) Q E t"
  shows "wp (bnd (rt_generate_refresh_token (refresh_port uc)) k) Q E s"
  unfolding wp_bnd by (rule wp_mono [OF others(1)]) (simp_all add: assms)

lemma expiry_set:
  assumes "\<And>expires t. same s t \<Longrightarrow> wp (k expires) Q E t"
  shows "wp (bnd (build_refresh_expiry uc) k) Q E s"
  unfolding build_refresh_expiry_def wp_bnd by (rule wp_mono [OF others(2)]) (simp_all add: assms)

lemma refresh_kills_token:
  assumes "ok s"
  shows "wp (refresh uc cmd)
    (\<lambda>_ t. trim (ref_refresh_token cmd) \<noteq> [] \<and>
       gone (rt_hash_refresh_token (refresh_port uc) (trim (ref_refresh_token cmd))) t) (\<lambda>_ _. True) s"
proof (cases "trim (ref_refresh_token cmd) = []")
  case False
  show ?thesis
    unfolding refresh_def Let_def wp_bnd [of "fail_if _ _"] wp_fail_if if_not_P [OF False]
  proof (intro token_drawn expiry_set)
    fix token t expires t'
    assume "same s t" "same t t'"
    then have "ok t'" using assms same(1) by blast
    let ?rotate = "\<lparr>sr_old_refresh_token_hash = rt_hash_refresh_token (refresh_port uc) (trim (ref_refresh_token cmd)),
      sr_new_refresh_token_hash = rt_hash_refresh_token (refresh_port uc) token,
      sr_expires_at = expires, sr_context = ref_context cmd\<rparr>"
    show "wp (bnd (sn_rotate_refresh_session (session_repo uc) ?rotate) (\<lambda>user.
        bnd (jwt_issue_access_token (jwt_port uc) user) (\<lambda>access.
        ret \<lparr>access_token = access, refresh_token = token\<rparr>)))
      (\<lambda>_ t. trim (ref_refresh_token cmd) \<noteq> [] \<and> gone (rt_hash_refresh_token (refresh_port uc) (trim (ref_refresh_token cmd))) t) (\<lambda>_ _. True) t'"
      unfolding wp_bnd wp_ret
      by (rule wp_mono [OF rotate_kills [OF \<open>ok t'\<close>, of ?rotate]], rule wp_mono [OF others(3)])
        (use False same(3) in auto)
  qed
qed (simp add: refresh_def Let_def)

lemma gone_token_refused:
  assumes "up s" and "gone (rt_hash_refresh_token (refresh_port uc) (trim (ref_refresh_token cmd))) s"
    and "trim (ref_refresh_token cmd) \<noteq> []"
  shows "wp (refresh uc cmd) (\<lambda>_ _. False) (\<lambda>e t. e = Unauthorized ''invalid refresh token'' \<and> same s t) s"
  unfolding refresh_def Let_def wp_bnd [of "fail_if _ _"] wp_fail_if if_not_P [OF assms(3)]
proof (intro token_drawn expiry_set)
  fix token t expires t'
  assume t: "same s t" "same t t'"
  let ?h = "rt_hash_refresh_token (refresh_port uc)"
  let ?rotate = "\<lparr>sr_old_refresh_token_hash = ?h (trim (ref_refresh_token cmd)), sr_new_refresh_token_hash = ?h token,
    sr_expires_at = expires, sr_context = ref_context cmd\<rparr>"
  have "up t'" using t assms(1) same(2) by blast
  moreover have "gone (sr_old_refresh_token_hash ?rotate) t'" using t assms(2) same(3) by (metis SessionRotate.select_convs(1))
  ultimately
  have "wp (sn_rotate_refresh_session (session_repo uc) ?rotate) (\<lambda>_ _. False)
      (\<lambda>e s'. e = Unauthorized ''invalid refresh token'' \<and> same t' s') t'" by (rule rotate_refuses)
  then show "wp (bnd (sn_rotate_refresh_session (session_repo uc) ?rotate) (\<lambda>user.
      bnd (jwt_issue_access_token (jwt_port uc) user) (\<lambda>access.
      ret \<lparr>access_token = access, refresh_token = token\<rparr>)))
    (\<lambda>_ _. False) (\<lambda>e t. e = Unauthorized ''invalid refresh token'' \<and> same s t) t'"
    unfolding wp_bnd by (rule wp_mono) (use t same(4) in blast)+
qed

lemma logout_kills_token:
  assumes "ok s" and "known (rt_hash_refresh_token (refresh_port uc) (trim (out_refresh_token cmd))) s"
  shows "wp (logout uc cmd) (\<lambda>_ t. trim (out_refresh_token cmd) \<noteq> [] \<and>
    gone (rt_hash_refresh_token (refresh_port uc) (trim (out_refresh_token cmd))) t) (\<lambda>_ _. True) s"
  using revoke_kills [OF assms] by (simp add: logout_def Let_def)

end

text \<open>The repository on PostgreSQL keeps the contract, whatever the libraries behind the other ports.\<close>

interpretation tokens: session_port "auth_app argon jwt random hash" "\<lambda>w. auth_ok (tables w)" healthy
  "\<lambda>h w. dead h (tables w)" "\<lambda>h w. h \<in> ses_refresh_token_hash ` set (user_sessions (tables w))"
  "\<lambda>w w'. tables w' = tables w \<and> healthy w' = healthy w"
proof unfold_locales
  fix w cmd and h :: rstring
  show "wp (sn_rotate_refresh_session (session_repo (auth_app argon jwt random hash)) cmd)
      (\<lambda>_ w'. dead (sr_old_refresh_token_hash cmd) (tables w')) (\<lambda>_ _. True) w" if ok: "auth_ok (tables w)"
  proof -
    let ?h = "sr_old_refresh_token_hash cmd"
    have "dead ?h d2" if "revoke_live_session ?h t (tables w) = Inr (Some u, d1)"
      "insert_session sid u nh exp ctx t' d1 = Inr (y, d2)" for t u d1 sid nh exp ctx t' y d2
    proof -
      have "dead ?h d1"
        using that(1) ok by (intro revoke_live_dead [of "tables w" "live_session ?h t" t u d1])
          (simp_all add: revoke_live_session_def auth_ok_def live_session_def)
      with dead_insert_session that(2) show ?thesis by (auto simp: preserves_def)
    qed
    then show ?thesis by (auto simp: auth_methods split: sum.split option.split prod.split)
  qed
  show "wp (sn_rotate_refresh_session (session_repo (auth_app argon jwt random hash)) cmd) (\<lambda>_ _. False)
      (\<lambda>e w'. e = Unauthorized ''invalid refresh token'' \<and> tables w' = tables w \<and> healthy w' = healthy w) w"
    if "healthy w" "dead (sr_old_refresh_token_hash cmd) (tables w)"
    using that dead_no_live [OF that(2)] by (simp add: auth_methods revoke_live_session_def revoke_where_def)
  show "wp (sn_revoke_by_refresh_hash (session_repo (auth_app argon jwt random hash)) h)
      (\<lambda>_ w'. dead h (tables w')) (\<lambda>_ _. True) w"
    if "auth_ok (tables w)" "h \<in> ses_refresh_token_hash ` set (user_sessions (tables w))"
    using revoke_known_dead [OF that] by (auto simp: auth_methods split: sum.split prod.split)
qed (simp_all add: auth_methods split: sum.split)

lemma healthy_keeps [intro]:
  "keeps healthy now_utc" "keeps healthy new_v4" "keeps healthy (run_sql conv q)" "keeps healthy (commit x)"
  "keeps healthy (generate_refresh_token random)"
  by (rule keepsI, auto split: sum.splits)+

lemma healthy_transaction [intro]:
  assumes "keeps healthy body" shows "keeps healthy (transaction body)"
proof (rule keepsI)
  fix w :: world assume "healthy w"
  then show "wp (transaction body) (\<lambda>_. healthy) (\<lambda>_. healthy) w"
    using keeps_wp [OF assms, of "w\<lparr>issued := Suc (issued w)\<rparr>"]
    by (auto elim!: wp_mono split: tx_exit.splits)
qed

lemma refresh_healthy: "keeps healthy (refresh (auth_app argon jwt random hash) cmd)"
  by (auto simp: refresh_def auth_methods Let_def intro!: keeps_bnd keeps_if)

text \<open>
  C11: a refresh token is exchanged at most once: after a successful refresh, and whatever registrations,
  logins, refreshes and logouts are served in between, the same token is refused and the refusal changes
  nothing.
\<close>

theorem refresh_single_use:
  assumes ok: "auth_ok (tables w)" and up: "healthy w2"
    and first: "refresh (auth_app argon jwt random hash) \<lparr>ref_refresh_token = token, ref_context = ctx\<rparr> w = (Inr pair, w1)"
    and later: "tables w2 = tables (fold (serve_auth lower (auth_app argon jwt random hash)) requests w1)"
    and again: "refresh (auth_app argon jwt random hash) \<lparr>ref_refresh_token = token, ref_context = ctx'\<rparr> w2 = (r, w3)"
  shows "r = Inl (Unauthorized ''invalid refresh token'') \<and> tables w3 = tables w2"
proof -
  from wp_InrD [OF tokens.refresh_kills_token [OF ok] first]
  have t: "trim token \<noteq> []" "dead (hash (trim token)) (tables w1)" by simp_all
  then have "dead (hash (trim token)) (tables w2)" using dead_serve later by metis
  with wp_outcome [OF tokens.gone_token_refused [OF up] again] t(1) show ?thesis by (cases r) simp_all
qed


abbreviation no_context :: SessionContext where
  "no_context \<equiv> \<lparr>ctx_user_agent = None, ctx_ip = None\<rparr>"

theorem refresh_single_use_witness:
  "let cmd = \<lparr>ref_refresh_token = lit ''t0'', ref_context = no_context\<rparr>;
       uc = auth_app demo_argon demo_jwt (\<lambda>n. [of_nat n]) (\<lambda>t. t);
       w1 = snd (refresh uc cmd account_world)
   in fst (refresh uc cmd w1) = Inl (Unauthorized ''invalid refresh token'')"
proof -
  let ?cmd = "\<lparr>ref_refresh_token = lit ''t0'', ref_context = no_context\<rparr>"
  let ?uc = "auth_app demo_argon demo_jwt (\<lambda>n. [of_nat n]) (\<lambda>t. t)"
  obtain pair w1 where first: "refresh ?uc ?cmd account_world = (Inr pair, w1)"
  proof -
    have "case fst (refresh ?uc ?cmd account_world) of Inr _ \<Rightarrow> True | Inl _ \<Rightarrow> False" by code_simp
    then show ?thesis using that by (cases "refresh ?uc ?cmd account_world") (auto split: sum.splits)
  qed
  from keepsD [OF refresh_healthy account_world_ok(2)] first have "healthy w1" by (metis snd_conv)
  from refresh_single_use [OF account_world_ok(1) this first _ surjective_pairing, of "\<lambda>s. s" "[]"] first
  show ?thesis by (simp add: Let_def)
qed



section \<open>Logout and login\<close>

text \<open>
  C33: after a successful logout with a known token, and whatever requests are served in between, the
  token is refused and the refusal changes nothing.
\<close>

theorem logout_is_final:
  assumes ok: "auth_ok (tables w)" and up: "healthy w2"
    and known: "hash (trim token) \<in> ses_refresh_token_hash ` set (user_sessions (tables w))"
    and out: "logout (auth_app argon jwt random hash) \<lparr>out_refresh_token = token\<rparr> w = (Inr (), w1)"
    and later: "tables w2 = tables (fold (serve_auth lower (auth_app argon jwt random hash)) requests w1)"
    and again: "refresh (auth_app argon jwt random hash) \<lparr>ref_refresh_token = token, ref_context = ctx\<rparr> w2 = (r, w3)"
  shows "r = Inl (Unauthorized ''invalid refresh token'') \<and> tables w3 = tables w2"
proof -
  from wp_InrD [OF tokens.logout_kills_token [where hash = hash and cmd = "\<lparr>out_refresh_token = token\<rparr>", OF ok] out] known
  have t: "trim token \<noteq> []" "dead (hash (trim token)) (tables w1)" by simp_all
  then have "dead (hash (trim token)) (tables w2)" using dead_serve later by metis
  with wp_outcome [OF tokens.gone_token_refused [OF up] again] t(1) show ?thesis
    by (cases r) simp_all
qed

theorem logout_is_final_witness:
  "let uc = auth_app demo_argon demo_jwt (\<lambda>n. [of_nat n]) (\<lambda>t. t);
       w1 = snd (logout uc \<lparr>out_refresh_token = lit ''t0''\<rparr> account_world)
   in fst (refresh uc \<lparr>ref_refresh_token = lit ''t0'', ref_context = no_context\<rparr> w1) =
      Inl (Unauthorized ''invalid refresh token'')"
proof -
  let ?uc = "auth_app demo_argon demo_jwt (\<lambda>n. [of_nat n]) (\<lambda>t. t)"
  let ?w1 = "snd (logout ?uc \<lparr>out_refresh_token = lit ''t0''\<rparr> account_world)"
  have t: "trim (lit ''t0'') = lit ''t0''" by code_simp
  have known: "lit ''t0'' \<in> ses_refresh_token_hash ` set (user_sessions (tables account_world))"
    by (simp add: account_world_def)
  have "wp (logout ?uc \<lparr>out_refresh_token = lit ''t0''\<rparr>) (\<lambda>_. healthy) (\<lambda>_ _. False) account_world"
    using account_world_ok(2) t by (simp add: logout_def auth_methods revoke_where_def lit_def)
  then have run: "logout ?uc \<lparr>out_refresh_token = lit ''t0''\<rparr> account_world = (Inr (), ?w1)" and "healthy ?w1"
    by (simp_all add: wp_fst_snd prod_eq_iff unit_eq split: sum.splits)
  from logout_is_final [where hash = "\<lambda>t. t" and random = "\<lambda>n. [of_nat n]" and token = "lit ''t0''" and
      requests = "[]" and lower = "\<lambda>s. s", OF account_world_ok(1) this(2) _ run _ surjective_pairing] known t
  show ?thesis by (simp add: Let_def)
qed

text \<open>
  C30: what a login does, when no statement fails and tokens can be signed.  An unknown name and a wrong
  password get the same answer and change nothing; the right password adds one session for thirty days
  and answers with the token whose hash the session holds.
\<close>

theorem login_outcome:
  assumes up: "healthy w" and ok: "auth_ok (tables w)" and d: "d = tables w" and time: "0 \<le> clock w"
    and name: "identity = trim name" "identity \<noteq> []" and n: "n = Suc (drawn w)"
    and sign: "\<And>c. \<exists>t. jl_encode jwt c = Inr t"
    and fresh: "uuid_at w (Suc n) \<notin> ses_id ` set (user_sessions d)"
      "hash (to_hex (random n)) \<notin> ses_refresh_token_hash ` set (user_sessions d)"
    and run: "login (auth_app argon jwt random hash)
      \<lparr>log_username_or_email = name, log_password = password, log_context = ctx\<rparr> w = (r, w')"
  shows "case find (\<lambda>u. usr_username u = identity \<or> usr_email u = Some identity) (users d) of
      None \<Rightarrow> r = Inl (Unauthorized ''invalid credentials'') \<and> tables w' = d
    | Some u \<Rightarrow>
        if \<exists>h. al_parse argon (usr_password_hash u) = Some h \<and> al_matches argon (trim password) h
        then (\<exists>access. r = Inr \<lparr>access_token = access, refresh_token = to_hex (random n)\<rparr>) \<and>
          tables w' = d\<lparr>user_sessions := user_sessions d @
            [\<lparr>ses_id = uuid_at w (Suc n), ses_user_id = usr_id u, ses_refresh_token_hash = hash (to_hex (random n)),
              ses_expires_at = clock w + seconds (30 * 24 * 60 * 60), ses_revoked_at = None, ses_context = ctx\<rparr>]\<rparr>
        else r = Inl (Unauthorized ''invalid credentials'') \<and> tables w' = d"
proof (cases "find (\<lambda>u. usr_username u = identity \<or> usr_email u = Some identity) (users d)")
  case None
  have "wp (login (auth_app argon jwt random hash)
      \<lparr>log_username_or_email = name, log_password = password, log_context = ctx\<rparr>)
      (\<lambda>_ _. False) (\<lambda>e w'. e = Unauthorized ''invalid credentials'' \<and> tables w' = d) w"
    using up name None by (simp add: login_def Let_def auth_methods d)
  from wp_outcome [OF this run] None show ?thesis by (cases r) simp_all
next
  case (Some u)
  have user: "usr_id u \<in> usr_id ` set (users d)" using find_in_set [OF Some] by simp
  obtain t where t: "jl_encode jwt \<lparr>claim_sub = jl_hyphenated jwt (usr_id u),
      claim_exp = word_of_int (clock w div seconds 1) + ACCESS_TOKEN_TTL_SECONDS,
      claim_iat = word_of_int (clock w div seconds 1), claim_jti = jl_hyphenated jwt (uuid_at w (drawn w))\<rparr> = Inr t"
    using sign by blast
  let ?good = "\<exists>h. al_parse argon (usr_password_hash u) = Some h \<and> al_matches argon (trim password) h"
  have "wp (login (auth_app argon jwt random hash)
      \<lparr>log_username_or_email = name, log_password = password, log_context = ctx\<rparr>)
      (\<lambda>pair w'. ?good \<and> (\<exists>access. pair = \<lparr>access_token = access, refresh_token = to_hex (random n)\<rparr>) \<and>
        tables w' = d\<lparr>user_sessions := user_sessions d @
          [\<lparr>ses_id = uuid_at w (Suc n), ses_user_id = usr_id u, ses_refresh_token_hash = hash (to_hex (random n)),
            ses_expires_at = clock w + seconds (30 * 24 * 60 * 60), ses_revoked_at = None, ses_context = ctx\<rparr>]\<rparr>)
      (\<lambda>e w'. \<not> ?good \<and> e = Unauthorized ''invalid credentials'' \<and> tables w' = d) w"
    using up name Some fresh user t time
    by (simp add: login_def Let_def auth_methods insert_session_def REFRESH_TOKEN_TTL_DAYS_def d n split: option.split)
  from wp_outcome [OF this run] Some show ?thesis by (cases r) simp_all
qed

theorem login_outcome_witness:
  "map (\<lambda>s. (ses_user_id s, ses_expires_at s)) (user_sessions (tables (snd
     (login (auth_app demo_argon demo_jwt (\<lambda>n. [of_nat n]) (\<lambda>t. t))
        \<lparr>log_username_or_email = lit ''ada'', log_password = lit ''lovelace'', log_context = no_context\<rparr>
        account_world)))) = [(1, seconds 2000), (1, seconds (1000 + 30 * 24 * 60 * 60))]"
proof -
  let ?w = account_world
  let ?cmd = "\<lparr>log_username_or_email = lit ''ada'', log_password = lit ''lovelace'', log_context = no_context\<rparr>"
  have t: "trim (lit ''ada'') = lit ''ada''" "trim (lit ''lovelace'') = lit ''lovelace''" "lit ''ada'' \<noteq> []"
    by (simp_all add: lit_def trim_def is_whitespace_def)
  have sign: "\<exists>t. jl_encode demo_jwt c = Inr t" for c by (simp add: demo_jwt_def)
  have fresh: "uuid_at ?w (Suc (Suc (drawn ?w))) \<notin> ses_id ` set (user_sessions (tables ?w))"
    "to_hex [of_nat (Suc (drawn ?w))] \<notin> ses_refresh_token_hash ` set (user_sessions (tables ?w))"
    by (simp_all add: account_world_def to_hex_def HEX_def lit_def)
  have w: "0 \<le> clock ?w" "clock ?w = seconds 1000" "users (tables ?w) \<noteq> []"
    "hd (users (tables ?w)) = \<lparr>usr_id = 1, usr_username = lit ''ada'', usr_email = None, usr_password_hash = lit ''lovelace''\<rparr>"
    "map (\<lambda>s. (ses_user_id s, ses_expires_at s)) (user_sessions (tables ?w)) = [(1, seconds 2000)]"
    by (simp_all add: account_world_def seconds_def)
  have f: "find (\<lambda>u. usr_username u = lit ''ada'' \<or> usr_email u = Some (lit ''ada'')) (users (tables ?w)) =
      Some (hd (users (tables ?w)))"
    by (simp add: account_world_def)
  note run = surjective_pairing [of "login (auth_app demo_argon demo_jwt (\<lambda>n. [of_nat n]) (\<lambda>t. t)) ?cmd ?w"]
  from login_outcome [where random = "\<lambda>n. [of_nat n]" and hash = "\<lambda>t. t" and n = "Suc (drawn ?w)" and
      identity = "lit ''ada''", OF account_world_ok(2,1) refl w(1) _ t(3) refl sign fresh run] t(1)
  show ?thesis by (simp add: f w t demo_argon_def seconds_def)
qed

section \<open>Tokens\<close>

text \<open>
  C34: an access token is accepted, as a token of its user, exactly until fifteen minutes after its issue
  and the leeway of the library's expiry check.  The hypotheses say what the libraries document:
  decoding an encoded token gives its claims unless they have expired, parsing the text of a UUID gives
  the UUID, and the clock has not left the range of the claims.
\<close>

theorem access_token_lifetime:
  assumes decode: "\<And>c t now. jl_encode jwt c = Inr t \<Longrightarrow>
      jl_decode jwt now t = (if unat now \<le> unat (claim_exp c) + leeway then Some c else None)"
    and parse: "\<And>u. jl_parse_str jwt (jl_hyphenated jwt u) = Some u"
    and clocks: "clock w < seconds (2 ^ 63)" "0 \<le> clock w2" "clock w2 < seconds (2 ^ 63)"
    and issued: "issue_access_token jwt user w = (Inr token, w1)"
  shows "fst (jwt_verify jwt token w2) =
    (if clock w2 div seconds 1 \<le> clock w div seconds 1 + 15 * 60 + int leeway then Inr user
     else Inl (Unauthorized ''invalid access token''))"
proof -
  let ?now = "word_of_int (clock w div seconds 1) :: u64"
  obtain jti where token: "jl_encode jwt \<lparr>claim_sub = jl_hyphenated jwt user,
      claim_exp = ?now + ACCESS_TOKEN_TTL_SECONDS, claim_iat = ?now, claim_jti = jti\<rparr> = Inr token"
    and pos: "0 \<le> clock w"
  proof -
    have "wp (issue_access_token jwt user) (\<lambda>t _. 0 \<le> clock w \<and> jl_encode jwt \<lparr>claim_sub = jl_hyphenated jwt user,
        claim_exp = ?now + ACCESS_TOKEN_TTL_SECONDS, claim_iat = ?now,
        claim_jti = jl_hyphenated jwt (uuid_at w (drawn w))\<rparr> = Inr t) (\<lambda>_ _. True) w"
      by (auto simp: issue_access_token_def unix_now_def Let_def split: sum.split)
    from wp_InrD [OF this issued] that show ?thesis by blast
  qed
  have unat_sec: "int (unat (word_of_int s :: u64)) = s" if "0 \<le> s" "s < 2 ^ 64" for s
    using that by (simp add: uint_word_of_int take_bit_int_eq_self flip: uint_nat)
  have small: "clock w div seconds 1 + 15 * 60 < 2 ^ 64"
    using clocks(1) div_mult_mod_eq [of "clock w" 1000000] pos_mod_sign [of 1000000 "clock w"] by (simp add: seconds_def)
  have sec: "0 \<le> c div seconds 1 \<and> c div seconds 1 < 2 ^ 63" if "0 \<le> c" "c < seconds (2 ^ 63)" for c
    using that div_mult_mod_eq [of c 1000000] pos_mod_sign [of 1000000 c]
    by (simp add: seconds_def pos_imp_zdiv_nonneg_iff)
  note s = sec [OF pos clocks(1)] sec [OF clocks(2,3)]
  have exp: "int (unat (?now + ACCESS_TOKEN_TTL_SECONDS)) = clock w div seconds 1 + 15 * 60"
  proof -
    have "?now + ACCESS_TOKEN_TTL_SECONDS = word_of_int (clock w div seconds 1 + 15 * 60)"
      by (simp add: ACCESS_TOKEN_TTL_SECONDS_def)
    moreover have "int (unat (word_of_int (clock w div seconds 1 + 15 * 60) :: u64)) = clock w div seconds 1 + 15 * 60"
      by (rule unat_sec) (use sec [OF pos clocks(1)] small in simp_all)
    ultimately show ?thesis by (simp only:)
  qed
  have now: "int (unat (word_of_int (clock w2 div seconds 1) :: u64)) = clock w2 div seconds 1"
    using s unat_sec by simp
  have "(unat (word_of_int (clock w2 div seconds 1) :: u64) \<le> unat (?now + ACCESS_TOKEN_TTL_SECONDS) + leeway) =
      (clock w2 div seconds 1 \<le> clock w div seconds 1 + 15 * 60 + int leeway)"
    using exp now by linarith
  then show ?thesis
    using decode [OF token, of "word_of_int (clock w2 div seconds 1)"]
    by (simp add: jwt_verify_def bnd_def now_utc_def ok_or_def throw_def ret_def parse)
qed

theorem access_token_lifetime_witness:
  "case issue_access_token demo_jwt 1 account_world of (Inl _, _) \<Rightarrow> False
    | (Inr token, w) \<Rightarrow> fst (jwt_verify demo_jwt token (w\<lparr>clock := seconds 1960\<rparr>)) = Inr 1 \<and>
        fst (jwt_verify demo_jwt token (w\<lparr>clock := seconds 1961\<rparr>)) = Inl (Unauthorized ''invalid access token'')"
proof -
  have lib: "jl_encode demo_jwt c = Inr t \<Longrightarrow>
      jl_decode demo_jwt now t = (if unat now \<le> unat (claim_exp c) + 60 then Some c else None)"
    "jl_parse_str demo_jwt (jl_hyphenated demo_jwt u) = Some u" for c t now u
    by (auto simp: demo_jwt_def demo_decode_encode)
  obtain token w where run: "issue_access_token demo_jwt 1 account_world = (Inr token, w)"
    by (simp add: issue_access_token_def unix_now_def bnd_def now_utc_def new_v4_def ret_def from_result_def
        demo_jwt_def account_world_def seconds_def Let_def)
  have time: "clock account_world < seconds (2 ^ 63)" "clock account_world div seconds 1 = 1000"
    by (simp_all add: account_world_def seconds_def)
  from access_token_lifetime [where leeway = 60, OF lib time(1) _ _ run, of "w\<lparr>clock := seconds 1960\<rparr>"]
    access_token_lifetime [where leeway = 60, OF lib time(1) _ _ run, of "w\<lparr>clock := seconds 1961\<rparr>"]
  show ?thesis using run time(2) by (simp add: seconds_def)
qed

text \<open>The text of random bytes is two hexadecimal digits for each, and determines them.\<close>

definition hex_value :: "rchar \<Rightarrow> 8 word" where
  "hex_value c = (if c \<le> 57 then of_nat c - 48 else of_nat c - 87)"

fun from_hex :: "rstring \<Rightarrow> 8 word list" where
  "from_hex (a # b # rest) = (16 * hex_value a + hex_value b) # from_hex rest"
| "from_hex _ = []"

lemma hex_value_HEX: "n < 16 \<Longrightarrow> hex_value (HEX ! n) = of_nat n"
proof -
  have "\<forall>n\<in>set [0..<16]. hex_value (HEX ! n) = of_nat n" by code_simp
  then show "n < 16 \<Longrightarrow> hex_value (HEX ! n) = of_nat n" by simp
qed

lemma hex_byte: "16 * hex_value (HEX ! unat (drop_bit 4 b)) + hex_value (HEX ! unat (b AND 15)) = b" for b :: "8 word"
proof -
  have hi: "unat (drop_bit 4 b) = unat b div 16" by (simp only: unat_drop_bit_eq) (simp add: drop_bit_eq_div)
  have "b AND 15 = take_bit 4 b" by (simp add: take_bit_eq_mask mask_eq_exp_minus_1)
  then have lo: "unat (b AND 15) = unat b mod 16" by (simp only: unsigned_take_bit_eq) (simp add: take_bit_eq_mod)
  have "unat b < 256" using unsigned_less [of b, where 'a = nat] by simp
  then have "hex_value (HEX ! unat (drop_bit 4 b)) = of_nat (unat b div 16)"
    "hex_value (HEX ! unat (b AND 15)) = of_nat (unat b mod 16)"
    unfolding hi lo by (intro hex_value_HEX, simp)+
  then have "16 * hex_value (HEX ! unat (drop_bit 4 b)) + hex_value (HEX ! unat (b AND 15)) =
      of_nat (16 * (unat b div 16) + unat b mod 16)"
    by (simp only: of_nat_add of_nat_mult of_nat_numeral)
  then show ?thesis by (simp only: mult_div_mod_eq) simp
qed

text \<open>
  The text of a refresh token has two characters for each random byte and the bytes can be read back
  from it, so different bytes give different tokens.
\<close>

theorem to_hex_roundtrip: "from_hex (to_hex bytes) = bytes \<and> length (to_hex bytes) = 2 * length bytes"
  by (induction bytes) (simp_all add: to_hex_def hex_byte)

end
