(* ===== verification/Config.thy ===== *)
theory Config
  imports Handlers Auth_Proofs
begin

text \<open>
  The configuration (\<open>bootstrap/config.rs\<close>) and the start of the application
  (\<open>AppState::new\<close> in \<open>bootstrap/app_state.rs\<close>).  The environment is a function from the names of
  the variables to their values, \<open>None\<close> when a variable is not set or is not Unicode, as it is after
  \<open>dotenvy\<close> has read the file \<open>.env\<close>.  \<open>usize\<close> is 64 bits wide.
\<close>

section \<open>Numbers\<close>

text \<open>
  \<open>str::parse\<close> for an unsigned integer of \<open>bits\<close> bits: decimal digits, after a sign \<open>+\<close> if there
  is one; \<open>None\<close> stands for each of its errors.
\<close>

definition is_ascii_digit :: "rchar \<Rightarrow> bool" where
  "is_ascii_digit c \<longleftrightarrow> 48 \<le> c \<and> c \<le> 57"

definition decimal_value :: "rstring \<Rightarrow> nat" where
  "decimal_value s = foldl (\<lambda>v c. 10 * v + (c - 48)) 0 s"

definition strip_plus :: "rstring \<Rightarrow> rstring" where
  "strip_plus s = (case s of c # d # cs \<Rightarrow> if c = 43 then d # cs else s | _ \<Rightarrow> s)"

definition parse_unsigned :: "nat \<Rightarrow> rstring \<Rightarrow> nat option" where
  "parse_unsigned bits s =
     (let digits = strip_plus s
      in if digits = [] \<or> \<not> list_all is_ascii_digit digits then None
         else if decimal_value digits < 2 ^ bits then Some (decimal_value digits) else None)"

section \<open>The configuration\<close>

record AppConfig =
  cfg_port :: "16 word"
  cfg_app_env :: rstring
  cfg_log_level :: rstring
  cfg_db_max_connections :: "32 word"
  cfg_http_body_limit_bytes :: "64 word"
  cfg_ws_max_message_bytes :: "64 word"
  cfg_database_url :: rstring
  cfg_redis_url :: rstring
  cfg_jwt_secret :: rstring
  cfg_refresh_token_pepper :: rstring
  cfg_docs_enabled :: bool

type_synonym environment = "string \<Rightarrow> rstring option"

text \<open>The operator \<open>?\<close> on a result.\<close>

definition try_res :: "'e + 'a \<Rightarrow> ('a \<Rightarrow> 'e + 'b) \<Rightarrow> 'e + 'b" where
  "try_res r k = (case r of Inl e \<Rightarrow> Inl e | Inr x \<Rightarrow> k x)"

text \<open>The three ways of reading a variable.\<close>

definition var_or :: "environment \<Rightarrow> string \<Rightarrow> string \<Rightarrow> rstring" where
  "var_or vars name fallback = (case vars name of None \<Rightarrow> lit fallback | Some v \<Rightarrow> v)"

definition number_var :: "environment \<Rightarrow> string \<Rightarrow> string \<Rightarrow> nat \<Rightarrow> string \<Rightarrow> string + nat" where
  "number_var vars name fallback bits error =
     (case parse_unsigned bits (var_or vars name fallback) of None \<Rightarrow> Inl error | Some n \<Rightarrow> Inr n)"

definition required_var :: "environment \<Rightarrow> string \<Rightarrow> string + rstring" where
  "required_var vars name =
     (case vars name of None \<Rightarrow> Inl (name @ '' is required in environment'') | Some v \<Rightarrow> Inr v)"

definition is_enabled :: "rstring \<Rightarrow> bool" where
  "is_enabled raw \<longleftrightarrow> to_ascii_lowercase (trim raw) \<in> {lit ''1'', lit ''true'', lit ''yes''}"

definition from_env :: "environment \<Rightarrow> string + AppConfig" where
  "from_env vars =
     try_res (number_var vars ''APP_PORT'' ''8080'' 16 ''APP_PORT must be a valid u16'') (\<lambda>port.
     try_res (number_var vars ''APP_DB_MAX_CONNECTIONS'' ''20'' 32
        ''APP_DB_MAX_CONNECTIONS must be a valid u32'') (\<lambda>connections.
     try_res (number_var vars ''APP_HTTP_BODY_LIMIT_BYTES'' ''1048576'' 64
        ''APP_HTTP_BODY_LIMIT_BYTES must be a valid usize'') (\<lambda>body_limit.
     try_res (number_var vars ''APP_WS_MAX_MESSAGE_BYTES'' ''16384'' 64
        ''APP_WS_MAX_MESSAGE_BYTES must be a valid usize'') (\<lambda>message_limit.
     try_res (required_var vars ''DATABASE_URL'') (\<lambda>database_url.
     try_res (required_var vars ''REDIS_URL'') (\<lambda>redis_url.
     try_res (required_var vars ''JWT_SECRET'') (\<lambda>jwt_secret.
     Inr \<lparr>cfg_port = of_nat port,
          cfg_app_env = var_or vars ''APP_ENV'' ''development'',
          cfg_log_level = var_or vars ''RUST_LOG'' ''info'',
          cfg_db_max_connections = of_nat connections,
          cfg_http_body_limit_bytes = of_nat body_limit,
          cfg_ws_max_message_bytes = of_nat message_limit,
          cfg_database_url = database_url,
          cfg_redis_url = redis_url,
          cfg_jwt_secret = jwt_secret,
          cfg_refresh_token_pepper =
            (case vars ''REFRESH_TOKEN_PEPPER'' of
               Some pepper \<Rightarrow> pepper
             | None \<Rightarrow> (case vars ''JWT_SECRET'' of None \<Rightarrow> [] | Some secret \<Rightarrow> secret)),
          cfg_docs_enabled =
            (case vars ''APP_DOCS_ENABLED'' of None \<Rightarrow> False | Some raw \<Rightarrow> is_enabled raw)\<rparr>)))))))"

text \<open>Whether \<open>build_router\<close> adds the pages of the documentation.\<close>

definition docs_enabled :: "AppConfig \<Rightarrow> bool" where
  "docs_enabled config \<longleftrightarrow>
     eq_ignore_ascii_case (cfg_app_env config) (lit ''development'') \<and> cfg_docs_enabled config"

text \<open>The handler of \<open>/health\<close>.\<close>

record HealthResponse =
  health_status :: string
  health_service :: string
  health_port :: "16 word"

definition health_check :: "AppConfig \<Rightarrow> HealthResponse" where
  "health_check config =
     \<lparr>health_status = ''ok'', health_service = ''sagiton-backend'', health_port = cfg_port config\<rparr>"

section \<open>The start of the application\<close>

text \<open>
  \<open>AppState::new\<close>.  What the libraries answer is a parameter: the recorder of metrics, the pool of
  connections to the database, the migrations and the client of Redis, each with its error.
  \<open>jwt_of\<close> gives the JWT library its secret.
\<close>

record libraries =
  lib_init_prometheus_recorder :: "string + unit"
  lib_create_pg_pool :: "rstring \<Rightarrow> 32 word \<Rightarrow> string + unit"
  lib_run_migrations :: "string + unit"
  lib_redis_client_open :: "rstring \<Rightarrow> string + unit"

definition app_state_new ::
  "libraries \<Rightarrow> 'h argon2_library \<Rightarrow> (rstring \<Rightarrow> jwt_library) \<Rightarrow> (nat \<Rightarrow> 8 word list) \<Rightarrow>
   (8 word list \<Rightarrow> 8 word list \<Rightarrow> 8 word list option) \<Rightarrow> (rstring \<Rightarrow> 8 word list) \<Rightarrow> env \<Rightarrow>
   AppConfig \<Rightarrow> string + application" where
  "app_state_new libs argon jwt_of random hmac bytes_of env config =
     try_res (lib_init_prometheus_recorder libs) (\<lambda>_.
     try_res (lib_create_pg_pool libs (cfg_database_url config) (cfg_db_max_connections config)) (\<lambda>_.
     try_res (lib_run_migrations libs) (\<lambda>_.
     try_res (refresh_adapter_new (cfg_refresh_token_pepper config)) (\<lambda>pepper.
     try_res (lib_redis_client_open libs (cfg_redis_url config)) (\<lambda>_.
     Inr \<lparr>app_env = env\<lparr>env_ws_max_message_bytes := unat (cfg_ws_max_message_bytes config)\<rparr>,
          app_auth = auth_use_case argon (jwt_of (cfg_jwt_secret config))
            (refresh_token_adapter random hmac bytes_of pepper)\<rparr>)))))"


section \<open>Properties\<close>

lemma try_res_Inr [simp]: "try_res (Inr x) k = k x"
  by (simp add: try_res_def)

lemma try_res_eq_Inr: "try_res r k = Inr y \<longleftrightarrow> (\<exists>x. r = Inr x \<and> k x = Inr y)"
  by (auto simp: try_res_def split: sum.splits)

lemma lit_append [simp]: "lit (s @ t) = lit s @ lit t"
  by (simp add: lit_def)

lemma lit_eq_Nil [simp]: "lit s = [] \<longleftrightarrow> s = []"
  by (simp add: lit_def)

lemma show_nat_digits: "list_all is_ascii_digit (lit (show_nat n)) \<and> show_nat n \<noteq> []"
proof (induction n rule: show_nat.induct)
  case (1 n)
  have d: "list_all is_ascii_digit (lit [char_of (48 + n mod 10)])"
    by (simp add: lit_def is_ascii_digit_def)
  show ?case
  proof (cases "n < 10")
    case True
    then show ?thesis
      using d by (simp add: show_nat.simps [of n])
  next
    case False
    then show ?thesis
      using 1 d by (simp add: show_nat.simps [of n])
  qed
qed

lemma decimal_value_snoc: "decimal_value (s @ [c]) = 10 * decimal_value s + (c - 48)"
  by (simp add: decimal_value_def)

lemma decimal_value_show: "decimal_value (lit (show_nat n)) = n"
proof (induction n rule: show_nat.induct)
  case (1 n)
  have d: "lit [char_of (48 + m mod 10)] = [48 + m mod 10]" for m :: nat
    by (simp add: lit_def)
  show ?case
  proof (cases "n < 10")
    case True
    then show ?thesis
      using d [of n] by (simp add: show_nat.simps [of n] decimal_value_def)
  next
    case False
    then show ?thesis
      using 1 d [of n] by (simp add: show_nat.simps [of n] decimal_value_snoc)
  qed
qed

lemma strip_plus_digits: "list_all is_ascii_digit s \<Longrightarrow> strip_plus s = s"
  by (auto simp: strip_plus_def is_ascii_digit_def split: list.splits)

text \<open>The decimal text of a number is read back exactly when it fits.\<close>

lemma parse_unsigned_show:
  "parse_unsigned bits (lit (show_nat n)) = (if n < 2 ^ bits then Some n else None)"
  using show_nat_digits [of n]
  by (simp add: parse_unsigned_def Let_def strip_plus_digits decimal_value_show)

text \<open>The variables that spell a configuration.\<close>

definition settings :: "AppConfig \<Rightarrow> environment" where
  "settings config = map_of
     [(''APP_PORT'', lit (show_nat (unat (cfg_port config)))),
      (''APP_ENV'', cfg_app_env config),
      (''RUST_LOG'', cfg_log_level config),
      (''APP_DB_MAX_CONNECTIONS'', lit (show_nat (unat (cfg_db_max_connections config)))),
      (''APP_HTTP_BODY_LIMIT_BYTES'', lit (show_nat (unat (cfg_http_body_limit_bytes config)))),
      (''APP_WS_MAX_MESSAGE_BYTES'', lit (show_nat (unat (cfg_ws_max_message_bytes config)))),
      (''DATABASE_URL'', cfg_database_url config),
      (''REDIS_URL'', cfg_redis_url config),
      (''JWT_SECRET'', cfg_jwt_secret config),
      (''REFRESH_TOKEN_PEPPER'', cfg_refresh_token_pepper config),
      (''APP_DOCS_ENABLED'', lit (if cfg_docs_enabled config then ''true'' else ''false''))]"

lemma is_enabled_words: "is_enabled (lit ''true'')" "\<not> is_enabled (lit ''false'')"
  by (simp_all add: is_enabled_def lit_def trim_def is_whitespace_def to_ascii_lowercase_def
      ascii_lower_char_def)

lemma number_var_show:
  "vars name = Some (lit (show_nat n)) \<Longrightarrow> n < 2 ^ bits \<Longrightarrow> number_var vars name fallback bits e = Inr n"
  by (simp add: number_var_def var_or_def parse_unsigned_show)

text \<open>
  C23: every configuration can be set: the variables that spell its fields, numbers in decimal, are
  read back to it, so no value of a field is out of reach and none is cut to its width.
\<close>

theorem config_roundtrip: "from_env (settings config) = Inr config"
proof -
  let ?v = "settings config"
  have n: "number_var ?v ''APP_PORT'' f1 16 e1 = Inr (unat (cfg_port config))"
    "number_var ?v ''APP_DB_MAX_CONNECTIONS'' f2 32 e2 = Inr (unat (cfg_db_max_connections config))"
    "number_var ?v ''APP_HTTP_BODY_LIMIT_BYTES'' f3 64 e3 = Inr (unat (cfg_http_body_limit_bytes config))"
    "number_var ?v ''APP_WS_MAX_MESSAGE_BYTES'' f4 64 e4 = Inr (unat (cfg_ws_max_message_bytes config))"
    for f1 f2 f3 f4 e1 e2 e3 e4
    using unsigned_less [where ?'a = nat, of "cfg_port config"] unsigned_less [where ?'a = nat, of "cfg_db_max_connections config"]
      unsigned_less [where ?'a = nat, of "cfg_http_body_limit_bytes config"] unsigned_less [where ?'a = nat, of "cfg_ws_max_message_bytes config"]
    by (auto intro!: number_var_show simp: settings_def)
  show ?thesis
    by (simp add: from_env_def n)
      (simp add: required_var_def var_or_def settings_def is_enabled_words)
qed


lemma started_auth:
  "auth_use_case argon jwt (refresh_token_adapter random hmac bytes_of pepper) =
   auth_app argon jwt random (hash_refresh_token hmac bytes_of pepper)"
  by (simp add: auth_app_def refresh_token_adapter_def)

text \<open>
  An application that starts from an environment has its secrets: tokens are signed with
  \<open>JWT_SECRET\<close>, which is set, and refresh tokens are hashed under \<open>REFRESH_TOKEN_PEPPER\<close>, or, when that
  is not set, under \<open>JWT_SECRET\<close> itself, of which at least sixteen bytes are not white space at either
  end; with a shorter one it does not start, whatever the libraries answer.
\<close>

theorem start_up_secrets:
  assumes config: "from_env vars = Inr config"
    and pepper: "pepper = (case vars ''REFRESH_TOKEN_PEPPER'' of Some p \<Rightarrow> p | None \<Rightarrow> the (vars ''JWT_SECRET''))"
    and start: "app_state_new libs argon jwt_of random hmac bytes_of env config = r"
  shows "case r of
      Inl _ \<Rightarrow> True
    | Inr app \<Rightarrow> 16 \<le> byte_len (trim pepper) \<and>
        (\<exists>secret. vars ''JWT_SECRET'' = Some secret \<and>
           app_auth app = auth_app argon (jwt_of secret) random (hash_refresh_token hmac bytes_of pepper))"
proof (cases r)
  case (Inr app)
  obtain secret where s: "vars ''JWT_SECRET'' = Some secret" "cfg_jwt_secret config = secret"
    "cfg_refresh_token_pepper config = pepper"
    using config by (auto simp: from_env_def try_res_eq_Inr required_var_def pepper split: option.splits)
  show ?thesis
    using start by (auto simp: Inr app_state_new_def try_res_eq_Inr s refresh_adapter_new_def
        MIN_PEPPER_LENGTH_def started_auth split: if_splits)
qed simp

definition demo_libraries :: libraries where
  "demo_libraries =
     \<lparr>lib_init_prometheus_recorder = Inr (), lib_create_pg_pool = (\<lambda>_ _. Inr ()),
      lib_run_migrations = Inr (), lib_redis_client_open = (\<lambda>_. Inr ())\<rparr>"

definition demo_vars :: "string \<Rightarrow> environment" where
  "demo_vars secret =
     [''DATABASE_URL'' \<mapsto> lit ''postgres:'', ''REDIS_URL'' \<mapsto> lit ''redis:'', ''JWT_SECRET'' \<mapsto> lit secret]"

text \<open>Without a pepper of its own, a secret of sixteen characters is enough.\<close>

theorem start_up_secrets_witness:
  "case from_env (demo_vars ''abcdefghijklmnop'') of Inl _ \<Rightarrow> False | Inr config \<Rightarrow>
     (case app_state_new demo_libraries demo_argon (\<lambda>_. demo_jwt) (\<lambda>n. [of_nat n]) (\<lambda>_ m. Some m)
        (map of_nat) (demo_env ''A'' Ping) config of
        Inl _ \<Rightarrow> False
      | Inr app \<Rightarrow> app_auth app = auth_app demo_argon demo_jwt (\<lambda>n. [of_nat n])
          (hash_refresh_token (\<lambda>_ m. Some m) (map of_nat) (lit ''abcdefghijklmnop'')))"
proof -
  let ?vars = "demo_vars ''abcdefghijklmnop''"
  let ?new = "app_state_new demo_libraries demo_argon (\<lambda>_. demo_jwt) (\<lambda>n. [of_nat n]) (\<lambda>_ m. Some m)
        (map of_nat) (demo_env ''A'' Ping)"
  have n: "parse_unsigned 16 (lit ''8080'') = Some 8080" "parse_unsigned 32 (lit ''20'') = Some 20"
    "parse_unsigned 64 (lit ''1048576'') = Some 1048576" "parse_unsigned 64 (lit ''16384'') = Some 16384"
    by (simp_all add: parse_unsigned_def strip_plus_def is_ascii_digit_def decimal_value_def lit_def)
  obtain config where config: "from_env ?vars = Inr config"
    "cfg_refresh_token_pepper config = lit ''abcdefghijklmnop''"
    by (simp add: from_env_def number_var_def var_or_def required_var_def demo_vars_def n)
  have "byte_len (trim (lit ''abcdefghijklmnop'')) = 16"
    by (simp add: lit_def trim_def is_whitespace_def utf8_len_def)
  then obtain app where run: "?new config = Inr app"
    by (simp add: app_state_new_def demo_libraries_def refresh_adapter_new_def MIN_PEPPER_LENGTH_def config)
  have "?vars ''REFRESH_TOKEN_PEPPER'' = None" "?vars ''JWT_SECRET'' = Some (lit ''abcdefghijklmnop'')"
    by (simp_all add: demo_vars_def)
  with start_up_secrets [OF config(1) refl run] show ?thesis
    by (simp add: config run)
qed

end
