(* ===== verification/Conversation_Proofs.thy ===== *)
theory Conversation_Proofs
  imports Conversation_Service Friendship
begin

text \<open>
  What the conversation component promises: the invariant of its tables (one direct thread for each
  pair, members of a direct thread fixed to the pair, invites within their cap), kept by every
  request, and the rules of the request states of a direct thread.
\<close>

section \<open>The invariant\<close>

definition direct_shape :: "thread_row \<Rightarrow> bool" where
  "direct_shape t \<longleftrightarrow> th_kind t = ''DIRECT'' \<and>
     (\<exists>a b. a < b \<and> th_direct_a_user_id t = Some a \<and> th_direct_b_user_id t = Some b \<and>
        (th_direct_status t = ''ACTIVE'' \<or>
         th_direct_status t = ''PENDING'' \<and> th_requested_by t \<in> {Some a, Some b}))"

definition group_shape :: "thread_row \<Rightarrow> bool" where
  "group_shape t \<longleftrightarrow> th_kind t = ''GROUP'' \<and> th_name t \<noteq> None \<and> th_owner_id t \<noteq> None \<and>
     th_direct_status t = ''ACTIVE''"

text \<open>The users who are in a thread from its beginning to its end.\<close>

definition founders :: "thread_row \<Rightarrow> uuid set" where
  "founders t = {u. th_kind t = ''DIRECT'' \<and> Some u \<in> {th_direct_a_user_id t, th_direct_b_user_id t} \<or>
                    th_kind t = ''GROUP'' \<and> th_owner_id t = Some u}"

definition conv_keys :: "db \<Rightarrow> bool" where
  "conv_keys d \<longleftrightarrow> distinct (map th_id (threads d)) \<and> distinct (thread_members d) \<and>
     distinct (map gv_token (group_invites d))"

definition conv_threads :: "db \<Rightarrow> bool" where
  "conv_threads d \<longleftrightarrow> (\<forall>t\<in>set (threads d). direct_shape t \<or> group_shape t) \<and>
     (\<forall>t\<in>set (threads d). \<forall>t'\<in>set (threads d). \<forall>a b. is_direct a b t \<longrightarrow> is_direct a b t' \<longrightarrow> t = t')"

definition conv_members :: "db \<Rightarrow> bool" where
  "conv_members d \<longleftrightarrow>
     (\<forall>t\<in>set (threads d). \<forall>u\<in>founders t. (th_id t, u) \<in> set (thread_members d)) \<and>
     (\<forall>(tid, u)\<in>set (thread_members d). tid \<in> th_id ` set (threads d)) \<and>
     (\<forall>t\<in>set (threads d). th_kind t = ''DIRECT'' \<longrightarrow>
        (\<forall>u. (th_id t, u) \<in> set (thread_members d) \<longrightarrow> u \<in> founders t))"

definition within_cap :: "group_invite_row \<Rightarrow> bool" where
  "within_cap i \<longleftrightarrow> 0 \<le> gv_used_count i \<and>
     (case gv_max_uses i of None \<Rightarrow> True | Some m \<Rightarrow> 0 < m \<and> gv_used_count i \<le> m)"

definition conv_invites :: "db \<Rightarrow> bool" where
  "conv_invites d \<longleftrightarrow> (\<forall>i\<in>set (group_invites d).
     (\<exists>t\<in>set (threads d). th_id t = gv_thread_id i \<and> th_kind t = ''GROUP'') \<and> within_cap i)"

definition conv_ok :: "db \<Rightarrow> bool" where
  "conv_ok d \<longleftrightarrow> conv_keys d \<and> conv_threads d \<and> conv_members d \<and> conv_invites d"

lemma conv_ok_parts:
  "conv_ok d \<Longrightarrow> conv_keys d" "conv_ok d \<Longrightarrow> conv_threads d" "conv_ok d \<Longrightarrow> conv_members d"
  "conv_ok d \<Longrightarrow> conv_invites d"
  by (simp_all add: conv_ok_def)

text \<open>Only four tables matter.\<close>

lemma conv_ok_cong:
  "threads d' = threads d \<Longrightarrow> thread_members d' = thread_members d \<Longrightarrow>
   group_invites d' = group_invites d \<Longrightarrow> conv_ok d' = conv_ok d"
  by (simp add: conv_ok_def conv_keys_def conv_threads_def conv_members_def conv_invites_def)

lemma one_thread:
  "conv_keys d \<Longrightarrow> t \<in> set (threads d) \<Longrightarrow> t' \<in> set (threads d) \<Longrightarrow> th_id t = th_id t' \<Longrightarrow> t = t'"
  by (auto simp: conv_keys_def distinct_map dest: inj_onD)

section \<open>Statements\<close>

text \<open>A thread joins the table together with its founders.\<close>

lemma conv_ok_new_thread:
  assumes ok: "conv_ok d" and new: "th_id t \<notin> th_id ` set (threads d)"
    and shape: "direct_shape t \<or> group_shape t"
    and pair: "\<And>a b r. r \<in> set (threads d) \<Longrightarrow> is_direct a b t \<Longrightarrow> \<not> is_direct a b r"
    and us: "distinct us" "founders t \<subseteq> set us" "th_kind t = ''DIRECT'' \<Longrightarrow> set us \<subseteq> founders t"
  shows "conv_ok (d\<lparr>threads := threads d @ [t], thread_members := thread_members d @ map (Pair (th_id t)) us\<rparr>)"
    (is "conv_ok ?d")
proof -
  have none: "(th_id t, u) \<notin> set (thread_members d)" for u
    using new conv_ok_parts(3) [OF ok] by (auto simp: conv_members_def)
  have "conv_keys ?d"
    using ok new us(1) none by (auto simp: conv_ok_def conv_keys_def distinct_map inj_on_def)
  moreover have "conv_threads ?d"
    using ok shape pair by (auto simp: conv_ok_def conv_threads_def)
  moreover have "conv_members ?d"
  proof -
    have m: "conv_members d" using ok by (simp add: conv_ok_def)
    have "th_id r \<noteq> th_id t" if "r \<in> set (threads d)" for r
      using that new by (metis imageI)
    with m us none show ?thesis
      by (auto simp: conv_members_def)
  qed
  moreover have "conv_invites ?d"
    using ok by (auto simp: conv_ok_def conv_invites_def)
  ultimately show ?thesis by (simp add: conv_ok_def)
qed

text \<open>A user joins or leaves a group.\<close>

lemma conv_ok_join:
  assumes ok: "conv_ok d" and t: "t \<in> set (threads d)" "th_kind t = ''GROUP''"
    and new: "(th_id t, u) \<notin> set (thread_members d)"
  shows "conv_ok (d\<lparr>thread_members := thread_members d @ [(th_id t, u)]\<rparr>)"
proof -
  have "r = t" if "r \<in> set (threads d)" "th_id r = th_id t" for r
    using one_thread [OF conv_ok_parts(1) [OF ok] that(1) t(1) that(2)] .
  with t(2) have "th_id r \<noteq> th_id t" if "r \<in> set (threads d)" "th_kind r = ''DIRECT''" for r
    using that by fastforce
  with ok t new show ?thesis
    by (auto simp: conv_ok_def conv_keys_def conv_threads_def conv_members_def conv_invites_def)
qed

lemma conv_ok_leave:
  assumes ok: "conv_ok d" and not_owner: "\<And>t. t \<in> set (threads d) \<Longrightarrow> th_id t = tid \<Longrightarrow>
      th_kind t = ''GROUP'' \<Longrightarrow> th_owner_id t \<noteq> Some u"
  shows "conv_ok (d\<lparr>thread_members := filter (\<lambda>m. is_group tid d \<longrightarrow> m \<noteq> (tid, u)) (thread_members d)\<rparr>)"
    (is "conv_ok ?d")
proof -
  have "\<not> (is_group tid d \<and> (th_id t, v) = (tid, u))" if t: "t \<in> set (threads d)" and v: "v \<in> founders t" for t v
  proof
    assume bad: "is_group tid d \<and> (th_id t, v) = (tid, u)"
    then obtain r where r: "r \<in> set (threads d)" "th_id r = tid" "th_kind r = ''GROUP''"
      by (auto simp: is_group_def)
    then have "r = t" using one_thread [OF conv_ok_parts(1) [OF ok] r(1) t] bad by simp
    then show False using v r bad not_owner [OF t] by (simp add: founders_def)
  qed
  then have "conv_members ?d"
    using conv_ok_parts(3) [OF ok] unfolding conv_members_def by auto
  moreover have "conv_keys ?d" "conv_threads ?d" "conv_invites ?d"
    using ok by (simp_all add: conv_ok_def conv_keys_def conv_threads_def conv_invites_def)
  ultimately show ?thesis by (simp add: conv_ok_def)
qed

text \<open>A direct thread is activated; its pair and members stay.\<close>

lemma conv_ok_update_threads:
  assumes ok: "conv_ok d"
    and same: "\<And>t. th_id (f t) = th_id t \<and> th_kind (f t) = th_kind t \<and>
      th_direct_a_user_id (f t) = th_direct_a_user_id t \<and> th_direct_b_user_id (f t) = th_direct_b_user_id t \<and>
      th_owner_id (f t) = th_owner_id t"
    and shape: "\<And>t. t \<in> set (threads d) \<Longrightarrow> p t \<Longrightarrow> direct_shape (f t)"
  shows "conv_ok (d\<lparr>threads := update_where p f (threads d)\<rparr>)" (is "conv_ok ?d")
proof -
  define h where "h t = (if p t then f t else t)" for t
  have h: "threads ?d = map h (threads d)"
    by (simp add: update_where_def h_def)
  have same_h: "th_id (h t) = th_id t" "th_kind (h t) = th_kind t" "founders (h t) = founders t"
    "is_direct a b (h t) = is_direct a b t" for t a b
    by (simp_all add: h_def same founders_def is_direct_def)
  have "conv_keys ?d"
    using ok by (simp add: conv_ok_def conv_keys_def update_where_map same)
  moreover have "conv_threads ?d"
  proof -
    have "direct_shape (h t) \<or> group_shape (h t)" if "t \<in> set (threads d)" for t
      using that shape [of t] conv_ok_parts(2) [OF ok] by (auto simp: h_def conv_threads_def)
    moreover have "h t = h t'" if "t \<in> set (threads d)" "t' \<in> set (threads d)" "is_direct a b t" "is_direct a b t'" for t t' a b
    proof -
      have "t = t'" using that conv_ok_parts(2) [OF ok] unfolding conv_threads_def by blast
      then show ?thesis by simp
    qed
    ultimately have "\<forall>x\<in>h ` set (threads d). direct_shape x \<or> group_shape x"
      "\<forall>x\<in>h ` set (threads d). \<forall>y\<in>h ` set (threads d). \<forall>a b. is_direct a b x \<longrightarrow> is_direct a b y \<longrightarrow> x = y"
      using same_h(4) by blast+
    then show ?thesis unfolding conv_threads_def h set_map by (rule conjI)
  qed
  moreover have "conv_members ?d"
    using conv_ok_parts(3) [OF ok] unfolding conv_members_def h by (simp add: same_h image_image)
  moreover have "conv_invites ?d"
    using conv_ok_parts(4) [OF ok] unfolding conv_invites_def h by (simp add: same_h)
  ultimately show ?thesis by (simp add: conv_ok_def)
qed

text \<open>A direct thread is deleted with everything that belongs to it.\<close>

lemma conv_ok_delete_thread:
  assumes ok: "conv_ok d" and q: "delete_thread tid t d = Inr (x, d')"
  shows "conv_ok d'"
proof -
  have d': "threads d' = filter (\<lambda>r. th_id r \<noteq> tid) (threads d)"
    "thread_members d' = filter (\<lambda>(th, u). th \<noteq> tid) (thread_members d)"
    "group_invites d' = filter (\<lambda>i. gv_thread_id i \<noteq> tid) (group_invites d)"
    using q by (auto simp: delete_thread_def Let_def)
  have "conv_keys d'"
    using ok by (auto simp: conv_ok_def conv_keys_def d' distinct_map inj_on_def)
  moreover have "conv_threads d'"
    using ok by (auto simp: conv_ok_def conv_threads_def d')
  moreover have "conv_members d'"
    using ok by (auto simp: conv_ok_def conv_members_def d')
  moreover have "conv_invites d'"
    using conv_ok_parts(4) [OF ok] by (fastforce simp: conv_invites_def d')
  ultimately show ?thesis by (simp add: conv_ok_def)
qed


lemma conv_ok_insert_members:
  assumes ok: "conv_ok d" and t: "r \<in> set (threads d)" "th_kind r = ''GROUP''" "th_id r = tid"
    and q: "insert_members_or_ignore tid us now d = Inr (n, d')"
  shows "conv_ok d'"
proof -
  define new where "new = filter (\<lambda>u. (tid, u) \<notin> set (thread_members d)) (remdups us)"
  have d': "d' = d\<lparr>thread_members := thread_members d @ map (Pair tid) new\<rparr>"
    using q by (auto simp: insert_members_or_ignore_def Let_def new_def split: if_splits)
  have "conv_ok (d\<lparr>thread_members := thread_members d @ map (Pair tid) vs\<rparr>)"
    if "distinct vs" "\<And>v. v \<in> set vs \<Longrightarrow> (tid, v) \<notin> set (thread_members d)" for vs
    using that
  proof (induction vs rule: rev_induct)
    case (snoc v vs)
    let ?d = "d\<lparr>thread_members := thread_members d @ map (Pair tid) vs\<rparr>"
    have "conv_ok ?d" using snoc by simp
    moreover have "(th_id r, v) \<notin> set (thread_members ?d)" using snoc.prems t(3) by auto
    ultimately show ?case
      using conv_ok_join [of ?d r v] t by simp
  qed (use ok in simp)
  then have joined: "distinct vs \<Longrightarrow> \<forall>v\<in>set vs. (tid, v) \<notin> set (thread_members d) \<Longrightarrow>
      conv_ok (d\<lparr>thread_members := thread_members d @ map (Pair tid) vs\<rparr>)" for vs
    by blast
  have "distinct new" "\<forall>v\<in>set new. (tid, v) \<notin> set (thread_members d)"
    by (simp_all add: new_def)
  then show ?thesis unfolding d' by (rule joined)
qed

lemma conv_ok_activate:
  assumes ok: "conv_ok d" and t: "t \<in> set (threads d)" "th_id t = tid" "th_kind t = ''DIRECT''"
    and q: "activate_thread tid now d = Inr (x, d')"
  shows "conv_ok d'"
proof -
  let ?f = "\<lambda>r. r\<lparr>th_direct_status := ''ACTIVE'', th_accepted_at := Some now\<rparr>"
  have "direct_shape (?f r)" if r: "r \<in> set (threads d)" "th_id r = tid" for r
  proof -
    have "r = t" using one_thread [OF conv_ok_parts(1) [OF ok] r(1) t(1)] r(2) t(2) by simp
    moreover have "direct_shape t \<or> group_shape t"
      using t(1) conv_ok_parts(2) [OF ok] by (simp add: conv_threads_def)
    ultimately show ?thesis using t(3) by (auto simp: direct_shape_def group_shape_def)
  qed
  then have "conv_ok (d\<lparr>threads := update_where (\<lambda>r. th_id r = tid) ?f (threads d)\<rparr>)"
    by (intro conv_ok_update_threads [OF ok]) simp_all
  then show ?thesis using q by (auto simp: activate_thread_def split: if_splits)
qed

text \<open>Accepting a friend request activates the pair's pending thread.\<close>

lemma conv_ok_activate_pair: "preserves conv_ok (activate_pair_thread a b)"
proof (rule preservesI)
  fix t d x d' assume q: "activate_pair_thread a b t d = Inr (x, d')" and ok: "conv_ok d"
  have "\<forall>r\<in>set (threads d). direct_shape r \<or> group_shape r"
    using conv_ok_parts(2) [OF ok] by (simp add: conv_threads_def)
  then show "conv_ok d'"
    using q by (auto simp: activate_pair_thread_def direct_shape_def group_shape_def
        intro!: conv_ok_update_threads [OF ok])
qed

section \<open>Methods\<close>

lemma sort_thread_pair_less: "u \<noteq> v \<Longrightarrow> sort_thread_pair u v = (a, b) \<Longrightarrow> a < b \<and> {a, b} = {u, v}"
  by (auto simp: sort_thread_pair_def split: if_splits)

lemma insert_direct_thread_cases:
  assumes "insert_direct_thread tid a b status rq accepted now d = Inr (r, d1)"
  obtains t where "r = None" "d1 = d" "find (is_direct a b) (threads d) = Some t"
  | t where "r = Some tid" "d1 = d\<lparr>threads := threads d @ [t]\<rparr>" "th_id t = tid" "is_direct a b t"
      "th_direct_status t = status" "th_requested_by t = rq" "tid \<notin> th_id ` set (threads d)"
      "\<forall>x\<in>set (threads d). \<not> is_direct a b x"
proof (cases "find (is_direct a b) (threads d)")
  case None
  then show ?thesis
    using assms that(2) by (auto simp: insert_direct_thread_def Let_def find_None_iff_all is_direct_def
        split: if_splits)
next
  case (Some t)
  then have "t \<in> set (threads d) \<and> is_direct a b t" by (rule find_in_set)
  then show ?thesis
    using assms Some that(1) by (auto simp: insert_direct_thread_def Let_def split: if_splits)
qed

lemma conv_ok_direct_step:
  assumes ok: "conv_ok d" and ab: "a < b"
    and st: "status = ''ACTIVE'' \<or> status = ''PENDING'' \<and> rq \<in> {Some a, Some b}"
    and q1: "insert_direct_thread tid a b status rq accepted now d = Inr (r, d1)"
    and q2: "insert_members_or_ignore (case r of Some x \<Rightarrow> x | None \<Rightarrow> th_id (the (find (is_direct a b) (threads d1))))
               [a, b] now' d1 = Inr (n, d2)"
  shows "conv_ok d2"
  using q1
proof (cases rule: insert_direct_thread_cases)
  case (1 t)
  then have "(th_id t, a) \<in> set (thread_members d)" "(th_id t, b) \<in> set (thread_members d)"
    using find_in_set [of "is_direct a b" "threads d" t] conv_ok_parts(3) [OF ok]
    by (auto simp: conv_members_def founders_def is_direct_def)
  then have "d2 = d" using q2 1 by (auto simp: insert_members_or_ignore_def Let_def split: if_splits)
  then show ?thesis using ok by simp
next
  case (2 t)
  have none: "(tid, x) \<notin> set (thread_members d)" for x
    using 2(7) conv_ok_parts(3) [OF ok] by (auto simp: conv_members_def)
  then have "d2 = d\<lparr>threads := threads d @ [t], thread_members := thread_members d @ map (Pair (th_id t)) [a, b]\<rparr>"
    using q2 2 ab by (auto simp: insert_members_or_ignore_def Let_def split: if_splits)
  moreover have "conv_ok \<dots>"
  proof (rule conv_ok_new_thread [OF ok])
    show "direct_shape t \<or> group_shape t"
      using 2(4-6) ab st by (auto simp: direct_shape_def is_direct_def)
    show "founders t \<subseteq> set [a, b]" "set [a, b] \<subseteq> founders t"
      using 2(4) by (auto simp: founders_def is_direct_def)
    show "\<not> is_direct a' b' r" if "r \<in> set (threads d)" "is_direct a' b' t" for a' b' r
      using that 2(4,8) by (auto simp: is_direct_def)
  qed (use 2 ab in auto)
  ultimately show ?thesis by simp
qed

lemma conv_ok_create_or_get:
  assumes "u \<noteq> v"
  shows "db_keeps conv_ok (repo_create_or_get_direct_thread u v)"
proof -
  obtain a b where p: "sort_thread_pair u v = (a, b)" by fastforce
  have ab: "a < b" and uv: "{a, b} = {u, v}" using sort_thread_pair_less [OF assms p] by auto
  then have u: "Some u \<in> {Some a, Some b}" by auto
  show ?thesis
    unfolding repo_create_or_get_direct_thread_def p prod.case
  proof (rule transaction_keepsI, goal_cases)
    case (1 w)
    have got: "conv_ok d2"
      if "insert_direct_thread tid a b ''ACTIVE'' None accepted now (tables w) = Inr (None, d1) \<or>
          insert_direct_thread tid a b ''PENDING'' (Some u) accepted now (tables w) = Inr (None, d1)"
        "find (is_direct a b) (threads d1) = Some t" "insert_members_or_ignore (th_id t) [a, b] now' d1 = Inr (n, d2)"
      for tid accepted now d1 t now' n d2
      using that conv_ok_direct_step [OF 1 ab, where r = None] u by fastforce
    have made: "conv_ok d2"
      if "insert_direct_thread tid a b ''ACTIVE'' None accepted now (tables w) = Inr (Some x, d1) \<or>
          insert_direct_thread tid a b ''PENDING'' (Some u) accepted now (tables w) = Inr (Some x, d1)"
        "insert_members_or_ignore x [a, b] now' d1 = Inr (n, d2)" for tid accepted now d1 x now' n d2
      using that conv_ok_direct_step [OF 1 ab, where r = "Some x"] u by fastforce
    show ?case
      by (auto simp: ensure_direct_membership_def direct_summary_for_member_def Let_def
          split: sum.split option.split prod.split intro: got made)
  qed
qed


lemma conv_ok_transition:
  assumes lock: "select_direct_thread_state tid u (tables w) = Some row" and ok: "conv_ok (tables w)"
  shows "\<exists>t\<in>set (threads (tables w)). th_id t = ds_id row \<and> th_kind t = ''DIRECT''"
  using lock by (auto simp: select_direct_thread_state_def dest: find_in_set)

lemma conv_ok_accept: "db_keeps conv_ok (repo_accept_direct_thread_request tid u)"
  unfolding repo_accept_direct_thread_request_def
proof (rule transaction_keepsI, goal_cases)
  case (1 w)
  have "conv_ok d'"
    if "select_direct_thread_state tid u (tables w) = Some row" "activate_thread (ds_id row) t (tables w) = Inr (x, d')"
    for row t x d'
    using conv_ok_transition [OF that(1) 1] conv_ok_activate [OF 1 _ _ _ that(2)] by blast
  then show ?case
    by (auto simp: lock_direct_thread_for_member_def split: sum.split option.split)
qed

lemma conv_ok_reject: "db_keeps conv_ok (repo_reject_direct_thread_request tid u)"
  unfolding repo_reject_direct_thread_request_def
proof (rule transaction_keepsI, goal_cases)
  case (1 w)
  then show ?case
    by (auto simp: lock_direct_thread_for_member_def split: sum.split option.split
        intro: conv_ok_delete_thread)
qed

lemma group_shape_new:
  assumes "insert_group_thread tid name owner t d = Inr (g, d1)"
  obtains r where "d1 = d\<lparr>threads := threads d @ [r]\<rparr>" "th_id r = tid" "group_shape r"
    "founders r = {owner}" "tid \<notin> th_id ` set (threads d)" "grp_id g = tid" "grp_owner_id g = owner"
  using assms that
  by (fastforce simp: insert_group_thread_def Let_def group_shape_def founders_def split: if_splits)

lemma conv_ok_new_group:
  assumes ok: "conv_ok d" and q1: "insert_group_thread tid name owner t d = Inr (g, d1)"
    and q2: "insert_members_or_ignore (grp_id g) [owner] t' d1 = Inr (n, d2)"
  shows "conv_ok d2 \<and> (\<exists>r\<in>set (threads d2). th_kind r = ''GROUP'' \<and> th_id r = grp_id g)"
  using q1
proof (cases rule: group_shape_new)
  case (1 r)
  have none: "(tid, x) \<notin> set (thread_members d)" for x
    using 1(5) conv_ok_parts(3) [OF ok] by (auto simp: conv_members_def)
  then have d2: "d2 = d\<lparr>threads := threads d @ [r],
      thread_members := thread_members d @ map (Pair (th_id r)) [owner]\<rparr>"
    using q2 1 by (auto simp: insert_members_or_ignore_def Let_def split: if_splits)
  moreover have "conv_ok \<dots>"
    by (rule conv_ok_new_thread [OF ok])
       (use 1 in \<open>auto simp: group_shape_def is_direct_def\<close>)
  ultimately show ?thesis using 1 by (auto simp: group_shape_def)
qed

lemma conv_ok_create_group: "db_keeps conv_ok (repo_create_group_thread owner name us)"
  unfolding repo_create_group_thread_def
proof (rule transaction_keepsI, goal_cases)
  case (1 w)
  have more: "conv_ok d3"
    if "insert_group_thread tid name owner t (tables w) = Inr (g, d1)"
      "insert_members_or_ignore (grp_id g) [owner] t' d1 = Inr (n, d2)"
      "insert_members_or_ignore (grp_id g) us t'' d2 = Inr (n', d3)" for tid t g d1 t' n d2 t'' n' d3
    using conv_ok_new_group [OF 1 that(1,2)] conv_ok_insert_members [OF _ _ _ _ that(3)] by blast
  show ?case
    by (auto split: sum.split prod.split intro: more dest: conv_ok_new_group [OF 1])
qed

lemma conv_ok_add_member: "db_keeps conv_ok (repo_add_group_member tid u)"
proof (rule keepsI)
  fix w :: world assume ok: "conv_ok (tables w)"
  have "conv_ok d'" if g: "is_group tid (tables w)" and q: "insert_thread_member tid u t (tables w) = Inr (x, d')" for t x d'
  proof -
    obtain r where r: "r \<in> set (threads (tables w))" "th_kind r = ''GROUP''" "tid = th_id r"
      using g by (auto simp: is_group_def)
    show ?thesis
      using q conv_ok_join [OF ok r(1,2), of u]
      by (simp add: insert_thread_member_def r(3) split: if_splits)
  qed
  then show "wp (repo_add_group_member tid u) (\<lambda>_ w. conv_ok (tables w)) (\<lambda>_ w. conv_ok (tables w)) w"
    using ok by (auto simp: repo_add_group_member_def split: sum.split)
qed

lemma conv_ok_new_invite:
  assumes ok: "conv_ok d" and t: "is_group (gv_thread_id i) d" and i: "within_cap i"
    and new: "gv_token i \<notin> gv_token ` set (group_invites d)"
  shows "conv_ok (d\<lparr>group_invites := group_invites d @ [i]\<rparr>)"
proof -
  have "conv_invites (d\<lparr>group_invites := group_invites d @ [i]\<rparr>)"
    using conv_ok_parts(4) [OF ok] t i by (auto simp: conv_invites_def is_group_def)
  then show ?thesis
    using ok new by (simp add: conv_ok_def conv_keys_def conv_threads_def conv_members_def)
qed

lemma conv_ok_insert_invite: "preserves conv_ok (insert_group_invite token tid by exp max_uses)"
proof (rule preservesI)
  fix t d x d' assume q: "insert_group_invite token tid by exp max_uses t d = Inr (x, d')" and ok: "conv_ok d"
  show "conv_ok d'"
    using q ok
    by (auto simp: insert_group_invite_def within_cap_def split: if_splits option.splits
        intro!: conv_ok_new_invite)
qed

lemma conv_ok_bump:
  assumes ok: "conv_ok d" and q: "bump_group_invite token t d = Inr (x, d')"
    and room: "\<forall>i\<in>set (group_invites d). gv_token i = token \<longrightarrow>
      (case gv_max_uses i of None \<Rightarrow> True | Some m \<Rightarrow> gv_used_count i < m)"
  shows "conv_ok d'"
proof -
  let ?f = "\<lambda>i. i\<lparr>gv_used_count := gv_used_count i + 1\<rparr>"
  have d': "d' = d\<lparr>group_invites := update_where (\<lambda>i. gv_token i = token) ?f (group_invites d)\<rparr>"
    using q by (auto simp: bump_group_invite_def split: if_splits)
  have "map gv_token (group_invites d') = map gv_token (group_invites d)"
    by (simp add: d' update_where_map)
  moreover have "conv_invites d'"
    using conv_ok_parts(4) [OF ok] room
    by (fastforce simp: d' conv_invites_def set_update_where within_cap_def split: option.splits)
  ultimately show ?thesis
    using ok by (simp add: conv_ok_def conv_keys_def conv_threads_def conv_members_def d')
qed

lemma select_group_invite_row:
  assumes "select_group_invite token d = Some j" and keys: "conv_keys d"
  obtains t i where "t \<in> set (threads d)" "th_kind t = ''GROUP''" "th_id t = ji_thread_id j"
    "gv_max_uses i = ji_max_uses j" "gv_used_count i = ji_used_count j"
    "\<forall>i'\<in>set (group_invites d). gv_token i' = token \<longrightarrow> i' = i"
proof -
  obtain i t where i: "find (\<lambda>i. gv_token i = token) (group_invites d) = Some i"
      and t: "find (\<lambda>t. th_id t = gv_thread_id i \<and> th_kind t = ''GROUP'') (threads d) = Some t"
      and j: "ji_thread_id j = th_id t" "ji_max_uses j = gv_max_uses i" "ji_used_count j = gv_used_count i"
    using assms(1) by (auto simp: select_group_invite_def bind_eq_Some_conv)
  have "\<forall>i'\<in>set (group_invites d). gv_token i' = token \<longrightarrow> i' = i"
    using keys find_in_set [OF i] by (auto simp: conv_keys_def distinct_map dest: inj_onD)
  with that [of t i] find_in_set [OF t] j show ?thesis by simp
qed

lemma insert_members_invites:
  "insert_members_or_ignore tid us t d = Inr (n, d') \<Longrightarrow>
   group_invites d' = group_invites d \<and> threads d' = threads d"
  by (auto simp: insert_members_or_ignore_def Let_def split: if_splits)

lemma conv_ok_join_invite: "db_keeps conv_ok (repo_join_group_via_invite token u)"
  unfolding repo_join_group_via_invite_def
proof (rule transaction_keepsI, goal_cases)
  case (1 w)
  have joined: "conv_ok d1 \<and> (bump_group_invite token t' d1 = Inr (y, d2) \<longrightarrow> conv_ok d2)"
    if j: "select_group_invite token (tables w) = Some j"
      "\<not> (case ji_max_uses j of None \<Rightarrow> False | Some m \<Rightarrow> m \<le> ji_used_count j)"
      "insert_members_or_ignore (ji_thread_id j) [u] t (tables w) = Inr (n, d1)" for j t n d1 t' y d2
  proof -
    obtain r i where
      r: "r \<in> set (threads (tables w))" "th_kind r = ''GROUP''" "th_id r = ji_thread_id j"
      and i: "gv_max_uses i = ji_max_uses j" "gv_used_count i = ji_used_count j"
        "\<forall>i'\<in>set (group_invites (tables w)). gv_token i' = token \<longrightarrow> i' = i"
      by (rule select_group_invite_row [OF j(1) conv_ok_parts(1) [OF 1]])
    have ok: "conv_ok d1" by (rule conv_ok_insert_members [OF 1 r j(3)])
    moreover have "\<forall>i\<in>set (group_invites d1). gv_token i = token \<longrightarrow>
        (case gv_max_uses i of None \<Rightarrow> True | Some m \<Rightarrow> gv_used_count i < m)"
      using insert_members_invites [OF j(3)] i j(2) by (auto split: option.splits)
    ultimately show ?thesis using conv_ok_bump by blast
  qed
  show ?case
    by (auto split: sum.split prod.split option.split option.split_asm dest: joined)
qed


text \<open>The statements that leave threads, members and invites alone.\<close>

lemma conv_ok_frame:
  "(\<And>t d x d'. q t d = Inr (x, d') \<Longrightarrow> threads d' = threads d \<and> thread_members d' = thread_members d \<and>
      group_invites d' = group_invites d) \<Longrightarrow> preserves conv_ok q"
  by (metis preservesI conv_ok_cong)

lemma conv_ok_messages [intro]:
  "preserves conv_ok (insert_thread_message mid tid u content)"
  "preserves conv_ok (update_thread_message_query mid content)"
  "preserves conv_ok (soft_delete_thread_message_query mid)"
  "preserves conv_ok (upsert_thread_read u tid last_read)"
  "preserves conv_ok (select_thread_messages tid anchor limit)"
  by (rule conv_ok_frame,
      auto simp: insert_thread_message_def update_thread_message_query_def update_live_thread_message_def
        soft_delete_thread_message_query_def upsert_thread_read_def select_thread_messages_def Let_def
        split: if_splits)+

lemma conv_ok_requests [intro]:
  "preserves conv_ok (upsert_friend_request from to)"
  "preserves conv_ok (set_request_status hit status)"
  "preserves conv_ok (insert_friends_or_ignore a b)"
  by (rule conv_ok_frame,
      auto simp: upsert_friend_request_def set_request_status_def insert_friends_or_ignore_def Let_def
        split: if_splits option.splits)+

section \<open>Requests\<close>

lemma conversation_use_case_fields [simp]:
  "conv_repo (conversation_use_case simple) = sqlx_conversation_repository"
  "rt_now_utc (conv_runtime (conversation_use_case simple)) = now_utc"
  "rt_new_v4 (conv_runtime (conversation_use_case simple)) = new_v4"
  "rt_simple (conv_runtime (conversation_use_case simple)) = simple"
  by (simp_all add: conversation_use_case_def sqlx_runtime_def)

lemma conversation_repository_fields [simp]:
  "cv_create_or_get_direct_thread sqlx_conversation_repository = repo_create_or_get_direct_thread"
  "cv_accept_direct_thread_request sqlx_conversation_repository = repo_accept_direct_thread_request"
  "cv_reject_direct_thread_request sqlx_conversation_repository = repo_reject_direct_thread_request"
  "cv_create_group_thread sqlx_conversation_repository = repo_create_group_thread"
  "cv_find_group_thread_for_member sqlx_conversation_repository = repo_find_group_thread_for_member"
  "cv_add_group_member sqlx_conversation_repository = repo_add_group_member"
  "cv_remove_group_member sqlx_conversation_repository = repo_remove_group_member"
  "cv_is_group_owner sqlx_conversation_repository = repo_is_group_owner"
  "cv_is_thread_member sqlx_conversation_repository = repo_is_thread_member"
  "cv_find_thread_access sqlx_conversation_repository = repo_find_thread_access"
  "cv_create_thread_message sqlx_conversation_repository = repo_create_thread_message"
  "cv_list_thread_messages sqlx_conversation_repository = repo_list_thread_messages"
  "cv_find_thread_message_by_id sqlx_conversation_repository = repo_find_thread_message_by_id"
  "cv_update_thread_message_content sqlx_conversation_repository = repo_update_thread_message_content"
  "cv_soft_delete_thread_message sqlx_conversation_repository = repo_soft_delete_thread_message"
  "cv_create_group_invite sqlx_conversation_repository = repo_create_group_invite"
  "cv_join_group_via_invite sqlx_conversation_repository = repo_join_group_via_invite"
  "cv_mark_thread_read sqlx_conversation_repository = repo_mark_thread_read"
  by (simp_all add: sqlx_conversation_repository_def)

lemma conv_ok_leave_group: "db_keeps conv_ok (leave_group (conversation_use_case simple) cmd)"
proof (rule keepsI)
  fix w :: world assume ok: "conv_ok (tables w)"
  then show "wp (leave_group (conversation_use_case simple) cmd) (\<lambda>_ w. conv_ok (tables w)) (\<lambda>_ w. conv_ok (tables w)) w"
    by (auto simp: leave_group_def repo_is_group_owner_def repo_remove_group_member_def
        delete_group_member_def Let_def intro!: conv_ok_leave)
qed

lemma conv_ok_mark_read: "db_keeps conv_ok (repo_mark_thread_read tid u last_read)"
  unfolding repo_mark_thread_read_def resolve_thread_last_read_message_id_def
  by (auto intro!: keeps_bnd keeps_case_option)

text \<open>The requests that change conversations, each with the use case that serves it.\<close>

datatype conversation_request =
    OpenDirect CreateDirectThreadCommand
  | AcceptDirect AcceptDirectThreadCommand
  | RejectDirect RejectDirectThreadCommand
  | CreateGroup CreateGroupThreadCommand
  | AddMember AddGroupMemberCommand
  | LeaveGroup LeaveGroupCommand
  | InviteToGroup CreateGroupInviteCommand
  | JoinGroup JoinGroupInviteCommand
  | SendMessage CreateThreadMessageCommand
  | EditMessage EditThreadMessageCommand
  | DeleteMessage DeleteThreadMessageCommand
  | MarkRead MarkThreadReadCommand
  | Befriend CreateFriendRequestCommand
  | AcceptFriend RespondFriendRequestCommand
  | RejectFriend RespondFriendRequestCommand

fun serve_conversation :: "(uuid \<Rightarrow> rstring) \<Rightarrow> conversation_request \<Rightarrow> world \<Rightarrow> world" where
  "serve_conversation simple (OpenDirect cmd) w = snd (create_direct_thread (conversation_use_case simple) cmd w)"
| "serve_conversation simple (AcceptDirect cmd) w = snd (accept_direct_thread (conversation_use_case simple) cmd w)"
| "serve_conversation simple (RejectDirect cmd) w = snd (reject_direct_thread (conversation_use_case simple) cmd w)"
| "serve_conversation simple (CreateGroup cmd) w = snd (create_group_thread (conversation_use_case simple) cmd w)"
| "serve_conversation simple (AddMember cmd) w = snd (add_group_member (conversation_use_case simple) cmd w)"
| "serve_conversation simple (LeaveGroup cmd) w = snd (leave_group (conversation_use_case simple) cmd w)"
| "serve_conversation simple (InviteToGroup cmd) w = snd (create_group_invite (conversation_use_case simple) cmd w)"
| "serve_conversation simple (JoinGroup cmd) w = snd (join_group_invite (conversation_use_case simple) cmd w)"
| "serve_conversation simple (SendMessage cmd) w = snd (create_thread_message (conversation_use_case simple) cmd w)"
| "serve_conversation simple (EditMessage cmd) w = snd (edit_thread_message (conversation_use_case simple) cmd w)"
| "serve_conversation simple (DeleteMessage cmd) w = snd (delete_thread_message (conversation_use_case simple) cmd w)"
| "serve_conversation simple (MarkRead cmd) w = snd (mark_thread_read (conversation_use_case simple) cmd w)"
| "serve_conversation simple (Befriend cmd) w = snd (create_friend_request sqlx_friendship_repository cmd w)"
| "serve_conversation simple (AcceptFriend cmd) w = snd (accept_friend_request sqlx_friendship_repository cmd w)"
| "serve_conversation simple (RejectFriend cmd) w = snd (reject_friend_request sqlx_friendship_repository cmd w)"

lemmas conversation_methods = repo_find_thread_access_def repo_is_thread_member_def
  repo_find_group_thread_for_member_def repo_is_group_owner_def repo_create_thread_message_def
  repo_find_thread_message_by_id_def repo_update_thread_message_content_def
  repo_soft_delete_thread_message_def repo_create_group_invite_def require_thread_member_def

lemmas friendship_methods = sqlx_friendship_repository_def repo_create_friend_request_def
  repo_accept_friend_request_def repo_reject_friend_request_def friend_summary_for_user_def

lemma conv_ok_open_direct: "db_keeps conv_ok (create_direct_thread (conversation_use_case simple) cd)"
proof (rule keepsI)
  fix w :: world assume "conv_ok (tables w)"
  then show "wp (create_direct_thread (conversation_use_case simple) cd) (\<lambda>_ w. conv_ok (tables w))
      (\<lambda>_ w. conv_ok (tables w)) w"
    using keeps_wp [OF conv_ok_create_or_get]
    by (cases "cd_user_id cd = cd_peer_user_id cd") (simp_all add: create_direct_thread_def)
qed

lemma conv_ok_direct_requests:
  "db_keeps conv_ok (accept_direct_thread (conversation_use_case simple) ad)"
  "db_keeps conv_ok (reject_direct_thread (conversation_use_case simple) rd)"
  unfolding accept_direct_thread_def reject_direct_thread_def
  by (auto intro!: keeps_bnd conv_ok_accept conv_ok_reject)

lemma conv_ok_group_requests:
  "db_keeps conv_ok (create_group_thread (conversation_use_case simple) cg)"
  "db_keeps conv_ok (add_group_member (conversation_use_case simple) ag)"
  "db_keeps conv_ok (create_group_invite (conversation_use_case simple) ci)"
  "db_keeps conv_ok (join_group_invite (conversation_use_case simple) jg)"
  unfolding create_group_thread_def add_group_member_def create_group_invite_def join_group_invite_def Let_def
  by (auto simp: conversation_methods intro!: keeps_bnd conv_ok_create_group conv_ok_add_member
      conv_ok_join_invite conv_ok_insert_invite)

lemma conv_ok_message_requests:
  "db_keeps conv_ok (create_thread_message (conversation_use_case simple) cm)"
  "db_keeps conv_ok (edit_thread_message (conversation_use_case simple) em)"
  "db_keeps conv_ok (delete_thread_message (conversation_use_case simple) dm)"
  "db_keeps conv_ok (mark_thread_read (conversation_use_case simple) mr)"
  unfolding create_thread_message_def edit_thread_message_def delete_thread_message_def mark_thread_read_def
  by (auto simp: conversation_methods intro!: keeps_bnd conv_ok_mark_read)

lemma conv_ok_friend_requests:
  "db_keeps conv_ok (create_friend_request sqlx_friendship_repository cf)"
  "db_keeps conv_ok (accept_friend_request sqlx_friendship_repository rf)"
  "db_keeps conv_ok (reject_friend_request sqlx_friendship_repository rf)"
  unfolding create_friend_request_def accept_friend_request_def reject_friend_request_def
  by (auto simp: friendship_methods intro!: keeps_bnd keeps_case_prod keeps_case_option db_keeps_transaction
      db_keeps_run_sql conv_ok_activate_pair)

lemmas conv_ok_services = conv_ok_open_direct conv_ok_direct_requests conv_ok_group_requests
  conv_ok_leave_group conv_ok_message_requests conv_ok_friend_requests

lemma conv_ok_serve: "conv_ok (tables w) \<Longrightarrow> conv_ok (tables (serve_conversation simple req w))"
  by (cases req) (simp_all add: conv_ok_services [THEN keepsD])

text \<open>
  C6: every sequence of requests, whatever fails on the way, keeps the conversation tables
  consistent: each unordered pair of users has at most one direct thread, which is active or has been
  asked for by one of the two; the members of a direct thread are exactly its pair; the owner of a
  group stays a member; no invite has been used more often than its cap.
\<close>

theorem conversation_invariant:
  assumes "conv_ok (tables w)"
  shows "conv_ok (tables (fold (serve_conversation simple) requests w))"
  using assms by (induction requests arbitrary: w) (simp_all add: conv_ok_serve)

definition person :: "uuid \<Rightarrow> UserRecord" where
  "person u = \<lparr>usr_id = u, usr_username = [97], usr_email = None, usr_password_hash = []\<rparr>"

definition quiet_world :: world where
  "quiet_world = \<lparr>clock = 0, uuid_at = (\<lambda>n. of_nat n + 100), drawn = 0, down = (\<lambda>_. False), issued = 0,
     sqlx_text = (\<lambda>_. ''error''), tables = empty_db\<lparr>users := [person 1, person 2, person 3]\<rparr>\<rparr>"

text \<open>User 1 has asked user 2 for a conversation.\<close>

definition asking_world :: world where
  "asking_world = quiet_world\<lparr>tables := (tables quiet_world)
     \<lparr>threads := [\<lparr>th_id = 9, th_kind = ''DIRECT'', th_name = None, th_owner_id = None,
        th_direct_a_user_id = Some 1, th_direct_b_user_id = Some 2, th_direct_status = ''PENDING'',
        th_requested_by = Some 1, th_accepted_at = None, th_created_at = 0\<rparr>],
      thread_members := [(9, 1), (9, 2)]\<rparr>\<rparr>"

lemma quiet_world_ok: "conv_ok (tables quiet_world)" "healthy quiet_world"
  by (simp_all add: conv_ok_def conv_keys_def conv_threads_def conv_members_def conv_invites_def
      quiet_world_def empty_db_def healthy_def)

lemma asking_world_ok: "conv_ok (tables asking_world)" "healthy asking_world"
  by (simp_all add: conv_ok_def conv_keys_def conv_threads_def conv_members_def conv_invites_def
      asking_world_def quiet_world_def empty_db_def healthy_def direct_shape_def founders_def is_direct_def)

theorem conversation_invariant_witness:
  "conv_ok (tables (fold (serve_conversation (\<lambda>u. [unat u]))
     [OpenDirect \<lparr>cd_user_id = 1, cd_peer_user_id = 2\<rparr>,
      OpenDirect \<lparr>cd_user_id = 2, cd_peer_user_id = 1\<rparr>] quiet_world))"
  by (rule conversation_invariant [OF quiet_world_ok(1)])

section \<open>The life of a direct thread\<close>

text \<open>The statements and methods that leave the rows of \<open>threads\<close> in place.\<close>

definition has_thread :: "thread_row \<Rightarrow> db \<Rightarrow> bool" where
  "has_thread t d \<longleftrightarrow> t \<in> set (threads d)"

lemma has_thread_statements [intro]:
  "preserves (has_thread r) (insert_direct_thread tid a b status rq acc)"
  "preserves (has_thread r) (insert_members_or_ignore tid us)"
  "preserves (has_thread r) (insert_group_thread tid name owner)"
  "preserves (has_thread r) (insert_thread_member tid u)"
  "preserves (has_thread r) (delete_group_member tid u)"
  "preserves (has_thread r) (insert_thread_message mid tid u content)"
  "preserves (has_thread r) (update_thread_message_query mid content)"
  "preserves (has_thread r) (soft_delete_thread_message_query mid)"
  "preserves (has_thread r) (insert_group_invite token tid u exp cap)"
  "preserves (has_thread r) (bump_group_invite token)"
  "preserves (has_thread r) (upsert_thread_read u tid last_read)"
  "preserves (has_thread r) (upsert_friend_request from to)"
  "preserves (has_thread r) (set_request_status hit st)"
  "preserves (has_thread r) (insert_friends_or_ignore a b)"
  by (rule preservesI, auto simp: has_thread_def insert_direct_thread_def insert_members_or_ignore_def
      insert_group_thread_def insert_thread_member_def delete_group_member_def insert_thread_message_def
      update_thread_message_query_def update_live_thread_message_def soft_delete_thread_message_query_def
      insert_group_invite_def bump_group_invite_def upsert_thread_read_def upsert_friend_request_def
      set_request_status_def insert_friends_or_ignore_def Let_def
      split: if_splits option.splits)+


lemma has_thread_services:
  "db_keeps (has_thread r) (create_direct_thread (conversation_use_case simple) cd)"
  "db_keeps (has_thread r) (create_group_thread (conversation_use_case simple) cg)"
  "db_keeps (has_thread r) (add_group_member (conversation_use_case simple) ag)"
  "db_keeps (has_thread r) (create_group_invite (conversation_use_case simple) ci)"
  "db_keeps (has_thread r) (join_group_invite (conversation_use_case simple) jg)"
  "db_keeps (has_thread r) (leave_group (conversation_use_case simple) lg)"
  "db_keeps (has_thread r) (create_thread_message (conversation_use_case simple) cm)"
  "db_keeps (has_thread r) (edit_thread_message (conversation_use_case simple) em)"
  "db_keeps (has_thread r) (delete_thread_message (conversation_use_case simple) dm)"
  "db_keeps (has_thread r) (mark_thread_read (conversation_use_case simple) mr)"
  "db_keeps (has_thread r) (create_friend_request sqlx_friendship_repository cf)"
  "db_keeps (has_thread r) (reject_friend_request sqlx_friendship_repository rf)"
  by (auto simp: create_direct_thread_def create_group_thread_def add_group_member_def create_group_invite_def
      join_group_invite_def leave_group_def create_thread_message_def edit_thread_message_def
      delete_thread_message_def mark_thread_read_def create_friend_request_def reject_friend_request_def
      conversation_methods friendship_methods repo_create_or_get_direct_thread_def
      ensure_direct_membership_def direct_summary_for_member_def repo_create_group_thread_def
      repo_add_group_member_def repo_join_group_via_invite_def repo_remove_group_member_def
      repo_mark_thread_read_def resolve_thread_last_read_message_id_def Let_def
      intro!: keeps_bnd keeps_case_prod keeps_case_option db_keeps_transaction db_keeps_run_sql keeps_if)

text \<open>The other member of a pending pair, who decides about the request.\<close>

definition decides :: "uuid \<Rightarrow> thread_row \<Rightarrow> bool" where
  "decides u t \<longleftrightarrow> th_direct_status t = ''PENDING'' \<and> u \<in> founders t \<and> th_requested_by t \<noteq> Some u"

lemma lock_cases:
  assumes "conv_ok d" and "select_direct_thread_state tid u d = Some row"
    and "ds_direct_status row = ''PENDING''" and "ds_requested_by row \<noteq> Some u"
  shows "ds_id row = tid \<and> (\<exists>t\<in>set (threads d). th_id t = tid \<and> th_kind t = ''DIRECT'' \<and> decides u t)"
  using assms conv_ok_parts(3) [OF assms(1)]
  by (fastforce simp: select_direct_thread_state_def conv_members_def decides_def dest!: find_in_set)

lemma accept_direct_effect:
  assumes ok: "conv_ok (tables w)" and d': "d' = tables (snd (accept_direct_thread (conversation_use_case simple) cmd w))"
  shows "d' = tables w \<or>
    (\<exists>t\<in>set (threads (tables w)). th_id t = ad_thread_id cmd \<and> th_kind t = ''DIRECT'' \<and> decides (ad_user_id cmd) t) \<and>
    threads d' = update_where (\<lambda>r. th_id r = ad_thread_id cmd)
      (\<lambda>r. r\<lparr>th_direct_status := ''ACTIVE'', th_accepted_at := Some (clock w)\<rparr>) (threads (tables w))"
  (is "?P d'")
proof -
  have "wp (accept_direct_thread (conversation_use_case simple) cmd) (\<lambda>_ w'. ?P (tables w')) (\<lambda>_ w'. ?P (tables w')) w"
    using lock_cases [OF ok]
    by (auto simp: accept_direct_thread_def repo_accept_direct_thread_request_def lock_direct_thread_for_member_def
        activate_thread_def split: sum.split option.split)
  then show ?thesis unfolding d' by (simp add: wp_snd)
qed

lemma reject_direct_effect:
  assumes ok: "conv_ok (tables w)" and d': "d' = tables (snd (reject_direct_thread (conversation_use_case simple) cmd w))"
  shows "d' = tables w \<or>
    (\<exists>t\<in>set (threads (tables w)). th_id t = rd_thread_id cmd \<and> th_kind t = ''DIRECT'' \<and> decides (rd_user_id cmd) t) \<and>
    threads d' = filter (\<lambda>r. th_id r \<noteq> rd_thread_id cmd) (threads (tables w))"
  (is "?P d'")
proof -
  have "wp (reject_direct_thread (conversation_use_case simple) cmd) (\<lambda>_ w'. ?P (tables w')) (\<lambda>_ w'. ?P (tables w')) w"
    using lock_cases [OF ok]
    by (auto simp: reject_direct_thread_def repo_reject_direct_thread_request_def lock_direct_thread_for_member_def
        delete_thread_def Let_def split: sum.split option.split)
  then show ?thesis unfolding d' by (simp add: wp_snd)
qed


lemma update_where_hit: "t \<in> set rows \<Longrightarrow> p t \<Longrightarrow> t' = f t \<Longrightarrow> t' \<in> set (update_where p f rows)"
  by (auto simp: set_update_where image_iff intro: bexI [of _ t])

lemma update_where_miss: "t \<in> set rows \<Longrightarrow> \<not> p t \<Longrightarrow> t \<in> set (update_where p f rows)"
  by (auto simp: set_update_where image_iff intro: bexI [of _ t])

definition befriended :: "uuid \<Rightarrow> uuid \<Rightarrow> thread_row \<Rightarrow> db \<Rightarrow> bool" where
  "befriended u v t d \<longleftrightarrow> th_direct_status t = ''PENDING'' \<and> {u, v} = founders t \<and>
     (\<exists>at. t\<lparr>th_direct_status := ''ACTIVE'', th_accepted_at := Some at\<rparr> \<in> set (threads d))"

lemma activate_pair_effect:
  assumes t: "t \<in> set (threads d)" and q: "activate_pair_thread a b now d = Inr (x, d')"
    and ab: "sort_pair v u = (a, b)"
  shows "t \<in> set (threads d') \<or> befriended u v t d'"
proof -
  let ?p = "\<lambda>r. th_kind r = ''DIRECT'' \<and> th_direct_a_user_id r = Some a \<and> th_direct_b_user_id r = Some b \<and>
      th_direct_status r = ''PENDING''"
  have uv: "{a, b} = {u, v}"
    using ab by (auto simp: sort_pair_def split: if_splits)
  have d': "threads d' = update_where ?p
      (\<lambda>r. r\<lparr>th_direct_status := ''ACTIVE'',
             th_accepted_at := Some (case th_accepted_at r of Some x \<Rightarrow> x | None \<Rightarrow> now)\<rparr>) (threads d)"
    using q by (auto simp: activate_pair_thread_def)
  show ?thesis
  proof (cases "?p t")
    case True
    then have "founders t = {a, b}" by (auto simp: founders_def)
    moreover have "t\<lparr>th_direct_status := ''ACTIVE'',
        th_accepted_at := Some (case th_accepted_at t of Some x \<Rightarrow> x | None \<Rightarrow> now)\<rparr> \<in> set (threads d')"
      unfolding d' by (rule update_where_hit [OF t]) (use True in simp_all)
    ultimately show ?thesis using True uv unfolding befriended_def by blast
  next
    case False
    from update_where_miss [OF t, of ?p, OF False] show ?thesis by (simp add: d')
  qed
qed

definition waits_or_befriended :: "uuid \<Rightarrow> uuid \<Rightarrow> thread_row \<Rightarrow> db \<Rightarrow> bool" where
  "waits_or_befriended u v t d \<longleftrightarrow> t \<in> set (threads d) \<or> befriended u v t d"

lemma waits_or_befriended_same [intro]:
  "preserves (waits_or_befriended u v t) (set_request_status hit st)"
  "preserves (waits_or_befriended u v t) (insert_friends_or_ignore a b)"
  by (auto simp: preserves_def waits_or_befriended_def befriended_def set_request_status_def
      insert_friends_or_ignore_def split: if_splits)

lemma waits_or_befriended_activate:
  assumes ab: "sort_pair v u = (a, b)"
  shows "preserves (waits_or_befriended u v t) (activate_pair_thread a b)"
proof (rule preservesI)
  fix now d x d' assume q: "activate_pair_thread a b now d = Inr (x, d')" and pre: "waits_or_befriended u v t d"
  from pre consider "t \<in> set (threads d)" | at where "th_direct_status t = ''PENDING''" "{u, v} = founders t"
      "t\<lparr>th_direct_status := ''ACTIVE'', th_accepted_at := Some at\<rparr> \<in> set (threads d)"
    by (auto simp: waits_or_befriended_def befriended_def)
  then show "waits_or_befriended u v t d'"
  proof cases
    case 1
    from activate_pair_effect [OF this q ab] show ?thesis by (simp add: waits_or_befriended_def)
  next
    case 2
    have "t\<lparr>th_direct_status := ''ACTIVE'', th_accepted_at := Some at\<rparr> \<in> set (threads d')"
      using q update_where_miss [OF 2(3)] by (auto simp: activate_pair_thread_def)
    with 2 show ?thesis by (auto simp: waits_or_befriended_def befriended_def)
  qed
qed

lemma accept_friend_effect:
  assumes t: "t \<in> set (threads (tables w))"
    and d': "d' = tables (snd (accept_friend_request sqlx_friendship_repository cmd w))"
  shows "t \<in> set (threads d') \<or> befriended (rfr_user_id cmd) (rfr_from_user_id cmd) t d'"
proof -
  have "db_keeps (waits_or_befriended (rfr_user_id cmd) (rfr_from_user_id cmd) t)
      (accept_friend_request sqlx_friendship_repository cmd)"
    unfolding accept_friend_request_def
    by (auto simp: friendship_methods intro!: keeps_bnd keeps_case_prod keeps_case_option db_keeps_transaction
        db_keeps_run_sql waits_or_befriended_activate)
  from keepsD [OF this, of w] t show ?thesis by (simp add: d' waits_or_befriended_def)
qed

lemma accept_direct_life:
  assumes ok: "conv_ok (tables w)" and t: "t \<in> set (threads (tables w))"
    and d: "d' = tables (snd (accept_direct_thread (conversation_use_case simple) cmd w))"
  shows "t \<in> set (threads d') \<or> th_direct_status t = ''PENDING'' \<and> ad_thread_id cmd = th_id t \<and>
    decides (ad_user_id cmd) t \<and>
    (\<exists>at. t\<lparr>th_direct_status := ''ACTIVE'', th_accepted_at := Some at\<rparr> \<in> set (threads d'))"
proof (cases "th_id t = ad_thread_id cmd")
  case True
  have "t\<lparr>th_direct_status := ''ACTIVE'', th_accepted_at := Some (clock w)\<rparr> \<in>
      set (update_where (\<lambda>r. th_id r = ad_thread_id cmd)
        (\<lambda>r. r\<lparr>th_direct_status := ''ACTIVE'', th_accepted_at := Some (clock w)\<rparr>) (threads (tables w)))"
    by (rule update_where_hit [OF t]) (simp_all add: True)
  moreover have "decides (ad_user_id cmd) t"
    if "\<exists>r\<in>set (threads (tables w)). th_id r = ad_thread_id cmd \<and> th_kind r = ''DIRECT'' \<and> decides (ad_user_id cmd) r"
    using that one_thread [OF conv_ok_parts(1) [OF ok] _ t] True by metis
  ultimately show ?thesis
    using accept_direct_effect [OF ok d] t True by (auto simp: decides_def)
next
  case False
  from update_where_miss [OF t, of "\<lambda>r. th_id r = ad_thread_id cmd", OF False]
  show ?thesis using accept_direct_effect [OF ok d] t by auto
qed

lemma reject_direct_life:
  assumes ok: "conv_ok (tables w)" and t: "t \<in> set (threads (tables w))"
    and d: "d' = tables (snd (reject_direct_thread (conversation_use_case simple) cmd w))"
  shows "t \<in> set (threads d') \<or> th_direct_status t = ''PENDING'' \<and> rd_thread_id cmd = th_id t \<and>
    decides (rd_user_id cmd) t \<and> th_id t \<notin> th_id ` set (threads d')"
proof (cases "th_id t = rd_thread_id cmd")
  case True
  have "th_id t \<notin> th_id ` set (filter (\<lambda>r. th_id r \<noteq> rd_thread_id cmd) (threads (tables w)))"
    using True by auto
  moreover have "decides (rd_user_id cmd) t"
    if "\<exists>r\<in>set (threads (tables w)). th_id r = rd_thread_id cmd \<and> th_kind r = ''DIRECT'' \<and> decides (rd_user_id cmd) r"
    using that one_thread [OF conv_ok_parts(1) [OF ok] _ t] True by metis
  ultimately show ?thesis
    using reject_direct_effect [OF ok d] t True by (auto simp: decides_def)
next
  case False
  with reject_direct_effect [OF ok d] t show ?thesis by auto
qed

text \<open>
  C7: the life of a direct thread.  A request leaves it as it is, or it was pending and the request
  is one of three: the user who was asked accepts it, or accepts the friend request of the pair, and
  it becomes active; or the user who was asked rejects it, and it is gone.  An active thread stays
  as it is for ever, and nobody accepts or rejects a conversation that they asked for.
\<close>

theorem direct_thread_life:
  assumes ok: "conv_ok (tables w)" and t: "t \<in> set (threads (tables w))" "th_kind t = ''DIRECT''"
    and w': "w' = serve_conversation simple req w"
  shows "t \<in> set (threads (tables w')) \<or> th_direct_status t = ''PENDING'' \<and>
    (case req of
       AcceptDirect cmd \<Rightarrow> ad_thread_id cmd = th_id t \<and> decides (ad_user_id cmd) t \<and>
         (\<exists>at. t\<lparr>th_direct_status := ''ACTIVE'', th_accepted_at := Some at\<rparr> \<in> set (threads (tables w')))
     | RejectDirect cmd \<Rightarrow> rd_thread_id cmd = th_id t \<and> decides (rd_user_id cmd) t \<and>
         th_id t \<notin> th_id ` set (threads (tables w'))
     | AcceptFriend cmd \<Rightarrow> {rfr_user_id cmd, rfr_from_user_id cmd} = founders t \<and>
         (\<exists>at. t\<lparr>th_direct_status := ''ACTIVE'', th_accepted_at := Some at\<rparr> \<in> set (threads (tables w')))
     | _ \<Rightarrow> False)"
proof -
  have "has_thread t (tables w)" using t by (simp add: has_thread_def)
  note same = has_thread_services [THEN keepsD, OF this, unfolded has_thread_def]
  show ?thesis
  proof (cases req)
    case (AcceptDirect cmd)
    with accept_direct_life [OF ok t(1) refl, of simple cmd] show ?thesis by (simp add: w')
  next
    case (RejectDirect cmd)
    with reject_direct_life [OF ok t(1) refl, of simple cmd] show ?thesis by (simp add: w')
  next
    case (AcceptFriend cmd)
    then show ?thesis using accept_friend_effect [OF t(1) refl, of cmd] w' by (auto simp: befriended_def)
  qed (simp_all add: w' same)
qed

theorem direct_thread_life_witness:
  "\<exists>at. (hd (threads (tables asking_world)))\<lparr>th_direct_status := ''ACTIVE'', th_accepted_at := Some at\<rparr> \<in>
     set (threads (tables (serve_conversation (\<lambda>u. []) (AcceptDirect \<lparr>ad_user_id = 2, ad_thread_id = 9\<rparr>) asking_world)))
   \<and> hd (threads (tables asking_world)) \<in>
     set (threads (tables (serve_conversation (\<lambda>u. []) (AcceptDirect \<lparr>ad_user_id = 1, ad_thread_id = 9\<rparr>) asking_world)))"
proof -
  let ?t = "hd (threads (tables asking_world))"
  have t: "?t \<in> set (threads (tables asking_world))" "th_kind ?t = ''DIRECT''" "\<not> decides 1 ?t"
    by (simp_all add: asking_world_def decides_def)
  have acc: "?t \<notin> set (threads (tables (serve_conversation (\<lambda>u. [])
      (AcceptDirect \<lparr>ad_user_id = 2, ad_thread_id = 9\<rparr>) asking_world)))"
    by code_simp
  show ?thesis
    using direct_thread_life [OF asking_world_ok(1) t(1,2) refl, of "\<lambda>u. []" "AcceptDirect \<lparr>ad_user_id = 2, ad_thread_id = 9\<rparr>"]
      direct_thread_life [OF asking_world_ok(1) t(1,2) refl, of "\<lambda>u. []" "AcceptDirect \<lparr>ad_user_id = 1, ad_thread_id = 9\<rparr>"]
      acc t(3) by simp
qed

section \<open>Sending to a thread\<close>





end
