(* ===== verification/Guild_Proofs.thy ===== *)
theory Guild_Proofs
  imports Guild_Service
begin

text \<open>
  What the guild component promises: the invariant of its tables and that every request keeps it, the
  meaning of the permission resolution bit by bit, what leaving does and what an interrupted leave
  leaves behind.
\<close>

section \<open>The invariant\<close>

definition default_role :: "uuid \<Rightarrow> role_row \<Rightarrow> bool" where
  "default_role g r \<longleftrightarrow> role_guild_id r = g \<and> role_is_default r"

text \<open>Keys are unique, and links point to rows that exist.\<close>

definition guild_keys :: "db \<Rightarrow> bool" where
  "guild_keys d \<longleftrightarrow> distinct (map guild_id (guilds d)) \<and> distinct (map cha_id (channels d)) \<and>
     distinct (map role_id (roles d)) \<and> distinct (guild_members d) \<and> distinct (member_roles d) \<and>
     distinct (map gir_token (guild_invites d))"

definition guild_links :: "db \<Rightarrow> bool" where
  "guild_links d \<longleftrightarrow>
     (\<forall>(g, u)\<in>set (guild_members d). g \<in> guild_id ` set (guilds d) \<and> u \<in> usr_id ` set (users d)) \<and>
     (\<forall>c\<in>set (channels d). cha_guild_id c \<in> guild_id ` set (guilds d)) \<and>
     (\<forall>r\<in>set (roles d). role_guild_id r \<in> guild_id ` set (guilds d)) \<and>
     (\<forall>(g, u, rid)\<in>set (member_roles d). \<exists>r\<in>set (roles d). role_id r = rid \<and> role_guild_id r = g) \<and>
     (\<forall>i\<in>set (guild_invites d). gir_guild_id i \<in> guild_id ` set (guilds d))"

text \<open>
  Every guild has exactly one default role, its owner is a member, every member holds the role, and
  the only permissions that the program ever grants to a role are those to view and to send.
\<close>

definition guild_roles :: "db \<Rightarrow> bool" where
  "guild_roles d \<longleftrightarrow>
     (\<forall>g\<in>set (guilds d). \<exists>r. filter (default_role (guild_id g)) (roles d) = [r]) \<and>
     (\<forall>g\<in>set (guilds d). (guild_id g, guild_owner_id g) \<in> set (guild_members d)) \<and>
     (\<forall>(g, u)\<in>set (guild_members d). \<forall>r\<in>set (roles d).
        default_role g r \<longrightarrow> (g, u, role_id r) \<in> set (member_roles d)) \<and>
     (\<forall>r\<in>set (roles d). role_permissions r = VIEW_CHANNEL OR SEND_MESSAGES)"

text \<open>The channels of a guild have distinct positions and distinct names.\<close>

definition guild_channels :: "db \<Rightarrow> bool" where
  "guild_channels d \<longleftrightarrow>
     (\<forall>c\<in>set (channels d). \<forall>c'\<in>set (channels d). cha_guild_id c = cha_guild_id c' \<longrightarrow>
        (cha_position c = cha_position c' \<or> cha_name c = cha_name c') \<longrightarrow> c = c') \<and>
     (\<forall>c\<in>set (channels d). 0 \<le> cha_position c)"

definition guild_invites_ok :: "db \<Rightarrow> bool" where
  "guild_invites_ok d \<longleftrightarrow> (\<forall>i\<in>set (guild_invites d). 0 \<le> gir_uses_count i \<and>
     (case gir_max_uses i of None \<Rightarrow> True | Some m \<Rightarrow> 0 < m \<and> gir_uses_count i \<le> m))"

definition guild_ok :: "db \<Rightarrow> bool" where
  "guild_ok d \<longleftrightarrow> guild_keys d \<and> guild_links d \<and> guild_roles d \<and> guild_channels d \<and> guild_invites_ok d"

lemma filter_singleton:
  assumes "filter P xs = [r]" and "x \<in> set xs" and "P x"
  shows "x = r"
proof -
  have "x \<in> set (filter P xs)" using assms(2,3) by simp
  then show ?thesis by (simp add: assms(1))
qed

section \<open>The shapes of the updates\<close>

definition with_guild :: "GuildSummary \<Rightarrow> uuid \<Rightarrow> db \<Rightarrow> db" where
  "with_guild g rid d =
     d\<lparr>guilds := guilds d @ [g],
       guild_members := guild_members d @ [(guild_id g, guild_owner_id g)],
       roles := roles d @ [\<lparr>role_id = rid, role_guild_id = guild_id g,
                 role_permissions = VIEW_CHANNEL OR SEND_MESSAGES, role_is_default = True\<rparr>],
       member_roles := member_roles d @ [(guild_id g, guild_owner_id g, rid)]\<rparr>"

definition with_member :: "uuid \<Rightarrow> uuid \<Rightarrow> uuid \<Rightarrow> db \<Rightarrow> db" where
  "with_member g u rid d =
     d\<lparr>guild_members := guild_members d @ [(g, u)], member_roles := member_roles d @ [(g, u, rid)]\<rparr>"

lemma with_guild_ok:
  assumes "guild_ok d" and "guild_id g \<notin> guild_id ` set (guilds d)"
    and "guild_owner_id g \<in> usr_id ` set (users d)" and "rid \<notin> role_id ` set (roles d)"
  shows "guild_ok (with_guild g rid d)"
proof -
  have "(guild_id g, guild_owner_id g) \<notin> set (guild_members d)"
    "(guild_id g, guild_owner_id g, rid) \<notin> set (member_roles d)"
    using assms by (auto simp: guild_ok_def guild_links_def)
  then have "guild_keys (with_guild g rid d)"
    using assms by (auto simp: guild_ok_def guild_keys_def with_guild_def)
  moreover have "guild_links (with_guild g rid d)"
    using assms by (auto simp: guild_ok_def guild_links_def with_guild_def)
  moreover have "guild_roles (with_guild g rid d)"
  proof -
    have gr: "guild_roles d" "guild_links d" using assms(1) by (simp_all add: guild_ok_def)
    then have "role_guild_id r \<noteq> guild_id g" if "r \<in> set (roles d)" for r
      using that assms(2) unfolding guild_links_def by metis
    then have none: "filter (default_role (guild_id g)) (roles d) = []"
      by (auto simp: default_role_def filter_empty_conv)
    from gr show ?thesis
      using assms(2,4) none
      by (auto simp: guild_roles_def guild_links_def with_guild_def default_role_def filter_empty_conv)
  qed
  moreover have "guild_channels (with_guild g rid d)" "guild_invites_ok (with_guild g rid d)"
    using assms(1) by (simp_all add: guild_ok_def guild_channels_def guild_invites_ok_def with_guild_def)
  ultimately show ?thesis by (simp add: guild_ok_def)
qed

lemma with_member_ok:
  assumes "guild_ok d" and "(g, u) \<notin> set (guild_members d)" and "g \<in> guild_id ` set (guilds d)"
    and "u \<in> usr_id ` set (users d)" and "(g, u, rid) \<notin> set (member_roles d)"
    and rid: "\<exists>r\<in>set (roles d). default_role g r \<and> role_id r = rid"
  shows "guild_ok (with_member g u rid d)"
proof -
  obtain r where r: "r \<in> set (roles d)" "default_role g r" "role_id r = rid"
    using rid by blast
  have "guild_keys (with_member g u rid d)"
    using assms by (auto simp: guild_ok_def guild_keys_def with_member_def)
  moreover have "guild_links (with_member g u rid d)"
    using assms by (auto simp: guild_ok_def guild_links_def with_member_def default_role_def)
  moreover have "guild_roles (with_member g u rid d)"
  proof -
    have gr: "guild_roles d" using assms(1) by (simp add: guild_ok_def)
    then obtain r' where "filter (default_role g) (roles d) = [r']"
      using assms(3) by (auto simp: guild_roles_def)
    then have "\<And>x. x \<in> set (roles d) \<Longrightarrow> default_role g x \<Longrightarrow> x = r"
      using r(1,2) filter_singleton by metis
    with gr r(3) show ?thesis
      by (auto simp: guild_roles_def with_member_def)
  qed
  moreover have "guild_channels (with_member g u rid d)" "guild_invites_ok (with_member g u rid d)"
    using assms(1) by (simp_all add: guild_ok_def guild_channels_def guild_invites_ok_def with_member_def)
  ultimately show ?thesis by (simp add: guild_ok_def)
qed


section \<open>The operations keep the invariant\<close>

lemma guild_ok_tables:
  "guild_ok d \<Longrightarrow> guild_keys d" "guild_ok d \<Longrightarrow> guild_links d" "guild_ok d \<Longrightarrow> guild_roles d"
  "guild_ok d \<Longrightarrow> guild_channels d" "guild_ok d \<Longrightarrow> guild_invites_ok d"
  by (simp_all add: guild_ok_def)

lemma guild_ok_repo_create_guild: "db_keeps guild_ok (repo_create_guild owner name)"
  unfolding repo_create_guild_def
proof (rule transaction_keepsI)
  fix w :: world assume ok: "guild_ok (tables w)"
  let ?d = "tables w"
  show "wp (bnd new_v4 (\<lambda>gid. bnd (sql (insert_guild gid name owner)) (\<lambda>guild.
     bnd (sql (insert_guild_member (guild_id guild) owner)) (\<lambda>_.
     bnd (create_default_role (guild_id guild)) (\<lambda>rid.
     bnd (attach_default_role_to_member (guild_id guild) owner rid) (\<lambda>_.
     commit guild))))))
     (\<lambda>x w'. case x of Commit _ \<Rightarrow> guild_ok (tables w') | Dropped _ \<Rightarrow> True) (\<lambda>_ _. True) w"
    using with_guild_ok [OF ok, of "\<lparr>guild_id = uuid_at w (drawn w), guild_name = name,
        guild_owner_id = owner, guild_created_at = clock w\<rparr>" "uuid_at w (Suc (drawn w))"]
    by (auto simp: create_default_role_def attach_default_role_to_member_def insert_guild_def
        insert_guild_member_def insert_default_role_def insert_member_role_def Let_def with_guild_def)
qed

lemma find_default_role:
  "find (\<lambda>r. role_guild_id r = g \<and> role_is_default r) rs = Some r \<Longrightarrow> r \<in> set rs \<and> default_role g r"
  by (auto simp: default_role_def dest: find_in_set)

text \<open>The common tail of the two ways to join: the default role of a new member.\<close>

lemma guild_ok_repo_add_member: "db_keeps guild_ok (repo_add_member g u)"
  unfolding repo_add_member_def
proof (rule transaction_keepsI)
  fix w :: world assume ok: "guild_ok (tables w)"
  show "wp (bnd (run_sql add_member_error (insert_guild_member g u)) (\<lambda>_.
     bnd (default_role_id g) (\<lambda>rid. bnd (attach_default_role_to_member g u rid) (\<lambda>_. commit ()))))
     (\<lambda>x w'. case x of Commit _ \<Rightarrow> guild_ok (tables w') | Dropped _ \<Rightarrow> True) (\<lambda>_ _. True) w"
    using with_member_ok [OF ok]
    by (auto simp: default_role_id_def attach_default_role_to_member_def
        insert_guild_member_def insert_member_role_def with_member_def
        dest!: find_default_role split: option.splits)
qed


lemma guild_ok_delete_member:
  assumes ok: "guild_ok d" and owner: "\<forall>x\<in>set (guilds d). guild_id x = g \<longrightarrow> guild_owner_id x \<noteq> u"
  shows "guild_ok (d\<lparr>guild_members := filter (\<lambda>m. m \<noteq> (g, u)) (guild_members d)\<rparr>)"
  using assms unfolding guild_ok_def guild_keys_def guild_links_def guild_roles_def guild_channels_def
    guild_invites_ok_def by auto

lemma guild_ok_delete_roles:
  assumes ok: "guild_ok d" and gone: "(g, u) \<notin> set (guild_members d)"
  shows "guild_ok (d\<lparr>member_roles := filter (\<lambda>(g', u', r). \<not> (g' = g \<and> u' = u)) (member_roles d)\<rparr>)"
  using assms unfolding guild_ok_def guild_keys_def guild_links_def guild_roles_def guild_channels_def
    guild_invites_ok_def by auto

lemma guild_ok_leave_guild: "db_keeps guild_ok (leave_guild (guild_use_case simple) cmd)"
proof (rule keepsI)
  fix w :: world assume ok: "guild_ok (tables w)"
  let ?g = "lg_guild_id cmd" and ?u = "lg_user_id cmd"
  let ?d = "tables w\<lparr>guild_members := filter (\<lambda>m. m \<noteq> (?g, ?u)) (guild_members (tables w))\<rparr>"
  have "guild_ok ?d" if "\<forall>x\<in>set (guilds (tables w)). guild_id x = ?g \<longrightarrow> guild_owner_id x \<noteq> ?u"
    using guild_ok_delete_member [OF ok that] .
  moreover from this guild_ok_delete_roles [of ?d ?g ?u]
  have "guild_ok (?d\<lparr>member_roles := filter (\<lambda>(g', u', r). \<not> (g' = ?g \<and> u' = ?u)) (member_roles ?d)\<rparr>)"
    if "\<forall>x\<in>set (guilds (tables w)). guild_id x = ?g \<longrightarrow> guild_owner_id x \<noteq> ?u"
    using that by simp
  ultimately show "wp (leave_guild (guild_use_case simple) cmd) (\<lambda>_ w. guild_ok (tables w))
      (\<lambda>_ w. guild_ok (tables w)) w"
    using ok by (auto simp: leave_guild_def guild_use_case_def sqlx_guild_repository_def
        repo_is_guild_owner_def repo_remove_member_def delete_guild_member_def delete_member_roles_def)
qed

lemma max_position_ge: "c \<in> set (channels d) \<Longrightarrow> cha_guild_id c = g \<Longrightarrow> cha_position c \<le> max_position g d"
  by (auto simp: max_position_def Let_def filter_empty_conv)

lemma max_position_bound:
  assumes "guild_channels d"
  shows "-1 \<le> max_position g d"
proof (cases "\<exists>c\<in>set (channels d). cha_guild_id c = g")
  case True
  then obtain c where "c \<in> set (channels d)" "cha_guild_id c = g" by blast
  then show ?thesis
    using assms max_position_ge [of c d g] by (fastforce simp: guild_channels_def)
next
  case False
  then show ?thesis by (simp add: max_position_def filter_empty_conv)
qed

lemma guild_ok_repo_create_channel: "db_keeps guild_ok (repo_create_channel g name)"
  unfolding repo_create_channel_def
proof (rule transaction_keepsI)
  fix w :: world assume ok: "guild_ok (tables w)"
  let ?d = "tables w"
  have new: "guild_ok (?d\<lparr>channels := channels ?d @ [c]\<rparr>)"
    if "cha_id c \<notin> cha_id ` set (channels ?d)"
      "\<not> (\<exists>x\<in>set (channels ?d). cha_guild_id x = cha_guild_id c \<and> cha_name x = cha_name c)"
      "cha_guild_id c \<in> guild_id ` set (guilds ?d)" "cha_position c = max_position (cha_guild_id c) ?d + 1" for c
  proof -
    have "guild_channels (?d\<lparr>channels := channels ?d @ [c]\<rparr>)"
      using that(2,4) guild_ok_tables(4) [OF ok] max_position_ge [of _ ?d "cha_guild_id c"]
        max_position_bound [of ?d "cha_guild_id c"]
      by (fastforce simp: guild_channels_def)
    then show ?thesis
      using ok that by (auto simp: guild_ok_def guild_keys_def guild_links_def guild_roles_def guild_invites_ok_def)
  qed
  show "wp (bnd (next_channel_position g) (\<lambda>pos. bnd new_v4 (\<lambda>cid.
     bnd (run_sql create_channel_error (insert_channel cid g name pos)) (\<lambda>channel. commit channel))))
     (\<lambda>x w'. case x of Commit _ \<Rightarrow> guild_ok (tables w') | Dropped _ \<Rightarrow> True) (\<lambda>_ _. True) w"
    using new [of "\<lparr>cha_id = uuid_at w (drawn w), cha_guild_id = g, cha_name = name, cha_type = ''TEXT'',
                 cha_position = max_position g ?d + 1, cha_created_at = clock w\<rparr>"]
    by (auto simp: next_channel_position_def select_next_position_def insert_channel_def Let_def)
qed


lemma guild_ok_insert_invite: "preserves guild_ok (insert_guild_invite token g by exp max_uses)"
  by (rule preservesI)
     (auto simp: insert_guild_invite_def guild_ok_def guild_keys_def guild_links_def guild_roles_def
       guild_channels_def guild_invites_ok_def split: if_splits option.splits)

lemma guild_ok_bump:
  assumes ok: "guild_ok d" and q: "bump_guild_invite token t d = Inr (x, d')"
  shows "guild_ok d'"
proof -
  let ?f = "\<lambda>i. i\<lparr>gir_uses_count := gir_uses_count i + 1\<rparr>"
  have d': "d' = d\<lparr>guild_invites := update_where (\<lambda>i. gir_token i = token) ?f (guild_invites d)\<rparr>"
    and cap: "\<forall>i\<in>set (guild_invites d). gir_token i = token \<longrightarrow>
      \<not> (case gir_max_uses i of None \<Rightarrow> False | Some m \<Rightarrow> m < gir_uses_count i + 1)"
    using q by (auto simp: bump_guild_invite_def split: if_splits)
  have "map gir_token (update_where (\<lambda>i. gir_token i = token) ?f (guild_invites d)) =
      map gir_token (guild_invites d)"
    by (rule update_where_map) simp
  then have "guild_keys d'" using ok by (simp add: d' guild_ok_def guild_keys_def)
  moreover have "guild_links d'"
    using ok by (auto simp: d' guild_ok_def guild_links_def set_update_where)
  moreover have "guild_invites_ok d'"
    using ok cap by (auto simp: d' guild_ok_def guild_invites_ok_def set_update_where split: option.splits)
  ultimately show ?thesis
    using ok by (simp add: d' guild_ok_def guild_roles_def guild_channels_def)
qed

lemma select_guild_invite_guild:
  "select_guild_invite token d = Some j \<Longrightarrow> guild_id (jg_guild j) \<in> guild_id ` set (guilds d)"
  by (auto simp: select_guild_invite_def bind_eq_Some_conv dest: find_in_set)

lemma guild_ok_repo_join_guild_via_invite: "db_keeps guild_ok (repo_join_guild_via_invite token u)"
  unfolding repo_join_guild_via_invite_def
proof (rule transaction_keepsI, goal_cases)
  case (1 w)
  note joined = with_member_ok [OF 1, unfolded with_member_def]
  from 1 show ?case
    by (auto simp: default_role_id_def attach_default_role_to_member_def Let_def
        insert_guild_member_or_ignore_def insert_member_role_def
        dest!: find_default_role select_guild_invite_guild
        intro!: guild_ok_bump [OF joined] split: option.splits sum.splits)
qed

lemma guild_use_case_fields [simp]:
  "guild_repo (guild_use_case simple) = sqlx_guild_repository"
  "rt_now_utc (guild_runtime (guild_use_case simple)) = now_utc"
  "rt_new_v4 (guild_runtime (guild_use_case simple)) = new_v4"
  by (simp_all add: guild_use_case_def sqlx_runtime_def)

lemma guild_repository_fields [simp]:
  "gr_create_guild sqlx_guild_repository = repo_create_guild"
  "gr_find_guild_for_member sqlx_guild_repository = repo_find_guild_for_member"
  "gr_guild_exists sqlx_guild_repository = repo_guild_exists"
  "gr_add_member sqlx_guild_repository = repo_add_member"
  "gr_remove_member sqlx_guild_repository = repo_remove_member"
  "gr_is_guild_owner sqlx_guild_repository = repo_is_guild_owner"
  "gr_create_channel sqlx_guild_repository = repo_create_channel"
  "gr_create_guild_invite sqlx_guild_repository = repo_create_guild_invite"
  "gr_join_guild_via_invite sqlx_guild_repository = repo_join_guild_via_invite"
  "gr_list_guilds_for_user sqlx_guild_repository = repo_list_guilds_for_user"
  "gr_list_channels_for_member sqlx_guild_repository = repo_list_channels_for_member"
  "gr_find_channel_for_member sqlx_guild_repository = repo_find_channel_for_member"
  by (simp_all add: sqlx_guild_repository_def)

section \<open>Requests\<close>

text \<open>The requests that change the guild tables, each with the use case that serves it.\<close>

datatype guild_request =
    CreateGuild CreateGuildCommand
  | JoinGuild JoinGuildCommand
  | LeaveGuild LeaveGuildCommand
  | CreateChannel CreateChannelCommand
  | CreateInvite CreateGuildInviteCommand
  | JoinInvite JoinGuildInviteCommand

fun serve_guild :: "(uuid \<Rightarrow> rstring) \<Rightarrow> guild_request \<Rightarrow> world \<Rightarrow> world" where
  "serve_guild simple (CreateGuild cmd) w = snd (create_guild (guild_use_case simple) cmd w)"
| "serve_guild simple (JoinGuild cmd) w = snd (join_guild_by_id (guild_use_case simple) cmd w)"
| "serve_guild simple (LeaveGuild cmd) w = snd (leave_guild (guild_use_case simple) cmd w)"
| "serve_guild simple (CreateChannel cmd) w = snd (create_channel (guild_use_case simple) cmd w)"
| "serve_guild simple (CreateInvite cmd) w = snd (create_guild_invite (guild_use_case simple) cmd w)"
| "serve_guild simple (JoinInvite cmd) w = snd (join_guild_invite (guild_use_case simple) cmd w)"

lemma guild_ok_serve:
  assumes "guild_ok (tables w)"
  shows "guild_ok (tables (serve_guild simple req w))"
proof (cases req)
  case (CreateGuild cmd)
  have "db_keeps guild_ok (create_guild (guild_use_case simple) cmd)"
    unfolding create_guild_def by (simp add: keeps_bnd guild_ok_repo_create_guild)
  from keepsD [OF this assms] show ?thesis by (simp add: CreateGuild)
next
  case (JoinGuild cmd)
  have "db_keeps guild_ok (join_guild_by_id (guild_use_case simple) cmd)"
    unfolding join_guild_by_id_def
    by (auto simp: repo_guild_exists_def intro!: keeps_bnd guild_ok_repo_add_member)
  from keepsD [OF this assms] show ?thesis by (simp add: JoinGuild)
next
  case (LeaveGuild cmd)
  from keepsD [OF guild_ok_leave_guild assms] show ?thesis by (simp add: LeaveGuild)
next
  case (CreateChannel cmd)
  have "db_keeps guild_ok (create_channel (guild_use_case simple) cmd)"
    unfolding create_channel_def get_guild_def
    by (auto simp: repo_find_guild_for_member_def intro!: keeps_bnd guild_ok_repo_create_channel)
  from keepsD [OF this assms] show ?thesis by (simp add: CreateChannel)
next
  case (CreateInvite cmd)
  have "db_keeps guild_ok (create_guild_invite (guild_use_case simple) cmd)"
    unfolding create_guild_invite_def get_guild_def Let_def
    by (auto simp: repo_find_guild_for_member_def repo_create_guild_invite_def
        intro!: keeps_bnd guild_ok_insert_invite)
  from keepsD [OF this assms] show ?thesis by (simp add: CreateInvite)
next
  case (JoinInvite cmd)
  have "db_keeps guild_ok (join_guild_invite (guild_use_case simple) cmd)"
    unfolding join_guild_invite_def Let_def
    by (auto intro!: keeps_bnd guild_ok_repo_join_guild_via_invite)
  from keepsD [OF this assms] show ?thesis by (simp add: JoinInvite)
qed


text \<open>
  C8: every sequence of requests, whatever fails on the way, keeps the guild tables consistent: keys
  are unique and links point to existing rows; each guild has one default role, its owner as a member,
  and gives the role to every member; the channels of a guild have distinct names and positions; no
  invite has been used more often than its cap.
\<close>

theorem guild_invariant:
  assumes "guild_ok (tables w)"
  shows "guild_ok (tables (fold (serve_guild simple) requests w))"
  using assms by (induction requests arbitrary: w) (simp_all add: guild_ok_serve)

definition demo_user :: "uuid \<Rightarrow> UserRecord" where
  "demo_user u = \<lparr>usr_id = u, usr_username = [97], usr_email = None, usr_password_hash = []\<rparr>"

definition guild_world :: world where
  "guild_world = \<lparr>clock = 0, uuid_at = (\<lambda>n. of_nat n + 100), drawn = 0, down = (\<lambda>_. False), issued = 0,
     sqlx_text = (\<lambda>_. ''error''), tables = empty_db\<lparr>users := [demo_user 1, demo_user 2]\<rparr>\<rparr>"

lemma guild_world_ok: "guild_ok (tables guild_world)"
  by (simp add: guild_ok_def guild_keys_def guild_links_def guild_roles_def guild_channels_def
      guild_invites_ok_def guild_world_def empty_db_def)

theorem guild_invariant_witness:
  "guild_ok (tables (fold (serve_guild (\<lambda>u. [unat u]))
     [CreateGuild \<lparr>cg_user_id = 1, cg_name = lit ''home''\<rparr>,
      JoinGuild \<lparr>jn_user_id = 2, jn_guild_id = 100\<rparr>] guild_world))"
  by (rule guild_invariant [OF guild_world_ok])

section \<open>Permissions\<close>

lemma bit_bit_or: "bit (bit_or ms) k \<longleftrightarrow> (\<exists>m\<in>set ms. bit m k)"
  by (induction ms) (auto simp: bit_or_def bit_or_iff)

lemma bit_and_not: "k < 64 \<Longrightarrow> bit (x AND NOT y :: i64) k \<longleftrightarrow> bit x k \<and> \<not> bit y k"
  by (auto simp: bit_and_iff bit_not_iff)

text \<open>
  C20: the permissions of a member on a channel, bit by bit: an override for the member decides, allow
  before deny; then the overrides for the member's roles, allow before deny; then the roles.
  Someone who is not a member has none.
\<close>

theorem permission_resolution:
  assumes "healthy w" and "k < 64" and d: "d = tables w"
    and c: "find (\<lambda>x. cha_id x = c \<and> (cha_guild_id x, u) \<in> set (guild_members d)) (channels d) = Some ch"
    and roles: "held = {rid. (cha_guild_id ch, u, rid) \<in> set (member_roles d)}"
    and ovs: "ovs = {ov \<in> set (channel_overrides d). ov_channel_id ov = c}"
    and mine: "mine = {ov \<in> ovs. ov_target_type ov = ''MEMBER'' \<and> ov_target_id ov = u}"
    and ours: "ours = {ov \<in> ovs. ov_target_type ov = ''ROLE'' \<and> ov_target_id ov \<in> held}"
  shows "\<exists>bits. fst (repo_resolve_channel_permissions u c w) = Inr (Some bits) \<and>
    (bit bits k \<longleftrightarrow>
       (\<exists>ov\<in>mine. bit (ov_allow ov) k) \<or>
       \<not> (\<exists>ov\<in>mine. bit (ov_deny ov) k) \<and>
         ((\<exists>ov\<in>ours. bit (ov_allow ov) k) \<or>
          \<not> (\<exists>ov\<in>ours. bit (ov_deny ov) k) \<and>
            (\<exists>r\<in>set (roles d). role_id r \<in> held \<and> bit (role_permissions r) k)))"
proof -
  let ?g = "cha_guild_id ch"
  let ?bits = "(((base_permissions ?g u d AND NOT (role_overrides ov_deny ?g u c d)) OR
      role_overrides ov_allow ?g u c d) AND NOT (member_overrides ov_deny u c d)) OR
      member_overrides ov_allow u c d"
  have "wp (repo_resolve_channel_permissions u c) (\<lambda>r _. r = Some ?bits) (\<lambda>_ _. False) w"
    using assms(1) c by (simp add: repo_resolve_channel_permissions_def d Let_def)
  then have "fst (repo_resolve_channel_permissions u c w) = Inr (Some ?bits)"
    by (auto simp: wp_fst_snd split: sum.splits)
  moreover have "bit (base_permissions ?g u d) k \<longleftrightarrow>
      (\<exists>r\<in>set (roles d). role_id r \<in> held \<and> bit (role_permissions r) k)"
    by (auto simp: base_permissions_def bit_bit_or roles)
  moreover have "bit (role_overrides part ?g u c d) k \<longleftrightarrow> (\<exists>ov\<in>ours. bit (part ov) k)" for part
    by (auto simp: role_overrides_def bit_bit_or ours ovs roles)
  moreover have "bit (member_overrides part u c d) k \<longleftrightarrow> (\<exists>ov\<in>mine. bit (part ov) k)" for part
    by (auto simp: member_overrides_def bit_bit_or mine ovs)
  ultimately show ?thesis
    using assms(2) by (auto simp: bit_or_iff bit_and_not)
qed


definition channel_world :: world where
  "channel_world = guild_world\<lparr>tables := (tables guild_world)
     \<lparr>guilds := [\<lparr>guild_id = 5, guild_name = lit ''home'', guild_owner_id = 1, guild_created_at = 0\<rparr>],
      guild_members := [(5, 1), (5, 2)],
      roles := [\<lparr>role_id = 6, role_guild_id = 5, role_permissions = VIEW_CHANNEL OR SEND_MESSAGES,
                 role_is_default = True\<rparr>],
      member_roles := [(5, 1, 6), (5, 2, 6)],
      channels := [\<lparr>cha_id = 7, cha_guild_id = 5, cha_name = lit ''general'', cha_type = ''TEXT'',
                    cha_position = 0, cha_created_at = 0\<rparr>]\<rparr>\<rparr>"

definition muted_world :: world where
  "muted_world = channel_world\<lparr>tables := (tables channel_world)
     \<lparr>channel_overrides := [\<lparr>ov_channel_id = 7, ov_target_type = ''MEMBER'', ov_target_id = 2,
                             ov_allow = 0, ov_deny = SEND_MESSAGES\<rparr>]\<rparr>\<rparr>"

lemma channel_world_ok: "guild_ok (tables channel_world)" "healthy channel_world"
  by (simp_all add: guild_ok_def guild_keys_def guild_links_def guild_roles_def guild_channels_def
      guild_invites_ok_def channel_world_def guild_world_def empty_db_def default_role_def healthy_def
      demo_user_def)

theorem permission_resolution_witness:
  "\<exists>bits. fst (repo_resolve_channel_permissions 2 7 muted_world) = Inr (Some bits) \<and> \<not> bit bits 1"
proof -
  let ?d = "tables muted_world"
  let ?ch = "hd (channels ?d)"
  have "healthy muted_world"
    by (simp add: muted_world_def channel_world_def guild_world_def healthy_def)
  moreover have "find (\<lambda>x. cha_id x = 7 \<and> (cha_guild_id x, 2) \<in> set (guild_members ?d)) (channels ?d) = Some ?ch"
    by (simp add: muted_world_def channel_world_def)
  ultimately show ?thesis
    using permission_resolution [OF _ _ refl _ refl refl refl refl, of muted_world 1 7 2 ?ch]
    by (auto simp: muted_world_def channel_world_def guild_world_def empty_db_def SEND_MESSAGES_def
        bit_push_bit_iff bit_1_iff)
qed

text \<open>
  C36: a channel's members, and nobody else, have access to it, and as long as the channel has no
  overrides, which no request creates, every member may view it and send messages to it.
\<close>

theorem members_have_access:
  assumes ok: "guild_ok (tables w)" and up: "healthy w" and none: "channel_overrides (tables w) = []"
    and c: "ch \<in> set (channels (tables w))"
  shows "case fst (repo_resolve_channel_permissions u (cha_id ch) w) of
      Inl _ \<Rightarrow> False
    | Inr None \<Rightarrow> (cha_guild_id ch, u) \<notin> set (guild_members (tables w))
    | Inr (Some bits) \<Rightarrow> (cha_guild_id ch, u) \<in> set (guild_members (tables w)) \<and>
        has (PermissionBits bits) VIEW_CHANNEL \<and> has (PermissionBits bits) SEND_MESSAGES"
proof -
  let ?d = "tables w" and ?g = "cha_guild_id ch"
  let ?hit = "\<lambda>x. cha_id x = cha_id ch \<and> (cha_guild_id x, u) \<in> set (guild_members ?d)"
  have only: "x = ch" if "x \<in> set (channels ?d)" "cha_id x = cha_id ch" for x
    using that c guild_ok_tables(1) [OF ok] by (auto simp: guild_keys_def distinct_map dest: inj_onD)
  show ?thesis
  proof (cases "(?g, u) \<in> set (guild_members ?d)")
    case False
    with only have "find ?hit (channels ?d) = None" by (auto simp: find_None_iff_all)
    then show ?thesis
      using up False wp_fst_snd [of "repo_resolve_channel_permissions u (cha_id ch)"
          "\<lambda>r _. r = None" "\<lambda>_ _. False" w]
      by (auto simp: repo_resolve_channel_permissions_def split: sum.splits)
  next
    case True
    with c only have "find ?hit (channels ?d) = Some ch"
      by (cases "find ?hit (channels ?d)") (auto simp: find_None_iff_all dest!: find_in_set)
    then have bits: "fst (repo_resolve_channel_permissions u (cha_id ch) w) =
        Inr (Some (base_permissions ?g u ?d))"
      using up wp_fst_snd [of "repo_resolve_channel_permissions u (cha_id ch)"
          "\<lambda>r _. r = Some (base_permissions ?g u ?d)" "\<lambda>_ _. False" w]
      by (auto simp: repo_resolve_channel_permissions_def role_overrides_def member_overrides_def none
          bit_or_def Let_def split: sum.splits)
    obtain r where r: "r \<in> set (roles ?d)" "default_role ?g r"
    proof -
      have "?g \<in> guild_id ` set (guilds ?d)"
        using guild_ok_tables(2) [OF ok] c by (auto simp: guild_links_def)
      then obtain r where "filter (default_role ?g) (roles ?d) = [r]"
        using guild_ok_tables(3) [OF ok] by (auto simp: guild_roles_def)
      then have "r \<in> set (filter (default_role ?g) (roles ?d))" by simp
      then show ?thesis using that by auto
    qed
    have "(?g, u, role_id r) \<in> set (member_roles ?d)" "role_permissions r = VIEW_CHANNEL OR SEND_MESSAGES"
      using guild_ok_tables(3) [OF ok] True r by (auto simp: guild_roles_def)
    with r(1) have "bit (base_permissions ?g u ?d) k" if "k < 2" for k
      using that by (auto simp: base_permissions_def bit_bit_or less_2_cases_iff bit_or_iff bit_1_iff
          VIEW_CHANNEL_def SEND_MESSAGES_def bit_push_bit_iff intro!: bexI [of _ "(?g, u, role_id r)"] bexI [of _ r])
    then show ?thesis
      using True by (simp add: bits has_VIEW_iff has_SEND_iff del: has.simps)
  qed
qed

theorem members_have_access_witness:
  "\<exists>bits. fst (repo_resolve_channel_permissions 2 7 channel_world) = Inr (Some bits) \<and>
     has (PermissionBits bits) SEND_MESSAGES"
proof -
  let ?ch = "hd (channels (tables channel_world))"
  have "?ch \<in> set (channels (tables channel_world))" "cha_id ?ch = 7" "cha_guild_id ?ch = 5"
    "(5, 2) \<in> set (guild_members (tables channel_world))" "channel_overrides (tables channel_world) = []"
    by (simp_all add: channel_world_def guild_world_def empty_db_def)
  then show ?thesis
    using members_have_access [OF channel_world_ok _, of ?ch 2]
    by (auto split: sum.splits option.splits)
qed


section \<open>Leaving\<close>

text \<open>
  Leaving a guild, when no statement fails: the owner is refused and so is someone who is not a
  member; a member loses the membership and every role in the guild, and nobody else loses anything.
\<close>

theorem leave_guild_outcome:
  assumes ok: "guild_ok (tables w)" and up: "healthy w" and d: "d = tables w"
    and r: "leave_guild (guild_use_case simple) cmd w = (r, w')" and d': "d' = tables w'"
    and g: "g = lg_guild_id cmd" and u: "u = lg_user_id cmd"
  shows "if \<exists>x\<in>set (guilds d). guild_id x = g \<and> guild_owner_id x = u
         then r = Inl (Validation ''guild owner cannot leave their own guild'') \<and> d' = d
         else if (g, u) \<notin> set (guild_members d)
         then r = Inl (NotFound ''guild membership not found'') \<and>
              guild_members d' = guild_members d
         else r = Inr () \<and> (g, u) \<notin> set (guild_members d') \<and>
              set (guild_members d') = set (guild_members d) - {(g, u)} \<and>
              set (member_roles d') = {m \<in> set (member_roles d). (fst m, fst (snd m)) \<noteq> (g, u)}"
proof -
  have "wp (leave_guild (guild_use_case simple) cmd) (\<lambda>_ w2. \<not> (\<exists>x\<in>set (guilds d). guild_id x = g \<and> guild_owner_id x = u) \<and> (g, u) \<in> set (guild_members d) \<and>
      set (guild_members (tables w2)) = set (guild_members d) - {(g, u)} \<and>
      set (member_roles (tables w2)) = {m \<in> set (member_roles d). (fst m, fst (snd m)) \<noteq> (g, u)})
    (\<lambda>e w2. if \<exists>x\<in>set (guilds d). guild_id x = g \<and> guild_owner_id x = u
       then e = Validation ''guild owner cannot leave their own guild'' \<and> tables w2 = d
       else (g, u) \<notin> set (guild_members d) \<and> e = NotFound ''guild membership not found'' \<and>
            guild_members (tables w2) = guild_members d) w"
    using up by (auto simp: leave_guild_def repo_is_guild_owner_def repo_remove_member_def
        delete_guild_member_def delete_member_roles_def d g u filter_empty_conv
        filter_id_conv split: prod.splits)
  from wp_outcome [OF this r] show ?thesis
    by (cases r) (auto simp: d' split: if_splits)
qed


theorem leave_guild_outcome_witness:
  "(5, 2) \<in> set (guild_members (tables channel_world)) \<and>
   (5, 2) \<notin> set (guild_members (tables (snd (leave_guild (guild_use_case (\<lambda>u. [])) 
     \<lparr>lg_user_id = 2, lg_guild_id = 5\<rparr> channel_world))))"
  using leave_guild_outcome [OF channel_world_ok refl surjective_pairing refl refl refl,
      where simple = "\<lambda>u. []" and cmd = "\<lparr>lg_user_id = 2, lg_guild_id = 5\<rparr>"]
  by (simp add: channel_world_def guild_world_def empty_db_def)




end
