(* ===== verification/Message_Proofs.thy ===== *)
theory Message_Proofs
  imports Message_Service Conversation_Proofs Guild_Proofs
begin

text \<open>
  What the listings of the two message services promise: following the cursors reads every live message
  once, from the newest to the oldest.
\<close>

section \<open>Permissions on a channel\<close>

text \<open>The permissions that the seven queries of the resolver compute, as a function of the tables.\<close>

definition channel_bits :: "uuid \<Rightarrow> uuid \<Rightarrow> db \<Rightarrow> i64 option" where
  "channel_bits u c d =
     map_option (\<lambda>ch. let g = cha_guild_id ch in
         (((base_permissions g u d AND NOT (role_overrides ov_deny g u c d)) OR role_overrides ov_allow g u c d)
            AND NOT (member_overrides ov_deny u c d)) OR member_overrides ov_allow u c d)
       (find (\<lambda>x. cha_id x = c \<and> (cha_guild_id x, u) \<in> set (guild_members d)) (channels d))"

definition may :: "i64 \<Rightarrow> uuid \<Rightarrow> uuid \<Rightarrow> db \<Rightarrow> bool" where
  "may perm u c d \<longleftrightarrow> (case channel_bits u c d of None \<Rightarrow> False | Some b \<Rightarrow> has (PermissionBits b) perm)"

lemma message_use_case_fields [simp]:
  "message_repo message_use_case = sqlx_message_repository"
  "permission_repo message_use_case = sqlx_permission_repository"
  "pr_resolve_channel_permissions sqlx_permission_repository = repo_resolve_channel_permissions"
  "mr_create_message sqlx_message_repository = repo_create_message"
  "mr_list_messages sqlx_message_repository = repo_list_messages"
  "mr_find_message_by_id sqlx_message_repository = repo_find_message_by_id"
  "mr_update_message_content sqlx_message_repository = repo_update_message_content"
  "mr_soft_delete_message sqlx_message_repository = repo_soft_delete_message"
  "mr_mark_channel_read sqlx_message_repository = repo_mark_channel_read"
  by (simp_all add: message_use_case_def sqlx_permission_repository_def sqlx_message_repository_def)

definition resolver_queries :: "uuid \<Rightarrow> uuid \<Rightarrow> db \<Rightarrow> nat" where
  "resolver_queries u c d = (if channel_bits u c d = None then 1 else 6)"

lemma wp_resolve:
  assumes "healthy w"
  shows "wp (repo_resolve_channel_permissions u c) Q E w =
    Q (channel_bits u c (tables w)) (w\<lparr>issued := issued w + resolver_queries u c (tables w)\<rparr>)"
  using assms
  by (cases "find (\<lambda>x. cha_id x = c \<and> (cha_guild_id x, u) \<in> set (guild_members (tables w))) (channels (tables w))")
     (simp_all add: repo_resolve_channel_permissions_def channel_bits_def resolver_queries_def
       Let_def eval_nat_numeral)

lemma wp_require_permissions:
  assumes "healthy w"
  shows "wp (require_channel_permissions message_use_case u c) Q E w =
    (let w' = w\<lparr>issued := issued w + resolver_queries u c (tables w)\<rparr>
     in case channel_bits u c (tables w) of
          None \<Rightarrow> E (NotFound ''channel not found'') w'
        | Some b \<Rightarrow> Q (PermissionBits b) w')"
  using assms by (simp add: require_channel_permissions_def wp_resolve Let_def split: option.split)

section \<open>Pages\<close>

lemma wp_ret_eta: "wp (ret x) Q E = Q x"
  by (simp add: fun_eq_iff)

lemma page_cut:
  fixes xs :: "'r list" and n :: nat
  assumes "0 < n" and page: "page = take (Suc n) xs"
  shows "(if n < length page then take n page else page) = take n xs"
    and "(if n < length page then if take n page = [] then None else Some (key (last (take n page))) else None) =
         (if n < length xs then Some (key (last (take n xs))) else None)"
  using assms by (auto simp: min_def)

definition page_size :: "int option \<Rightarrow> nat" where
  "page_size limit = (case normalize_limit limit of Inl _ \<Rightarrow> 0 | Inr n \<Rightarrow> nat n)"

lemma normalize_limit_Inr: "normalize_limit limit = Inr n \<Longrightarrow> 1 \<le> n \<and> n \<le> 100"
  by (auto simp: normalize_limit_def Let_def DEFAULT_PAGE_LIMIT_def MAX_PAGE_LIMIT_def
      split: option.splits if_splits)

text \<open>The copy of the conversation module agrees with that of the message module.\<close>

lemma cv_copies:
  "cv_normalize_limit = normalize_limit" "cv_validate_message_content = validate_message_content"
  "cv_validate_max_uses = validate_max_uses"
  by (auto simp: fun_eq_iff Let_def cv_normalize_limit_def normalize_limit_def cv_validate_message_content_def
      validate_message_content_def cv_validate_max_uses_def validate_max_uses_def CV_DEFAULT_PAGE_LIMIT_def
      CV_MAX_PAGE_LIMIT_def DEFAULT_PAGE_LIMIT_def MAX_PAGE_LIMIT_def split: option.split)

definition channel_listing :: "uuid \<Rightarrow> world \<Rightarrow> MessageRecord list" where
  "channel_listing c w = order_desc msg_pos (filter (live_in c) (messages (tables w)))"

definition channel_page ::
  "uuid \<Rightarrow> uuid \<Rightarrow> int option \<Rightarrow> uuid option \<Rightarrow> (world, MessageRecord list \<times> uuid option) app" where
  "channel_page u c limit before =
     bnd (list_messages message_use_case
            \<lparr>lm_user_id = u, lm_channel_id = c, lm_before = before, lm_limit = limit\<rparr>) (\<lambda>p.
     ret (mp_messages p, mp_next_cursor p))"

definition channel_readable :: "uuid \<Rightarrow> uuid \<Rightarrow> int option \<Rightarrow> world \<Rightarrow> bool" where
  "channel_readable u c limit w \<longleftrightarrow> healthy w \<and> may VIEW_CHANNEL u c (tables w) \<and>
     distinct (map msg_id (messages (tables w))) \<and> 0 < page_size limit"

lemma inj_msg_pos: "distinct (map msg_id ms) \<Longrightarrow> inj_on msg_pos (set ms) \<and> distinct ms"
  by (auto simp: msg_pos_def inj_on_def distinct_map)

lemma may_bits: "may perm u c d \<Longrightarrow> \<exists>b. channel_bits u c d = Some b \<and> has (PermissionBits b) perm"
  by (auto simp: may_def split: option.splits)

lemma wp_list_messages:
  assumes up: "healthy v" and n: "0 \<le> n"
    and anchor: "case before of None \<Rightarrow> anchor = None
      | Some b \<Rightarrow> \<exists>m. find (\<lambda>m. msg_id m = b \<and> msg_channel_id m = c) (messages (tables v)) = Some m \<and>
                      anchor = Some (msg_pos m)"
  shows "wp (repo_list_messages c before n)
    (\<lambda>ms t. ms = keyset_page msg_pos (live_in c) anchor (nat n) (messages (tables v)) \<and> (\<exists>i. t = v\<lparr>issued := i\<rparr>))
    (\<lambda>_ _. False) v"
proof (cases before)
  case None
  with up n anchor show ?thesis
    by (auto simp: repo_list_messages_def find_anchor_def select_messages_def)
next
  case (Some b)
  with anchor obtain m where "find (\<lambda>m. msg_id m = b \<and> msg_channel_id m = c) (messages (tables v)) = Some m"
    "anchor = Some (msg_pos m)" by auto
  with up n Some show ?thesis
    by (auto simp: repo_list_messages_def find_anchor_def select_messages_def)
qed

lemma channel_page_wp:
  assumes r: "channel_readable u c limit w"
    and anchor: "case before of None \<Rightarrow> anchor = None
      | Some b \<Rightarrow> \<exists>m. find (\<lambda>m. msg_id m = b \<and> msg_channel_id m = c) (messages (tables w)) = Some m \<and>
                      anchor = Some (msg_pos m)"
    and rows: "\<And>k. keyset_page msg_pos (live_in c) anchor k (messages (tables w)) = take k rows"
  shows "wp (channel_page u c limit before)
    (\<lambda>(page, cursor) t. channel_readable u c limit t \<and> channel_listing c t = channel_listing c w \<and>
       page = take (page_size limit) rows \<and>
       cursor = (if page_size limit < length rows then Some (msg_id (last page)) else None)) (\<lambda>_ _. False) w"
proof -
  from r obtain b where up: "healthy w" and b: "channel_bits u c (tables w) = Some b" "has (PermissionBits b) VIEW_CHANNEL"
    by (auto simp: channel_readable_def dest: may_bits)
  obtain n where n: "normalize_limit limit = Inr n" and size: "page_size limit = nat n"
    using r by (auto simp: channel_readable_def page_size_def split: sum.splits)
  have pos: "0 < n" "0 < nat n" "nat (n + 1) = Suc (nat n)"
    using normalize_limit_Inr [OF n] by (simp_all add: Suc_nat_eq_nat_zadd1)
  have same: "channel_readable u c limit (w\<lparr>issued := i\<rparr>)" "channel_listing c (w\<lparr>issued := i\<rparr>) = channel_listing c w" for i
    using r by (simp_all add: channel_readable_def channel_listing_def)
  note cut = page_cut(1) [OF pos(2) refl, of rows] page_cut(2) [OF pos(2) refl, of rows msg_id]
  have fetched: "wp (repo_list_messages c before (n + 1))
      (\<lambda>ms t. ms = take (Suc (nat n)) rows \<and> (\<exists>i. t = w\<lparr>issued := i\<rparr>)) (\<lambda>_ _. False) (w\<lparr>issued := j\<rparr>)" for j
    using wp_list_messages [where v = "w\<lparr>issued := j\<rparr>" and n = "n + 1" and before = before
      and anchor = anchor and c = c] up pos anchor rows by (cases before) auto
  have more: "n < int (length xs) \<longleftrightarrow> nat n < length xs" for xs :: "MessageRecord list"
    using pos by linarith
  have post: "wp (channel_page u c limit before) Q E w" if "\<And>j. wp (repo_list_messages c before (n + 1))
      (\<lambda>ms t. Q (if nat n < length ms then take (nat n) ms else ms,
          if nat n < length ms then if take (nat n) ms = [] then None else Some (msg_id (last (take (nat n) ms)))
          else None) t) E (w\<lparr>issued := j\<rparr>)" for Q E
    using that up b n
    by (simp add: channel_page_def list_messages_def wp_require_permissions Let_def more wp_ret_eta cong: if_cong)
  show ?thesis
    by (rule post, rule wp_mono [OF fetched]) (auto simp: cut size same simp del: length_take take_take)
qed


text \<open>A row of the listing is found by its id.\<close>

lemma listing_row:
  assumes "channel_readable u c limit w" and "channel_listing c w = xs @ m # ys"
  shows "find (\<lambda>x. msg_id x = msg_id m \<and> msg_channel_id x = c) (messages (tables w)) = Some m"
proof -
  have "m \<in> set (channel_listing c w)" using assms(2) by simp
  then have m: "m \<in> set (messages (tables w))" "msg_channel_id m = c"
    by (simp_all add: channel_listing_def live_in_def)
  have d: "distinct (map msg_id (messages (tables w)))" using assms(1) by (simp add: channel_readable_def)
  have "x = m" if "x \<in> set (messages (tables w))" "msg_id x = msg_id m" for x
    using d m that by (auto simp: distinct_map dest: inj_onD)
  then show ?thesis
    using m by (cases "find (\<lambda>x. msg_id x = msg_id m \<and> msg_channel_id x = c) (messages (tables w))")
      (auto simp: find_None_iff_all dest!: find_in_set)
qed

interpretation channel_pages: paged_listing "channel_page u c limit" "channel_listing c" msg_id
  "page_size limit" "channel_readable u c limit" for u c limit
proof unfold_locales
  fix w assume r: "channel_readable u c limit w"
  then show "0 < page_size limit" by (simp add: channel_readable_def)
  show "wp (channel_page u c limit None)
    (\<lambda>(page, cursor) t. channel_readable u c limit t \<and> channel_listing c t = channel_listing c w \<and>
       page = take (page_size limit) (channel_listing c w) \<and>
       cursor = (if page_size limit < length (channel_listing c w) then Some (msg_id (last page)) else None))
    (\<lambda>_ _. False) w"
    by (rule channel_page_wp [OF r, where anchor = None]) (simp_all add: keyset_page_first channel_listing_def)
next
  fix w xs m ys assume r: "channel_readable u c limit w" and l: "channel_listing c w = xs @ m # ys"
  have "keyset_page msg_pos (live_in c) (Some (msg_pos m)) k (messages (tables w)) = take k ys" for k
    using r inj_msg_pos by (intro keyset_page_after [OF l [unfolded channel_listing_def]])
      (auto simp: channel_readable_def)
  then show "wp (channel_page u c limit (Some (msg_id m)))
    (\<lambda>(page, cursor) t. channel_readable u c limit t \<and> channel_listing c t = channel_listing c w \<and>
       page = take (page_size limit) ys \<and>
       cursor = (if page_size limit < length ys then Some (msg_id (last page)) else None)) (\<lambda>_ _. False) w"
    using listing_row [OF r l] by (intro channel_page_wp [OF r, where anchor = "Some (msg_pos m)"]) simp_all
qed

text \<open>
  C15: reading a channel page by page.  A member who may view the channel and follows the cursors
  reads every message that is not deleted exactly once, from the newest to the oldest, whatever page
  size is asked for, and after at most one page more than there are messages the listing is at its end.
\<close>

theorem channel_pages_complete:
  assumes "healthy w" and "may VIEW_CHANNEL u c (tables w)" and "distinct (map msg_id (messages (tables w)))"
    and "normalize_limit limit = Inr n" and "length (messages (tables w)) < fuel"
  shows "fst (read_all fuel (channel_page u c limit) e None w) =
    Inr (order_desc msg_pos (filter (live_in c) (messages (tables w))))"
proof -
  have "channel_readable u c limit w"
    using assms normalize_limit_Inr [OF assms(4)] by (simp add: channel_readable_def page_size_def)
  moreover have "length (channel_listing c w) < fuel"
    using le_less_trans [OF length_filter_le assms(5)] by (simp add: channel_listing_def)
  ultimately have "wp (read_all fuel (channel_page u c limit) e None)
      (\<lambda>rows _. rows = channel_listing c w) (\<lambda>_ _. False) w"
    by (intro wp_mono [OF channel_pages.read_all_complete]) simp_all
  then show ?thesis
    by (auto simp: wp_fst_snd channel_listing_def split: sum.splits)
qed

definition chat_world :: world where
  "chat_world = channel_world\<lparr>tables := (tables channel_world)
     \<lparr>messages := map (\<lambda>i. \<lparr>msg_id = of_int i, msg_channel_id = 7, msg_author_id = 2, msg_content = lit ''hi'',
        msg_created_at = i, msg_edited_at = None, msg_deleted_at = (if i = 2 then Some 9 else None)\<rparr>) [1, 2, 3, 4]\<rparr>\<rparr>"

lemma chat_world_ok: "healthy chat_world" "guild_ok (tables chat_world)"
  "distinct (map msg_id (messages (tables chat_world)))"
  using channel_world_ok
  by (simp_all add: chat_world_def guild_ok_def guild_keys_def guild_links_def guild_roles_def
      guild_channels_def guild_invites_ok_def)

lemma chat_world_may: "may VIEW_CHANNEL 2 7 (tables chat_world)" "may SEND_MESSAGES 2 7 (tables chat_world)"
  by code_simp+

theorem channel_pages_complete_witness:
  "fst (read_all 9 (channel_page 2 7 (Some 1)) (Internal []) None chat_world) =
     Inr (map (\<lambda>i. (messages (tables chat_world)) ! i) [3, 2, 0])"
proof -
  have n: "normalize_limit (Some 1) = Inr 1" by code_simp
  have "order_desc msg_pos (filter (live_in 7) (messages (tables chat_world))) =
      map (\<lambda>i. (messages (tables chat_world)) ! i) [3, 2, 0]"
    by code_simp
  then show ?thesis
    using channel_pages_complete [OF chat_world_ok(1) chat_world_may(1) chat_world_ok(3) n, of 9]
    by (simp add: chat_world_def)
qed


section \<open>Pages of a thread\<close>

definition thread_listing :: "uuid \<Rightarrow> world \<Rightarrow> ThreadMessageRecord list" where
  "thread_listing tid w = order_desc tmsg_pos (filter (live_in_thread tid) (thread_messages (tables w)))"

definition thread_page :: "(uuid \<Rightarrow> rstring) \<Rightarrow>
  uuid \<Rightarrow> uuid \<Rightarrow> int option \<Rightarrow> uuid option \<Rightarrow> (world, ThreadMessageRecord list \<times> uuid option) app" where
  "thread_page simple u tid limit before =
     bnd (list_thread_messages (conversation_use_case simple)
            \<lparr>ltm_user_id = u, ltm_thread_id = tid, ltm_before = before, ltm_limit = limit\<rparr>) (\<lambda>p.
     ret (tmp_messages p, tmp_next_cursor p))"

definition thread_readable :: "uuid \<Rightarrow> uuid \<Rightarrow> int option \<Rightarrow> world \<Rightarrow> bool" where
  "thread_readable u tid limit w \<longleftrightarrow> healthy w \<and> (tid, u) \<in> set (thread_members (tables w)) \<and>
     distinct (map tmsg_id (thread_messages (tables w))) \<and> 0 < page_size limit"

lemma inj_tmsg_pos: "distinct (map tmsg_id ms) \<Longrightarrow> inj_on tmsg_pos (set ms) \<and> distinct ms"
  by (auto simp: tmsg_pos_def inj_on_def distinct_map)

lemma wp_list_thread_messages:
  assumes up: "healthy v" and n: "0 \<le> n"
    and anchor: "case before of None \<Rightarrow> anchor = None
      | Some b \<Rightarrow> \<exists>m. find (\<lambda>m. tmsg_id m = b \<and> tmsg_thread_id m = tid) (thread_messages (tables v)) = Some m \<and>
                      anchor = Some (tmsg_pos m)"
  shows "wp (repo_list_thread_messages tid before n)
    (\<lambda>ms t. ms = keyset_page tmsg_pos (live_in_thread tid) anchor (nat n) (thread_messages (tables v)) \<and>
       (\<exists>i. t = v\<lparr>issued := i\<rparr>)) (\<lambda>_ _. False) v"
proof (cases before)
  case None
  with up n anchor show ?thesis
    by (auto simp: repo_list_thread_messages_def find_thread_anchor_def select_thread_messages_def)
next
  case (Some b)
  with anchor obtain m where "find (\<lambda>m. tmsg_id m = b \<and> tmsg_thread_id m = tid) (thread_messages (tables v)) = Some m"
    "anchor = Some (tmsg_pos m)" by auto
  with up n Some show ?thesis
    by (auto simp: repo_list_thread_messages_def find_thread_anchor_def select_thread_messages_def)
qed

lemma thread_page_wp:
  assumes r: "thread_readable u tid limit w"
    and anchor: "case before of None \<Rightarrow> anchor = None
      | Some b \<Rightarrow> \<exists>m. find (\<lambda>m. tmsg_id m = b \<and> tmsg_thread_id m = tid) (thread_messages (tables w)) = Some m \<and>
                      anchor = Some (tmsg_pos m)"
    and rows: "\<And>k. keyset_page tmsg_pos (live_in_thread tid) anchor k (thread_messages (tables w)) = take k rows"
  shows "wp (thread_page simple u tid limit before)
    (\<lambda>(page, cursor) t. thread_readable u tid limit t \<and> thread_listing tid t = thread_listing tid w \<and>
       page = take (page_size limit) rows \<and>
       cursor = (if page_size limit < length rows then Some (tmsg_id (last page)) else None)) (\<lambda>_ _. False) w"
proof -
  from r have up: "healthy w" and mem: "(tid, u) \<in> set (thread_members (tables w))"
    by (simp_all add: thread_readable_def)
  obtain n where n: "normalize_limit limit = Inr n" and size: "page_size limit = nat n"
    using r by (auto simp: thread_readable_def page_size_def split: sum.splits)
  have pos: "0 < n" "0 < nat n" "nat (n + 1) = Suc (nat n)"
    using normalize_limit_Inr [OF n] by (simp_all add: Suc_nat_eq_nat_zadd1)
  have same: "thread_readable u tid limit (w\<lparr>issued := i\<rparr>)" "thread_listing tid (w\<lparr>issued := i\<rparr>) = thread_listing tid w" for i
    using r by (simp_all add: thread_readable_def thread_listing_def)
  note cut = page_cut(1) [OF pos(2) refl, of rows] page_cut(2) [OF pos(2) refl, of rows tmsg_id]
  have fetched: "wp (repo_list_thread_messages tid before (n + 1))
      (\<lambda>ms t. ms = take (Suc (nat n)) rows \<and> (\<exists>i. t = w\<lparr>issued := i\<rparr>)) (\<lambda>_ _. False) (w\<lparr>issued := j\<rparr>)" for j
    using wp_list_thread_messages [where v = "w\<lparr>issued := j\<rparr>" and n = "n + 1" and before = before
      and anchor = anchor and tid = tid] up pos anchor rows by (cases before) auto
  have more: "n < int (length xs) \<longleftrightarrow> nat n < length xs" for xs :: "ThreadMessageRecord list"
    using pos by linarith
  have post: "wp (thread_page simple u tid limit before) Q E w" if "\<And>j. wp (repo_list_thread_messages tid before (n + 1))
      (\<lambda>ms t. Q (if nat n < length ms then take (nat n) ms else ms,
          if nat n < length ms then if take (nat n) ms = [] then None else Some (tmsg_id (last (take (nat n) ms)))
          else None) t) E (w\<lparr>issued := j\<rparr>)" for Q E
    using that up mem n
    by (simp add: thread_page_def list_thread_messages_def require_thread_member_def repo_is_thread_member_def
        cv_copies Let_def more wp_ret_eta cong: if_cong)
  show ?thesis
    by (rule post, rule wp_mono [OF fetched]) (auto simp: cut size same simp del: length_take take_take)
qed

lemma thread_listing_row:
  assumes "thread_readable u tid limit w" and "thread_listing tid w = xs @ m # ys"
  shows "find (\<lambda>x. tmsg_id x = tmsg_id m \<and> tmsg_thread_id x = tid) (thread_messages (tables w)) = Some m"
proof -
  have "m \<in> set (thread_listing tid w)" using assms(2) by simp
  then have m: "m \<in> set (thread_messages (tables w))" "tmsg_thread_id m = tid"
    by (simp_all add: thread_listing_def live_in_thread_def)
  have d: "distinct (map tmsg_id (thread_messages (tables w)))" using assms(1) by (simp add: thread_readable_def)
  have "x = m" if "x \<in> set (thread_messages (tables w))" "tmsg_id x = tmsg_id m" for x
    using d m that by (auto simp: distinct_map dest: inj_onD)
  then show ?thesis
    using m by (cases "find (\<lambda>x. tmsg_id x = tmsg_id m \<and> tmsg_thread_id x = tid) (thread_messages (tables w))")
      (auto simp: find_None_iff_all dest!: find_in_set)
qed

interpretation thread_pages: paged_listing "thread_page simple u tid limit" "thread_listing tid" tmsg_id
  "page_size limit" "thread_readable u tid limit" for simple u tid limit
proof unfold_locales
  fix w assume r: "thread_readable u tid limit w"
  then show "0 < page_size limit" by (simp add: thread_readable_def)
  show "wp (thread_page simple u tid limit None)
    (\<lambda>(page, cursor) t. thread_readable u tid limit t \<and> thread_listing tid t = thread_listing tid w \<and>
       page = take (page_size limit) (thread_listing tid w) \<and>
       cursor = (if page_size limit < length (thread_listing tid w) then Some (tmsg_id (last page)) else None))
    (\<lambda>_ _. False) w"
    by (rule thread_page_wp [OF r, where anchor = None]) (simp_all add: keyset_page_first thread_listing_def)
next
  fix w xs m ys assume r: "thread_readable u tid limit w" and l: "thread_listing tid w = xs @ m # ys"
  have "keyset_page tmsg_pos (live_in_thread tid) (Some (tmsg_pos m)) k (thread_messages (tables w)) = take k ys" for k
    using r inj_tmsg_pos by (intro keyset_page_after [OF l [unfolded thread_listing_def]])
      (auto simp: thread_readable_def)
  then show "wp (thread_page simple u tid limit (Some (tmsg_id m)))
    (\<lambda>(page, cursor) t. thread_readable u tid limit t \<and> thread_listing tid t = thread_listing tid w \<and>
       page = take (page_size limit) ys \<and>
       cursor = (if page_size limit < length ys then Some (tmsg_id (last page)) else None)) (\<lambda>_ _. False) w"
    using thread_listing_row [OF r l] by (intro thread_page_wp [OF r, where anchor = "Some (tmsg_pos m)"]) simp_all
qed

text \<open>
  C25: reading a thread page by page: a member who follows the cursors reads every message of the
  thread that is not deleted exactly once, from the newest to the oldest.
\<close>

theorem thread_pages_complete:
  assumes "healthy w" and "(tid, u) \<in> set (thread_members (tables w))"
    and "distinct (map tmsg_id (thread_messages (tables w)))"
    and "cv_normalize_limit limit = Inr n" and "length (thread_messages (tables w)) < fuel"
  shows "fst (read_all fuel (thread_page simple u tid limit) e None w) =
    Inr (order_desc tmsg_pos (filter (live_in_thread tid) (thread_messages (tables w))))"
proof -
  have "thread_readable u tid limit w"
    using assms normalize_limit_Inr [OF assms(4) [unfolded cv_copies]]
    by (simp add: thread_readable_def page_size_def cv_copies)
  moreover have "length (thread_listing tid w) < fuel"
    using le_less_trans [OF length_filter_le assms(5)] by (simp add: thread_listing_def)
  ultimately have "wp (read_all fuel (thread_page simple u tid limit) e None)
      (\<lambda>rows _. rows = thread_listing tid w) (\<lambda>_ _. False) w"
    by (intro wp_mono [OF thread_pages.read_all_complete]) simp_all
  then show ?thesis
    by (auto simp: wp_fst_snd thread_listing_def split: sum.splits)
qed

definition talk_world :: world where
  "talk_world = asking_world\<lparr>tables := (tables asking_world)
     \<lparr>thread_messages := map (\<lambda>i. \<lparr>tmsg_id = of_int i, tmsg_thread_id = 9, tmsg_author_id = 1, tmsg_content = lit ''hi'',
        tmsg_created_at = 0, tmsg_edited_at = None, tmsg_deleted_at = None\<rparr>) [1, 3, 2]\<rparr>\<rparr>"

lemma talk_world_ok: "healthy talk_world" "(9, 2) \<in> set (thread_members (tables talk_world))"
  "distinct (map tmsg_id (thread_messages (tables talk_world)))"
  using asking_world_ok by (simp_all add: talk_world_def asking_world_def)

theorem thread_pages_complete_witness:
  "fst (read_all 4 (thread_page (\<lambda>u. []) 2 9 (Some 2)) (Internal []) None talk_world) =
     Inr (map (\<lambda>i. (thread_messages (tables talk_world)) ! i) [1, 2, 0])"
proof -
  have n: "cv_normalize_limit (Some 2) = Inr 2" by code_simp
  have "order_desc tmsg_pos (filter (live_in_thread 9) (thread_messages (tables talk_world))) =
      map (\<lambda>i. (thread_messages (tables talk_world)) ! i) [1, 2, 0]"
    by code_simp
  then show ?thesis
    using thread_pages_complete [OF talk_world_ok n, of 4] by (simp add: talk_world_def)
qed

end
