(* ===== verification/Message_History.thy ===== *)
theory Message_History
  imports Message_Proofs
begin

text \<open>
  Who changes a message.  Channel messages and thread messages are edited and deleted by two services
  with the same contract, stated once as a locale over a log of authored entries: a request changes
  only entries of its sender that are not deleted, and appends only entries of its sender.
\<close>

section \<open>Logs of authored entries\<close>

text \<open>
  \<open>grown\<close> relates a log to a later one: entries keep their place and identity, those that differ were
  live and their author is among \<open>S\<close>, and so are the authors of the new entries.
\<close>

definition grown ::
  "('m \<Rightarrow> 'i) \<Rightarrow> ('m \<Rightarrow> 'u) \<Rightarrow> ('m \<Rightarrow> bool) \<Rightarrow> 'u set \<Rightarrow> 'm list \<Rightarrow> 'm list \<Rightarrow> bool" where
  "grown ident author gone S old later \<longleftrightarrow> length old \<le> length later \<and>
     (\<forall>i<length old. later ! i = old ! i \<or>
        ident (later ! i) = ident (old ! i) \<and> \<not> gone (old ! i) \<and> author (old ! i) \<in> S) \<and>
     (\<forall>i<length later. length old \<le> i \<longrightarrow> author (later ! i) \<in> S)"

lemma grown_refl [simp]: "grown ident author gone S xs xs"
  by (simp add: grown_def)

lemma grown_append: "author m \<in> S \<Longrightarrow> grown ident author gone S xs (xs @ [m])"
  by (auto simp: grown_def nth_append)

lemma grown_trans:
  assumes ident: "\<And>m m'. ident m = ident m' \<Longrightarrow> author m = author m'"
    and 1: "grown ident author gone S a b" and 2: "grown ident author gone T b c"
  shows "grown ident author gone (S \<union> T) a c"
proof -
  note 1 = 1 [unfolded grown_def] and 2 = 2 [unfolded grown_def]
  show ?thesis unfolding grown_def
  proof (intro conjI allI impI)
    show "length a \<le> length c" using 1 2 by simp
  next
    fix i assume i: "i < length a"
    from 1 i have b: "b ! i = a ! i \<or> ident (b ! i) = ident (a ! i) \<and> \<not> gone (a ! i) \<and> author (a ! i) \<in> S" by blast
    from 1 i have "i < length b" by simp
    with 2 have c: "c ! i = b ! i \<or> ident (c ! i) = ident (b ! i) \<and> \<not> gone (b ! i) \<and> author (b ! i) \<in> T" by blast
    from b c show "c ! i = a ! i \<or> ident (c ! i) = ident (a ! i) \<and> \<not> gone (a ! i) \<and> author (a ! i) \<in> S \<union> T"
      by (elim disjE conjE) simp_all
  next
    fix i assume i: "i < length c" "length a \<le> i"
    show "author (c ! i) \<in> S \<union> T"
    proof (cases "i < length b")
      case True
      with 1 i have "author (b ! i) \<in> S" by blast
      moreover from True 2 have "c ! i = b ! i \<or> ident (c ! i) = ident (b ! i)" by blast
      then have "author (c ! i) = author (b ! i)" using ident [of "c ! i" "b ! i"] by auto
      ultimately show ?thesis by simp
    next
      case False
      with 2 i show ?thesis by simp
    qed
  qed
qed

locale authored_log =
  fixes serve :: "'req \<Rightarrow> 's \<Rightarrow> 's" and sender :: "'req \<Rightarrow> 'u" and log :: "'s \<Rightarrow> 'm list"
    and key :: "'m \<Rightarrow> 'k" and ident :: "'m \<Rightarrow> 'i" and author :: "'m \<Rightarrow> 'u" and gone :: "'m \<Rightarrow> bool"
  assumes author_ident: "ident m = ident m' \<Longrightarrow> author m = author m'"
    and serve_grown: "distinct (map key (log s)) \<Longrightarrow>
      grown ident author gone {sender r} (log s) (log (serve r s))"
    and serve_distinct: "distinct (map key (log s)) \<Longrightarrow> distinct (map key (log (serve r s)))"
begin

lemma history:
  "distinct (map key (log s)) \<Longrightarrow>
   grown ident author gone (sender ` set rs) (log s) (log (fold serve rs s)) \<and>
   distinct (map key (log (fold serve rs s)))"
proof (induction rs arbitrary: s)
  case Nil
  then show ?case by simp
next
  case (Cons r rs)
  have "grown ident author gone ({sender r} \<union> sender ` set rs) (log s) (log (fold serve rs (serve r s)))"
    using Cons by (intro grown_trans [OF author_ident serve_grown]) (simp_all add: serve_distinct)
  then show ?case using Cons by (simp add: serve_distinct)
qed

text \<open>A deleted entry stays as it is.\<close>

lemma gone_for_good:
  assumes "distinct (map key (log s))" and "i < length (log s)" and "gone (log s ! i)"
  shows "log (fold serve rs s) ! i = log s ! i"
  using history [OF assms(1)] assms(2,3) by (auto simp: grown_def)

end

text \<open>An update of the live entry with a given key, when that entry is known, grows a log.\<close>

lemma grown_update:
  assumes d: "distinct (map key xs)" and f: "find (\<lambda>m. key m = k) xs = Some e" and a: "author e = u"
    and same: "ident (upd e) = ident e"
  shows "grown ident author gone {u} xs (update_where (\<lambda>m. key m = k \<and> \<not> gone m) upd xs)"
proof -
  from find_in_set [OF f] have e: "e \<in> set xs" "key e = k" by simp_all
  have "\<forall>x\<in>set xs. key x = k \<longrightarrow> x = e"
    using d e by (auto simp: distinct_map dest: inj_onD)
  then have "xs ! i = e" if "i < length xs" "key (xs ! i) = k" for i
    using that by simp
  then have "ident (upd (xs ! i)) = ident (xs ! i) \<and> author (xs ! i) = u" if "i < length xs" "key (xs ! i) = k" for i
    using that a same by metis
  then show ?thesis
    by (auto simp: grown_def update_where_def)
qed

section \<open>Channel messages\<close>

datatype message_request =
    PostMessage CreateMessageCommand
  | PatchMessage EditMessageCommand
  | RemoveMessage DeleteMessageCommand
  | ReadChannel MarkChannelReadCommand
  | FetchMessages ListMessagesQuery

fun message_sender :: "message_request \<Rightarrow> uuid" where
  "message_sender (PostMessage cmd) = cm_user_id cmd"
| "message_sender (PatchMessage cmd) = em_user_id cmd"
| "message_sender (RemoveMessage cmd) = dm_user_id cmd"
| "message_sender (ReadChannel cmd) = mk_user_id cmd"
| "message_sender (FetchMessages q) = lm_user_id q"

fun serve_message :: "message_request \<Rightarrow> world \<Rightarrow> world" where
  "serve_message (PostMessage cmd) w = snd (create_message message_use_case cmd w)"
| "serve_message (PatchMessage cmd) w = snd (edit_message message_use_case cmd w)"
| "serve_message (RemoveMessage cmd) w = snd (delete_message message_use_case cmd w)"
| "serve_message (ReadChannel cmd) w = snd (mark_channel_read message_use_case cmd w)"
| "serve_message (FetchMessages q) w = snd (list_messages message_use_case q w)"

definition msg_ident :: "MessageRecord \<Rightarrow> uuid \<times> uuid \<times> uuid \<times> time" where
  "msg_ident m = (msg_id m, msg_channel_id m, msg_author_id m, msg_created_at m)"

definition msg_gone :: "MessageRecord \<Rightarrow> bool" where
  "msg_gone m \<longleftrightarrow> msg_deleted_at m \<noteq> None"

definition messages_grown :: "uuid \<Rightarrow> db \<Rightarrow> db \<Rightarrow> bool" where
  "messages_grown u d d' \<longleftrightarrow> grown msg_ident msg_author_id msg_gone {u} (messages d) (messages d') \<and>
     distinct (map msg_id (messages d'))"

text \<open>The resolver reads only, whatever fails.\<close>

lemma wp_resolve_reads:
  assumes "\<And>r i. r = channel_bits u c (tables w) \<Longrightarrow> Q r (w\<lparr>issued := i\<rparr>)" and "\<And>e i. E e (w\<lparr>issued := i\<rparr>)"
  shows "wp (repo_resolve_channel_permissions u c) Q E w"
  using assms
  by (cases "find (\<lambda>x. cha_id x = c \<and> (cha_guild_id x, u) \<in> set (guild_members (tables w))) (channels (tables w))")
     (simp_all add: repo_resolve_channel_permissions_def channel_bits_def Let_def)

lemma wp_require_reads:
  assumes "\<And>b i. channel_bits u c (tables w) = Some b \<Longrightarrow> Q (PermissionBits b) (w\<lparr>issued := i\<rparr>)"
    and "\<And>e i. E e (w\<lparr>issued := i\<rparr>)"
  shows "wp (require_channel_permissions message_use_case u c) Q E w"
  unfolding require_channel_permissions_def wp_bnd message_use_case_fields
  by (rule wp_resolve_reads) (auto simp: assms split: option.split)

lemma messages_grown_update:
  assumes d: "distinct (map msg_id (messages d))" and f: "find (\<lambda>m. msg_id m = k) (messages d) = Some e"
    and u: "msg_author_id e = u" and q: "update_live_message k upd d = (r, d')"
    and same: "\<And>m. msg_ident (upd m) = msg_ident m"
  shows "messages_grown u d d'"
proof -
  have "map msg_id (update_where p upd ms) = map msg_id ms" for p ms
    using same by (intro update_where_map) (simp add: msg_ident_def)
  then show ?thesis
    using grown_update [where ident = msg_ident and author = msg_author_id and gone = msg_gone and upd = upd,
      OF d f u same] d q
    by (auto simp: messages_grown_def update_live_message_def msg_gone_def Let_def)
qed

lemma message_service_grows:
  assumes d: "distinct (map msg_id (messages (tables w)))"
  defines "grows u \<equiv> \<lambda>w'. messages_grown u (tables w) (tables w')"
  shows "wp (create_message message_use_case create) (\<lambda>_. grows (cm_user_id create)) (\<lambda>_. grows (cm_user_id create)) w"
    "wp (edit_message message_use_case edit) (\<lambda>_. grows (em_user_id edit)) (\<lambda>_. grows (em_user_id edit)) w"
    "wp (delete_message message_use_case del) (\<lambda>_. grows (dm_user_id del)) (\<lambda>_. grows (dm_user_id del)) w"
    "wp (mark_channel_read message_use_case mark) (\<lambda>_. grows (mk_user_id mark)) (\<lambda>_. grows (mk_user_id mark)) w"
    "wp (list_messages message_use_case q) (\<lambda>_. grows (lm_user_id q)) (\<lambda>_. grows (lm_user_id q)) w"
proof -
  have refl: "messages_grown u (tables w) (tables w)" for u using d by (simp add: messages_grown_def)
  have insert: "messages_grown u (tables w) d'"
    if "insert_message mid c u content t (tables w) = Inr (x, d')" for mid c u content t x d'
    using that d by (auto simp: insert_message_def messages_grown_def grown_append Let_def split: if_splits)
  have upsert: "messages_grown u (tables w) d'"
    if "upsert_channel_read u' c m t (tables w) = Inr (x, d')" for u u' c m t x d'
    using that d by (auto simp: upsert_channel_read_def messages_grown_def Let_def split: if_splits option.splits)
  have edit: "messages_grown u (tables w) d'"
    if "update_live_message k (\<lambda>m. m\<lparr>msg_content := x, msg_edited_at := t\<rparr>) (tables w) = (r, d')"
      "find (\<lambda>m. msg_id m = k) (messages (tables w)) = Some e" "msg_author_id e = u" for k x t r d' e u
    by (rule messages_grown_update [OF d that(2,3,1)]) (simp add: msg_ident_def)
  have remove: "messages_grown u (tables w) d'"
    if "update_live_message k (\<lambda>m. m\<lparr>msg_deleted_at := t\<rparr>) (tables w) = (r, d')"
      "find (\<lambda>m. msg_id m = k) (messages (tables w)) = Some e" "msg_author_id e = u" for k t r d' e u
    by (rule messages_grown_update [OF d that(2,3,1)]) (simp add: msg_ident_def)
  note methods = refl repo_create_message_def repo_find_message_by_id_def repo_update_message_content_def
    update_message_content_query_def repo_soft_delete_message_def soft_delete_message_query_def
    repo_mark_channel_read_def resolve_channel_last_read_message_id_def repo_list_messages_def find_anchor_def
    select_messages_def Let_def
  show "wp (create_message message_use_case create) (\<lambda>_. grows (cm_user_id create)) (\<lambda>_. grows (cm_user_id create)) w"
    by (auto simp: grows_def create_message_def methods split: sum.split option.split
        intro!: wp_require_reads intro: insert)
  show "wp (edit_message message_use_case edit) (\<lambda>_. grows (em_user_id edit)) (\<lambda>_. grows (em_user_id edit)) w"
    by (auto simp: grows_def edit_message_def methods split: sum.split option.split
        intro!: wp_require_reads intro: edit)
  show "wp (delete_message message_use_case del) (\<lambda>_. grows (dm_user_id del)) (\<lambda>_. grows (dm_user_id del)) w"
    by (auto simp: grows_def delete_message_def methods split: sum.split option.split
        intro!: wp_require_reads intro: remove)
  show "wp (mark_channel_read message_use_case mark) (\<lambda>_. grows (mk_user_id mark)) (\<lambda>_. grows (mk_user_id mark)) w"
    by (auto simp: grows_def mark_channel_read_def methods split: sum.split option.split
        intro!: wp_require_reads intro: upsert)
  show "wp (list_messages message_use_case q) (\<lambda>_. grows (lm_user_id q)) (\<lambda>_. grows (lm_user_id q)) w"
    by (auto simp: grows_def list_messages_def methods split: sum.split option.split
        intro!: wp_require_reads)
qed

lemma serve_message_grows:
  assumes d: "distinct (map msg_id (messages (tables w)))"
  shows "messages_grown (message_sender req) (tables w) (tables (serve_message req w))"
  using message_service_grows [OF d] by (cases req) (simp_all add: wp_snd)

interpretation channel_log: authored_log serve_message message_sender "\<lambda>w. messages (tables w)"
  msg_id msg_ident msg_author_id msg_gone
  by unfold_locales (use serve_message_grows in \<open>auto simp: messages_grown_def msg_ident_def\<close>)

text \<open>
  C16: the history of the channel messages.  Whatever requests are served, and whatever statements fail
  on the way, a message keeps its place, id, channel, author and time; a message that differs from what it
  was had not been deleted, and its author is among the senders; a message that is new is by one of the
  senders.
\<close>

theorem message_history:
  assumes "distinct (map msg_id (messages (tables w)))"
    and "old = messages (tables w)" and "new = messages (tables (fold serve_message requests w))"
  shows "length old \<le> length new \<and>
    (\<forall>i<length old. new ! i = old ! i \<or>
       msg_ident (new ! i) = msg_ident (old ! i) \<and> msg_deleted_at (old ! i) = None \<and>
       msg_author_id (old ! i) \<in> message_sender ` set requests) \<and>
    (\<forall>i<length new. length old \<le> i \<longrightarrow> msg_author_id (new ! i) \<in> message_sender ` set requests)"
  using channel_log.history [OF assms(1), of requests] assms(2,3) by (simp add: grown_def msg_gone_def)

theorem message_history_witness:
  "let old = messages (tables chat_world);
       new = messages (tables (fold serve_message
         [RemoveMessage \<lparr>dm_user_id = 1, dm_message_id = 1\<rparr>,
          PatchMessage \<lparr>em_user_id = 2, em_message_id = 3, em_content = lit ''yes''\<rparr>] chat_world))
   in length old \<le> length new \<and> msg_ident (new ! 2) = msg_ident (old ! 2)"
  using message_history [OF chat_world_ok(3) refl refl, of
      "[RemoveMessage \<lparr>dm_user_id = 1, dm_message_id = 1\<rparr>,
        PatchMessage \<lparr>em_user_id = 2, em_message_id = 3, em_content = lit ''yes''\<rparr>]"]
  by (auto simp: Let_def chat_world_def dest!: spec [of _ 2])

section \<open>Thread messages\<close>

datatype thread_message_request =
    PostThreadMessage CreateThreadMessageCommand
  | PatchThreadMessage EditThreadMessageCommand
  | RemoveThreadMessage DeleteThreadMessageCommand
  | ReadThread MarkThreadReadCommand
  | FetchThreadMessages ListThreadMessagesQuery

fun thread_message_sender :: "thread_message_request \<Rightarrow> uuid" where
  "thread_message_sender (PostThreadMessage cmd) = ctm_user_id cmd"
| "thread_message_sender (PatchThreadMessage cmd) = etm_user_id cmd"
| "thread_message_sender (RemoveThreadMessage cmd) = dtm_user_id cmd"
| "thread_message_sender (ReadThread cmd) = mt_user_id cmd"
| "thread_message_sender (FetchThreadMessages q) = ltm_user_id q"

fun serve_thread_message :: "(uuid \<Rightarrow> rstring) \<Rightarrow> thread_message_request \<Rightarrow> world \<Rightarrow> world" where
  "serve_thread_message simple (PostThreadMessage cmd) w =
     snd (create_thread_message (conversation_use_case simple) cmd w)"
| "serve_thread_message simple (PatchThreadMessage cmd) w =
     snd (edit_thread_message (conversation_use_case simple) cmd w)"
| "serve_thread_message simple (RemoveThreadMessage cmd) w =
     snd (delete_thread_message (conversation_use_case simple) cmd w)"
| "serve_thread_message simple (ReadThread cmd) w = snd (mark_thread_read (conversation_use_case simple) cmd w)"
| "serve_thread_message simple (FetchThreadMessages q) w =
     snd (list_thread_messages (conversation_use_case simple) q w)"

definition tmsg_ident :: "ThreadMessageRecord \<Rightarrow> uuid \<times> uuid \<times> uuid \<times> time" where
  "tmsg_ident m = (tmsg_id m, tmsg_thread_id m, tmsg_author_id m, tmsg_created_at m)"

definition tmsg_gone :: "ThreadMessageRecord \<Rightarrow> bool" where
  "tmsg_gone m \<longleftrightarrow> tmsg_deleted_at m \<noteq> None"

definition thread_messages_grown :: "uuid \<Rightarrow> db \<Rightarrow> db \<Rightarrow> bool" where
  "thread_messages_grown u d d' \<longleftrightarrow>
     grown tmsg_ident tmsg_author_id tmsg_gone {u} (thread_messages d) (thread_messages d') \<and>
     distinct (map tmsg_id (thread_messages d'))"

lemma thread_messages_grown_update:
  assumes d: "distinct (map tmsg_id (thread_messages d))"
    and f: "find (\<lambda>m. tmsg_id m = k) (thread_messages d) = Some e"
    and u: "tmsg_author_id e = u" and q: "update_live_thread_message k upd d = (r, d')"
    and same: "\<And>m. tmsg_ident (upd m) = tmsg_ident m"
  shows "thread_messages_grown u d d'"
proof -
  have "map tmsg_id (update_where p upd ms) = map tmsg_id ms" for p ms
    using same by (intro update_where_map) (simp add: tmsg_ident_def)
  then show ?thesis
    using grown_update [where ident = tmsg_ident and author = tmsg_author_id and gone = tmsg_gone and upd = upd,
      OF d f u same] d q
    by (auto simp: thread_messages_grown_def update_live_thread_message_def tmsg_gone_def Let_def)
qed

lemma thread_message_service_grows:
  fixes simple :: "uuid \<Rightarrow> rstring"
  assumes d: "distinct (map tmsg_id (thread_messages (tables w)))"
  defines "grows u \<equiv> \<lambda>w'. thread_messages_grown u (tables w) (tables w')"
    and "uc \<equiv> conversation_use_case simple"
  shows "wp (create_thread_message uc create) (\<lambda>_. grows (ctm_user_id create)) (\<lambda>_. grows (ctm_user_id create)) w"
    "wp (edit_thread_message uc edit) (\<lambda>_. grows (etm_user_id edit)) (\<lambda>_. grows (etm_user_id edit)) w"
    "wp (delete_thread_message uc del) (\<lambda>_. grows (dtm_user_id del)) (\<lambda>_. grows (dtm_user_id del)) w"
    "wp (mark_thread_read uc mark) (\<lambda>_. grows (mt_user_id mark)) (\<lambda>_. grows (mt_user_id mark)) w"
    "wp (list_thread_messages uc q) (\<lambda>_. grows (ltm_user_id q)) (\<lambda>_. grows (ltm_user_id q)) w"
proof -
  have refl: "thread_messages_grown u (tables w) (tables w)" for u using d by (simp add: thread_messages_grown_def)
  have insert: "thread_messages_grown u (tables w) d'"
    if "insert_thread_message mid c u content t (tables w) = Inr (x, d')" for mid c u content t x d'
    using that d by (auto simp: insert_thread_message_def thread_messages_grown_def grown_append Let_def split: if_splits)
  have upsert: "thread_messages_grown u (tables w) d'"
    if "upsert_thread_read u' c m t (tables w) = Inr (x, d')" for u u' c m t x d'
    using that d by (auto simp: upsert_thread_read_def thread_messages_grown_def Let_def split: if_splits option.splits)
  have patch: "thread_messages_grown u (tables w) d'"
    if "update_live_thread_message k (\<lambda>m. m\<lparr>tmsg_content := x, tmsg_edited_at := t\<rparr>) (tables w) = (r, d')"
      "find (\<lambda>m. tmsg_id m = k) (thread_messages (tables w)) = Some e" "tmsg_author_id e = u" for k x t r d' e u
    by (rule thread_messages_grown_update [OF d that(2,3,1)]) (simp add: tmsg_ident_def)
  have remove: "thread_messages_grown u (tables w) d'"
    if "update_live_thread_message k (\<lambda>m. m\<lparr>tmsg_deleted_at := t\<rparr>) (tables w) = (r, d')"
      "find (\<lambda>m. tmsg_id m = k) (thread_messages (tables w)) = Some e" "tmsg_author_id e = u" for k t r d' e u
    by (rule thread_messages_grown_update [OF d that(2,3,1)]) (simp add: tmsg_ident_def)
  note methods = refl conversation_methods update_thread_message_query_def soft_delete_thread_message_query_def
    repo_mark_thread_read_def resolve_thread_last_read_message_id_def repo_list_thread_messages_def
    find_thread_anchor_def select_thread_messages_def Let_def
  show "wp (create_thread_message uc create) (\<lambda>_. grows (ctm_user_id create)) (\<lambda>_. grows (ctm_user_id create)) w"
    by (auto simp: grows_def uc_def create_thread_message_def methods split: sum.split option.split intro: insert)
  show "wp (edit_thread_message uc edit) (\<lambda>_. grows (etm_user_id edit)) (\<lambda>_. grows (etm_user_id edit)) w"
    by (auto simp: grows_def uc_def edit_thread_message_def methods split: sum.split option.split intro: patch)
  show "wp (delete_thread_message uc del) (\<lambda>_. grows (dtm_user_id del)) (\<lambda>_. grows (dtm_user_id del)) w"
    by (auto simp: grows_def uc_def delete_thread_message_def methods split: sum.split option.split intro: remove)
  show "wp (mark_thread_read uc mark) (\<lambda>_. grows (mt_user_id mark)) (\<lambda>_. grows (mt_user_id mark)) w"
    by (auto simp: grows_def uc_def mark_thread_read_def methods split: sum.split option.split intro: upsert)
  show "wp (list_thread_messages uc q) (\<lambda>_. grows (ltm_user_id q)) (\<lambda>_. grows (ltm_user_id q)) w"
    by (auto simp: grows_def uc_def list_thread_messages_def methods split: sum.split option.split)
qed

lemma serve_thread_message_grows:
  assumes d: "distinct (map tmsg_id (thread_messages (tables w)))"
  shows "thread_messages_grown (thread_message_sender req) (tables w) (tables (serve_thread_message simple req w))"
  using thread_message_service_grows [OF d] by (cases req) (simp_all add: wp_snd)

interpretation thread_log: authored_log "serve_thread_message simple" thread_message_sender
  "\<lambda>w. thread_messages (tables w)" tmsg_id tmsg_ident tmsg_author_id tmsg_gone for simple
  by unfold_locales (use serve_thread_message_grows in \<open>auto simp: thread_messages_grown_def tmsg_ident_def\<close>)

text \<open>
  C28: the history of the thread messages, under the requests about messages and whatever statements fail:
  a message keeps its place, id, thread, author and time; a deleted one stays as it is; one that changed
  was changed by its author; a new one is by its sender.
\<close>

theorem thread_message_history:
  assumes "distinct (map tmsg_id (thread_messages (tables w)))" and "old = thread_messages (tables w)"
    and "new = thread_messages (tables (fold (serve_thread_message simple) requests w))"
  shows "length old \<le> length new \<and>
    (\<forall>i<length old. new ! i = old ! i \<or>
       tmsg_ident (new ! i) = tmsg_ident (old ! i) \<and> tmsg_deleted_at (old ! i) = None \<and>
       tmsg_author_id (old ! i) \<in> thread_message_sender ` set requests) \<and>
    (\<forall>i<length new. length old \<le> i \<longrightarrow> tmsg_author_id (new ! i) \<in> thread_message_sender ` set requests)"
  using thread_log.history [where rs = requests and simple = simple, OF assms(1)] assms(2,3) by (simp add: grown_def tmsg_gone_def)

theorem thread_message_history_witness:
  "let old = thread_messages (tables talk_world);
       new = thread_messages (tables (fold (serve_thread_message (\<lambda>u. []))
         [RemoveThreadMessage \<lparr>dtm_user_id = 2, dtm_message_id = 1\<rparr>] talk_world))
   in new ! 0 = old ! 0"
  using thread_message_history [OF talk_world_ok(3) refl refl, of "\<lambda>u. []"
      "[RemoveThreadMessage \<lparr>dtm_user_id = 2, dtm_message_id = 1\<rparr>]"]
  by (auto simp: Let_def talk_world_def dest!: spec [of _ 0])

section \<open>Read markers\<close>

lemma find_append: "find p (xs @ ys) = (case find p xs of None \<Rightarrow> find p ys | Some x \<Rightarrow> Some x)"
  by (induction xs) auto

lemma find_overwritten:
  "find p (update_where p (\<lambda>_. row) rows) = (if \<exists>r\<in>set rows. p r then Some row else None)" if "p row"
  using that by (induction rows) (auto simp: update_where_def)

lemma find_untouched:
  assumes "\<not> q row" and "\<And>r. p r \<Longrightarrow> \<not> q r"
  shows "find q (update_where p (\<lambda>_. row) rows) = find q rows"
  using assms by (induction rows) (auto simp: update_where_def)

text \<open>The marker of a user for a channel after it has been set.\<close>

lemma upsert_marker:
  assumes "upsert_channel_read u c x t d = Inr (s, d')"
  shows "messages d' = messages d" "cr_last_read_message_id s = x"
    "find (\<lambda>r. cr_channel_id r = c' \<and> cr_user_id r = u') (channel_reads d') =
     (if u' = u \<and> c' = c then Some s else find (\<lambda>r. cr_channel_id r = c' \<and> cr_user_id r = u') (channel_reads d))"
proof -
  let ?p = "\<lambda>r. cr_user_id r = u \<and> cr_channel_id r = c"
  let ?q = "\<lambda>r. cr_channel_id r = c' \<and> cr_user_id r = u'"
  have s: "s = \<lparr>cr_user_id = u, cr_channel_id = c, cr_last_read_message_id = x, cr_updated_at = t\<rparr>"
    and m: "messages d' = messages d"
    and reads: "channel_reads d' = (if \<exists>r\<in>set (channel_reads d). ?p r
      then update_where ?p (\<lambda>_. s) (channel_reads d) else channel_reads d @ [s])"
    using assms by (auto simp: upsert_channel_read_def Let_def split: if_splits option.splits)
  show "messages d' = messages d" "cr_last_read_message_id s = x" using s m by simp_all
  show "find ?q (channel_reads d') = (if u' = u \<and> c' = c then Some s else find ?q (channel_reads d))"
  proof (cases "u' = u \<and> c' = c")
    case True
    then have q: "?q = ?p" by (auto simp: fun_eq_iff)
    have "?p s" using s by simp
    then show ?thesis
      using True find_overwritten [of ?p s "channel_reads d"] unfolding q reads
      by (auto simp: find_append find_None_iff_all split: option.split dest!: find_in_set)
  next
    case False
    then have "\<not> ?q s" "\<And>r. ?p r \<Longrightarrow> \<not> ?q r" using s by auto
    then show ?thesis
      using False find_untouched [of ?q s ?p "channel_reads d"] unfolding reads
      by (auto simp: find_append split: option.split)
  qed
qed

lemma unread_after_upsert:
  assumes q: "upsert_channel_read u c (Some (msg_id m)) t d = Inr (s, d')"
    and d: "distinct (map msg_id (messages d))" and m: "m \<in> set (messages d)"
  shows "channel_has_unread d' u c \<longleftrightarrow> (\<exists>x\<in>set (messages d). live_in c x \<and> msg_pos m < msg_pos x)"
    and "(u', c') \<noteq> (u, c) \<Longrightarrow> channel_has_unread d' u' c' = channel_has_unread d u' c'"
  using find_distinct_key [OF d m]
  by (auto simp: channel_has_unread_def upsert_marker [OF q] live_in_def)

text \<open>The message that a request to mark a channel as read is about.\<close>

definition read_target :: "uuid \<Rightarrow> uuid option \<Rightarrow> db \<Rightarrow> MessageRecord option" where
  "read_target c requested d = (case requested of
     None \<Rightarrow> (case order_desc msg_pos (filter (live_in c) (messages d)) of [] \<Rightarrow> None | m # _ \<Rightarrow> Some m)
   | Some mid \<Rightarrow> find (\<lambda>m. msg_id m = mid \<and> live_in c m) (messages d))"

lemma newest_target:
  assumes "read_target c None d = Some m"
  shows "m \<in> set (messages d)" "\<not> (\<exists>x\<in>set (messages d). live_in c x \<and> msg_pos m < msg_pos x)"
proof -
  from assms obtain ms where o: "order_desc msg_pos (filter (live_in c) (messages d)) = m # ms"
    by (auto simp: read_target_def split: list.splits)
  have set: "set (order_desc msg_pos (filter (live_in c) (messages d))) = {x \<in> set (messages d). live_in c x}" by simp
  then show "m \<in> set (messages d)" unfolding o by auto
  have "\<forall>x\<in>set ms. msg_pos x \<le> msg_pos m"
    using sorted_wrt_rev_sort_key [of msg_pos "filter (live_in c) (messages d)"] unfolding o by simp
  with set show "\<not> (\<exists>x\<in>set (messages d). live_in c x \<and> msg_pos m < msg_pos x)" unfolding o
    by (auto simp: not_less set_eq_iff)
qed

text \<open>The error when there is no message to mark, and what marking a message does to the read markers.\<close>

definition no_target :: "uuid option \<Rightarrow> world \<Rightarrow> AppError" where
  "no_target requested w = (if requested = None then Internal (''database error: '' @ sqlx_text w RowNotFound)
     else Validation ''invalid last_read_message_id'')"

definition marked :: "uuid \<Rightarrow> uuid \<Rightarrow> db \<Rightarrow> MessageRecord \<Rightarrow> ChannelReadState \<Rightarrow> db \<Rightarrow> bool" where
  "marked u c d m state d' \<longleftrightarrow> cr_last_read_message_id state = Some (msg_id m) \<and> messages d' = messages d \<and>
     (channel_has_unread d' u c \<longleftrightarrow> (\<exists>x\<in>set (messages d). live_in c x \<and> msg_pos m < msg_pos x)) \<and>
     (\<forall>u' c'. (u', c') \<noteq> (u, c) \<longrightarrow> channel_has_unread d' u' c' = channel_has_unread d u' c')"

lemma wp_resolve_target:
  assumes "healthy w" and "d = tables w"
  shows "wp (resolve_channel_last_read_message_id c requested)
      (\<lambda>x v. x = map_option msg_id (read_target c requested d) \<and> x \<noteq> None \<and> (\<exists>i. v = w\<lparr>issued := i\<rparr>))
      (\<lambda>e v. read_target c requested d = None \<and> tables v = d \<and> e = no_target requested w) (w\<lparr>issued := j\<rparr>)"
  using assms by (auto simp: resolve_channel_last_read_message_id_def read_target_def keyset_page_first live_in_def
      no_target_def from_sqlx_def split: option.split list.split)

lemma wp_mark_target:
  assumes up: "healthy w" and d: "d = tables w" and ids: "distinct (map msg_id (messages d))"
    and links: "u \<in> usr_id ` set (users d)" "c \<in> cha_id ` set (channels d)"
    and target: "read_target c requested d = Some m"
  shows "wp (sql (upsert_channel_read u c (Some (msg_id m)))) (\<lambda>state v. marked u c d m state (tables v)) (\<lambda>_ _. False)
    (w\<lparr>issued := i\<rparr>)"
proof -
  have member: "m \<in> set (messages d)"
    using target newest_target(1) [of c d m] by (cases requested) (auto simp: read_target_def dest!: find_in_set)
  have "\<exists>s d'. upsert_channel_read u c (Some (msg_id m)) (clock w) d = Inr (s, d')"
    using links member by (auto simp: upsert_channel_read_def Let_def)
  then obtain s d' where q: "upsert_channel_read u c (Some (msg_id m)) (clock w) d = Inr (s, d')" by blast
  then show ?thesis
    using up upsert_marker [OF q] unread_after_upsert [OF q ids member] by (auto simp: d marked_def)
qed

text \<open>
  C32: marking a channel as read, by a user who may view it and when no statement fails.  With a message
  id, the message must be a live one of the channel; without, the newest live message is taken.  The
  channel then shows as unread to this user exactly when there is a live message after that one, so never
  when no id was given, and nothing changes for any other user or channel.  Without an id, on a channel
  that has no live message, the answer is an internal error of the database.
\<close>

theorem mark_channel_read_outcome:
  assumes up: "healthy w" and d: "d = tables w" and may: "may VIEW_CHANNEL u c d"
    and ids: "distinct (map msg_id (messages d))" and links: "u \<in> usr_id ` set (users d)"
    and run: "mark_channel_read message_use_case
      \<lparr>mk_user_id = u, mk_channel_id = c, mk_last_read_message_id = requested\<rparr> w = (r, w')"
  shows "case read_target c requested d of
      None \<Rightarrow> tables w' = d \<and> r = Inl (if requested = None then Internal (''database error: '' @ sqlx_text w RowNotFound)
        else Validation ''invalid last_read_message_id'')
    | Some m \<Rightarrow> (\<exists>state. r = Inr state \<and> cr_last_read_message_id state = Some (msg_id m)) \<and>
        messages (tables w') = messages d \<and>
        (channel_has_unread (tables w') u c \<longleftrightarrow> (\<exists>x\<in>set (messages d). live_in c x \<and> msg_pos m < msg_pos x)) \<and>
        (requested = None \<longrightarrow> \<not> channel_has_unread (tables w') u c) \<and>
        (\<forall>u' c'. (u', c') \<noteq> (u, c) \<longrightarrow> channel_has_unread (tables w') u' c' = channel_has_unread d u' c')"
proof -
  let ?cmd = "\<lparr>mk_user_id = u, mk_channel_id = c, mk_last_read_message_id = requested\<rparr>"
  obtain b where b: "channel_bits u c d = Some b" "has (PermissionBits b) VIEW_CHANNEL"
    using may_bits [OF may] by blast
  then have c: "c \<in> cha_id ` set (channels d)"
    by (auto simp: channel_bits_def dest!: find_in_set)
  note mark = wp_mark_target [OF up d ids links c]
  have reach: "wp (mark_channel_read message_use_case ?cmd) Q E w"
    if "\<And>i. wp (bnd (resolve_channel_last_read_message_id c requested) (\<lambda>x. sql (upsert_channel_read u c x))) Q E
      (w\<lparr>issued := i\<rparr>)" for Q E
    using up b that by (simp add: mark_channel_read_def wp_require_permissions repo_mark_channel_read_def d Let_def)
  let ?err = "\<lambda>e v. read_target c requested d = None \<and> tables v = d \<and> e = no_target requested w"
  let ?done = "\<lambda>state v. \<exists>m. read_target c requested d = Some m \<and> marked u c d m state (tables v)"
  have "wp (mark_channel_read message_use_case ?cmd) ?done ?err w"
  proof (rule reach, unfold wp_bnd, rule wp_mono [OF wp_resolve_target [OF up d]])
    fix i x v
    assume "x = map_option msg_id (read_target c requested d) \<and> x \<noteq> None \<and> (\<exists>i. v = w\<lparr>issued := i\<rparr>)"
    then obtain m j where m: "read_target c requested d = Some m" and x: "x = Some (msg_id m)" "v = w\<lparr>issued := j\<rparr>"
      by auto
    show "wp (sql (upsert_channel_read u c x)) ?done ?err v"
      unfolding x by (rule wp_mono [OF mark [OF m]]) (use m in blast)+
  qed
  from wp_outcome [OF this run] show ?thesis
    using newest_target(2) [of c d] by (cases r) (auto simp: marked_def no_target_def)
qed

theorem mark_channel_read_outcome_witness:
  "\<not> channel_has_unread (tables (snd (mark_channel_read message_use_case
     \<lparr>mk_user_id = 2, mk_channel_id = 7, mk_last_read_message_id = None\<rparr> chat_world))) 2 7"
proof -
  let ?d = "tables chat_world"
  have t: "read_target 7 None ?d = Some (messages ?d ! 3)" by code_simp
  have u: "2 \<in> usr_id ` set (users ?d)"
    by (simp add: chat_world_def channel_world_def guild_world_def demo_user_def)
  from mark_channel_read_outcome [OF chat_world_ok(1) refl chat_world_may(1) chat_world_ok(3) u surjective_pairing, of None]
  show ?thesis unfolding t option.case by blast
qed

end
