(* ===== verification/Friendship_Proofs.thy ===== *)
theory Friendship_Proofs
  imports Conversation_Proofs
begin

text \<open>
  What the friendship component promises: the invariant of its two tables, kept by every request, and
  the life of a friend request from pending to accepted or rejected and, from there, to pending again.
\<close>

section \<open>The invariant\<close>

definition between :: "uuid \<Rightarrow> uuid \<Rightarrow> db \<Rightarrow> bool" where
  "between u v d \<longleftrightarrow> (case sort_pair u v of (a, b) \<Rightarrow> already_friends a b d)"

definition request_shape :: "FriendRequestRecord \<Rightarrow> bool" where
  "request_shape r \<longleftrightarrow> fq_from_user_id r \<noteq> fq_to_user_id r \<and>
     fq_status r \<in> {''PENDING'', ''ACCEPTED'', ''REJECTED''}"

definition friend_ok :: "db \<Rightarrow> bool" where
  "friend_ok d \<longleftrightarrow>
     (\<forall>f\<in>set (friends d). frd_user_id_a f < frd_user_id_b f) \<and>
     distinct (map (\<lambda>f. (frd_user_id_a f, frd_user_id_b f)) (friends d)) \<and>
     distinct (map (\<lambda>r. (fq_from_user_id r, fq_to_user_id r)) (friend_requests d)) \<and>
     (\<forall>r\<in>set (friend_requests d). request_shape r \<and>
        (fq_status r = ''ACCEPTED'' \<longrightarrow> between (fq_from_user_id r) (fq_to_user_id r) d) \<and>
        (fq_status r = ''PENDING'' \<longrightarrow> \<not> between (fq_from_user_id r) (fq_to_user_id r) d \<and>
           \<not> pending_exists (fq_to_user_id r) (fq_from_user_id r) d))"

lemma friend_okD:
  assumes "friend_ok d" and "r \<in> set (friend_requests d)"
  shows "request_shape r"
    "fq_status r = ''ACCEPTED'' \<Longrightarrow> between (fq_from_user_id r) (fq_to_user_id r) d"
    "fq_status r = ''PENDING'' \<Longrightarrow> \<not> between (fq_from_user_id r) (fq_to_user_id r) d"
    "fq_status r = ''PENDING'' \<Longrightarrow> \<not> pending_exists (fq_to_user_id r) (fq_from_user_id r) d"
  using assms by (auto simp: friend_ok_def)

lemma between_commute: "between u v d = between v u d"
  by (auto simp: between_def sort_pair_def)

lemma between_cong: "friends d' = friends d \<Longrightarrow> between u v d' = between u v d"
  by (simp add: between_def already_friends_def split: prod.split)

lemma one_request:
  assumes "friend_ok d" and "r \<in> set (friend_requests d)" "r' \<in> set (friend_requests d)"
    and "fq_from_user_id r = fq_from_user_id r'" "fq_to_user_id r = fq_to_user_id r'"
  shows "r = r'"
  using assms by (auto simp: friend_ok_def distinct_map dest: inj_onD)

lemma friend_ok_cong:
  "friends d' = friends d \<Longrightarrow> friend_requests d' = friend_requests d \<Longrightarrow> friend_ok d' = friend_ok d"
  by (simp add: friend_ok_def between_def already_friends_def pending_exists_def split: prod.split)

section \<open>Statements\<close>

lemma upsert_cases:
  assumes "upsert_friend_request from to now d = Inr (x, d')"
  obtains "x = None" "d' = d"
  | row where "x = Some row" "is_request from to row" "fq_status row = ''PENDING''" "from \<noteq> to"
      "\<forall>r\<in>set (friend_requests d). \<not> is_request from to r"
      "d' = d\<lparr>friend_requests := friend_requests d @ [row]\<rparr>"
  | row r where "x = Some row" "is_request from to row" "fq_status row = ''PENDING''" "from \<noteq> to"
      "r \<in> set (friend_requests d)" "is_request from to r" "fq_status r \<noteq> ''PENDING''"
      "d' = d\<lparr>friend_requests := update_where (is_request from to) (\<lambda>_. row) (friend_requests d)\<rparr>"
proof -
  let ?row = "\<lparr>fq_from_user_id = from, fq_to_user_id = to, fq_status = ''PENDING'', fq_created_at = now,
      fq_responded_at = None\<rparr>"
  have neq: "from \<noteq> to"
    using assms by (auto simp: upsert_friend_request_def Let_def)
  have row: "is_request from to ?row" "fq_status ?row = ''PENDING''" by (simp_all add: is_request_def)
  show ?thesis
  proof (cases "find (is_request from to) (friend_requests d)")
    case None
    have d: "x = Some ?row" "d' = d\<lparr>friend_requests := friend_requests d @ [?row]\<rparr>"
      using assms None neq by (simp_all add: upsert_friend_request_def Let_def split: if_splits)
    show ?thesis
      by (rule that(2) [OF d(1) row neq _ d(2)]) (use None in \<open>simp add: find_None_iff_all\<close>)
  next
    case (Some r)
    from find_in_set [OF Some] have r: "r \<in> set (friend_requests d)" "is_request from to r" by simp_all
    show ?thesis
    proof (cases "fq_status r = ''PENDING''")
      case True
      have "x = None" "d' = d"
        using assms Some True neq by (simp_all add: upsert_friend_request_def Let_def)
      then show ?thesis by (rule that(1))
    next
      case False
      have "x = Some ?row" "d' = d\<lparr>friend_requests := update_where (is_request from to) (\<lambda>_. ?row) (friend_requests d)\<rparr>"
        using assms Some False neq by (simp_all add: upsert_friend_request_def Let_def)
      from that(3) [OF this(1) row neq r False this(2)] show ?thesis .
    qed
  qed
qed

text \<open>A pending row replaces the pair's row that is not pending, or is added.\<close>

lemma friend_ok_ask:
  assumes ok: "friend_ok d" and row: "is_request from to row" "fq_status row = ''PENDING''" "from \<noteq> to"
    and free: "\<not> between from to d" "\<not> pending_exists to from d"
    and rows: "set rows = insert row {r \<in> set (friend_requests d). \<not> is_request from to r}"
    and keys: "distinct (map (\<lambda>r. (fq_from_user_id r, fq_to_user_id r)) rows)"
  shows "friend_ok (d\<lparr>friend_requests := rows\<rparr>)"
proof -
  let ?d = "d\<lparr>friend_requests := rows\<rparr>"
  have b: "between u v ?d = between u v d" for u v by (rule between_cong) simp
  have "request_shape row" using row by (simp add: request_shape_def is_request_def)
  moreover have "\<not> pending_exists to from ?d"
    using free(2) row by (auto simp: pending_exists_def rows is_request_def)
  moreover have "\<not> pending_exists (fq_to_user_id r) (fq_from_user_id r) ?d"
    if r: "r \<in> set (friend_requests d)" "\<not> is_request from to r" "fq_status r = ''PENDING''" for r
  proof -
    have "\<not> (fq_to_user_id r = from \<and> fq_from_user_id r = to)"
      using free(2) r by (auto simp: pending_exists_def is_request_def)
    then show ?thesis
      using friend_okD(4) [OF ok r(1,3)] row(1) by (auto simp: pending_exists_def rows is_request_def)
  qed
  ultimately have "\<forall>r\<in>set rows. request_shape r \<and>
      (fq_status r = ''ACCEPTED'' \<longrightarrow> between (fq_from_user_id r) (fq_to_user_id r) ?d) \<and>
      (fq_status r = ''PENDING'' \<longrightarrow> \<not> between (fq_from_user_id r) (fq_to_user_id r) ?d \<and>
         \<not> pending_exists (fq_to_user_id r) (fq_from_user_id r) ?d)"
    using friend_okD [OF ok] row free(1) unfolding rows b by (auto simp: is_request_def)
  then show ?thesis
    using ok keys by (simp add: friend_ok_def)
qed

lemma friend_ok_upsert:
  assumes ok: "friend_ok d" and free: "\<not> between from to d" "\<not> pending_exists to from d"
    and q: "upsert_friend_request from to now d = Inr (x, d')"
  shows "friend_ok d'"
  using q
proof (cases rule: upsert_cases)
  case 1
  then show ?thesis using ok by simp
next
  case (2 row)
  have "distinct (map (\<lambda>r. (fq_from_user_id r, fq_to_user_id r)) (friend_requests d @ [row]))"
    using ok 2(2,5) by (auto simp: friend_ok_def is_request_def)
  then show ?thesis
    unfolding 2(6) using 2(2-5) by (intro friend_ok_ask [OF ok _ _ _ free]) auto
next
  case (3 row r)
  let ?rows = "update_where (is_request from to) (\<lambda>_. row) (friend_requests d)"
  have "map (\<lambda>r. (fq_from_user_id r, fq_to_user_id r)) ?rows =
      map (\<lambda>r. (fq_from_user_id r, fq_to_user_id r)) (friend_requests d)"
    using 3(2) by (auto simp: update_where_def is_request_def)
  moreover have "distinct (map (\<lambda>r. (fq_from_user_id r, fq_to_user_id r)) (friend_requests d))"
    using ok by (simp add: friend_ok_def)
  ultimately have "distinct (map (\<lambda>r. (fq_from_user_id r, fq_to_user_id r)) ?rows)" by simp
  moreover have "set ?rows = insert row {r \<in> set (friend_requests d). \<not> is_request from to r}"
    using 3(5,6) by (auto simp: set_update_where)
  ultimately show ?thesis
    unfolding 3(8) using 3(2-4) by (intro friend_ok_ask [OF ok _ _ _ free])
qed

lemma friend_ok_create: "db_keeps friend_ok (repo_create_friend_request from to)"
proof (rule keepsI)
  fix w :: world assume ok: "friend_ok (tables w)"
  obtain a b where ab: "sort_pair from to = (a, b)" by fastforce
  have "friend_ok d'" if "\<not> already_friends a b (tables w)" "\<not> pending_exists to from (tables w)"
    "upsert_friend_request from to t (tables w) = Inr (x, d')" for t x d'
    using friend_ok_upsert [OF ok _ that(2,3)] that(1) by (simp add: between_def ab)
  then show "wp (repo_create_friend_request from to) (\<lambda>_ w. friend_ok (tables w)) (\<lambda>_ w. friend_ok (tables w)) w"
    using ok by (auto simp: repo_create_friend_request_def ab split: sum.split option.split)
qed

lemma friend_ok_reject: "db_keeps friend_ok (repo_reject_friend_request from to)"
proof -
  have "preserves friend_ok (set_request_status (\<lambda>r. is_request from to r \<and> fq_status r = ''PENDING'') ''REJECTED'')"
  proof (rule preservesI)
    fix t d x d' assume ok: "friend_ok d"
      and q: "set_request_status (\<lambda>r. is_request from to r \<and> fq_status r = ''PENDING'') ''REJECTED'' t d = Inr (x, d')"
    let ?h = "\<lambda>r. if is_request from to r \<and> fq_status r = ''PENDING''
        then r\<lparr>fq_status := ''REJECTED'', fq_responded_at := Some t\<rparr> else r"
    have d': "friends d' = friends d" "friend_requests d' = map ?h (friend_requests d)"
      using q by (auto simp: set_request_status_def update_where_def)
    have h: "fq_from_user_id (?h r) = fq_from_user_id r" "fq_to_user_id (?h r) = fq_to_user_id r"
      "fq_status (?h r) = ''PENDING'' \<Longrightarrow> fq_status r = ''PENDING''"
      "fq_status (?h r) = ''ACCEPTED'' \<Longrightarrow> fq_status r = ''ACCEPTED''"
      "request_shape r \<Longrightarrow> request_shape (?h r)" for r
      by (auto simp: request_shape_def split: if_splits)
    have b: "between u v d' = between u v d" for u v by (rule between_cong) (rule d')
    have p: "pending_exists u v d' \<Longrightarrow> pending_exists u v d" for u v
      by (auto simp: pending_exists_def d' is_request_def split: if_splits)
    have "request_shape (?h r) \<and>
        (fq_status (?h r) = ''ACCEPTED'' \<longrightarrow> between (fq_from_user_id (?h r)) (fq_to_user_id (?h r)) d') \<and>
        (fq_status (?h r) = ''PENDING'' \<longrightarrow> \<not> between (fq_from_user_id (?h r)) (fq_to_user_id (?h r)) d' \<and>
           \<not> pending_exists (fq_to_user_id (?h r)) (fq_from_user_id (?h r)) d')"
      if r: "r \<in> set (friend_requests d)" for r
      unfolding h(1,2) b using friend_okD [OF ok r] h(3-5) [of r] p by blast
    moreover have "map (\<lambda>r. (fq_from_user_id r, fq_to_user_id r)) (map ?h (friend_requests d)) =
        map (\<lambda>r. (fq_from_user_id r, fq_to_user_id r)) (friend_requests d)"
      by simp
    ultimately show "friend_ok d'"
      using ok unfolding friend_ok_def d' by (simp only: set_map ball_simps) blast
  qed
  then show ?thesis
    unfolding repo_reject_friend_request_def by (auto intro!: keeps_bnd)
qed


text \<open>Accepting: the pair's row and the friendship change in one transaction.\<close>

lemma already_friends_insert:
  assumes "insert_friends_or_ignore a b now d = Inr (y, d')"
  shows "already_friends a b d'" "friend_requests d' = friend_requests d"
    "already_friends u v d' \<longleftrightarrow> already_friends u v d \<or> (u, v) = (a, b)"
  using assms by (auto simp: insert_friends_or_ignore_def already_friends_def split: if_splits)

lemma friends_insert_keys:
  assumes "insert_friends_or_ignore a b now d = Inr (y, d')"
    and "\<forall>f\<in>set (friends d). frd_user_id_a f < frd_user_id_b f"
    and "distinct (map (\<lambda>f. (frd_user_id_a f, frd_user_id_b f)) (friends d))"
  shows "\<forall>f\<in>set (friends d'). frd_user_id_a f < frd_user_id_b f"
    and "distinct (map (\<lambda>f. (frd_user_id_a f, frd_user_id_b f)) (friends d'))"
  using assms by (fastforce simp: insert_friends_or_ignore_def already_friends_def split: if_splits)+

lemma sort_pair_same: "sort_pair u v = sort_pair a b \<longleftrightarrow> {u, v} = {a, b}"
  by (auto simp: sort_pair_def doubleton_eq_iff)

lemma between_insert:
  assumes "insert_friends_or_ignore a b now d = Inr (y, d')" and "sort_pair from to = (a, b)"
  shows "between u v d' \<longleftrightarrow> between u v d \<or> {u, v} = {from, to}"
  using already_friends_insert(3) [OF assms(1)] assms(2) sort_pair_same [of u v "from" to]
  by (auto simp: between_def split: prod.splits)

lemma friend_ok_befriend:
  assumes ok: "friend_ok d" and r: "r \<in> set (friend_requests d)" "is_request from to r"
    and st: "fq_status r = ''PENDING'' \<and> set_request_status (is_request from to) ''ACCEPTED'' now d = Inr (n, d1) \<or>
      fq_status r = ''ACCEPTED'' \<and> d1 = d"
    and q: "insert_friends_or_ignore a b now' d1 = Inr (y, d2)" and ab: "sort_pair from to = (a, b)"
  shows "friend_ok d2"
proof -
  let ?h = "\<lambda>x. if fq_status r = ''PENDING'' \<and> is_request from to x
      then x\<lparr>fq_status := ''ACCEPTED'', fq_responded_at := Some now\<rparr> else x"
  have d1: "friends d1 = friends d" "friend_requests d1 = map ?h (friend_requests d)"
    using st by (auto simp: set_request_status_def update_where_def)
  have d2: "friend_requests d2 = map ?h (friend_requests d)"
    using already_friends_insert(2) [OF q] d1 by simp
  have b: "between u v d2 \<longleftrightarrow> between u v d \<or> {u, v} = {from, to}" for u v
    using between_insert [OF q ab] between_cong [OF d1(1)] by simp
  have h: "fq_from_user_id (?h x) = fq_from_user_id x" "fq_to_user_id (?h x) = fq_to_user_id x"
    "fq_status (?h x) = ''ACCEPTED'' \<longleftrightarrow> fq_status x = ''ACCEPTED'' \<or> fq_status r = ''PENDING'' \<and> is_request from to x"
    "fq_status (?h x) = ''PENDING'' \<longleftrightarrow> fq_status x = ''PENDING'' \<and> \<not> (fq_status r = ''PENDING'' \<and> is_request from to x)"
    "request_shape x \<Longrightarrow> request_shape (?h x)" for x
    by (auto simp: request_shape_def)
  have p: "pending_exists u v d2 \<Longrightarrow> pending_exists u v d" for u v
    by (auto simp: pending_exists_def d2 is_request_def split: if_splits)
  have "fq_status (?h x) = ''PENDING'' \<Longrightarrow> {fq_from_user_id x, fq_to_user_id x} \<noteq> {from, to}"
    if x: "x \<in> set (friend_requests d)" for x
  proof (rule notI)
    assume w: "fq_status (?h x) = ''PENDING''" "{fq_from_user_id x, fq_to_user_id x} = {from, to}"
    have px: "fq_status x = ''PENDING''" using w(1) h(4) [of x] by blast
    from w(2) consider "is_request from to x" | "is_request to from x"
      by (auto simp: is_request_def doubleton_eq_iff)
    then show False
    proof cases
      case 1
      then have "x = r" using one_request [OF ok x r(1)] r(2) by (simp add: is_request_def)
      with w(1) h(4) [of x] r(2) st show False by auto
    next
      case 2
      then have "pending_exists to from d" using px x by (auto simp: pending_exists_def)
      moreover have "between to from d" if "fq_status r = ''ACCEPTED''"
        using friend_okD(2) [OF ok r(1) that] r(2) between_commute by (simp add: is_request_def)
      moreover have "\<not> between to from d"
        using friend_okD(3) [OF ok x px] 2 by (simp add: is_request_def)
      ultimately show False
        using st friend_okD(4) [OF ok r(1)] r(2) by (auto simp: is_request_def)
    qed
  qed
  then have "request_shape (?h x) \<and>
      (fq_status (?h x) = ''ACCEPTED'' \<longrightarrow> between (fq_from_user_id (?h x)) (fq_to_user_id (?h x)) d2) \<and>
      (fq_status (?h x) = ''PENDING'' \<longrightarrow> \<not> between (fq_from_user_id (?h x)) (fq_to_user_id (?h x)) d2 \<and>
         \<not> pending_exists (fq_to_user_id (?h x)) (fq_from_user_id (?h x)) d2)"
    if x: "x \<in> set (friend_requests d)" for x
    using friend_okD [OF ok x] h(3-5) [of x] p x unfolding h(1,2) b by (auto simp: is_request_def)
  moreover have "map (\<lambda>r. (fq_from_user_id r, fq_to_user_id r)) (map ?h (friend_requests d)) =
      map (\<lambda>r. (fq_from_user_id r, fq_to_user_id r)) (friend_requests d)"
    by simp
  ultimately show ?thesis
    using ok friends_insert_keys [OF q, unfolded d1(1)]
    unfolding friend_ok_def d2 by (simp only: set_map ball_simps) blast
qed


lemma friend_ok_accept: "db_keeps friend_ok (repo_accept_friend_request from to)"
  unfolding repo_accept_friend_request_def
proof (rule transaction_keepsI, goal_cases)
  case (1 w)
  obtain a b where ab: "sort_pair from to = (a, b)" by fastforce
  have same: "friend_ok d' = friend_ok d" if "activate_pair_thread a b t d = Inr (x, d')" for t d x d'
    using that by (intro friend_ok_cong) (auto simp: activate_pair_thread_def)
  have befriended: "friend_ok d2" if "find (is_request from to) (friend_requests (tables w)) = Some r"
    "fq_status r = ''PENDING'' \<and> set_request_status (is_request from to) ''ACCEPTED'' now (tables w) = Inr (n, d1) \<or>
       fq_status r \<noteq> ''PENDING'' \<and> fq_status r \<noteq> ''REJECTED'' \<and> d1 = tables w"
    "insert_friends_or_ignore a b now' d1 = Inr (y, d2)" for r now n d1 now' y d2
  proof -
    from find_in_set [OF that(1)] have r: "r \<in> set (friend_requests (tables w))" "is_request from to r" by simp_all
    then have "fq_status r = ''ACCEPTED''" if "fq_status r \<noteq> ''PENDING''" "fq_status r \<noteq> ''REJECTED''"
      using friend_okD(1) [OF 1 r(1)] that by (auto simp: request_shape_def)
    then show ?thesis using friend_ok_befriend [OF 1 r _ that(3) ab] that(2) by blast
  qed
  show ?case
    unfolding ab by (auto simp: friend_summary_for_user_def same split: sum.split option.split prod.split intro: befriended)
qed


section \<open>Requests\<close>

text \<open>Everything else leaves the two tables alone.\<close>

definition friendship_tables :: "friend_row list \<Rightarrow> FriendRequestRecord list \<Rightarrow> db \<Rightarrow> bool" where
  "friendship_tables fs rs d \<longleftrightarrow> friends d = fs \<and> friend_requests d = rs"

lemma friendship_tables_statements [intro]:
  "preserves (friendship_tables fs rs) (insert_direct_thread tid a b status rq acc)"
  "preserves (friendship_tables fs rs) (insert_members_or_ignore tid us)"
  "preserves (friendship_tables fs rs) (activate_thread tid)"
  "preserves (friendship_tables fs rs) (delete_thread tid)"
  "preserves (friendship_tables fs rs) (insert_group_thread tid name owner)"
  "preserves (friendship_tables fs rs) (insert_thread_member tid u)"
  "preserves (friendship_tables fs rs) (delete_group_member tid u)"
  "preserves (friendship_tables fs rs) (insert_thread_message mid tid u content)"
  "preserves (friendship_tables fs rs) (update_thread_message_query mid content)"
  "preserves (friendship_tables fs rs) (soft_delete_thread_message_query mid)"
  "preserves (friendship_tables fs rs) (insert_group_invite token tid u exp cap)"
  "preserves (friendship_tables fs rs) (bump_group_invite token)"
  "preserves (friendship_tables fs rs) (upsert_thread_read u tid last_read)"
  by (rule preservesI, auto simp: friendship_tables_def insert_direct_thread_def insert_members_or_ignore_def
      activate_thread_def delete_thread_def insert_group_thread_def insert_thread_member_def delete_group_member_def
      insert_thread_message_def update_thread_message_query_def update_live_thread_message_def
      soft_delete_thread_message_query_def insert_group_invite_def bump_group_invite_def upsert_thread_read_def Let_def
      split: if_splits option.splits)+

text \<open>A property of the tables that the statements of conversations keep is kept by each of their requests.\<close>

lemma validate_group_name_passed: "validate_group_name name = Inr x \<Longrightarrow> text_within 2 80 (trim name)"
  by (simp add: validate_group_name_def text_within_trim Let_def split: if_splits)

lemma cv_validate_content_passed: "cv_validate_message_content c = Inr x \<Longrightarrow> text_within 1 4000 (trim c)"
  by (auto simp: cv_validate_message_content_def text_within_trim Let_def Suc_le_eq simp flip: neq0_conv split: if_splits)

lemma conversation_services_keep:
  assumes "\<And>tid a b status rq acc. preserves P (insert_direct_thread tid a b status rq acc)"
    and "\<And>tid us. preserves P (insert_members_or_ignore tid us)"
    and "\<And>tid. preserves P (activate_thread tid)"
    and "\<And>tid. preserves P (delete_thread tid)"
    and group: "\<And>tid name owner. text_within 2 80 name \<Longrightarrow> preserves P (insert_group_thread tid name owner)"
    and "\<And>tid u. preserves P (insert_thread_member tid u)"
    and "\<And>tid u. preserves P (delete_group_member tid u)"
    and message: "\<And>mid tid u content. text_within 1 4000 content \<Longrightarrow> preserves P (insert_thread_message mid tid u content)"
    and edit: "\<And>mid content. text_within 1 4000 content \<Longrightarrow> preserves P (update_thread_message_query mid content)"
    and "\<And>mid. preserves P (soft_delete_thread_message_query mid)"
    and "\<And>token tid u exp cap. preserves P (insert_group_invite token tid u exp cap)"
    and "\<And>token. preserves P (bump_group_invite token)"
    and "\<And>u tid last_read. preserves P (upsert_thread_read u tid last_read)"
  shows
  "db_keeps P (create_direct_thread (conversation_use_case simple) cd)"
  "db_keeps P (accept_direct_thread (conversation_use_case simple) ad)"
  "db_keeps P (reject_direct_thread (conversation_use_case simple) rd)"
  "db_keeps P (create_group_thread (conversation_use_case simple) cg)"
  "db_keeps P (add_group_member (conversation_use_case simple) ag)"
  "db_keeps P (create_group_invite (conversation_use_case simple) ci)"
  "db_keeps P (join_group_invite (conversation_use_case simple) jg)"
  "db_keeps P (leave_group (conversation_use_case simple) lg)"
  "db_keeps P (create_thread_message (conversation_use_case simple) cm)"
  "db_keeps P (edit_thread_message (conversation_use_case simple) em)"
  "db_keeps P (delete_thread_message (conversation_use_case simple) dm)"
  "db_keeps P (mark_thread_read (conversation_use_case simple) mr)"
proof -
  note steps = keeps_bnd keeps_case_prod keeps_case_option db_keeps_transaction db_keeps_run_sql keeps_if
  note methods = conversation_methods repo_create_group_thread_def Let_def
  show "db_keeps P (create_group_thread (conversation_use_case simple) cg)"
    unfolding create_group_thread_def
    by (rule keeps_validated, drule validate_group_name_passed, auto simp: methods intro!: assms(2) group steps)
  show "db_keeps P (create_thread_message (conversation_use_case simple) cm)"
    unfolding create_thread_message_def
    by (rule keeps_validated, drule cv_validate_content_passed, auto simp: methods intro!: message steps)
  show "db_keeps P (edit_thread_message (conversation_use_case simple) em)"
    unfolding edit_thread_message_def
    by (rule keeps_validated, drule cv_validate_content_passed, auto simp: methods intro!: edit steps)
  show "db_keeps P (create_direct_thread (conversation_use_case simple) cd)"
    "db_keeps P (accept_direct_thread (conversation_use_case simple) ad)"
    "db_keeps P (reject_direct_thread (conversation_use_case simple) rd)"
    "db_keeps P (add_group_member (conversation_use_case simple) ag)"
    "db_keeps P (create_group_invite (conversation_use_case simple) ci)"
    "db_keeps P (join_group_invite (conversation_use_case simple) jg)"
    "db_keeps P (leave_group (conversation_use_case simple) lg)"
    "db_keeps P (delete_thread_message (conversation_use_case simple) dm)"
    "db_keeps P (mark_thread_read (conversation_use_case simple) mr)"
    by (auto simp: create_direct_thread_def accept_direct_thread_def reject_direct_thread_def
        repo_accept_direct_thread_request_def repo_reject_direct_thread_request_def lock_direct_thread_for_member_def
        add_group_member_def create_group_invite_def join_group_invite_def leave_group_def
        delete_thread_message_def mark_thread_read_def conversation_methods repo_create_or_get_direct_thread_def
        ensure_direct_membership_def direct_summary_for_member_def
        repo_add_group_member_def repo_join_group_via_invite_def repo_remove_group_member_def
        repo_mark_thread_read_def resolve_thread_last_read_message_id_def Let_def
        intro!: assms(1-4,6,7,10-13) steps)
qed

lemmas friendship_tables_services = conversation_services_keep [OF friendship_tables_statements]

fun about_friends :: "conversation_request \<Rightarrow> bool" where
  "about_friends (Befriend cmd) = True"
| "about_friends (AcceptFriend cmd) = True"
| "about_friends (RejectFriend cmd) = True"
| "about_friends _ = False"

lemma friendship_tables_serve:
  assumes "\<not> about_friends req"
  shows "friends (tables (serve_conversation simple req w)) = friends (tables w) \<and>
    friend_requests (tables (serve_conversation simple req w)) = friend_requests (tables w)"
proof -
  have "friendship_tables (friends (tables w)) (friend_requests (tables w)) (tables w)"
    by (simp add: friendship_tables_def)
  from friendship_tables_services [THEN keepsD, OF this] assms show ?thesis
    by (cases req) (simp_all add: friendship_tables_def)
qed

lemma friend_ok_services:
  "db_keeps friend_ok (create_friend_request sqlx_friendship_repository cf)"
  "db_keeps friend_ok (accept_friend_request sqlx_friendship_repository rf)"
  "db_keeps friend_ok (reject_friend_request sqlx_friendship_repository rf)"
  by (auto simp: create_friend_request_def accept_friend_request_def reject_friend_request_def
      sqlx_friendship_repository_def intro!: keeps_bnd friend_ok_create friend_ok_accept friend_ok_reject)

lemma friend_ok_serve:
  assumes ok: "friend_ok (tables w)"
  shows "friend_ok (tables (serve_conversation simple req w))"
proof (cases "about_friends req")
  case True
  then show ?thesis using friend_ok_services [THEN keepsD, OF ok] by (cases req) simp_all
next
  case False
  with friendship_tables_serve [OF False] ok show ?thesis by (metis friend_ok_cong)
qed

text \<open>
  C13: every sequence of requests, whatever fails on the way, keeps friendships and friend requests
  consistent: a friendship is stored once, with the smaller user first; nobody asks themselves; a pair
  has at most one request in each direction and never two pending ones; the users of an accepted
  request are friends, and no request is pending between friends.
\<close>

theorem friendship_invariant:
  assumes "friend_ok (tables w)"
  shows "friend_ok (tables (fold (serve_conversation simple) requests w))"
  using assms by (induction requests arbitrary: w) (simp_all add: friend_ok_serve)

lemma quiet_world_friend_ok: "friend_ok (tables quiet_world)"
  by (simp add: friend_ok_def quiet_world_def empty_db_def)

theorem friendship_invariant_witness:
  "friend_ok (tables (fold (serve_conversation (\<lambda>u. []))
     [Befriend \<lparr>cfr_from_user_id = 2, cfr_to_user_id = 1\<rparr>,
      AcceptFriend \<lparr>rfr_user_id = 1, rfr_from_user_id = 2\<rparr>] quiet_world))"
  by (rule friendship_invariant [OF quiet_world_friend_ok])


section \<open>The life of a friend request\<close>

lemma befriend_effect:
  assumes ok: "friend_ok (tables w)" and r: "r \<in> set (friend_requests (tables w))"
    and d': "d' = tables (snd (create_friend_request sqlx_friendship_repository cmd w))"
  shows "r \<in> set (friend_requests d') \<or> fq_status r \<noteq> ''PENDING'' \<and>
    is_request (cfr_from_user_id cmd) (cfr_to_user_id cmd) r \<and>
    \<not> between (fq_from_user_id r) (fq_to_user_id r) (tables w) \<and>
    pending_exists (cfr_from_user_id cmd) (cfr_to_user_id cmd) d'"
proof -
  let ?from = "cfr_from_user_id cmd" and ?to = "cfr_to_user_id cmd"
  define P where "P d \<longleftrightarrow> r \<in> set (friend_requests d) \<or> fq_status r \<noteq> ''PENDING'' \<and> is_request ?from ?to r \<and>
    \<not> between (fq_from_user_id r) (fq_to_user_id r) (tables w) \<and> pending_exists ?from ?to d" for d
  obtain a b where ab: "sort_pair ?from ?to = (a, b)" by fastforce
  have asked: "P d1" if "\<not> already_friends a b (tables w)" "upsert_friend_request ?from ?to now (tables w) = Inr (x, d1)"
    for now x d1
    using that(2)
  proof (cases rule: upsert_cases)
    case 1
    with r show ?thesis by (simp add: P_def)
  next
    case (2 row)
    with r show ?thesis by (simp add: P_def)
  next
    case (3 row r0)
    show ?thesis
    proof (cases "is_request ?from ?to r")
      case True
      then have "r = r0" using one_request [OF ok r 3(5)] 3(6) by (simp add: is_request_def)
      moreover have "row \<in> set (friend_requests d1)"
        unfolding 3(8) using 3(5,6) by (auto simp: set_update_where)
      ultimately show ?thesis
        using True that(1) ab 3(2,3,7) by (auto simp: P_def is_request_def between_def pending_exists_def)
    next
      case False
      have "r \<in> set (friend_requests d1)"
        unfolding 3(8) using update_where_miss [OF r, of "is_request ?from ?to", OF False] by simp
      then show ?thesis by (simp add: P_def)
    qed
  qed
  have "P (tables w)" using r by (simp add: P_def)
  then have "wp (create_friend_request sqlx_friendship_repository cmd) (\<lambda>_ w. P (tables w)) (\<lambda>_ w. P (tables w)) w"
    by (auto simp: create_friend_request_def sqlx_friendship_repository_def repo_create_friend_request_def ab
        split: sum.split option.split intro: asked)
  then show ?thesis unfolding d' by (simp add: wp_snd P_def)
qed

definition settled :: "FriendRequestRecord \<Rightarrow> string \<Rightarrow> db \<Rightarrow> bool" where
  "settled r status d \<longleftrightarrow>
     (\<exists>at. r\<lparr>fq_status := status, fq_responded_at := Some at\<rparr> \<in> set (friend_requests d))"

lemma set_request_status_effect:
  assumes "r \<in> set (friend_requests d)" and "set_request_status hit status now d = Inr (n, d')"
  shows "if hit r then settled r status d' else r \<in> set (friend_requests d')"
proof (cases "hit r")
  case True
  have "r\<lparr>fq_status := status, fq_responded_at := Some now\<rparr> \<in>
      set (update_where hit (\<lambda>r. r\<lparr>fq_status := status, fq_responded_at := Some now\<rparr>) (friend_requests d))"
    by (rule update_where_hit [OF assms(1)]) (simp_all add: True)
  with True assms(2) show ?thesis by (auto simp: set_request_status_def settled_def)
next
  case False
  with update_where_miss [OF assms(1), of hit, OF False] assms(2) show ?thesis by (auto simp: set_request_status_def)
qed

lemma reject_friend_effect:
  assumes r: "r \<in> set (friend_requests (tables w))"
    and d': "d' = tables (snd (reject_friend_request sqlx_friendship_repository cmd w))"
  shows "r \<in> set (friend_requests d') \<or> fq_status r = ''PENDING'' \<and>
    is_request (rfr_from_user_id cmd) (rfr_user_id cmd) r \<and> settled r ''REJECTED'' d'"
proof -
  define P where "P d \<longleftrightarrow> r \<in> set (friend_requests d) \<or> fq_status r = ''PENDING'' \<and>
    is_request (rfr_from_user_id cmd) (rfr_user_id cmd) r \<and> settled r ''REJECTED'' d" for d
  have "P d1" if "set_request_status (\<lambda>r. is_request (rfr_from_user_id cmd) (rfr_user_id cmd) r \<and>
      fq_status r = ''PENDING'') ''REJECTED'' now (tables w) = Inr (n, d1)" for now n d1
    using set_request_status_effect [OF r that] by (auto simp: P_def split: if_splits)
  moreover have "P (tables w)" using r by (simp add: P_def)
  ultimately have "wp (reject_friend_request sqlx_friendship_repository cmd) (\<lambda>_ w. P (tables w)) (\<lambda>_ w. P (tables w)) w"
    by (auto simp: reject_friend_request_def sqlx_friendship_repository_def repo_reject_friend_request_def
        split: sum.split)
  then show ?thesis unfolding d' by (simp add: wp_snd P_def)
qed

lemma accept_request_effect:
  assumes ok: "friend_ok (tables w)" and r: "r \<in> set (friend_requests (tables w))"
    and d': "d' = tables (snd (accept_friend_request sqlx_friendship_repository cmd w))"
  shows "r \<in> set (friend_requests d') \<or> fq_status r = ''PENDING'' \<and>
    is_request (rfr_from_user_id cmd) (rfr_user_id cmd) r \<and> settled r ''ACCEPTED'' d' \<and>
    between (fq_from_user_id r) (fq_to_user_id r) d'"
proof -
  let ?hit = "is_request (rfr_from_user_id cmd) (rfr_user_id cmd)"
  obtain a b where ab: "sort_pair (rfr_from_user_id cmd) (rfr_user_id cmd) = (a, b)" by fastforce
  define P where "P d \<longleftrightarrow> r \<in> set (friend_requests d) \<or> fq_status r = ''PENDING'' \<and> ?hit r \<and>
    settled r ''ACCEPTED'' d \<and> between (fq_from_user_id r) (fq_to_user_id r) d" for d
  have P0: "P (tables w)" using r by (simp add: P_def)
  have added: "friend_requests d2 = friend_requests d1 \<and> between (rfr_from_user_id cmd) (rfr_user_id cmd) d2"
    if "insert_friends_or_ignore a b now d1 = Inr (y, d2)" for now d1 y d2
    using already_friends_insert(1,2) [OF that] by (simp add: between_def ab)
  have same: "P d2 = P d1" if "activate_pair_thread a b now d1 = Inr (y, d2)" for now d1 y d2
  proof -
    have "friends d2 = friends d1" "friend_requests d2 = friend_requests d1"
      using that by (auto simp: activate_pair_thread_def)
    then show ?thesis using between_cong [of d2 d1] by (simp add: P_def settled_def)
  qed
  have kept: "P d2" if "insert_friends_or_ignore a b now (tables w) = Inr (y, d2)" for now y d2
    using added [OF that] r by (simp add: P_def)
  have taken: "P d2" if "find ?hit (friend_requests (tables w)) = Some r0" "fq_status r0 = ''PENDING''"
    "set_request_status ?hit ''ACCEPTED'' now (tables w) = Inr (n, d1)" "insert_friends_or_ignore a b now' d1 = Inr (y, d2)"
    for r0 now n d1 now' y d2
  proof (cases "?hit r")
    case True
    with one_request [OF ok r] find_in_set [OF that(1)] have "r = r0" by (auto simp: is_request_def)
    with True added [OF that(4)] set_request_status_effect [OF r that(3)] that(2) show ?thesis
      by (auto simp: P_def settled_def is_request_def)
  next
    case False
    with added [OF that(4)] set_request_status_effect [OF r that(3)] show ?thesis by (simp add: P_def)
  qed
  have "wp (accept_friend_request sqlx_friendship_repository cmd) (\<lambda>_ w. P (tables w)) (\<lambda>_ w. P (tables w)) w"
    using P0 by (auto simp: accept_friend_request_def sqlx_friendship_repository_def repo_accept_friend_request_def
        friend_summary_for_user_def ab same split: sum.split option.split prod.split intro: kept taken)
  then show ?thesis unfolding d' by (simp add: wp_snd P_def)
qed

text \<open>
  C14: the life of a friend request.  A request of any kind leaves it as it is, or the user who was asked
  settles a pending one: accepting it makes the two users friends, rejecting it does not; or the user
  who asked asks again after a rejection.  An accepted request stays accepted.
\<close>

theorem friend_request_life:
  assumes ok: "friend_ok (tables w)" and r: "r \<in> set (friend_requests (tables w))"
    and w': "w' = serve_conversation simple req w"
  shows "r \<in> set (friend_requests (tables w')) \<or>
    (case req of
       AcceptFriend cmd \<Rightarrow> fq_status r = ''PENDING'' \<and> is_request (rfr_from_user_id cmd) (rfr_user_id cmd) r \<and>
         settled r ''ACCEPTED'' (tables w') \<and> between (fq_from_user_id r) (fq_to_user_id r) (tables w')
     | RejectFriend cmd \<Rightarrow> fq_status r = ''PENDING'' \<and> is_request (rfr_from_user_id cmd) (rfr_user_id cmd) r \<and>
         settled r ''REJECTED'' (tables w')
     | Befriend cmd \<Rightarrow> fq_status r = ''REJECTED'' \<and> is_request (cfr_from_user_id cmd) (cfr_to_user_id cmd) r \<and>
         pending_exists (cfr_from_user_id cmd) (cfr_to_user_id cmd) (tables w')
     | _ \<Rightarrow> False)"
proof (cases req)
  case (AcceptFriend cmd)
  then show ?thesis using accept_request_effect [OF ok r refl, of cmd] w' by simp
next
  case (RejectFriend cmd)
  then show ?thesis using reject_friend_effect [OF r refl, of cmd] w' by simp
next
  case (Befriend cmd)
  have "fq_status r \<noteq> ''ACCEPTED''" if "\<not> between (fq_from_user_id r) (fq_to_user_id r) (tables w)"
    using friend_okD(2) [OF ok r] that by blast
  with friend_okD(1) [OF ok r] show ?thesis
    using befriend_effect [OF ok r refl, of cmd] w' Befriend by (auto simp: request_shape_def)
qed (use r w' friendship_tables_serve [of req simple w] in simp_all)

text \<open>User 1 has asked user 2 to be friends.\<close>

definition courting_world :: world where
  "courting_world = asking_world\<lparr>tables := (tables asking_world)
     \<lparr>friend_requests := [\<lparr>fq_from_user_id = 1, fq_to_user_id = 2, fq_status = ''PENDING'', fq_created_at = 0,
        fq_responded_at = None\<rparr>]\<rparr>\<rparr>"

lemma courting_world_ok: "friend_ok (tables courting_world)" "healthy courting_world" "conv_ok (tables courting_world)"
proof -
  show "friend_ok (tables courting_world)"
    by (simp add: friend_ok_def courting_world_def asking_world_def quiet_world_def empty_db_def request_shape_def
        between_def sort_pair_def already_friends_def pending_exists_def is_request_def)
  show "healthy courting_world" using asking_world_ok(2) by (simp add: courting_world_def)
  have "conv_ok (tables courting_world) = conv_ok (tables asking_world)"
    by (rule conv_ok_cong) (simp_all add: courting_world_def)
  then show "conv_ok (tables courting_world)" using asking_world_ok(1) by simp
qed

theorem friend_request_life_witness:
  "settled (hd (friend_requests (tables courting_world))) ''ACCEPTED''
     (tables (serve_conversation (\<lambda>u. []) (AcceptFriend \<lparr>rfr_user_id = 2, rfr_from_user_id = 1\<rparr>) courting_world))"
proof -
  let ?r = "hd (friend_requests (tables courting_world))"
  let ?req = "AcceptFriend \<lparr>rfr_user_id = 2, rfr_from_user_id = 1\<rparr>"
  have "?r \<in> set (friend_requests (tables courting_world))" by (simp add: courting_world_def)
  moreover have "?r \<notin> set (friend_requests (tables (serve_conversation (\<lambda>u. []) ?req courting_world)))"
    by code_simp
  ultimately show ?thesis
    using friend_request_life [OF courting_world_ok(1) _ refl, of ?r "\<lambda>u. []" ?req] by simp
qed


section \<open>Accepting\<close>






end
