(* ===== verification/Http_Proofs.thy ===== *)
theory Http_Proofs
  imports Http Config Message_History Guild_Proofs Friendship_Proofs
begin

text \<open>
  What the API as a whole promises of its callers: a request without a valid token changes nothing, and
  a request acts for the user of its token only.
\<close>

section \<open>Authentication\<close>


















end
