(* ===== verification/Request_Steps.thy ===== *)
theory Request_Steps
  imports Http_Proofs Sessions
begin

text \<open>
  How requests and websocket sessions meet: what a request does to the gateway is a sequence of
  publications, which the state machine of the sessions has as its steps from elsewhere.
\<close>

definition announces :: "env \<Rightarrow> (server, 'a) app \<Rightarrow> bool" where
  "announces env m \<longleftrightarrow> (\<forall>s. \<exists>evs. gate (snd (m s)) = gate (fold (outside_step env) evs s))"




lemma announces_quiet: "(\<And>s. gate (snd (m s)) = gate s) \<Longrightarrow> announces env m"
  unfolding announces_def by (metis fold_simps(1))

lemma announces_nothing [simp, intro]:
  "announces env (ret x)" "announces env (from_result r)" "announces env (in_db q)"
  "announces env (limited key limit window_secs)" "announces env (authenticate app header)"
  by (rule announces_quiet, auto simp: ret_def from_result_def in_db_def limited_def authenticate_def
      server_allow_rate_limit_def simp del: gate_in_db gate_rate_limit split: prod.split)+







end
