(* ===== verification/Stored_Values.thy ===== *)
theory Stored_Values
  imports Application_Proofs
begin

text \<open>
  The form of what is stored.  The tables hold names and texts in columns that take any text; the use
  cases check every text before it is stored, and store it without the white space at its ends.
\<close>

definition stored_ok :: "db \<Rightarrow> bool" where
  "stored_ok d \<longleftrightarrow>
     (\<forall>u\<in>set (users d). text_within 3 32 (usr_username u) \<and> email_form (usr_email u)) \<and>
     (\<forall>g\<in>set (guilds d). text_within 2 80 (guild_name g)) \<and>
     (\<forall>c\<in>set (channels d). text_within 1 80 (cha_name c)) \<and>
     (\<forall>t\<in>set (threads d). case th_name t of None \<Rightarrow> True | Some n \<Rightarrow> text_within 2 80 n) \<and>
     (\<forall>m\<in>set (messages d). text_within 1 4000 (msg_content m)) \<and>
     (\<forall>m\<in>set (thread_messages d). text_within 1 4000 (tmsg_content m))"

section \<open>Statements\<close>

text \<open>Only six tables matter.\<close>

lemma stored_ok_cong:
  "users d' = users d \<Longrightarrow> guilds d' = guilds d \<Longrightarrow> channels d' = channels d \<Longrightarrow> threads d' = threads d \<Longrightarrow>
   messages d' = messages d \<Longrightarrow> thread_messages d' = thread_messages d \<Longrightarrow> stored_ok d' = stored_ok d"
  by (simp add: stored_ok_def)





lemma stored_friend_statements [intro]:
  "preserves stored_ok (upsert_friend_request from to)"
  "preserves stored_ok (set_request_status hit st)"
  "preserves stored_ok (insert_friends_or_ignore a b)"
  "preserves stored_ok (activate_pair_thread a b)"
  by (rule preservesI, auto simp: stored_ok_def upsert_friend_request_def set_request_status_def
      insert_friends_or_ignore_def activate_pair_thread_def set_update_where Let_def
      split: if_splits option.splits)+

section \<open>Services\<close>













end
