(* ===== verification/Invite_Proofs.thy ===== *)
theory Invite_Proofs
  imports Guild_Proofs Conversation_Proofs
begin

text \<open>
  Invites.  A guild and a group of users are joined with a token by two copies of the same code; what
  both promise is stated once, as a locale: nobody is admitted by a closed invite, and an invite counts
  exactly the users that it admitted, never beyond its limit.
\<close>

section \<open>The gate\<close>

locale invite_gate =
  fixes join :: "'u \<Rightarrow> 's \<Rightarrow> 's" and ok :: "'s \<Rightarrow> bool" and admitted :: "'s \<Rightarrow> 'u set"
    and used :: "'s \<Rightarrow> int" and limit :: "'s \<Rightarrow> int option" and in_force :: "'s \<Rightarrow> bool"
  assumes ok_join: "ok s \<Longrightarrow> ok (join u s)"
    and limit_join: "ok s \<Longrightarrow> limit (join u s) = limit s"
    and in_force_join: "ok s \<Longrightarrow> in_force (join u s) = in_force s"
    and admitted_join: "ok s \<Longrightarrow>
      admitted (join u s) = admitted s \<and> used (join u s) = used s \<or>
      u \<notin> admitted s \<and> admitted (join u s) = insert u (admitted s) \<and> used (join u s) = used s + 1 \<and>
      in_force s \<and> (case limit s of None \<Rightarrow> True | Some m \<Rightarrow> used s < m)"
begin

lemma counts_admissions:
  assumes "ok s"
  shows "ok (fold join us s) \<and> admitted s \<subseteq> admitted (fold join us s) \<and>
    admitted (fold join us s) - admitted s \<subseteq> set us \<and>
    int (card (admitted (fold join us s) - admitted s)) = used (fold join us s) - used s \<and>
    limit (fold join us s) = limit s \<and> in_force (fold join us s) = in_force s"
  using assms
proof (induction us arbitrary: s)
  case (Cons u us)
  let ?s = "join u s" and ?t = "fold join us (join u s)"
  note IH = Cons.IH [OF ok_join [OF Cons.prems, of u]]
  note same = limit_join [OF Cons.prems, of u] in_force_join [OF Cons.prems, of u]
  from admitted_join [OF Cons.prems, of u] show ?case
  proof (elim disjE conjE)
    assume "admitted ?s = admitted s" "used ?s = used s"
    with IH same show ?thesis by (simp only: fold_Cons comp_def set_simps) blast
  next
    assume new: "u \<notin> admitted s" "admitted ?s = insert u (admitted s)" "used ?s = used s + 1"
    have sub: "insert u (admitted s) \<subseteq> admitted ?t" "admitted ?t - admitted ?s \<subseteq> set us" using IH new(2) by simp_all
    have split: "admitted ?t - admitted s = insert u (admitted ?t - admitted ?s)" using new(1,2) sub(1) by blast
    have "finite (admitted ?t - admitted ?s)" by (rule finite_subset [OF sub(2)]) simp
    then have "card (admitted ?t - admitted s) = Suc (card (admitted ?t - admitted ?s))"
      unfolding split using new(2) by (intro card_insert_disjoint) simp_all
    moreover have "admitted ?t - admitted s \<subseteq> set (u # us)" unfolding split using sub(2) by auto
    ultimately show ?thesis using IH same new(3) sub(1) by simp
  qed
qed simp

lemma limit_respected:
  assumes "ok s" and "limit s = Some m" and "used s \<le> m"
  shows "used (fold join us s) \<le> m"
  using assms
proof (induction us arbitrary: s)
  case (Cons u us)
  have "used (join u s) \<le> m" using admitted_join [OF Cons.prems(1), of u] Cons.prems by auto
  then show ?case using Cons by (simp add: ok_join limit_join)
qed simp

lemma closed_admits_nobody:
  assumes "ok s" and "\<not> in_force s \<or> (\<exists>m. limit s = Some m \<and> m \<le> used s)"
  shows "admitted (fold join us s) = admitted s"
  using assms
proof (induction us arbitrary: s)
  case (Cons u us)
  have same: "admitted (join u s) = admitted s \<and> used (join u s) = used s"
    using admitted_join [OF Cons.prems(1), of u] Cons.prems(2) by auto
  then show ?case using Cons by (auto simp: ok_join limit_join in_force_join)
qed simp

end

section \<open>Guild invites\<close>

definition guild_invite :: "rstring \<Rightarrow> world \<Rightarrow> guild_invite_row option" where
  "guild_invite token w = find (\<lambda>i. gir_token i = token) (guild_invites (tables w))"

definition guild_join :: "(uuid \<Rightarrow> rstring) \<Rightarrow> rstring \<Rightarrow> uuid \<Rightarrow> world \<Rightarrow> world" where
  "guild_join simple token u w =
     snd (join_guild_invite (guild_use_case simple) \<lparr>jgi_user_id = u, jgi_token = token\<rparr> w)"

definition members_of :: "uuid \<Rightarrow> world \<Rightarrow> uuid set" where
  "members_of g w = {u. (g, u) \<in> set (guild_members (tables w))}"

definition guild_invite_live :: "rstring \<Rightarrow> world \<Rightarrow> bool" where
  "guild_invite_live token w \<longleftrightarrow> (\<exists>i. guild_invite token w = Some i \<and> gir_revoked_at i = None \<and>
     clock w \<le> gir_expires_at i)"

lemma find_bumped:
  assumes "\<And>i. key (f i) = key i"
  shows "find (\<lambda>i. key i = k) (update_where (\<lambda>i. key i = k) f rows) = map_option f (find (\<lambda>i. key i = k) rows)"
  using assms by (induction rows) (auto simp: update_where_def)

text \<open>What a join does to the world: nothing, or one admission.\<close>

definition admission :: "rstring \<Rightarrow> uuid \<Rightarrow> world \<Rightarrow> world \<Rightarrow> bool" where
  "admission token u w w' \<longleftrightarrow> clock w' = clock w \<and> (guild_invites (tables w') = guild_invites (tables w) \<and>
     guild_members (tables w') = guild_members (tables w) \<or>
     (case guild_invite token w of None \<Rightarrow> False | Some i \<Rightarrow>
       u \<notin> members_of (gir_guild_id i) w \<and> gir_revoked_at i = None \<and> clock w \<le> gir_expires_at i \<and>
       (case gir_max_uses i of None \<Rightarrow> True | Some m \<Rightarrow> gir_uses_count i < m) \<and>
       guild_members (tables w') = guild_members (tables w) @ [(gir_guild_id i, u)] \<and>
       guild_invites (tables w') = update_where (\<lambda>i. gir_token i = token)
         (\<lambda>i. i\<lparr>gir_uses_count := gir_uses_count i + 1\<rparr>) (guild_invites (tables w))))"

lemma admission_same: "clock w' = clock w \<Longrightarrow> tables w' = tables w \<Longrightarrow> admission token u w w'"
  by (simp add: admission_def)

lemma bumped:
  "bump_guild_invite token t d = Inr (x, d') \<Longrightarrow> guild_members d' = guild_members d \<and>
   guild_invites d' = update_where (\<lambda>i. gir_token i = token) (\<lambda>i. i\<lparr>gir_uses_count := gir_uses_count i + 1\<rparr>)
     (guild_invites d)"
  by (auto simp: bump_guild_invite_def split: if_splits)

lemma repo_join_admission:
  "wp (repo_join_guild_via_invite token u) (\<lambda>_. admission token u w) (\<lambda>_. admission token u w) w"
proof (cases "select_guild_invite token (tables w)")
  case None
  then show ?thesis by (simp add: repo_join_guild_via_invite_def admission_same)
next
  case (Some j)
  then obtain i g where i: "guild_invite token w = Some i"
    and g: "find (\<lambda>g. guild_id g = gir_guild_id i) (guilds (tables w)) = Some g"
    and j: "j = \<lparr>jg_guild = g, jg_expires_at = gir_expires_at i, jg_max_uses = gir_max_uses i,
      jg_uses_count = gir_uses_count i, jg_revoked_at = gir_revoked_at i\<rparr>"
    by (auto simp: select_guild_invite_def guild_invite_def bind_eq_Some_conv)
  have id: "guild_id g = gir_guild_id i" using find_in_set [OF g] by simp
  show ?thesis
    using Some unfolding j
    by (auto simp: repo_join_guild_via_invite_def Let_def default_role_id_def attach_default_role_to_member_def id
        insert_guild_member_or_ignore_def insert_member_role_def admission_same not_less not_le
        admission_def i members_of_def dest!: bumped split: option.split sum.split prod.split)
qed

lemma guild_join_admission: "admission (trim token) u w (guild_join simple token u w)"
  using repo_join_admission [of "trim token" u w]
  by (auto simp: guild_join_def join_guild_invite_def Let_def admission_same simp flip: wp_snd)

definition guild_gate :: "rstring \<Rightarrow> uuid \<Rightarrow> world \<Rightarrow> bool" where
  "guild_gate token g w \<longleftrightarrow> (\<exists>i. guild_invite token w = Some i \<and> gir_guild_id i = g)"

definition guild_invite_used :: "rstring \<Rightarrow> world \<Rightarrow> int" where
  "guild_invite_used token w = (case guild_invite token w of None \<Rightarrow> 0 | Some i \<Rightarrow> gir_uses_count i)"

definition guild_invite_limit :: "rstring \<Rightarrow> world \<Rightarrow> int option" where
  "guild_invite_limit token w = Option.bind (guild_invite token w) gir_max_uses"

interpretation guild_gate: invite_gate "guild_join simple token" "guild_gate (trim token) g" "members_of g"
  "guild_invite_used (trim token)" "guild_invite_limit (trim token)" "guild_invite_live (trim token)"
  for simple token g
proof unfold_locales
  fix w u assume "guild_gate (trim token) g w"
  then obtain i where i: "guild_invite (trim token) w = Some i" "gir_guild_id i = g" by (auto simp: guild_gate_def)
  let ?w = "guild_join simple token u w"
  have a: "clock ?w = clock w" "guild_invite (trim token) ?w = Some i \<and> members_of g ?w = members_of g w \<or>
      guild_invite (trim token) ?w = Some (i\<lparr>gir_uses_count := gir_uses_count i + 1\<rparr>) \<and>
      u \<notin> members_of g w \<and> members_of g ?w = insert u (members_of g w) \<and> gir_revoked_at i = None \<and>
      clock w \<le> gir_expires_at i \<and> (case gir_max_uses i of None \<Rightarrow> True | Some m \<Rightarrow> gir_uses_count i < m)"
    using guild_join_admission [of token u w simple] i
    by (auto simp: admission_def guild_invite_def members_of_def find_bumped)
  then show "guild_gate (trim token) g ?w" "guild_invite_limit (trim token) ?w = guild_invite_limit (trim token) w"
    "guild_invite_live (trim token) ?w = guild_invite_live (trim token) w"
    using i by (auto simp: guild_gate_def guild_invite_limit_def guild_invite_live_def)
  from a(2) show "members_of g ?w = members_of g w \<and> guild_invite_used (trim token) ?w = guild_invite_used (trim token) w \<or>
      u \<notin> members_of g w \<and> members_of g ?w = insert u (members_of g w) \<and>
      guild_invite_used (trim token) ?w = guild_invite_used (trim token) w + 1 \<and> guild_invite_live (trim token) w \<and>
      (case guild_invite_limit (trim token) w of None \<Rightarrow> True | Some m \<Rightarrow> guild_invite_used (trim token) w < m)"
    unfolding guild_invite_used_def guild_invite_limit_def guild_invite_live_def i(1)
    by (elim disjE conjE) (simp_all split: option.splits)
qed

text \<open>
  C19: a guild invite counts exactly the users it admitted, and never admits more than its limit: when any
  users try the token in any order, whatever statements fail, the new members of the guild are among them,
  the count of uses has grown by their number, and stays within the limit.  An invite that is revoked,
  expired or used up admits nobody.
\<close>

theorem guild_invite_counts:
  assumes i: "find (\<lambda>i. gir_token i = trim token) (guild_invites (tables w)) = Some i"
    and cap: "case gir_max_uses i of None \<Rightarrow> True | Some m \<Rightarrow> gir_uses_count i \<le> m"
    and w': "w' = fold (\<lambda>u w. snd (join_guild_invite (guild_use_case simple)
      \<lparr>jgi_user_id = u, jgi_token = token\<rparr> w)) us w"
    and new: "new = {u. (gir_guild_id i, u) \<in> set (guild_members (tables w'))} -
      {u. (gir_guild_id i, u) \<in> set (guild_members (tables w))}"
  shows "(\<exists>i'. find (\<lambda>i. gir_token i = trim token) (guild_invites (tables w')) = Some i' \<and> new \<subseteq> set us \<and>
      gir_uses_count i' = gir_uses_count i + int (card new) \<and> gir_max_uses i' = gir_max_uses i \<and>
      (case gir_max_uses i' of None \<Rightarrow> True | Some m \<Rightarrow> gir_uses_count i' \<le> m)) \<and>
    (gir_revoked_at i \<noteq> None \<or> gir_expires_at i < clock w \<or> gir_max_uses i = Some (gir_uses_count i) \<longrightarrow> new = {})"
proof -
  have ok: "guild_gate (trim token) (gir_guild_id i) w"
    using i by (simp add: guild_gate_def guild_invite_def)
  have w': "w' = fold (guild_join simple token) us w" unfolding w' guild_join_def [abs_def] ..
  have "case gir_max_uses i of None \<Rightarrow> True | Some m \<Rightarrow> guild_invite_used (trim token) w' \<le> m"
    using guild_gate.limit_respected [where us = us and token = token and simple = simple, OF ok] cap i
    by (auto simp: w' guild_invite_used_def guild_invite_limit_def guild_invite_def split: option.split)
  then have "\<exists>i'. find (\<lambda>i. gir_token i = trim token) (guild_invites (tables w')) = Some i' \<and> new \<subseteq> set us \<and>
      gir_uses_count i' = gir_uses_count i + int (card new) \<and> gir_max_uses i' = gir_max_uses i \<and>
      (case gir_max_uses i' of None \<Rightarrow> True | Some m \<Rightarrow> gir_uses_count i' \<le> m)"
    using guild_gate.counts_admissions [where us = us and token = token and simple = simple, OF ok] i
    by (auto simp: w' [symmetric] new guild_gate_def guild_invite_used_def guild_invite_limit_def guild_invite_def
        members_of_def split: option.splits)
  moreover have "new = {}" if "gir_revoked_at i \<noteq> None \<or> gir_expires_at i < clock w \<or> gir_max_uses i = Some (gir_uses_count i)"
  proof -
    have "\<not> guild_invite_live (trim token) w \<or>
        (\<exists>m. guild_invite_limit (trim token) w = Some m \<and> m \<le> guild_invite_used (trim token) w)"
      using that i by (auto simp: guild_invite_live_def guild_invite_limit_def guild_invite_used_def guild_invite_def)
    from guild_gate.closed_admits_nobody [where us = us and token = token and simple = simple, OF ok this]
    show ?thesis by (simp add: new w' members_of_def)
  qed
  ultimately show ?thesis by blast
qed

definition invited_world :: world where
  "invited_world = channel_world\<lparr>tables := (tables channel_world)
     \<lparr>users := [demo_user 1, demo_user 2, demo_user 3], guild_members := [(5, 1)], member_roles := [(5, 1, 6)],
      guild_invites := [\<lparr>gir_token = lit ''t'', gir_guild_id = 5, gir_created_by = 1, gir_expires_at = 9,
        gir_max_uses = Some 1, gir_uses_count = 0, gir_revoked_at = None, gir_created_at = 0\<rparr>]\<rparr>\<rparr>"

lemma trim_t: "trim (lit ''t'') = lit ''t''"
  by (simp add: lit_def trim_def is_whitespace_def)

theorem guild_invite_counts_witness:
  "\<exists>i. find (\<lambda>i. gir_token i = lit ''t'') (guild_invites (tables (fold (\<lambda>u w. snd (join_guild_invite
     (guild_use_case (\<lambda>u. [])) \<lparr>jgi_user_id = u, jgi_token = lit ''t''\<rparr> w)) [2, 3] invited_world))) = Some i \<and>
     gir_uses_count i \<le> 1"
proof -
  let ?i = "hd (guild_invites (tables invited_world))"
  have "find (\<lambda>i. gir_token i = trim (lit ''t'')) (guild_invites (tables invited_world)) = Some ?i"
    "case gir_max_uses ?i of None \<Rightarrow> True | Some m \<Rightarrow> gir_uses_count ?i \<le> m" "gir_max_uses ?i = Some 1"
    by (simp_all add: invited_world_def trim_t)
  from guild_invite_counts [OF this(1,2) refl refl, of "\<lambda>u. []" "[2, 3]"] this(3)
  show ?thesis by (auto simp: trim_t)
qed

section \<open>Group invites\<close>

definition group_invite :: "rstring \<Rightarrow> world \<Rightarrow> group_invite_row option" where
  "group_invite token w = find (\<lambda>i. gv_token i = token) (group_invites (tables w))"

definition group_join :: "(uuid \<Rightarrow> rstring) \<Rightarrow> rstring \<Rightarrow> uuid \<Rightarrow> world \<Rightarrow> world" where
  "group_join simple token u w =
     snd (join_group_invite (conversation_use_case simple) \<lparr>jgv_user_id = u, jgv_token = token\<rparr> w)"

definition group_of :: "uuid \<Rightarrow> world \<Rightarrow> uuid set" where
  "group_of tid w = {u. (tid, u) \<in> set (thread_members (tables w))}"

definition group_invite_live :: "rstring \<Rightarrow> world \<Rightarrow> bool" where
  "group_invite_live token w \<longleftrightarrow> (\<exists>i. group_invite token w = Some i \<and> gv_revoked_at i = None \<and>
     clock w \<le> gv_expires_at i)"

definition group_admission :: "rstring \<Rightarrow> uuid \<Rightarrow> world \<Rightarrow> world \<Rightarrow> bool" where
  "group_admission token u w w' \<longleftrightarrow> clock w' = clock w \<and> (group_invites (tables w') = group_invites (tables w) \<and>
     thread_members (tables w') = thread_members (tables w) \<or>
     (case group_invite token w of None \<Rightarrow> False | Some i \<Rightarrow>
       u \<notin> group_of (gv_thread_id i) w \<and> gv_revoked_at i = None \<and> clock w \<le> gv_expires_at i \<and>
       (case gv_max_uses i of None \<Rightarrow> True | Some m \<Rightarrow> gv_used_count i < m) \<and>
       thread_members (tables w') = thread_members (tables w) @ [(gv_thread_id i, u)] \<and>
       group_invites (tables w') = update_where (\<lambda>i. gv_token i = token)
         (\<lambda>i. i\<lparr>gv_used_count := gv_used_count i + 1\<rparr>) (group_invites (tables w))))"

lemma group_admission_same: "clock w' = clock w \<Longrightarrow> tables w' = tables w \<Longrightarrow> group_admission token u w w'"
  by (simp add: group_admission_def)

lemma group_bumped:
  "bump_group_invite token t d = Inr (x, d') \<Longrightarrow> thread_members d' = thread_members d \<and>
   group_invites d' = update_where (\<lambda>i. gv_token i = token) (\<lambda>i. i\<lparr>gv_used_count := gv_used_count i + 1\<rparr>)
     (group_invites d)"
  by (auto simp: bump_group_invite_def split: if_splits)

lemma inserted_one:
  "insert_members_or_ignore tid [u] t d = Inr (n, d') \<Longrightarrow>
   if (tid, u) \<in> set (thread_members d) then n = 0 \<and> d' = d
   else n = 1 \<and> d' = d\<lparr>thread_members := thread_members d @ [(tid, u)]\<rparr>"
  by (auto simp: insert_members_or_ignore_def Let_def split: if_splits)

lemma repo_group_join_admission:
  "wp (repo_join_group_via_invite token u) (\<lambda>_. group_admission token u w) (\<lambda>_. group_admission token u w) w"
proof (cases "select_group_invite token (tables w)")
  case None
  then show ?thesis by (simp add: repo_join_group_via_invite_def group_admission_same)
next
  case (Some j)
  then obtain i where i: "group_invite token w = Some i"
    and j: "ji_thread_id j = gv_thread_id i" "ji_expires_at j = gv_expires_at i" "ji_max_uses j = gv_max_uses i"
      "ji_used_count j = gv_used_count i" "ji_revoked_at j = gv_revoked_at i"
    by (auto simp: select_group_invite_def group_invite_def bind_eq_Some_conv dest: find_in_set)
  show ?thesis
    using Some
    by (auto simp: repo_join_group_via_invite_def Let_def j group_admission_same not_less not_le
        group_admission_def i group_of_def dest!: group_bumped inserted_one
        split: option.split sum.split prod.split if_splits)
qed

lemma group_join_admission: "group_admission (trim token) u w (group_join simple token u w)"
  using repo_group_join_admission [of "trim token" u w]
  by (auto simp: group_join_def join_group_invite_def Let_def group_admission_same simp flip: wp_snd)

definition group_gate :: "rstring \<Rightarrow> uuid \<Rightarrow> world \<Rightarrow> bool" where
  "group_gate token tid w \<longleftrightarrow> (\<exists>i. group_invite token w = Some i \<and> gv_thread_id i = tid)"

definition group_invite_used :: "rstring \<Rightarrow> world \<Rightarrow> int" where
  "group_invite_used token w = (case group_invite token w of None \<Rightarrow> 0 | Some i \<Rightarrow> gv_used_count i)"

definition group_invite_limit :: "rstring \<Rightarrow> world \<Rightarrow> int option" where
  "group_invite_limit token w = Option.bind (group_invite token w) gv_max_uses"

interpretation group_gate: invite_gate "group_join simple token" "group_gate (trim token) g" "group_of g"
  "group_invite_used (trim token)" "group_invite_limit (trim token)" "group_invite_live (trim token)"
  for simple token g
proof unfold_locales
  fix w u assume "group_gate (trim token) g w"
  then obtain i where i: "group_invite (trim token) w = Some i" "gv_thread_id i = g" by (auto simp: group_gate_def)
  let ?w = "group_join simple token u w"
  have a: "clock ?w = clock w" "group_invite (trim token) ?w = Some i \<and> group_of g ?w = group_of g w \<or>
      group_invite (trim token) ?w = Some (i\<lparr>gv_used_count := gv_used_count i + 1\<rparr>) \<and>
      u \<notin> group_of g w \<and> group_of g ?w = insert u (group_of g w) \<and> gv_revoked_at i = None \<and>
      clock w \<le> gv_expires_at i \<and> (case gv_max_uses i of None \<Rightarrow> True | Some m \<Rightarrow> gv_used_count i < m)"
    using group_join_admission [of token u w simple] i
    by (auto simp: group_admission_def group_invite_def group_of_def find_bumped)
  then show "group_gate (trim token) g ?w" "group_invite_limit (trim token) ?w = group_invite_limit (trim token) w"
    "group_invite_live (trim token) ?w = group_invite_live (trim token) w"
    using i by (auto simp: group_gate_def group_invite_limit_def group_invite_live_def)
  from a(2) show "group_of g ?w = group_of g w \<and> group_invite_used (trim token) ?w = group_invite_used (trim token) w \<or>
      u \<notin> group_of g w \<and> group_of g ?w = insert u (group_of g w) \<and>
      group_invite_used (trim token) ?w = group_invite_used (trim token) w + 1 \<and> group_invite_live (trim token) w \<and>
      (case group_invite_limit (trim token) w of None \<Rightarrow> True | Some m \<Rightarrow> group_invite_used (trim token) w < m)"
    unfolding group_invite_used_def group_invite_limit_def group_invite_live_def i(1)
    by (elim disjE conjE) (simp_all split: option.splits)
qed

text \<open>
  C27: a group invite that is revoked, expired or used up admits nobody, and any other admits users up to its
  limit: whoever tries the token, in any order and whatever statements fail, the new members are among
  them, the count of uses has grown by their number, and stays within the limit.
\<close>

theorem group_invite_counts:
  assumes i: "find (\<lambda>i. gv_token i = trim token) (group_invites (tables w)) = Some i"
    and cap: "case gv_max_uses i of None \<Rightarrow> True | Some m \<Rightarrow> gv_used_count i \<le> m"
    and w': "w' = fold (\<lambda>u w. snd (join_group_invite (conversation_use_case simple)
      \<lparr>jgv_user_id = u, jgv_token = token\<rparr> w)) us w"
    and new: "new = {u. (gv_thread_id i, u) \<in> set (thread_members (tables w'))} -
      {u. (gv_thread_id i, u) \<in> set (thread_members (tables w))}"
  shows "(\<exists>i'. find (\<lambda>i. gv_token i = trim token) (group_invites (tables w')) = Some i' \<and> new \<subseteq> set us \<and>
      gv_used_count i' = gv_used_count i + int (card new) \<and> gv_max_uses i' = gv_max_uses i \<and>
      (case gv_max_uses i' of None \<Rightarrow> True | Some m \<Rightarrow> gv_used_count i' \<le> m)) \<and>
    (gv_revoked_at i \<noteq> None \<or> gv_expires_at i < clock w \<or> gv_max_uses i = Some (gv_used_count i) \<longrightarrow> new = {})"
proof -
  have ok: "group_gate (trim token) (gv_thread_id i) w"
    using i by (simp add: group_gate_def group_invite_def)
  have w': "w' = fold (group_join simple token) us w" unfolding w' group_join_def [abs_def] ..
  have "case gv_max_uses i of None \<Rightarrow> True | Some m \<Rightarrow> group_invite_used (trim token) w' \<le> m"
    using group_gate.limit_respected [where us = us and token = token and simple = simple, OF ok] cap i
    by (auto simp: w' group_invite_used_def group_invite_limit_def group_invite_def split: option.split)
  then have counts: "\<exists>i'. find (\<lambda>i. gv_token i = trim token) (group_invites (tables w')) = Some i' \<and> new \<subseteq> set us \<and>
      gv_used_count i' = gv_used_count i + int (card new) \<and> gv_max_uses i' = gv_max_uses i \<and>
      (case gv_max_uses i' of None \<Rightarrow> True | Some m \<Rightarrow> gv_used_count i' \<le> m)"
    using group_gate.counts_admissions [where us = us and token = token and simple = simple, OF ok] i
    by (auto simp: w' [symmetric] new group_gate_def group_invite_used_def group_invite_limit_def group_invite_def
        group_of_def split: option.splits)
  moreover have "new = {}" if "gv_revoked_at i \<noteq> None \<or> gv_expires_at i < clock w \<or> gv_max_uses i = Some (gv_used_count i)"
  proof -
    have "\<not> group_invite_live (trim token) w \<or>
        (\<exists>m. group_invite_limit (trim token) w = Some m \<and> m \<le> group_invite_used (trim token) w)"
      using that i by (auto simp: group_invite_live_def group_invite_limit_def group_invite_used_def group_invite_def)
    from group_gate.closed_admits_nobody [where us = us and token = token and simple = simple, OF ok this]
    show ?thesis by (simp add: new w' group_of_def)
  qed
  ultimately show ?thesis by blast
qed

definition group_world :: world where
  "group_world = quiet_world\<lparr>tables := (tables quiet_world)
     \<lparr>threads := [\<lparr>th_id = 9, th_kind = ''GROUP'', th_name = Some (lit ''us''), th_owner_id = Some 1,
        th_direct_a_user_id = None, th_direct_b_user_id = None, th_direct_status = ''ACTIVE'',
        th_requested_by = None, th_accepted_at = None, th_created_at = 0\<rparr>],
      thread_members := [(9, 1)],
      group_invites := [\<lparr>gv_token = lit ''t'', gv_thread_id = 9, gv_created_by = 1, gv_expires_at = 9,
        gv_max_uses = Some 1, gv_used_count = 0, gv_revoked_at = None, gv_created_at = 0\<rparr>]\<rparr>\<rparr>"

theorem group_invite_counts_witness:
  "\<exists>i. find (\<lambda>i. gv_token i = lit ''t'') (group_invites (tables (fold (\<lambda>u w. snd (join_group_invite
     (conversation_use_case (\<lambda>u. [])) \<lparr>jgv_user_id = u, jgv_token = lit ''t''\<rparr> w)) [2, 3] group_world))) = Some i \<and>
     gv_used_count i \<le> 1"
proof -
  let ?i = "hd (group_invites (tables group_world))"
  have "find (\<lambda>i. gv_token i = trim (lit ''t'')) (group_invites (tables group_world)) = Some ?i"
    "case gv_max_uses ?i of None \<Rightarrow> True | Some m \<Rightarrow> gv_used_count ?i \<le> m" "gv_max_uses ?i = Some 1"
    by (simp_all add: group_world_def trim_t)
  from group_invite_counts [OF this(1,2) refl refl, of "\<lambda>u. []" "[2, 3]"] this(3)
  show ?thesis by (auto simp: trim_t)
qed

end
