(* ===== verification/Openapi.thy ===== *)
theory Openapi
  imports Http
begin

text \<open>
  The table of routes and its documentation.  \<open>interfaces/http/openapi.rs\<close> describes each path of the
  API in an annotation: its method, path, tag, parameters, the schema of its body and its responses.
  The repository's script \<open>check_openapi_coverage.sh\<close> compares the path literals of the two files; the
  theorem here compares the tables, methods and parameters included.
\<close>

section \<open>The documentation\<close>

datatype location = InPath | InQuery

text \<open>Method, path, tag, parameters with their types, schema of the body, statuses with their schemas.\<close>

type_synonym documented =
  "http_method \<times> segment list \<times> string \<times> (string \<times> string \<times> location) list \<times> string option \<times>
   (nat \<times> string option) list"

definition system_paths :: "documented list" where
  "system_paths =
     [(GET, [Fixed ''health''], ''System'',
       [], None,
       [(200, Some ''HealthResponseDoc'')]),
      (GET, [Fixed ''openapi.json''], ''System'',
       [], None,
       [(200, None)]),
      (GET, [Fixed ''metrics''], ''System'',
       [], None,
       [(200, None)]),
      (GET, [Fixed ''ws''], ''System'',
       [], None,
       [(101, None)])]"

definition auth_paths :: "documented list" where
  "auth_paths =
     [(POST, [Fixed ''api'', Fixed ''auth'', Fixed ''register''], ''Auth'',
       [], Some ''RegisterRequest'',
       [(200, Some ''RegisterResponseDoc''), (400, Some ''ApiErrorResponseDoc''), (409, Some ''ApiErrorResponseDoc'')]),
      (POST, [Fixed ''api'', Fixed ''auth'', Fixed ''login''], ''Auth'',
       [], Some ''LoginRequest'',
       [(200, Some ''TokenPairDoc''), (401, Some ''ApiErrorResponseDoc''), (429, Some ''ApiErrorResponseDoc'')]),
      (POST, [Fixed ''api'', Fixed ''auth'', Fixed ''refresh''], ''Auth'',
       [], Some ''RefreshRequest'',
       [(200, Some ''TokenPairDoc''), (401, Some ''ApiErrorResponseDoc'')]),
      (POST, [Fixed ''api'', Fixed ''auth'', Fixed ''logout''], ''Auth'',
       [], Some ''LogoutRequest'',
       [(200, Some ''MessageResponse''), (400, Some ''ApiErrorResponseDoc'')]),
      (GET, [Fixed ''api'', Fixed ''auth'', Fixed ''me''], ''Auth'',
       [], None,
       [(200, Some ''MeResponseDoc''), (401, Some ''ApiErrorResponseDoc'')])]"

definition friendship_paths :: "documented list" where
  "friendship_paths =
     [(GET, [Fixed ''api'', Fixed ''friends''], ''Friendship'',
       [], None,
       [(200, Some ''FriendsListResponseDoc''), (401, Some ''ApiErrorResponseDoc'')]),
      (POST, [Fixed ''api'', Fixed ''friends'', Fixed ''requests''], ''Friendship'',
       [], Some ''CreateFriendRequest'',
       [(200, Some ''FriendRequestCreateResponseDoc''), (400, Some ''ApiErrorResponseDoc''), (404, Some ''ApiErrorResponseDoc'')]),
      (GET, [Fixed ''api'', Fixed ''friends'', Fixed ''requests''], ''Friendship'',
       [(''inbox'', ''Option<String>'', InQuery)], None,
       [(200, Some ''FriendRequestListResponseDoc''), (400, Some ''ApiErrorResponseDoc'')]),
      (POST, [Fixed ''api'', Fixed ''friends'', Fixed ''requests'', Param ''from_user_id'', Fixed ''accept''], ''Friendship'',
       [(''from_user_id'', ''Uuid'', InPath)], None,
       [(200, Some ''FriendAcceptResponseDoc''), (404, Some ''ApiErrorResponseDoc'')]),
      (POST, [Fixed ''api'', Fixed ''friends'', Fixed ''requests'', Param ''from_user_id'', Fixed ''reject''], ''Friendship'',
       [(''from_user_id'', ''Uuid'', InPath)], None,
       [(200, Some ''MessageResponse''), (404, Some ''ApiErrorResponseDoc'')])]"

definition guild_paths :: "documented list" where
  "guild_paths =
     [(GET, [Fixed ''api'', Fixed ''guilds''], ''Guilds'',
       [], None,
       [(200, Some ''GuildListResponseDoc''), (401, Some ''ApiErrorResponseDoc'')]),
      (POST, [Fixed ''api'', Fixed ''guilds''], ''Guilds'',
       [], Some ''CreateGuildRequest'',
       [(200, Some ''GuildEnvelopeDoc''), (400, Some ''ApiErrorResponseDoc'')]),
      (GET, [Fixed ''api'', Fixed ''guilds'', Param ''guild_id''], ''Guilds'',
       [(''guild_id'', ''Uuid'', InPath)], None,
       [(200, Some ''GuildEnvelopeDoc''), (404, Some ''ApiErrorResponseDoc'')]),
      (POST, [Fixed ''api'', Fixed ''guilds'', Param ''guild_id'', Fixed ''join''], ''Guilds'',
       [(''guild_id'', ''Uuid'', InPath)], None,
       [(200, Some ''MessageResponse'')]),
      (POST, [Fixed ''api'', Fixed ''guilds'', Param ''guild_id'', Fixed ''leave''], ''Guilds'',
       [(''guild_id'', ''Uuid'', InPath)], None,
       [(200, Some ''MessageResponse'')]),
      (POST, [Fixed ''api'', Fixed ''guilds'', Param ''guild_id'', Fixed ''invites''], ''Guilds'',
       [(''guild_id'', ''Uuid'', InPath)], Some ''CreateGuildInviteRequest'',
       [(200, Some ''GuildInviteResponseDoc'')]),
      (POST, [Fixed ''api'', Fixed ''guild-invites'', Param ''token'', Fixed ''join''], ''Guilds'',
       [(''token'', ''String'', InPath)], None,
       [(200, Some ''GuildInviteJoinResponseDoc''), (404, Some ''ApiErrorResponseDoc'')]),
      (GET, [Fixed ''api'', Fixed ''guilds'', Param ''guild_id'', Fixed ''channels''], ''Guilds'',
       [(''guild_id'', ''Uuid'', InPath)], None,
       [(200, Some ''ChannelListResponseDoc'')]),
      (POST, [Fixed ''api'', Fixed ''guilds'', Param ''guild_id'', Fixed ''channels''], ''Guilds'',
       [(''guild_id'', ''Uuid'', InPath)], Some ''CreateChannelRequest'',
       [(200, Some ''ChannelEnvelopeDoc'')]),
      (GET, [Fixed ''api'', Fixed ''channels'', Param ''channel_id''], ''Guilds'',
       [(''channel_id'', ''Uuid'', InPath)], None,
       [(200, Some ''ChannelEnvelopeDoc''), (404, Some ''ApiErrorResponseDoc'')])]"

definition direct_thread_paths :: "documented list" where
  "direct_thread_paths =
     [(GET, [Fixed ''api'', Fixed ''direct-threads''], ''Threads'',
       [(''inbox'', ''Option<String>'', InQuery)], None,
       [(200, Some ''DirectThreadListResponseDoc''), (400, Some ''ApiErrorResponseDoc'')]),
      (POST, [Fixed ''api'', Fixed ''direct-threads''], ''Threads'',
       [], Some ''CreateDirectThreadRequest'',
       [(200, Some ''DirectThreadCreateResponseDoc''), (400, Some ''ApiErrorResponseDoc'')]),
      (GET, [Fixed ''api'', Fixed ''direct-threads'', Param ''thread_id''], ''Threads'',
       [(''thread_id'', ''Uuid'', InPath)], None,
       [(200, Some ''DirectThreadEnvelopeDoc''), (404, Some ''ApiErrorResponseDoc'')]),
      (POST, [Fixed ''api'', Fixed ''direct-threads'', Param ''thread_id'', Fixed ''accept''], ''Threads'',
       [(''thread_id'', ''Uuid'', InPath)], None,
       [(200, Some ''DirectThreadEnvelopeDoc''), (404, Some ''ApiErrorResponseDoc'')]),
      (POST, [Fixed ''api'', Fixed ''direct-threads'', Param ''thread_id'', Fixed ''reject''], ''Threads'',
       [(''thread_id'', ''Uuid'', InPath)], None,
       [(200, Some ''MessageResponse''), (404, Some ''ApiErrorResponseDoc'')])]"

definition group_thread_paths :: "documented list" where
  "group_thread_paths =
     [(GET, [Fixed ''api'', Fixed ''group-threads''], ''Threads'',
       [], None,
       [(200, Some ''GroupThreadListResponseDoc'')]),
      (POST, [Fixed ''api'', Fixed ''group-threads''], ''Threads'',
       [], Some ''CreateGroupThreadRequest'',
       [(200, Some ''GroupThreadEnvelopeDoc''), (400, Some ''ApiErrorResponseDoc'')]),
      (GET, [Fixed ''api'', Fixed ''group-threads'', Param ''thread_id''], ''Threads'',
       [(''thread_id'', ''Uuid'', InPath)], None,
       [(200, Some ''GroupThreadEnvelopeDoc''), (404, Some ''ApiErrorResponseDoc'')]),
      (POST, [Fixed ''api'', Fixed ''group-threads'', Param ''thread_id'', Fixed ''members''], ''Threads'',
       [(''thread_id'', ''Uuid'', InPath)], Some ''AddGroupMemberRequest'',
       [(200, Some ''MessageResponse''), (404, Some ''ApiErrorResponseDoc'')]),
      (POST, [Fixed ''api'', Fixed ''group-threads'', Param ''thread_id'', Fixed ''leave''], ''Threads'',
       [(''thread_id'', ''Uuid'', InPath)], None,
       [(200, Some ''MessageResponse''), (404, Some ''ApiErrorResponseDoc'')]),
      (POST, [Fixed ''api'', Fixed ''group-threads'', Param ''thread_id'', Fixed ''invites''], ''Threads'',
       [(''thread_id'', ''Uuid'', InPath)], Some ''CreateGroupInviteRequest'',
       [(200, Some ''GroupInviteResponseDoc''), (404, Some ''ApiErrorResponseDoc'')]),
      (POST, [Fixed ''api'', Fixed ''group-invites'', Param ''token'', Fixed ''join''], ''Threads'',
       [(''token'', ''String'', InPath)], None,
       [(200, Some ''GroupThreadEnvelopeDoc''), (404, Some ''ApiErrorResponseDoc'')])]"

definition message_paths :: "documented list" where
  "message_paths =
     [(GET, [Fixed ''api'', Fixed ''threads'', Param ''thread_id'', Fixed ''messages''], ''Messages'',
       [(''thread_id'', ''Uuid'', InPath), (''before'', ''Option<Uuid>'', InQuery), (''limit'', ''Option<i64>'', InQuery)], None,
       [(200, Some ''ThreadMessageListResponseDoc''), (400, Some ''ApiErrorResponseDoc'')]),
      (POST, [Fixed ''api'', Fixed ''threads'', Param ''thread_id'', Fixed ''messages''], ''Messages'',
       [(''thread_id'', ''Uuid'', InPath)], Some ''CreateThreadMessageRequest'',
       [(200, Some ''ThreadMessageEnvelopeDoc''), (429, Some ''ApiErrorResponseDoc'')]),
      (PUT, [Fixed ''api'', Fixed ''threads'', Param ''thread_id'', Fixed ''read''], ''Threads'',
       [(''thread_id'', ''Uuid'', InPath)], Some ''MarkThreadReadRequest'',
       [(200, Some ''ThreadReadResponseDoc''), (404, Some ''ApiErrorResponseDoc'')]),
      (PATCH, [Fixed ''api'', Fixed ''thread-messages'', Param ''message_id''], ''Messages'',
       [(''message_id'', ''Uuid'', InPath)], Some ''UpdateThreadMessageRequest'',
       [(200, Some ''ThreadMessageEnvelopeDoc''), (404, Some ''ApiErrorResponseDoc'')]),
      (DELETE, [Fixed ''api'', Fixed ''thread-messages'', Param ''message_id''], ''Messages'',
       [(''message_id'', ''Uuid'', InPath)], None,
       [(200, Some ''MessageResponse''), (404, Some ''ApiErrorResponseDoc'')]),
      (GET, [Fixed ''api'', Fixed ''channels'', Param ''channel_id'', Fixed ''messages''], ''Messages'',
       [(''channel_id'', ''Uuid'', InPath), (''before'', ''Option<Uuid>'', InQuery), (''limit'', ''Option<i64>'', InQuery)], None,
       [(200, Some ''ChannelMessageListResponseDoc''), (400, Some ''ApiErrorResponseDoc'')]),
      (POST, [Fixed ''api'', Fixed ''channels'', Param ''channel_id'', Fixed ''messages''], ''Messages'',
       [(''channel_id'', ''Uuid'', InPath)], Some ''CreateMessageRequest'',
       [(200, Some ''ChannelMessageEnvelopeDoc''), (429, Some ''ApiErrorResponseDoc'')]),
      (PUT, [Fixed ''api'', Fixed ''channels'', Param ''channel_id'', Fixed ''read''], ''Guilds'',
       [(''channel_id'', ''Uuid'', InPath)], Some ''MarkChannelReadRequest'',
       [(200, Some ''ChannelReadResponseDoc''), (404, Some ''ApiErrorResponseDoc'')]),
      (PATCH, [Fixed ''api'', Fixed ''messages'', Param ''message_id''], ''Messages'',
       [(''message_id'', ''Uuid'', InPath)], Some ''UpdateMessageRequest'',
       [(200, Some ''ChannelMessageEnvelopeDoc''), (404, Some ''ApiErrorResponseDoc'')]),
      (DELETE, [Fixed ''api'', Fixed ''messages'', Param ''message_id''], ''Messages'',
       [(''message_id'', ''Uuid'', InPath)], None,
       [(200, Some ''MessageResponse''), (404, Some ''ApiErrorResponseDoc'')])]"

text \<open>\<open>paths(...)\<close> of \<open>ApiDoc\<close>, which lists them in this order.\<close>

definition openapi_paths :: "documented list" where
  "openapi_paths = system_paths @ auth_paths @ friendship_paths @ guild_paths @ direct_thread_paths @
     group_thread_paths @ message_paths"

section \<open>The table of routes is unambiguous\<close>

text \<open>Whether some path matches both patterns.\<close>

fun overlap :: "segment list \<Rightarrow> segment list \<Rightarrow> bool" where
  "overlap [] [] = True"
| "overlap (Fixed s # ps) (Fixed t # qs) = (s = t \<and> overlap ps qs)"
| "overlap (p # ps) (q # qs) = overlap ps qs"
| "overlap _ _ = False"

lemma matches_overlap: "matches p path \<Longrightarrow> matches q path \<Longrightarrow> overlap p q"
proof (induction p path arbitrary: q rule: matches.induct)
  case (2 s ss x xs)
  then show ?case by (cases q; cases "hd q") auto
next
  case (3 n ss x xs)
  then show ?case by (cases q; cases "hd q") auto
qed (auto elim: matches.elims)

lemma router_apart: "sorted_wrt (\<lambda>r r'. \<not> overlap (fst r) (fst r')) router"
  unfolding router_def by simp

lemma router_handlers: "\<forall>(p, hs)\<in>set router. distinct (map fst hs)"
  unfolding router_def by simp

lemma find_apart:
  assumes "sorted_wrt (\<lambda>r r'. \<not> overlap (fst r) (fst r')) rs" and "r \<in> set rs" and "matches (fst r) path"
  shows "find (\<lambda>(p, _). matches p path) rs = Some r"
  using assms by (induction rs) (auto dest: matches_overlap)

text \<open>
  C21: the routes do not depend on the order of the table: a request is handled by an end point exactly
  if some row of the table has a pattern that the path matches and that end point for the method; it
  is answered 404 exactly if the path matches no pattern; and each end point stands in the table once.
\<close>

theorem routing_is_unambiguous:
  "(route m path = Handled e \<longleftrightarrow> (\<exists>(p, hs)\<in>set router. matches p path \<and> (m, e) \<in> set hs)) \<and>
   (route m path = NoRoute \<longleftrightarrow> \<not> (\<exists>(p, hs)\<in>set router. matches p path)) \<and>
   distinct (concat (map (map snd \<circ> snd) router)) \<and> e \<in> set (concat (map (map snd \<circ> snd) router))"
proof (intro conjI)
  show "route m path = Handled e \<longleftrightarrow> (\<exists>(p, hs)\<in>set router. matches p path \<and> (m, e) \<in> set hs)"
  proof (cases "find (\<lambda>(p, _). matches p path) router")
    case None
    then have "\<forall>(p, hs)\<in>set router. \<not> matches p path" by (auto simp: find_None_iff_all)
    with None show ?thesis by (fastforce simp: route_def)
  next
    case (Some row)
    obtain p hs where row: "row = (p, hs)" by (cases row)
    have here: "(p, hs) \<in> set router" "matches p path" using find_in_set [OF Some] by (auto simp: row)
    have only: "p' = p \<and> hs' = hs" if "(p', hs') \<in> set router" "matches p' path" for p' hs'
      using find_apart [OF router_apart, of "(p', hs')" path] that Some by (simp add: row)
    have "map_of hs m = Some e \<longleftrightarrow> (m, e) \<in> set hs"
      using router_handlers here(1) by (intro map_of_eq_Some_iff) auto
    moreover have "route m path = Handled e \<longleftrightarrow> map_of hs m = Some e"
      using Some by (simp add: route_def row split: option.split)
    ultimately show ?thesis using here only by blast
  qed
  show "route m path = NoRoute \<longleftrightarrow> \<not> (\<exists>(p, hs)\<in>set router. matches p path)"
    by (fastforce simp: route_def find_None_iff_all split: option.splits dest: find_in_set)
  show "distinct (concat (map (map snd \<circ> snd) router))"
    unfolding router_def by simp
  show "e \<in> set (concat (map (map snd \<circ> snd) router))"
    unfolding router_def by (cases e) simp_all
qed

section \<open>The documentation describes the router\<close>

definition routed :: "(http_method \<times> segment list) list" where
  "routed = concat (map (\<lambda>(p, hs). map (\<lambda>(m, _). (m, p)) hs) router)"

definition path_params :: "segment list \<Rightarrow> string list" where
  "path_params p = List.map_filter (\<lambda>s. case s of Fixed _ \<Rightarrow> None | Param n \<Rightarrow> Some n) p"

text \<open>
  C22: the documentation and the router agree: a method and a path are documented exactly if they are
  routed, except for the document itself, which only a development set-up serves; no path is documented
  twice; and the path parameters that are documented are those of the path, in their order.
\<close>

theorem documentation_matches_router:
  "set (map (\<lambda>(m, p, _). (m, p)) openapi_paths) = insert (GET, [Fixed ''openapi.json'']) (set routed) \<and>
   distinct (map (\<lambda>(m, p, _). (m, p)) openapi_paths) \<and>
   list_all (\<lambda>(m, p, tag, params, body, responses).
      map fst (filter (\<lambda>(_, _, l). l = InPath) params) = path_params p) openapi_paths"
proof (intro conjI)
  let ?docs = "map (\<lambda>(m, p, _). (m, p)) openapi_paths"
  have "list_all (\<lambda>x. x \<in> set ?docs) ((GET, [Fixed ''openapi.json'']) # routed)" by code_simp
  moreover have "(GET, [Fixed ''openapi.json'']) \<in> set ?docs" by code_simp
  moreover have "list_all (\<lambda>x. x \<in> set ((GET, [Fixed ''openapi.json'']) # routed)) ?docs" by code_simp
  ultimately show "set ?docs = insert (GET, [Fixed ''openapi.json'']) (set routed)"
    unfolding list_all_iff by (intro equalityI subsetI) (simp_all del: set_map, blast)
  show "distinct ?docs" by code_simp
  show "list_all (\<lambda>(m, p, tag, params, body, responses).
      map fst (filter (\<lambda>(_, _, l). l = InPath) params) = path_params p) openapi_paths"
    by code_simp
qed

end
