(* ===== verification/Listener.thy ===== *)
theory Listener
  imports Realtime
begin

text \<open>
  The listener task of \<open>RedisRealtimeService\<close> over its whole life: it reconnects after every failure
  and every disconnection, however many there are, and returns when it is cancelled.
\<close>

text \<open>How a session ends does not depend on the connections of the hub; \<open>None\<close> if it has not ended.\<close>

definition session_exit :: "env \<Rightarrow> session_script \<Rightarrow> SessionExit AppResult option" where
  "session_exit env script = fst (run_pubsub_session env script undefined)"

lemma session_loop_exit: "fst (session_loop env inputs g) = fst (session_loop env inputs g')"
  by (induction env inputs g arbitrary: g' rule: session_loop.induct) auto

lemma run_session_exit: "fst (run_pubsub_session env script g) = session_exit env script"
  using session_loop_exit [of env "ss_inputs script" g undefined]
  by (auto simp: session_exit_def run_pubsub_session_def split: sum.split option.split prod.split)

text \<open>The turns in which the listener returns, and those in which it sleeps before the next one.\<close>

definition cancels :: "env \<Rightarrow> listener_turn \<Rightarrow> bool" where
  "cancels env turn \<longleftrightarrow> lt_cancelled turn \<or> session_exit env (lt_session turn) = Some (Inr Shutdown) \<or>
     lt_cancelled_in_sleep turn"

definition sleeps :: "env \<Rightarrow> listener_turn \<Rightarrow> bool" where
  "sleeps env turn \<longleftrightarrow> \<not> lt_cancelled turn \<and> session_exit env (lt_session turn) \<noteq> Some (Inr Shutdown)"

text \<open>
  The failures in a row that the delay of each turn is for: one after a disconnection, one more after a
  session that failed.
\<close>

fun failures_after :: "env \<Rightarrow> u32 \<Rightarrow> listener_turn list \<Rightarrow> u32 list" where
  "failures_after env n [] = []"
| "failures_after env n (turn # turns) =
     (let n' = (if session_exit env (lt_session turn) = Some (Inr Disconnected) then 1 else saturating_add n 1)
      in n' # failures_after env n' turns)"

text \<open>
  C18: the life of the listener.  If every session comes to an end, the listener has returned exactly if
  some turn was cancelled; before that it never gives up: it sleeps once in each turn up to the first
  cancellation, for the delay that belongs to the failures in a row.
\<close>

theorem listener_life:
  assumes "\<forall>turn\<in>set turns. session_exit env (lt_session turn) \<noteq> None"
    and "run_pubsub_listener env n turns g = (delays, returned, g')"
  shows "returned = (\<exists>turn\<in>set turns. cancels env turn) \<and>
    length delays = length (takeWhile (\<lambda>turn. \<not> cancels env turn) turns) +
      (case dropWhile (\<lambda>turn. \<not> cancels env turn) turns of
         [] \<Rightarrow> 0 | turn # _ \<Rightarrow> if sleeps env turn then 1 else 0) \<and>
    delays = take (length delays)
      (map2 (\<lambda>turn k. reconnect_delay (lt_jitter turn) k) turns (failures_after env n turns))"
  using assms
proof (induction turns arbitrary: n g delays returned g')
  case (Cons turn turns)
  obtain r g1 where run: "run_pubsub_session env (lt_session turn) g = (Some r, g1)"
    and exit: "session_exit env (lt_session turn) = Some r"
    using Cons.prems(1) run_session_exit [of env "lt_session turn" g]
    by (cases "run_pubsub_session env (lt_session turn) g") auto
  define ds where "ds k = fst (run_pubsub_listener env k turns g1)" for k
  define fin where "fin k = fst (snd (run_pubsub_listener env k turns g1))" for k
  define g2 where "g2 k = snd (snd (run_pubsub_listener env k turns g1))" for k
  have rest: "run_pubsub_listener env k turns g1 = (ds k, fin k, g2 k)" for k
    by (simp add: ds_def fin_def g2_def)
  have ends: "\<forall>turn\<in>set turns. session_exit env (lt_session turn) \<noteq> None" using Cons.prems(1) by simp
  note IH = Cons.IH [OF ends rest, THEN conjunct1] Cons.IH [OF ends rest, THEN conjunct2, THEN conjunct1]
    Cons.IH [OF ends rest, THEN conjunct2, THEN conjunct2]
  show ?case
  proof (cases "cancels env turn")
    case True
    with Cons.prems(2) show ?thesis
      by (auto simp: run exit cancels_def sleeps_def Let_def split: if_splits sum.splits SessionExit.splits prod.splits)
  next
    case False
    then obtain k where k: "delays = reconnect_delay (lt_jitter turn) k # ds k" "returned = fin k"
      "failures_after env n (turn # turns) = k # failures_after env k turns"
      using Cons.prems(2)
      by (cases r) (auto simp: run exit rest cancels_def Let_def split: if_splits SessionExit.splits)
    have "take (length (ds k)) (map2 (\<lambda>turn k. reconnect_delay (lt_jitter turn) k) turns (failures_after env k turns)) = ds k"
      using IH(3) [of k] by simp
    then show ?thesis using False IH(1,2) [of k] unfolding k by (simp del: failures_after.simps)
  qed
qed simp

text \<open>A session that fails to connect, one that is disconnected, and a cancellation during the sleep.\<close>

definition demo_turn :: "string + unit \<Rightarrow> bool \<Rightarrow> listener_turn" where
  "demo_turn connect cancelled =
     \<lparr>lt_cancelled = False, lt_session = \<lparr>ss_connect = connect, ss_psubscribes = [], ss_subscribe = Inr (),
        ss_inputs = [StreamEnd]\<rparr>, lt_jitter = 7, lt_cancelled_in_sleep = cancelled\<rparr>"

theorem listener_life_witness:
  "\<forall>env g. case run_pubsub_listener env 0 [demo_turn (Inl ''refused'') False, demo_turn (Inl ''refused'') False,
      demo_turn (Inr ()) True, demo_turn (Inr ()) False] g of
     (delays, returned, _) \<Rightarrow> returned \<and> delays = [reconnect_delay 7 1, reconnect_delay 7 2, reconnect_delay 7 1]"
proof (intro allI)
  fix env g
  let ?turns = "[demo_turn (Inl ''refused'') False, demo_turn (Inl ''refused'') False,
      demo_turn (Inr ()) True, demo_turn (Inr ()) False]"
  have exits: "session_exit env (lt_session (demo_turn (Inl e) b)) = Some (Inl (Internal (''redis pubsub connect failed: '' @ e)))"
    "session_exit env (lt_session (demo_turn (Inr ()) b)) = Some (Inr Disconnected)" for e b
    by (simp_all add: session_exit_def run_pubsub_session_def demo_turn_def)
  have turn: "cancels env (demo_turn c b) = b" "sleeps env (demo_turn c b)" "lt_jitter (demo_turn c b) = 7" for c b
    by (cases c; simp add: cancels_def sleeps_def exits; simp add: demo_turn_def)+
  obtain ds fin g' where run: "run_pubsub_listener env 0 ?turns g = (ds, fin, g')"
    by (metis prod_cases3)
  have two: "saturating_add 0 1 = (1 :: u32)" "saturating_add 1 1 = (2 :: u32)" by (simp_all add: saturating_add_def)
  have ends: "\<forall>turn\<in>set ?turns. session_exit env (lt_session turn) \<noteq> None" by (simp add: exits)
  note life = listener_life [OF ends run]
  have n: "length ds = 3" and fin using life by (simp_all add: turn)
  moreover have "ds = take (length ds) (map2 (\<lambda>turn k. reconnect_delay (lt_jitter turn) k) ?turns
      (failures_after env 0 ?turns))"
    by (rule life [THEN conjunct2, THEN conjunct2])
  ultimately have "ds = [reconnect_delay 7 1, reconnect_delay 7 2, reconnect_delay 7 1]"
    unfolding n by (simp add: exits turn two Let_def numeral_3_eq_3)
  with \<open>fin\<close> show "case run_pubsub_listener env 0 ?turns g of
      (delays, returned, _) \<Rightarrow> returned \<and> delays = [reconnect_delay 7 1, reconnect_delay 7 2, reconnect_delay 7 1]"
    unfolding run by simp
qed

end
