(* ===== verification/Spec2Isabelle.thy ===== *)
theory Spec2Isabelle
  imports Hub_Refinement Session_Life Request_Steps Application_Proofs Stored_Values Invite_Proofs Openapi Listener
begin

text \<open>
  A model of the backend of Sagiton, a chat server with guilds, channels, direct and group threads,
  friendships and a websocket gateway.  The paths below are relative to \<open>src/backend/src/\<close>.

  \<^bold>\<open>The program.\<close>  An HTTP request passes the router (\<open>interfaces/http/router.rs\<close>) to a handler
  (\<open>interfaces/http/handlers/\<close>), which authenticates its bearer token
  (\<open>interfaces/http/authentication.rs\<close>), runs a use case (\<open>application/use_cases/\<close>) and announces what
  happened.  A use case validates its command, checks permissions and calls repositories through the
  traits of \<open>application/ports/\<close>; the repositories (\<open>infrastructure/db/repositories/\<close>) run SQL statements
  on one PostgreSQL database.  An announcement goes to the websocket connections of this instance, which
  the hub (\<open>interfaces/ws/gateway.rs\<close>) keeps, and through Redis (\<open>infrastructure/redis/service.rs\<close>) to the
  other instances, whose listeners dispatch it to theirs.  A websocket session registers with the hub,
  handles the commands of its client (subscriptions, typing, heartbeats) and cleans up; the first and the
  last session of a user set and clear the user's presence in Redis.

  \<^bold>\<open>State.\<close>  \<open>Database\<close>: the record \<open>db\<close> has a list of rows for each table; a \<open>world\<close> is a \<open>db\<close> with the
  clock, the source of random UUIDs and the failures of the connection.  \<open>Gateway\<close>: a \<open>gateway\<close> is a hub
  (\<open>HubState\<close>, association lists for the hash maps) with an outbox for each connection.  \<open>Redis\<close>: keys with
  expiry and the published log.  \<open>Realtime\<close>: a \<open>server\<close> is one instance, that is the three together.
  An operation is a function from its state to a result, \<open>Inl\<close> an \<open>AppError\<close>, and the new state
  (\<open>Prelude\<close>); \<open>bnd\<close> is the operator \<open>?\<close>.  A statement that fails has no effect and an error inside a
  transaction rolls it back; \<open>down w n\<close> says which statements fail, so a theorem for all worlds holds for
  every pattern of failures.

  \<^bold>\<open>The theories of the model.\<close>
  \<^item> \<open>Prelude\<close>, \<open>Rust_Text\<close> (\<open>String\<close>: \<open>len\<close>, \<open>trim\<close>, formatting), \<open>App_Error\<close> (\<open>shared/error.rs\<close>),
    \<open>Domain\<close> (\<open>domain/\<close>), \<open>Dto\<close> (\<open>interfaces/http/dto/\<close>), \<open>Database\<close>, \<open>Ports\<close>, \<open>Protocol\<close>
    (\<open>interfaces/ws/protocol.rs\<close>);
  \<^item> \<open>Guild_Repository\<close>, \<open>Message_Repository\<close>, \<open>Conversation_Repository\<close> with the use cases \<open>Guild_Service\<close>,
    \<open>Message_Service\<close>, \<open>Conversation_Service\<close>; \<open>Friendship\<close> and \<open>Auth\<close> hold repository and use case, the
    latter also the adapters of \<open>infrastructure/jwt/\<close> and \<open>infrastructure/password/\<close>.  Each SQL statement
    is a definition of its own, each repository method and each use case operation too, under the name
    that it has in the code, a repository method with the prefix \<open>repo_\<close>;
  \<^item> \<open>Gateway\<close> (the hub), \<open>Redis\<close> and \<open>Realtime\<close> (commands, rate limits, publication, the listener with
    its reconnections; \<open>AppState\<close> of \<open>bootstrap/app_state.rs\<close>), \<open>Websocket\<close> (a session);
  \<^item> \<open>Handlers\<close> and \<open>Http\<close> (all handlers, as \<open>http_\<close> and their name, the requests and the table of routes),
    \<open>Config\<close> (\<open>bootstrap/config.rs\<close>, the health check, the start of the application), \<open>Openapi\<close>
    (the annotations of \<open>interfaces/http/openapi.rs\<close>).

  \<^bold>\<open>What is proved.\<close>
  \<^item> Each group of tables has an invariant that every request keeps (\<open>Guild_Proofs\<close>, \<open>Conversation_Proofs\<close>,
    \<open>Friendship_Proofs\<close>, \<open>Auth_Proofs\<close>); the invariants hold together for the whole application, whose steps
    are requests and websocket sessions in any order (\<open>Application_Proofs\<close>), and every stored text has
    the form that its validation demands (\<open>Stored_Values\<close>).  Both are interpretations of one locale,
    \<open>table_invariant\<close>, whose laws are that each service keeps the property.
  \<^item> The life of the things that change: direct threads, friend requests, refresh tokens and messages
    (\<open>Conversation_Proofs\<close>, \<open>Friendship_Proofs\<close>, \<open>Auth_Proofs\<close>, \<open>Message_History\<close>).  The use case of accounts
    rests on the locale \<open>session_port\<close>, the contract of the repository of sessions; the two message
    services share the locale \<open>authored_log\<close>.
  \<^item> Listings: following the cursors reads everything once and ends (\<open>Message_Proofs\<close>, from the locale
    \<open>paged_listing\<close> of \<open>Paging\<close>).  Invites count whom they admit (\<open>Invite_Proofs\<close>, locale \<open>invite_gate\<close>).
    Permissions are resolved bit by bit (\<open>Guild_Proofs\<close>).
  \<^item> The hub: its invariant in every reachable state of the state machine of sessions, the exactness of
    broadcasts (\<open>Sessions\<close>, from the locale \<open>topic\<close> of \<open>Gateway\<close>), the refinement of a specification without
    indexes (\<open>Hub_Refinement\<close>), a session from its beginning to its end (\<open>Session_Life\<close>), and that requests
    are steps of that machine (\<open>Request_Steps\<close>).
  \<^item> Events reach every connection of every instance once (\<open>Handlers\<close>); the limiter, the reconnection delay
    (\<open>Redis\<close>) and the life of the listener (\<open>Listener\<close>).
  \<^item> Requests need a token and act for its user (\<open>Http_Proofs\<close>); the routes do not overlap and are those
    that the documentation describes (\<open>Openapi\<close>); every configuration can be set (\<open>Config\<close>).

  \<^bold>\<open>Bounds and fuel.\<close>  No definition of the program has fuel.  The loops over the frames of a client,
  over the messages of Redis and over the turns of the listener recurse over the list of what they see,
  so a theorem about all lists is one about every finite run.  \<open>read_all\<close>, the reader of a listing in
  \<open>Paging\<close>, has fuel, and the theorems say that more fuel than there are rows gives the result.  Integers
  have their width where the code computes with them: permission bits, delays, expiries, counters, the
  numbers of the configuration.

  \<^bold>\<open>Parameters.\<close>  The JWT, Argon2 and HMAC libraries, random bytes, the text of a UUID,
  \<open>str::to_lowercase\<close>, JSON, RFC 3339 and the texts of the database driver are arguments of the definitions
  that use them, with concrete functions in the examples.

  \<^bold>\<open>Not modelled.\<close>  The statements of different requests do not interleave: a request is one step.  A
  connection that is lost after a commit, but before its acknowledgement, is not a failure of the model, nor
  is text with a NUL, which PostgreSQL refuses.  Columns that the program never reads are left out.  Of the
  HTTP server: \<open>HEAD\<close>, the limit on the size of bodies, the errors of extraction (path, query and body are
  parsed), request ids, tracing and the pages of the documentation; its schema types and descriptions.
  Metrics (\<open>bootstrap/metrics.rs\<close>, \<open>interfaces/http/middleware/\<close>) are counters that no other part reads,
  telemetry, the connection pool and \<open>main.rs\<close> are calls of libraries; of the shutdown of \<open>AppState\<close>, the
  clearing of the hub and the cancellation of the listener are modelled, the joining of its task is not.
\<close>

end
